(* ===== verification/Prelude.thy ===== *)
theory Prelude
  imports Main "HOL-Library.Sublist" "HOL-Library.Signed_Division"
begin

text \<open>
  Shared material of the development: machine integers written as \<open>int\<close> with the
  wrap-around of Go's \<open>int32\<close>, \<open>int64\<close> and \<open>uint32\<close>, the functions of the standard
  library's \<open>strings\<close>, \<open>strconv\<close> and \<open>fmt\<close> packages that the services call, Go's
  error values, and the generic lemmas the component theories share.
\<close>

section \<open>Collections of facts\<close>

named_theorems go_int \<open>Go integers that stay in range keep their value\<close>
named_theorems frame \<open>what an operation leaves unchanged\<close>
named_theorems quiet_intros \<open>calls that leave the database alone\<close>
named_theorems wp_simps \<open>weakest preconditions of the program's statements\<close>

section \<open>Integers of a fixed width\<close>

definition i64 :: "int \<Rightarrow> int" where
  "i64 x = (x + 2 ^ 63) mod 2 ^ 64 - 2 ^ 63"

definition i32 :: "int \<Rightarrow> int" where
  "i32 x = (x + 2 ^ 31) mod 2 ^ 32 - 2 ^ 31"

definition u32 :: "int \<Rightarrow> int" where
  "u32 x = x mod 2 ^ 32"

lemma i64_id [go_int]: "- (2 ^ 63) \<le> x \<Longrightarrow> x < 2 ^ 63 \<Longrightarrow> i64 x = x"
  by (simp add: i64_def)

lemma i32_id [go_int]: "- (2 ^ 31) \<le> x \<Longrightarrow> x < 2 ^ 31 \<Longrightarrow> i32 x = x"
  by (simp add: i32_def)

lemma u32_id [go_int]: "0 \<le> x \<Longrightarrow> x < 2 ^ 32 \<Longrightarrow> u32 x = x"
  by (simp add: u32_def)

lemma i64_range: "- (2 ^ 63) \<le> i64 x \<and> i64 x < 2 ^ 63"
proof -
  have "0 \<le> (x + 2 ^ 63) mod 2 ^ 64 \<and> (x + 2 ^ 63) mod 2 ^ 64 < (2 ^ 64 :: int)"
    by (intro conjI pos_mod_sign pos_mod_bound) simp_all
  then show ?thesis unfolding i64_def by simp
qed

lemma i32_range: "- (2 ^ 31) \<le> i32 x \<and> i32 x < 2 ^ 31"
proof -
  have "0 \<le> (x + 2 ^ 31) mod 2 ^ 32 \<and> (x + 2 ^ 31) mod 2 ^ 32 < (2 ^ 32 :: int)"
    by (intro conjI pos_mod_sign pos_mod_bound) simp_all
  then show ?thesis unfolding i32_def by simp
qed

text \<open>Go's integer division truncates towards zero; on non-negative operands it is \<open>div\<close>.\<close>

lemma sdiv_nonneg: "0 \<le> (a::int) \<Longrightarrow> 0 < b \<Longrightarrow> a sdiv b = a div b"
  by (simp add: signed_divide_int_def sgn_if)

lemma smod_nonneg: "0 \<le> (a::int) \<Longrightarrow> 0 < b \<Longrightarrow> a smod b = a mod b"
  by (simp add: signed_modulo_int_def sgn_if)

section \<open>Strings\<close>

text \<open>
  Strings are lists of bytes. \<open>has_prefix\<close>, \<open>trim_prefix\<close> and \<open>str_contains\<close> are
  \<open>strings.HasPrefix\<close>, \<open>strings.TrimPrefix\<close> and \<open>strings.Contains\<close> of the standard library.
\<close>

definition has_prefix :: "string \<Rightarrow> string \<Rightarrow> bool" where
  "has_prefix s p = (take (length p) s = p)"

definition trim_prefix :: "string \<Rightarrow> string \<Rightarrow> string" where
  "trim_prefix s p = (if has_prefix s p then drop (length p) s else s)"

fun str_contains :: "string \<Rightarrow> string \<Rightarrow> bool" where
  "str_contains [] sub = (sub = [])"
| "str_contains (c # s) sub = (has_prefix (c # s) sub \<or> str_contains s sub)"

lemma has_prefix_iff: "has_prefix s p \<longleftrightarrow> prefix p s"
  unfolding has_prefix_def by (metis append_eq_conv_conj prefix_def append_take_drop_id)

lemma str_contains_sublist: "str_contains s sub \<longleftrightarrow> sublist sub s"
proof (induction s)
  case Nil
  then show ?case by simp
next
  case (Cons c s)
  then show ?case by (simp add: has_prefix_iff sublist_Cons_right)
qed

lemma str_contains_append1 [simp]: "str_contains a sub \<Longrightarrow> str_contains (a @ b) sub"
  by (meson str_contains_sublist sublist_order.order.trans sublist_append_rightI)

lemma str_contains_append2 [simp]: "str_contains b sub \<Longrightarrow> str_contains (a @ b) sub"
  by (meson str_contains_sublist sublist_order.order.trans sublist_append_leftI)

lemma str_contains_iff: "str_contains s sub \<longleftrightarrow> (\<exists>a b. s = a @ sub @ b)"
  by (simp add: str_contains_sublist sublist_def)

lemma trim_prefix_append [simp]: "trim_prefix (p @ s) p = s"
  by (simp add: trim_prefix_def has_prefix_def)

text \<open>\<open>strings.ToLower\<close> on ASCII, and the case-insensitive comparison \<open>encoding/json\<close> uses.\<close>

definition ascii_lower :: "char \<Rightarrow> char" where
  "ascii_lower c =
     (let n = (of_char c :: nat) in if 65 \<le> n \<and> n \<le> 90 then char_of (n + 32) else c)"

definition to_lower :: "string \<Rightarrow> string" where
  "to_lower s = map ascii_lower s"

definition equal_fold :: "string \<Rightarrow> string \<Rightarrow> bool" where
  "equal_fold s t = (to_lower s = to_lower t)"

lemma equal_fold_refl [simp]: "equal_fold s s"
  by (simp add: equal_fold_def)

text \<open>Decimal printing, the \<open>%d\<close> verb of \<open>fmt\<close>.\<close>

definition digit_char :: "nat \<Rightarrow> char" where
  "digit_char d = char_of (48 + d)"

fun show_nat :: "nat \<Rightarrow> string" where
  "show_nat n = (if n < 10 then [digit_char n] else show_nat (n div 10) @ [digit_char (n mod 10)])"

declare show_nat.simps [simp del]

definition show_int :: "int \<Rightarrow> string" where
  "show_int x = (if x < 0 then CHR ''-'' # show_nat (nat (- x)) else show_nat (nat x))"

lemma digit_char_inj: "a < 10 \<Longrightarrow> b < 10 \<Longrightarrow> digit_char a = digit_char b \<Longrightarrow> a = b"
proof -
  assume "a < 10" "b < 10" and eq: "digit_char a = digit_char b"
  then have "(of_char (digit_char a) :: nat) = of_char (digit_char b)" by simp
  with \<open>a < 10\<close> \<open>b < 10\<close> show "a = b" by (simp add: digit_char_def)
qed

lemma show_nat_nonempty [simp]: "show_nat n \<noteq> []"
  by (subst show_nat.simps) simp

lemma show_nat_length: "length (show_nat n) = 1 \<longleftrightarrow> n < 10"
  by (subst show_nat.simps) (auto simp: length_0_conv)

lemma show_nat_inj: "show_nat m = show_nat n \<Longrightarrow> m = n"
proof (induction m arbitrary: n rule: less_induct)
  case (less m)
  show ?case
  proof (cases "m < 10")
    case True
    then have "n < 10" using less.prems show_nat_length by metis
    with True less.prems show ?thesis
      by (auto simp: show_nat.simps [of m] show_nat.simps [of n] dest: digit_char_inj)
  next
    case False
    then have n: "\<not> n < 10" using less.prems show_nat_length by metis
    with False less.prems have "show_nat (m div 10) = show_nat (n div 10)"
      and "digit_char (m mod 10) = digit_char (n mod 10)"
      by (auto simp: show_nat.simps [of m] show_nat.simps [of n])
    moreover have "m mod 10 < 10" and "n mod 10 < 10" by simp_all
    ultimately have "m div 10 = n div 10" and "m mod 10 = n mod 10"
      using False less.IH [of "m div 10" "n div 10"] digit_char_inj by simp_all
    then show ?thesis by (metis div_mult_mod_eq)
  qed
qed

section \<open>Go error values\<close>

text \<open>
  An \<open>error\<close> is an interface value. The services create errors from a text
  (\<open>fmt.Errorf\<close> without \<open>%w\<close>, or an error of a driver), wrap an error with a text in
  front (\<open>fmt.Errorf("text: %w", err)\<close>) and ask, with \<open>errors.Is\<close>, whether the
  sentinel \<open>pgx.ErrNoRows\<close> is in the chain of wrapped errors.
\<close>

datatype goerr = ErrNew string | ErrNoRows | ErrWrap string goerr

primrec err_msg :: "goerr \<Rightarrow> string" where
  "err_msg (ErrNew m) = m"
| "err_msg ErrNoRows = ''no rows in result set''"
| "err_msg (ErrWrap t e) = t @ err_msg e"

primrec is_no_rows :: "goerr \<Rightarrow> bool" where
  "is_no_rows (ErrNew m) = False"
| "is_no_rows ErrNoRows = True"
| "is_no_rows (ErrWrap t e) = is_no_rows e"

lemma is_no_rows_msg: "is_no_rows e \<Longrightarrow> str_contains (err_msg e) ''no rows in result set''"
  by (induction e) (simp_all add: has_prefix_def)

section \<open>Lists as tables\<close>

text \<open>First element satisfying a condition, and update of the elements that satisfy one.\<close>

lemma find_Some_iff2:
  "List.find P xs = Some x \<Longrightarrow> x \<in> set xs \<and> P x"
  by (auto simp: find_Some_iff)

lemma distinct_map_find:
  assumes "distinct (map k xs)" "x \<in> set xs"
  shows "List.find (\<lambda>y. k y = k x) xs = Some x"
  using assms by (induction xs) (auto simp: image_iff)

lemma find_filter_hd:
  "List.find P xs = (case filter P xs of [] \<Rightarrow> None | x # _ \<Rightarrow> Some x)"
  by (induction xs) auto

end
