(* ===== verification/GoTime.thy ===== *)
theory GoTime
  imports Prelude "HOL-Library.Log_Nat" Complex_Main
begin

text \<open>
  Go's \<open>time\<close> package as the services use it. A \<open>time.Time\<close> is an instant, the number
  of nanoseconds since the Unix epoch in UTC; a \<open>time.Duration\<close> is a 64-bit number of
  nanoseconds, and \<open>Sub\<close> saturates at its ends. \<open>Duration.Minutes\<close> and \<open>Duration.Seconds\<close>
  return \<open>float64\<close> values, so binary64 rounding (to nearest, ties to even) is modelled on
  the rationals and shown harmless below 2^17 minutes. The civil date of an instant in the
  fixed zone WIB is computed with the proleptic Gregorian calendar.
\<close>

type_synonym time = int
type_synonym duration = int

section \<open>Instants and durations\<close>

definition Second :: duration where "Second = 1000000000"
definition Minute :: duration where "Minute = 60 * Second"
definition Hour :: duration where "Hour = 60 * Minute"

lemma Second_pos [simp]: "0 < Second" and Minute_pos [simp]: "0 < Minute"
  and Hour_pos [simp]: "0 < Hour"
  by (simp_all add: Hour_def Minute_def Second_def)

definition max_duration :: duration where "max_duration = 2 ^ 63 - 1"
definition min_duration :: duration where "min_duration = - (2 ^ 63)"

definition Add :: "time \<Rightarrow> duration \<Rightarrow> time" where
  "Add t d = t + d"

definition Sub :: "time \<Rightarrow> time \<Rightarrow> duration" where
  "Sub t u =
     (if t - u > max_duration then max_duration
      else if t - u < min_duration then min_duration else t - u)"

definition After :: "time \<Rightarrow> time \<Rightarrow> bool" where
  "After t u = (u < t)"

text \<open>The zero \<open>time.Time\<close>: the first of January of the year 1, UTC.\<close>

definition zero_time :: time where
  "zero_time = - 62135596800 * Second"

text \<open>A \<open>TIMESTAMPTZ\<close> column keeps microseconds.\<close>

definition pg_timestamp :: "time \<Rightarrow> time" where
  "pg_timestamp t = t - t mod 1000"

lemma pg_timestamp_le: "pg_timestamp t \<le> t" and pg_timestamp_gt: "t - 1000 < pg_timestamp t"
proof -
  have "0 \<le> t mod 1000" "t mod 1000 < 1000" by simp_all
  then show "pg_timestamp t \<le> t" "t - 1000 < pg_timestamp t"
    unfolding pg_timestamp_def by linarith+
qed

lemma pg_timestamp_mono: "t \<le> u \<Longrightarrow> pg_timestamp t \<le> pg_timestamp u"
proof -
  assume "t \<le> u"
  then have "t div 1000 * 1000 \<le> u div 1000 * 1000"
    by (intro mult_right_mono zdiv_mono1) simp_all
  moreover have "pg_timestamp x = x div 1000 * 1000" for x
    unfolding pg_timestamp_def by (simp add: minus_mod_eq_div_mult)
  ultimately show ?thesis by simp
qed

lemma pg_timestamp_idem [simp]: "pg_timestamp (pg_timestamp t) = pg_timestamp t"
proof -
  have "(t - t mod 1000) mod 1000 = 0" by (metis dvd_imp_mod_0 dvd_minus_mod)
  then show ?thesis by (simp add: pg_timestamp_def)
qed

lemma Sub_in_range [simp]: "min_duration \<le> Sub t u \<and> Sub t u \<le> max_duration"
  by (simp add: Sub_def max_duration_def min_duration_def)

lemma Sub_exact: "min_duration \<le> t - u \<Longrightarrow> t - u \<le> max_duration \<Longrightarrow> Sub t u = t - u"
  by (simp add: Sub_def)

lemma Sub_mono: "t \<le> t' \<Longrightarrow> Sub t u \<le> Sub t' u"
  by (auto simp: Sub_def max_duration_def min_duration_def)

text \<open>Comparing a saturated difference with a duration inside the range is exact.\<close>

lemma Sub_le_iff: "min_duration \<le> d \<Longrightarrow> d < max_duration \<Longrightarrow> Sub t u \<le> d \<longleftrightarrow> t \<le> u + d"
  by (auto simp: Sub_def max_duration_def min_duration_def)

lemma Sub_ge_iff: "min_duration < d \<Longrightarrow> d \<le> max_duration \<Longrightarrow> d \<le> Sub t u \<longleftrightarrow> u + d \<le> t"
  by (auto simp: Sub_def max_duration_def min_duration_def)

section \<open>Binary64 rounding\<close>

text \<open>
  \<open>exponent x\<close> is the \<open>e\<close> with \<open>2^e \<le> x < 2^(e+1)\<close>, for positive \<open>x\<close>; a binary64
  number of that binade is a multiple of \<open>2^(e-52)\<close>. The values that occur here are far
  from overflow and from the subnormal numbers, so the exponent range is not limited.
\<close>

definition exponent :: "rat \<Rightarrow> int" where
  "exponent x =
     (case quotient_of x of (p, q) \<Rightarrow>
        let e = bitlen p - bitlen q in if 2 powi e \<le> x then e else e - 1)"

definition round_even :: "rat \<Rightarrow> int" where
  "round_even y =
     (let f = \<lfloor>y\<rfloor>; r = y - of_int f in
      if r < 1 / 2 then f else if r > 1 / 2 then f + 1 else if even f then f else f + 1)"

definition float64 :: "rat \<Rightarrow> rat" where
  "float64 x =
     (if x = 0 then 0
      else let u = 2 powi (exponent \<bar>x\<bar> - 52) in of_int (round_even (x / u)) * u)"

lemma round_even_error: "\<bar>of_int (round_even y) - y\<bar> \<le> 1 / 2"
proof -
  define f where "f = \<lfloor>y\<rfloor>"
  have f: "of_int f \<le> y" "y < of_int f + 1" unfolding f_def by linarith+
  show ?thesis
    unfolding round_even_def Let_def f_def [symmetric] using f by (auto simp: abs_if)
qed

lemma round_even_of_int [simp]: "round_even (of_int n) = n"
  by (simp add: round_even_def)

lemma round_even_ge: "of_int n \<le> y \<Longrightarrow> n \<le> round_even y"
proof -
  assume "of_int n \<le> y"
  then have "n \<le> \<lfloor>y\<rfloor>" by (simp add: le_floor_iff)
  then show ?thesis unfolding round_even_def Let_def by auto
qed

lemma round_even_le: "y \<le> of_int n \<Longrightarrow> round_even y \<le> n"
proof -
  assume le: "y \<le> of_int n"
  then have f: "\<lfloor>y\<rfloor> \<le> n" by linarith
  show ?thesis
  proof (cases "\<lfloor>y\<rfloor> = n")
    case True
    with le have "y - of_int \<lfloor>y\<rfloor> \<le> 0" by simp
    then show ?thesis using True unfolding round_even_def Let_def by auto
  next
    case False
    with f show ?thesis unfolding round_even_def Let_def by auto
  qed
qed

lemma bitlen_rat_bounds:
  assumes "0 < p"
  shows "(2::rat) powi (bitlen p - 1) \<le> of_int p \<and> of_int p < (2::rat) powi (bitlen p)"
proof -
  have b: "1 \<le> bitlen p" using assms by (simp add: bitlen_def floorlog_def)
  have "2 ^ nat (bitlen p - 1) \<le> p \<and> p < 2 ^ nat (bitlen p)"
    using bitlen_bounds [OF assms] .
  then have "(of_int (2 ^ nat (bitlen p - 1)) :: rat) \<le> of_int p
      \<and> (of_int p :: rat) < of_int (2 ^ nat (bitlen p))"
    by (simp only: of_int_le_iff of_int_less_iff)
  with b show ?thesis by (simp add: power_int_def)
qed

lemma exponent_bounds:
  assumes "0 < x"
  shows "2 powi (exponent x) \<le> x \<and> x < 2 powi (exponent x + 1)"
proof -
  obtain p q where pq: "quotient_of x = (p, q)" by (cases "quotient_of x")
  then have q: "0 < q" and x: "x = of_int p / of_int q"
    using quotient_of_denom_pos quotient_of_div by auto
  with assms have p: "0 < p" by (simp add: zero_less_divide_iff)
  let ?e = "bitlen p - bitlen q"
  have P: "(2::rat) powi (bitlen p - 1) \<le> of_int p" "of_int p < (2::rat) powi (bitlen p)"
    and Q: "(2::rat) powi (bitlen q - 1) \<le> of_int q" "of_int q < (2::rat) powi (bitlen q)"
    using bitlen_rat_bounds p q by auto
  have "2 powi (?e - 1) * of_int q < (2::rat) powi (?e - 1) * 2 powi (bitlen q)"
    using Q by (intro mult_strict_left_mono) simp_all
  also have "\<dots> = 2 powi (bitlen p - 1)"
    by (simp add: power_int_add [symmetric])
  finally have lo: "2 powi (?e - 1) \<le> x"
    using P q by (simp add: x field_simps)
  have "of_int p < (2::rat) powi (?e + 1) * 2 powi (bitlen q - 1)"
    using P by (simp add: power_int_add [symmetric])
  also have "\<dots> \<le> (2::rat) powi (?e + 1) * of_int q"
    using Q by (intro mult_left_mono) simp_all
  finally have hi: "x < 2 powi (?e + 1)"
    using q by (simp add: x field_simps)
  show ?thesis
    using lo hi unfolding exponent_def pq by (auto simp: Let_def)
qed

lemma exponent_less:
  assumes "0 < x" "x < 2 powi n"
  shows "exponent x < n"
proof (rule ccontr)
  assume "\<not> exponent x < n"
  then have "(2::rat) powi n \<le> 2 powi (exponent x)"
    by (intro power_int_increasing) simp_all
  also have "\<dots> \<le> x" using exponent_bounds [OF assms(1)] by simp
  finally show False using assms(2) by simp
qed

lemma exponent_ge:
  assumes "2 powi n \<le> x"
  shows "n \<le> exponent x"
proof (rule ccontr)
  have x: "0 < x" using assms by (meson less_le_trans zero_less_numeral zero_less_power_int)
  assume "\<not> n \<le> exponent x"
  then have "(2::rat) powi (exponent x + 1) \<le> 2 powi n"
    by (intro power_int_increasing) simp_all
  with assms have "2 powi (exponent x + 1) \<le> x" by simp
  with exponent_bounds [OF x] show False by simp
qed

lemma float64_pos: "0 < x \<Longrightarrow>
    float64 x = of_int (round_even (x / 2 powi (exponent x - 52))) * 2 powi (exponent x - 52)"
  by (simp add: float64_def Let_def)

text \<open>The rounding error is at most half a unit in the last place.\<close>

lemma scaled_error: "0 < (u::rat) \<Longrightarrow> \<bar>r * u - x\<bar> = \<bar>r - x / u\<bar> * u"
proof -
  assume u: "0 < u"
  then have "r * u - x = (r - x / u) * u" by (simp add: field_simps)
  with u show ?thesis by (simp add: abs_mult)
qed

lemma float64_error:
  assumes "0 < x" "x < 2 powi n"
  shows "\<bar>float64 x - x\<bar> \<le> 2 powi (n - 54)"
proof -
  let ?u = "(2::rat) powi (exponent x - 52)"
  have "\<bar>float64 x - x\<bar> = \<bar>of_int (round_even (x / ?u)) - x / ?u\<bar> * ?u"
    unfolding float64_pos [OF assms(1)] by (rule scaled_error) simp
  also have "\<dots> \<le> 1 / 2 * ?u"
    by (intro mult_right_mono round_even_error) simp
  also have "\<dots> = 2 powi (exponent x - 53)"
  proof -
    have "2 powi (exponent x - 52) = (2::rat) powi (exponent x - 53) * 2 powi 1"
      by (subst power_int_add [symmetric]) simp_all
    then show ?thesis by simp
  qed
  also have "\<dots> \<le> 2 powi (n - 54)"
    using exponent_less [OF assms] by (intro power_int_increasing) simp_all
  finally show ?thesis .
qed

text \<open>Below \<open>2^52\<close> the unit in the last place divides every integer.\<close>

lemma ulp_inverse: "e \<le> 52 \<Longrightarrow> (2::rat) powi (e - 52) = 1 / of_int (2 ^ nat (52 - e))"
  by (simp add: power_int_def inverse_eq_divide power_one_over)

lemma ulp_integer:
  assumes "e \<le> 52"
  shows "\<exists>n>0. (2::rat) powi (e - 52) = 1 / of_int n"
  using ulp_inverse [OF assms] by (intro exI [of _ "2 ^ nat (52 - e)"]) simp

text \<open>Rounding does not cross an integer that the format can hold.\<close>

lemma float64_ge_int:
  assumes "of_int k \<le> x" "0 < x" "x < 2 powi 52"
  shows "of_int k \<le> float64 x"
proof -
  have "exponent x \<le> 52" using exponent_less [OF assms(2,3)] by simp
  then obtain n where n: "0 < n" and u: "(2::rat) powi (exponent x - 52) = 1 / of_int n"
    using ulp_integer by blast
  have "of_int (k * n) \<le> x * of_int n"
    using assms(1) n by (simp add: mult_right_mono)
  then have "k * n \<le> round_even (x * of_int n)" by (rule round_even_ge)
  then have "(of_int (k * n) :: rat) \<le> of_int (round_even (x * of_int n))"
    by (simp only: of_int_le_iff)
  with n show ?thesis unfolding float64_pos [OF assms(2)] u by (simp add: field_simps)
qed

lemma float64_of_int:
  assumes "0 \<le> k" "k < 2 ^ 52"
  shows "float64 (of_int k) = of_int k"
proof (cases "k = 0")
  case True
  then show ?thesis by (simp add: float64_def)
next
  case False
  with assms have pos: "0 < (of_int k :: rat)" by simp
  have "(of_int k :: rat) < of_int (2 ^ 52)" using assms by (simp only: of_int_less_iff)
  then have "exponent (of_int k) \<le> 52" using exponent_less [OF pos, of 52] by simp
  then obtain n where n: "0 < n" and u: "(2::rat) powi (exponent (of_int k) - 52) = 1 / of_int n"
    using ulp_integer by blast
  have "round_even (of_int (k * n)) = k * n" by (rule round_even_of_int)
  with n show ?thesis unfolding float64_pos [OF pos] u by simp
qed

lemma float64_nonpos: "x \<le> 0 \<Longrightarrow> float64 x \<le> 0"
proof -
  assume x: "x \<le> 0"
  let ?u = "(2::rat) powi (exponent \<bar>x\<bar> - 52)"
  have "0 < ?u" by simp
  with x have "x / ?u \<le> of_int 0" by (simp add: divide_nonpos_pos)
  then have "round_even (x / ?u) \<le> 0" by (rule round_even_le)
  then show ?thesis
    by (simp add: float64_def Let_def mult_nonpos_nonneg)
qed

lemma float64_nonneg: "0 \<le> x \<Longrightarrow> 0 \<le> float64 x"
proof -
  assume x: "0 \<le> x"
  let ?u = "(2::rat) powi (exponent \<bar>x\<bar> - 52)"
  have "0 < ?u" by simp
  with x have "of_int 0 \<le> x / ?u" by simp
  then have "0 \<le> round_even (x / ?u)" by (rule round_even_ge)
  then show ?thesis by (simp add: float64_def Let_def)
qed

section \<open>Duration.Minutes and Duration.Seconds\<close>

text \<open>
  \<open>Minutes\<close> adds the whole minutes and the fraction of the remainder as \<open>float64\<close> numbers;
  converting a \<open>float64\<close> to \<open>int64\<close> drops the fraction (\<open>trunc\<close>).
\<close>

definition float_units :: "duration \<Rightarrow> duration \<Rightarrow> rat" where
  "float_units u d =
     float64 (float64 (of_int (d sdiv u)) + float64 (float64 (of_int (d smod u)) / of_int u))"

definition Duration_Minutes :: "duration \<Rightarrow> rat" where
  "Duration_Minutes d = float_units Minute d"

definition Duration_Seconds :: "duration \<Rightarrow> rat" where
  "Duration_Seconds d = float_units Second d"

definition trunc :: "rat \<Rightarrow> int" where
  "trunc x = (if 0 \<le> x then \<lfloor>x\<rfloor> else \<lceil>x\<rceil>)"

definition minutes_int :: "duration \<Rightarrow> int" where
  "minutes_int d = i64 (trunc (Duration_Minutes d))"

definition seconds_int :: "duration \<Rightarrow> int" where
  "seconds_int d = i64 (trunc (Duration_Seconds d))"

text \<open>
  The sum of an integer \<open>k\<close> below 2^17 and the rounded fraction \<open>r/u\<close> of a unit stays
  below \<open>k + 1\<close>: the fraction misses 1 by at least \<open>1/u\<close>, the two roundings add less.
\<close>

lemma float_fraction_bounds:
  assumes "0 \<le> r" "r < u" "u \<le> 2 ^ 36"
  shows "0 \<le> float64 (of_int r / of_int u) \<and>
    float64 (of_int r / of_int u) \<le> 1 - 1 / 2 ^ 36 + 1 / 2 ^ 53"
proof (cases "r = 0")
  case True
  then show ?thesis by (simp add: float64_def)
next
  case False
  let ?f = "of_int r / of_int u :: rat"
  have u: "0 < u" using assms by simp
  have pos: "0 < ?f" using False assms by simp
  have "?f \<le> 1 - 1 / of_int u"
  proof -
    have "(of_int r :: rat) \<le> of_int (u - 1)" using assms by (simp only: of_int_le_iff)
    then show ?thesis using u by (simp add: field_simps)
  qed
  also have "\<dots> \<le> 1 - 1 / 2 ^ 36"
  proof -
    have "(of_int u :: rat) \<le> of_int (2 ^ 36)" using assms by (simp only: of_int_le_iff)
    then have "1 / (2 ^ 36 :: rat) \<le> 1 / of_int u" using u by (intro divide_left_mono) simp_all
    then show ?thesis by simp
  qed
  finally have f: "?f \<le> 1 - 1 / 2 ^ 36" .
  have "?f < 2" by (rule le_less_trans [OF f]) simp
  then have lt: "?f < 2 powi 1" by (simp only: power_int_1_right)
  have "\<bar>float64 ?f - ?f\<bar> \<le> 2 powi (1 - 54)" using float64_error [OF pos lt] .
  moreover have "(2::rat) powi (1 - 54) = 1 / 2 ^ 53" by (simp add: power_int_def power_one_over)
  ultimately have "float64 ?f \<le> ?f + 1 / 2 ^ 53" by linarith
  with f float64_nonneg [of ?f] pos show ?thesis by linarith
qed

lemma div_less_mult: "0 < (u::int) \<Longrightarrow> d < n * u \<Longrightarrow> d div u < n"
proof (rule ccontr)
  assume u: "0 < u" and d: "d < n * u" and "\<not> d div u < n"
  then have "n * u \<le> d div u * u" by (intro mult_right_mono) simp_all
  also have "\<dots> \<le> d" using u by (simp add: minus_mod_eq_div_mult [symmetric])
  finally show False using d by simp
qed

lemma le_div_mult: "0 < (u::int) \<Longrightarrow> n * u \<le> d \<Longrightarrow> n \<le> d div u"
proof -
  assume u: "0 < u" and "n * u \<le> d"
  then have "n * u div u \<le> d div u" by (intro zdiv_mono1) simp_all
  with u show ?thesis by simp
qed

lemma float_units_small:
  assumes "0 < u" "u \<le> 2 ^ 36" "0 \<le> d" "d < 2 ^ 17 * u"
  shows "trunc (float_units u d) = d div u"
proof -
  let ?k = "d div u"
  let ?f = "float64 (of_int (d mod u) / of_int u)"
  have k: "0 \<le> ?k" "?k < 2 ^ 17"
    using assms by (simp_all add: pos_imp_zdiv_nonneg_iff div_less_mult)
  have r: "0 \<le> d mod u" "d mod u < u" using assms by simp_all
  have fk: "float64 (of_int ?k) = of_int ?k" using k by (intro float64_of_int) simp_all
  have fr: "float64 (of_int (d mod u)) = of_int (d mod u)"
    using r(1) less_le_trans [OF r(2) assms(2)] by (intro float64_of_int) simp_all
  have F: "0 \<le> ?f" "?f \<le> 1 - 1 / 2 ^ 36 + 1 / 2 ^ 53"
    using float_fraction_bounds [OF r(1) r(2) assms(2)] by auto
  have eq: "float_units u d = float64 (of_int ?k + ?f)"
    using assms by (simp add: float_units_def sdiv_nonneg smod_nonneg fk fr)
  have kq: "(of_int ?k :: rat) \<le> 2 ^ 17 - 1"
  proof -
    have "(of_int ?k :: rat) \<le> of_int (2 ^ 17 - 1)" using k by (simp only: of_int_le_iff)
    then show ?thesis by simp
  qed
  show ?thesis
  proof (cases "of_int ?k + ?f = 0")
    case True
    then have "?k = 0" using F k by (metis add_nonneg_eq_0_iff of_int_0_le_iff of_int_eq_0_iff)
    with True show ?thesis using eq by (simp add: trunc_def float64_def)
  next
    case False
    let ?x = "of_int ?k + ?f"
    have pos: "0 < ?x" using False F k by (simp add: less_le)
    have lt: "?x < 2 powi 17" using kq F by simp
    have "?x < 2 powi 52" using kq F by simp
    then have lo: "of_int ?k \<le> float64 ?x" using float64_ge_int [of ?k ?x] pos F by simp
    have "\<bar>float64 ?x - ?x\<bar> \<le> 2 powi (17 - 54)" using float64_error [OF pos lt] .
    moreover have "(2::rat) powi (17 - 54) = 1 / 2 ^ 37"
      by (simp add: power_int_def power_one_over)
    ultimately have "float64 ?x \<le> ?x + 1 / 2 ^ 37" by linarith
    then have "float64 ?x < of_int ?k + 1" using F by simp
    with lo k have "\<lfloor>float64 ?x\<rfloor> = ?k" by linarith
    moreover have "0 \<le> float64 ?x" using lo k by (simp add: order_trans [OF _ lo])
    ultimately show ?thesis using eq by (simp add: trunc_def)
  qed
qed

text \<open>
  For every non-negative duration the result is at least the number of whole units, and
  for the others it is not positive; it never leaves the range of \<open>int64\<close>.
\<close>

lemma float_units_bounds:
  assumes "1000000000 \<le> u" "u \<le> 2 ^ 36" "0 \<le> d" "d \<le> 2 ^ 63"
  shows "d div u \<le> trunc (float_units u d) \<and> trunc (float_units u d) < 2 ^ 36"
proof -
  let ?k = "d div u"
  let ?f = "float64 (of_int (d mod u) / of_int u)"
  let ?x = "of_int ?k + ?f"
  have u: "0 < u" using assms by simp
  have "d < 2 ^ 34 * 1000000000" using assms by simp
  also have "\<dots> \<le> 2 ^ 34 * u" using assms by simp
  finally have k: "0 \<le> ?k" "?k < 2 ^ 34"
    using assms u by (simp_all add: pos_imp_zdiv_nonneg_iff div_less_mult)
  have r: "0 \<le> d mod u" "d mod u < u" using u by simp_all
  have fk: "float64 (of_int ?k) = of_int ?k" using k by (intro float64_of_int) simp_all
  have fr: "float64 (of_int (d mod u)) = of_int (d mod u)"
    using r(1) less_le_trans [OF r(2) assms(2)] by (intro float64_of_int) simp_all
  have F: "0 \<le> ?f" "?f \<le> 1 - 1 / 2 ^ 36 + 1 / 2 ^ 53"
    using float_fraction_bounds [OF r(1) r(2) assms(2)] by auto
  have eq: "float_units u d = float64 ?x"
    using assms u by (simp add: float_units_def sdiv_nonneg smod_nonneg fk fr)
  have kq: "(of_int ?k :: rat) \<le> 2 ^ 34"
  proof -
    have "(of_int ?k :: rat) \<le> of_int (2 ^ 34)" using k by (simp only: of_int_le_iff)
    then show ?thesis by simp
  qed
  show ?thesis
  proof (cases "?x = 0")
    case True
    then have "?k = 0" using F k by (metis add_nonneg_eq_0_iff of_int_0_le_iff of_int_eq_0_iff)
    with True show ?thesis using eq by (simp add: trunc_def float64_def)
  next
    case False
    have pos: "0 < ?x" using False F k by (simp add: less_le)
    have lt: "?x < 2 powi 35" "?x < 2 powi 52" using kq F by simp_all
    have lo: "of_int ?k \<le> float64 ?x" using float64_ge_int [of ?k ?x] pos F lt by simp
    have "\<bar>float64 ?x - ?x\<bar> \<le> 2 powi (35 - 54)" using float64_error [OF pos lt(1)] .
    moreover have "(2::rat) powi (35 - 54) \<le> 1"
      by (simp add: power_int_def power_one_over)
    ultimately have "float64 ?x \<le> ?x + 1" by linarith
    then have "float64 ?x < 2 ^ 36" using F kq by simp
    moreover have "0 \<le> float64 ?x" using lo k by (simp add: order_trans [OF _ lo])
    ultimately show ?thesis using lo eq by (simp add: trunc_def le_floor_iff floor_less_iff)
  qed
qed

lemma round_even_minus: "round_even (- y) = - round_even y"
proof (cases "y \<in> \<int>")
  case True
  then obtain n where "y = of_int n" by (auto elim: Ints_cases)
  then show ?thesis by (metis of_int_minus round_even_of_int)
next
  case False
  define f where "f = \<lfloor>y\<rfloor>"
  have "y \<noteq> of_int f" using False by auto
  then have f: "of_int f < y" "y < of_int f + 1" unfolding f_def by linarith+
  then have g: "\<lfloor>- y\<rfloor> = - f - 1" by (simp add: floor_eq_iff)
  show ?thesis unfolding round_even_def Let_def g f_def [symmetric] by auto
qed

lemma float64_minus: "float64 (- x) = - float64 x"
  by (simp add: float64_def Let_def round_even_minus)

lemma trunc_minus: "trunc (- x) = - trunc x"
  by (auto simp: trunc_def ceiling_def)

lemma sdiv_minus: "(- a::int) sdiv b = - (a sdiv b)" and smod_minus: "(- a::int) smod b = - (a smod b)"
  by (simp_all add: signed_divide_int_def signed_modulo_int_def sgn_minus)

lemma float_units_minus: "float_units u (- d) = - float_units u d"
proof -
  have "float64 (float64 (of_int ((- d) smod u)) / of_int u)
      = - float64 (float64 (of_int (d smod u)) / of_int u)"
    by (simp add: smod_minus float64_minus)
  moreover have "float64 (of_int ((- d) sdiv u)) = - float64 (of_int (d sdiv u))"
    by (simp add: sdiv_minus float64_minus)
  ultimately show ?thesis
    unfolding float_units_def by (metis float64_minus minus_add_distrib)
qed

lemma Minute_le: "1000000000 \<le> Minute \<and> Minute \<le> 2 ^ 36"
  and Second_le: "1000000000 \<le> Second \<and> Second \<le> 2 ^ 36"
  by (simp_all add: Minute_def Second_def)

text \<open>Up to 2^17 minutes (91 days) \<open>int64(d.Minutes())\<close> is the number of whole minutes.\<close>

lemma minutes_int_small: "0 \<le> d \<Longrightarrow> d < 2 ^ 17 * Minute \<Longrightarrow> minutes_int d = d div Minute"
proof -
  assume d: "0 \<le> d" "d < 2 ^ 17 * Minute"
  then have t: "trunc (Duration_Minutes d) = d div Minute"
    unfolding Duration_Minutes_def using Minute_le by (intro float_units_small) simp_all
  have "0 \<le> d div Minute" "d div Minute < 2 ^ 17"
    using d by (simp_all add: pos_imp_zdiv_nonneg_iff div_less_mult)
  with t show ?thesis by (simp add: minutes_int_def go_int)
qed

lemma minutes_int_lower:
  assumes "0 \<le> d" "d \<le> 2 ^ 63"
  shows "d div Minute \<le> minutes_int d \<and> minutes_int d < 2 ^ 36"
proof -
  have b: "d div Minute \<le> trunc (Duration_Minutes d) \<and> trunc (Duration_Minutes d) < 2 ^ 36"
    unfolding Duration_Minutes_def using Minute_le assms by (intro float_units_bounds) simp_all
  moreover have "0 \<le> d div Minute" using assms by (simp add: pos_imp_zdiv_nonneg_iff)
  ultimately show ?thesis by (simp add: minutes_int_def go_int)
qed

lemma minutes_int_minus:
  assumes "0 \<le> d" "d \<le> 2 ^ 63"
  shows "minutes_int (- d) = - minutes_int d"
proof -
  have "d div Minute \<le> trunc (Duration_Minutes d) \<and> trunc (Duration_Minutes d) < 2 ^ 36"
    unfolding Duration_Minutes_def using Minute_le assms by (intro float_units_bounds) simp_all
  moreover have "0 \<le> d div Minute" using assms by (simp add: pos_imp_zdiv_nonneg_iff)
  ultimately show ?thesis
    by (simp add: minutes_int_def Duration_Minutes_def float_units_minus trunc_minus go_int)
qed

lemma minutes_int_nonpos:
  assumes "d \<le> 0" "min_duration \<le> d"
  shows "minutes_int d \<le> 0"
proof -
  have "0 \<le> (- d) div Minute" using assms by (simp add: pos_imp_zdiv_nonneg_iff)
  also have "\<dots> \<le> minutes_int (- d)"
    using minutes_int_lower [of "- d"] assms by (simp add: min_duration_def)
  also have "\<dots> = - minutes_int d"
    using minutes_int_minus [of "- d"] assms by (simp add: min_duration_def)
  finally show ?thesis by simp
qed

lemma seconds_int_small: "0 \<le> d \<Longrightarrow> d < 2 ^ 17 * Second \<Longrightarrow> seconds_int d = d div Second"
proof -
  assume d: "0 \<le> d" "d < 2 ^ 17 * Second"
  then have t: "trunc (Duration_Seconds d) = d div Second"
    unfolding Duration_Seconds_def using Second_le by (intro float_units_small) simp_all
  have "0 \<le> d div Second" "d div Second < 2 ^ 17"
    using d by (simp_all add: pos_imp_zdiv_nonneg_iff div_less_mult)
  with t show ?thesis by (simp add: seconds_int_def go_int)
qed

section \<open>Civil dates in WIB\<close>

text \<open>
  \<open>t.In(wib)\<close> shows the instant in the zone UTC+7; \<open>Year\<close>, \<open>Month\<close> and \<open>Day\<close> give its
  civil date and \<open>time.Date(y, m, d, 0, 0, 0, 0, wib)\<close> the instant of midnight of a date.
  Days are counted from 1970-01-01; the conversions are those of the proleptic Gregorian
  calendar with years that begin in March.
\<close>

definition wib_offset :: duration where "wib_offset = 7 * 60 * 60 * Second"

definition Day :: duration where "Day = 24 * Hour"

lemma Day_pos [simp]: "0 < Day" by (simp add: Day_def)
lemma Day_nonneg [simp]: "0 \<le> Day" using Day_pos by linarith
lemma Day_nonzero [simp]: "Day \<noteq> 0" using Day_pos by linarith

record civil =
  c_year :: int
  c_month :: int
  c_day :: int

definition year_days :: "int \<Rightarrow> int" where
  "year_days yoe = 365 * yoe + yoe div 4 - yoe div 100"

definition civil_of_days :: "int \<Rightarrow> civil" where
  "civil_of_days n =
     (let z = n + 719468;
          era = z div 146097;
          doe = z mod 146097;
          yoe = (doe - doe div 1460 + doe div 36524 - doe div 146096) div 365;
          doy = doe - year_days yoe;
          mp = (5 * doy + 2) div 153;
          m = (if mp < 10 then mp + 3 else mp - 9)
      in \<lparr>c_year = yoe + era * 400 + (if m \<le> 2 then 1 else 0), c_month = m,
          c_day = doy - (153 * mp + 2) div 5 + 1\<rparr>)"

definition days_of_civil :: "civil \<Rightarrow> int" where
  "days_of_civil c =
     (let y = (if c_month c \<le> 2 then c_year c - 1 else c_year c);
          era = y div 400;
          yoe = y mod 400;
          mp = (if c_month c > 2 then c_month c - 3 else c_month c + 9);
          doy = (153 * mp + 2) div 5 + c_day c - 1
      in era * 146097 + year_days yoe + doy - 719468)"

text \<open>
  The year of the era is in \<open>0..399\<close> and the day of the year in \<open>0..366\<close>: split off the
  century \<open>b\<close>; inside it the leap days passed are \<open>q\<close> and the year is \<open>k\<close>.
\<close>

lemma year_of_century:
  fixes r b :: int
  assumes "0 \<le> b" "b \<le> 3" "0 \<le> r" "r \<le> 36523"
  defines "q \<equiv> (24 * b + r) div 1460"
  defines "k \<equiv> (r - q) div 365"
  shows "0 \<le> k \<and> k \<le> 99 \<and> 365 * k + k div 4 \<le> r \<and> r - (365 * k + k div 4) \<le> 366"
proof -
  have q: "1460 * q \<le> 24 * b + r" "24 * b + r < 1460 * q + 1460"
    unfolding q_def by linarith+
  have q0: "0 \<le> q" unfolding q_def using assms by simp
  have k: "365 * k \<le> r - q" "r - q < 365 * k + 365"
    unfolding k_def by linarith+
  have "q \<le> r"
  proof -
    have "1460 * q \<le> 72 + r" using q assms by linarith
    then show ?thesis using assms(3) q0 by linarith
  qed
  then have k0: "0 \<le> k" unfolding k_def by simp
  have h: "4 * (k div 4) \<le> k" "k \<le> 4 * (k div 4) + 3" by linarith+
  have k99: "k \<le> 99" using q k assms q0 by linarith
  have lo: "k div 4 \<le> q" using q k h q0 assms by linarith
  have "r - (365 * k + k div 4) \<le> 366" using q k h q0 assms k99 by linarith
  with k0 k99 lo k show ?thesis by linarith
qed

lemma century_div:
  assumes "0 \<le> k" "k \<le> (99::int)"
  shows "(100 * b + k) div 4 = 25 * b + k div 4" and "(100 * b + k) div 100 = b"
proof -
  have "(k + 4 * (25 * b)) div 4 = 25 * b + k div 4" by (rule div_mult_self2) simp
  then show "(100 * b + k) div 4 = 25 * b + k div 4" by (simp add: algebra_simps)
  have "(k + 100 * b) div 100 = b + k div 100" by (rule div_mult_self2) simp
  moreover have "k div 100 = 0" using assms by simp
  ultimately show "(100 * b + k) div 100 = b" by (simp add: algebra_simps)
qed

lemma year_of_era_bounds:
  fixes doe :: int
  assumes "0 \<le> doe" "doe \<le> 146096"
  defines "yoe \<equiv> (doe - doe div 1460 + doe div 36524 - doe div 146096) div 365"
  shows "0 \<le> yoe \<and> yoe \<le> 399 \<and> year_days yoe \<le> doe \<and> doe - year_days yoe \<le> 366"
proof (cases "doe = 146096")
  case True
  then show ?thesis by (simp add: yoe_def year_days_def)
next
  case False
  define b r where "b = doe div 36524" and "r = doe mod 36524"
  define q where "q = (24 * b + r) div 1460"
  define k where "k = (r - q) div 365"
  have b: "0 \<le> b" "b \<le> 3" and r: "0 \<le> r" "r \<le> 36523" and doe: "doe = 36524 * b + r"
    using assms(1,2) False unfolding b_def r_def by simp_all
  have K: "0 \<le> k" "k \<le> 99" "365 * k + k div 4 \<le> r" "r - (365 * k + k div 4) \<le> 366"
    using year_of_century [OF b r] unfolding k_def q_def by simp_all
  have "doe = (24 * b + r) + 1460 * (25 * b)" using doe by linarith
  then have a: "doe div 1460 = 25 * b + q"
    unfolding q_def by (metis div_mult_self2 zero_neq_numeral)
  have c: "doe div 146096 = 0" using assms(1,2) False by simp
  have "doe - doe div 1460 + doe div 36524 - doe div 146096 = (r - q) + 365 * (100 * b)"
    unfolding a c b_def [symmetric] using doe by linarith
  then have yoe: "yoe = 100 * b + k"
    unfolding yoe_def k_def by (metis div_mult_self2 zero_neq_numeral)
  have "year_days yoe = 36524 * b + (365 * k + k div 4)"
    unfolding year_days_def yoe century_div [OF K(1,2)] by (simp add: algebra_simps)
  with K b yoe doe show ?thesis by linarith
qed

text \<open>Converting a day to its civil date and back gives the day again.\<close>

lemma days_of_civil_of_days [simp]: "days_of_civil (civil_of_days n) = n"
proof -
  define z where "z = n + 719468"
  define era doe where "era = z div 146097" and "doe = z mod 146097"
  define yoe where "yoe = (doe - doe div 1460 + doe div 36524 - doe div 146096) div 365"
  define doy where "doy = doe - year_days yoe"
  define mp where "mp = (5 * doy + 2) div 153"
  have "0 \<le> doe" "doe < 146097" unfolding doe_def by simp_all
  then have "0 \<le> doe" "doe \<le> 146096" by simp_all
  from year_of_era_bounds [OF this] have yoe: "0 \<le> yoe" "yoe \<le> 399" and "0 \<le> doy" "doy \<le> 366"
    unfolding yoe_def doy_def by simp_all
  then have mp: "0 \<le> mp" "mp \<le> 11" unfolding mp_def by simp_all
  have z: "z = era * 146097 + doe" unfolding era_def doe_def by simp
  define m where "m = (if mp < 10 then mp + 3 else mp - 9)"
  define y where "y = yoe + era * 400 + (if m \<le> 2 then 1 else 0)"
  have civ: "civil_of_days n = \<lparr>c_year = y, c_month = m, c_day = doy - (153 * mp + 2) div 5 + 1\<rparr>"
    by (simp only: civil_of_days_def Let_def z_def [symmetric] era_def [symmetric] doe_def [symmetric]
        yoe_def [symmetric] doy_def [symmetric] mp_def [symmetric] m_def [symmetric] y_def [symmetric])
  have m: "(if m > 2 then m - 3 else m + 9) = mp" unfolding m_def using mp by auto
  have y: "(if m \<le> 2 then y - 1 else y) = yoe + era * 400" unfolding y_def by auto
  have e: "(yoe + era * 400) div 400 = era" "(yoe + era * 400) mod 400 = yoe"
    using yoe by simp_all
  have "days_of_civil (civil_of_days n) =
      era * 146097 + year_days yoe + ((153 * mp + 2) div 5 + (doy - (153 * mp + 2) div 5 + 1) - 1) - 719468"
    by (simp only: civ days_of_civil_def Let_def civil.simps m y e)
  also have "\<dots> = n" unfolding doy_def using z z_def by simp
  finally show ?thesis .
qed

text \<open>The civil date of an instant in WIB, and midnight of a civil date there.\<close>

definition wib_days :: "time \<Rightarrow> int" where
  "wib_days t = (t + wib_offset) div Day"

definition date_in_wib :: "time \<Rightarrow> civil" where
  "date_in_wib t = civil_of_days (wib_days t)"

definition midnight_wib :: "civil \<Rightarrow> time" where
  "midnight_wib c = days_of_civil c * Day - wib_offset"

lemma midnight_wib_date: "midnight_wib (date_in_wib t) = wib_days t * Day - wib_offset"
  by (simp add: midnight_wib_def date_in_wib_def)

lemma midnight_wib_date_le: "midnight_wib (date_in_wib t) \<le> t \<and> t < midnight_wib (date_in_wib t) + Day"
proof -
  have "(t + wib_offset) div Day * Day + (t + wib_offset) mod Day = t + wib_offset"
    by (rule div_mult_mod_eq)
  moreover have "0 \<le> (t + wib_offset) mod Day" "(t + wib_offset) mod Day < Day" by simp_all
  ultimately show ?thesis
    unfolding midnight_wib_date wib_days_def by linarith
qed

end
