(* ===== verification/Json.thy ===== *)
theory Json
  imports Prelude
begin

text \<open>
  JSON as \<open>encoding/json\<close> presents it to the program: a document is a value of \<open>json\<close>, bytes
  that are no JSON document are \<open>None\<close> where a body or a payload can be arbitrary. Decoding
  into a struct goes through the members in order, matches a member with a field when the
  names agree up to the case of letters, leaves a field alone on \<open>null\<close> and fails on a value
  of the wrong type. A number with a fraction or an exponent is \<open>JFloat\<close>: no field of the
  program's structs accepts it.
\<close>

datatype json =
    JNull
  | JBool bool
  | JNum int
  | JFloat
  | JStr string
  | JArr "json list"
  | JObj "(string \<times> json) list"

type_synonym members = "(string \<times> json) list"

fun str_field :: "string \<Rightarrow> members \<Rightarrow> string \<Rightarrow> string option" where
  "str_field name [] acc = Some acc"
| "str_field name ((k, v) # ms) acc =
     (if equal_fold k name
      then (case v of JStr s \<Rightarrow> str_field name ms s | JNull \<Rightarrow> str_field name ms acc | _ \<Rightarrow> None)
      else str_field name ms acc)"

fun int32_field :: "string \<Rightarrow> members \<Rightarrow> int \<Rightarrow> int option" where
  "int32_field name [] acc = Some acc"
| "int32_field name ((k, v) # ms) acc =
     (if equal_fold k name
      then (case v of
              JNum n \<Rightarrow> (if - (2 ^ 31) \<le> n \<and> n < 2 ^ 31 then int32_field name ms n else None)
            | JNull \<Rightarrow> int32_field name ms acc
            | _ \<Rightarrow> None)
      else int32_field name ms acc)"

text \<open>A document for a struct is an object, or \<open>null\<close>, which sets no field.\<close>

definition struct_members :: "json \<Rightarrow> members option" where
  "struct_members j = (case j of JObj ms \<Rightarrow> Some ms | JNull \<Rightarrow> Some [] | _ \<Rightarrow> None)"

lemma str_field_hit: "equal_fold k name \<Longrightarrow> str_field name ((k, JStr s) # ms) acc = str_field name ms s"
  by simp

lemma str_field_absent:
  "(\<And>k v. (k, v) \<in> set ms \<Longrightarrow> \<not> equal_fold k name) \<Longrightarrow> str_field name ms acc = Some acc"
proof (induction ms arbitrary: acc)
  case Nil
  then show ?case by simp
next
  case (Cons m ms)
  obtain k v where "m = (k, v)" by (cases m)
  with Cons show ?case by auto
qed

text \<open>A string field that is absent or has the wrong type in a decoded document.\<close>

lemma str_field_wrong_type:
  "equal_fold k name \<Longrightarrow> v \<noteq> JNull \<Longrightarrow> (\<And>s. v \<noteq> JStr s) \<Longrightarrow> str_field name ((k, v) # ms) acc = None"
  by (cases v) auto

end
