(* ===== verification/Domain.thy ===== *)
theory Domain
  imports GoTime Json
begin

text \<open>
  The data of the services: the enumerations and structs of the \<open>internal/domain\<close> packages of
  the reservation, billing and payment services, the rows of the tables that the migrations
  create (a nullable column is an \<open>option\<close>), and the messages of the event bus.
\<close>

section \<open>Reservations\<close>

datatype VehicleType = VehicleTypeCar | VehicleTypeMotorcycle

datatype AssignmentMode = AssignmentModeSystem | AssignmentModeSelected

datatype ReservationStatus =
    StatusPending | StatusConfirmed | StatusActive | StatusCompleted | StatusCancelled | StatusExpired

primrec vehicle_string :: "VehicleType \<Rightarrow> string" where
  "vehicle_string VehicleTypeCar = ''car''"
| "vehicle_string VehicleTypeMotorcycle = ''motorcycle''"

primrec mode_string :: "AssignmentMode \<Rightarrow> string" where
  "mode_string AssignmentModeSystem = ''system''"
| "mode_string AssignmentModeSelected = ''user_selected''"

primrec status_string :: "ReservationStatus \<Rightarrow> string" where
  "status_string StatusPending = ''pending''"
| "status_string StatusConfirmed = ''confirmed''"
| "status_string StatusActive = ''active''"
| "status_string StatusCompleted = ''completed''"
| "status_string StatusCancelled = ''cancelled''"
| "status_string StatusExpired = ''expired''"

lemma status_string_inj: "status_string a = status_string b \<longleftrightarrow> a = b"
  by (cases a; cases b) simp_all

definition HoldDuration :: duration where "HoldDuration = 1 * Hour"
definition PaymentTimeout :: duration where "PaymentTimeout = 5 * Minute"

text \<open>
  The database type \<open>reservation_status\<close> is ordered as its values are listed; the order is
  also the one in which a reservation can move.
\<close>

primrec status_rank :: "ReservationStatus \<Rightarrow> nat" where
  "status_rank StatusPending = 0"
| "status_rank StatusConfirmed = 1"
| "status_rank StatusActive = 2"
| "status_rank StatusCompleted = 3"
| "status_rank StatusCancelled = 4"
| "status_rank StatusExpired = 5"

lemma status_rank_inj: "status_rank a = status_rank b \<longleftrightarrow> a = b"
  by (cases a; cases b) simp_all

instantiation ReservationStatus :: linorder
begin

definition less_eq_ReservationStatus :: "ReservationStatus \<Rightarrow> ReservationStatus \<Rightarrow> bool" where
  "a \<le> b \<longleftrightarrow> status_rank a \<le> status_rank b"

definition less_ReservationStatus :: "ReservationStatus \<Rightarrow> ReservationStatus \<Rightarrow> bool" where
  "a < b \<longleftrightarrow> status_rank a < status_rank b"

instance
  by standard
    (auto simp: less_eq_ReservationStatus_def less_ReservationStatus_def status_rank_inj)

end

record Spot =
  s_SpotID :: string
  s_Floor :: int
  s_SpotNumber :: int
  s_VehicleType :: VehicleType

record Reservation =
  r_ReservationID :: string
  r_DriverID :: string
  r_Spot :: Spot
  r_Status :: ReservationStatus
  r_AssignmentMode :: AssignmentMode
  r_ConfirmedAt :: time
  r_ExpiresAt :: time
  r_CheckInAt :: "time option"
  r_CheckOutAt :: "time option"
  r_CancelledAt :: "time option"
  r_SessionID :: string
  r_IdempotencyKey :: string

section \<open>Invoices\<close>

datatype InvoiceStatus =
    InvoiceStatusDraft | InvoiceStatusPendingPayment | InvoiceStatusPaid | InvoiceStatusVoid

datatype InvoiceType = InvoiceTypeBookingFee | InvoiceTypeParkingSession

record Invoice =
  i_InvoiceID :: string
  i_Type :: InvoiceType
  i_SessionID :: string
  i_ReservationID :: string
  i_DriverID :: string
  i_BookingFee :: int
  i_ParkingFee :: int
  i_OvernightFee :: int
  i_TotalAmount :: int
  i_BilledHours :: int
  i_IsOvernight :: bool
  i_DurationMins :: int
  i_Status :: InvoiceStatus
  i_GatewayTxID :: string
  i_PaymentMethod :: string
  i_CreatedAt :: time
  i_PaidAt :: "time option"
  i_IdempotencyKey :: string

section \<open>Payment transactions\<close>

datatype TransactionStatus = TxPending | TxSettled | TxFailed | TxExpired | TxRefunded

record Transaction =
  t_TransactionID :: string
  t_InvoiceID :: string
  t_DriverID :: string
  t_GatewayTxID :: string
  t_PaymentMethod :: string
  t_Status :: TransactionStatus
  t_Amount :: int
  t_PaymentURL :: string
  t_QRString :: string
  t_VANumber :: string
  t_VABank :: string
  t_IdempotencyKey :: string
  t_CreatedAt :: time
  t_PaidAt :: "time option"
  t_ExpiredAt :: "time option"

record CustomerInfo =
  cu_Name :: string
  cu_Email :: string
  cu_Phone :: string

section \<open>Table rows\<close>

datatype spot_status = SpotAvailable | SpotReserved | SpotOccupied | SpotMaintenance

record spot_row =
  sr_id :: string
  sr_floor :: int
  sr_number :: int
  sr_vehicle_type :: VehicleType
  sr_status :: spot_status

record driver_row =
  dr_id :: string
  dr_name :: string
  dr_email :: string
  dr_phone :: string
  dr_password_hash :: string
  dr_vehicle_type :: VehicleType

record reservation_row =
  rr_id :: string
  rr_driver_id :: string
  rr_spot_id :: string
  rr_status :: ReservationStatus
  rr_assignment_mode :: AssignmentMode
  rr_idempotency_key :: string
  rr_confirmed_at :: time
  rr_expires_at :: time
  rr_check_in_at :: "time option"
  rr_check_out_at :: "time option"
  rr_cancelled_at :: "time option"
  rr_session_id :: "string option"

record invoice_row =
  ir_id :: string
  ir_type :: InvoiceType
  ir_session_id :: "string option"
  ir_reservation_id :: string
  ir_driver_id :: string
  ir_booking_fee :: int
  ir_parking_fee :: int
  ir_overnight_fee :: int
  ir_total_amount :: int
  ir_billed_hours :: int
  ir_is_overnight :: bool
  ir_duration_mins :: int
  ir_status :: InvoiceStatus
  ir_gateway_tx_id :: "string option"
  ir_payment_method :: "string option"
  ir_idempotency_key :: string
  ir_created_at :: time
  ir_paid_at :: "time option"

record transaction_row =
  tr_id :: string
  tr_invoice_id :: string
  tr_driver_id :: string
  tr_gateway_tx_id :: string
  tr_payment_method :: string
  tr_status :: TransactionStatus
  tr_amount :: int
  tr_payment_url :: string
  tr_qr_string :: string
  tr_va_number :: string
  tr_va_bank :: string
  tr_idempotency_key :: string
  tr_created_at :: time
  tr_paid_at :: "time option"
  tr_expired_at :: "time option"

record location_row =
  lr_driver_id :: string
  lr_session_id :: "string option"
  lr_reservation_id :: "string option"
  lr_latitude :: rat
  lr_longitude :: rat
  lr_accuracy :: rat
  lr_recorded_at :: time

record notification_row =
  nr_id :: string
  nr_driver_id :: string
  nr_channel :: string
  nr_template_id :: string
  nr_title :: string
  nr_body :: string
  nr_status :: string
  nr_error_message :: string
  nr_sent_at :: time

section \<open>Messages of the event bus\<close>

record message =
  m_Event :: string
  m_Timestamp :: time
  m_Payload :: json

end
