(* ===== verification/World.thy ===== *)
theory World
  imports Domain "HOL-Library.State_Monad"
begin

text \<open>
  The state the services run on and the statements they are made of. A \<open>world\<close> holds the
  tables of the database, the messages handed to the broker, the state of the Redis server
  and the clock. Everything that is not code of the repository is a parameter: the commands
  of Redis, the identifiers \<open>uuid.New\<close> returns, SHA-512, bcrypt, JWT and the texts of the
  database's constraint errors are functions in \<open>externals\<close>, and the network is a list of
  fates and delays the remote calls consume: a call is served, or refused with an error, or
  served with its reply lost, so that the caller sees an error although the call took effect.
\<close>

section \<open>Parameters of the model\<close>

record 'k externals =
  x_redis_get :: "'k \<Rightarrow> time \<Rightarrow> string \<Rightarrow> string option"
  x_redis_set :: "'k \<Rightarrow> time \<Rightarrow> string \<Rightarrow> string \<Rightarrow> duration \<Rightarrow> 'k"
  x_redis_setnx :: "'k \<Rightarrow> time \<Rightarrow> string \<Rightarrow> string \<Rightarrow> duration \<Rightarrow> bool \<times> 'k"
  x_redis_del :: "'k \<Rightarrow> time \<Rightarrow> string \<Rightarrow> 'k"
  x_redis_expire :: "'k \<Rightarrow> time \<Rightarrow> string \<Rightarrow> duration \<Rightarrow> bool \<times> 'k"
  x_uuid :: "nat \<Rightarrow> string"
  x_unique_violation :: "string \<Rightarrow> string"
  x_foreign_key_violation :: "string \<Rightarrow> string"
  x_enum_error :: "string \<Rightarrow> string"
  x_int2_in :: "string \<Rightarrow> string + int"
  x_sha512_hex :: "string \<Rightarrow> string"
  x_bcrypt_hash :: "nat \<Rightarrow> string \<Rightarrow> string + string"
  x_bcrypt_compare :: "string \<Rightarrow> string \<Rightarrow> bool"
  x_jwt_sign :: "string \<Rightarrow> string \<times> string \<Rightarrow> time \<Rightarrow> time \<Rightarrow> string + string"
  x_jwt_parse :: "(bool \<Rightarrow> string \<Rightarrow> string + string) \<Rightarrow> time \<Rightarrow> string \<Rightarrow> string + ((string \<times> string) option \<times> bool)"

section \<open>The world\<close>

datatype fate = Served | Refused string | ReplyLost string

record 'k world =
  w_ext :: "'k externals"
  w_clock :: time
  w_delays :: "nat list"
  w_fates :: "fate list"
  w_uuids :: nat
  w_redis :: 'k
  w_spots :: "spot_row list"
  w_drivers :: "driver_row list"
  w_reservations :: "reservation_row list"
  w_invoices :: "invoice_row list"
  w_transactions :: "transaction_row list"
  w_locations :: "location_row list"
  w_notifications :: "notification_row list"
  w_published :: "message list"

text \<open>Time passes before a reading of the clock and before a remote call is executed.\<close>

definition pass :: "'k world \<Rightarrow> 'k world" where
  "pass w = (case w_delays w of
     [] \<Rightarrow> w | d # ds \<Rightarrow> w\<lparr>w_clock := w_clock w + int d, w_delays := ds\<rparr>)"

definition fate_of :: "'k world \<Rightarrow> fate" where
  "fate_of w = (case w_fates w of [] \<Rightarrow> Served | f # fs \<Rightarrow> f)"

definition arrive :: "'k world \<Rightarrow> 'k world" where
  "arrive w = (pass w)\<lparr>w_fates := (case w_fates w of [] \<Rightarrow> [] | f # fs \<Rightarrow> fs)\<rparr>"

section \<open>Statements\<close>

type_synonym ('k, 'a) prog = "('k world, 'a) state"
type_synonym ('k, 'a) io = "('k world, goerr + 'a) state"

definition time_Now :: "('k, time) prog" where
  "time_Now = State (\<lambda>w. let w' = pass w in (w_clock w', w'))"

definition uuid_New :: "('k, string) prog" where
  "uuid_New = State (\<lambda>w. (x_uuid (w_ext w) (w_uuids w), w\<lparr>w_uuids := Suc (w_uuids w)\<rparr>))"

definition asks :: "('k world \<Rightarrow> 'a) \<Rightarrow> ('k, 'a) prog" where
  "asks f = State (\<lambda>w. (f w, w))"

definition remote :: "('k world \<Rightarrow> (goerr + 'a) \<times> 'k world) \<Rightarrow> ('k, 'a) io" where
  "remote f = State (\<lambda>w.
     case fate_of w of
       Served \<Rightarrow> f (arrive w)
     | Refused m \<Rightarrow> (Inl (ErrNew m), arrive w)
     | ReplyLost m \<Rightarrow> (Inl (ErrNew m), snd (f (arrive w))))"

text \<open>A query returns rows and changes nothing; a statement of the database changes the tables.\<close>

definition query :: "('k world \<Rightarrow> goerr + 'a) \<Rightarrow> ('k, 'a) io" where
  "query f = remote (\<lambda>w. (f w, w))"

definition exec :: "('k world \<Rightarrow> 'k world) \<Rightarrow> ('k, unit) io" where
  "exec f = remote (\<lambda>w. (Inr (), f w))"

text \<open>
  The statement \<open>if err != nil { return .., wrap(err) }\<close> that follows nearly every call: stop
  with the wrapped error, or go on with the value.
\<close>

definition or_return :: "('k, 'a) io \<Rightarrow> (goerr \<Rightarrow> goerr) \<Rightarrow> ('a \<Rightarrow> ('k, 'b) io) \<Rightarrow> ('k, 'b) io" where
  "or_return m wrap rest = do {
     res \<leftarrow> m;
     (case res of
        Inl err \<Rightarrow> State_Monad.return (Inl (wrap err))
      | Inr a \<Rightarrow> rest a)
   }"

definition fail :: "goerr \<Rightarrow> ('k, 'a) io" where
  "fail err = State_Monad.return (Inl err)"

definition ok :: "'a \<Rightarrow> ('k, 'a) io" where
  "ok a = State_Monad.return (Inr a)"

section \<open>What passing time leaves alone\<close>

lemma pass_frame [simp, frame]:
  "w_ext (pass w) = w_ext w" "w_fates (pass w) = w_fates w" "w_uuids (pass w) = w_uuids w"
  "w_redis (pass w) = w_redis w" "w_spots (pass w) = w_spots w" "w_drivers (pass w) = w_drivers w"
  "w_reservations (pass w) = w_reservations w" "w_invoices (pass w) = w_invoices w"
  "w_transactions (pass w) = w_transactions w" "w_locations (pass w) = w_locations w"
  "w_notifications (pass w) = w_notifications w" "w_published (pass w) = w_published w"
  by (simp_all add: pass_def split: list.split)

lemma arrive_frame [simp, frame]:
  "w_ext (arrive w) = w_ext w" "w_uuids (arrive w) = w_uuids w"
  "w_redis (arrive w) = w_redis w" "w_spots (arrive w) = w_spots w" "w_drivers (arrive w) = w_drivers w"
  "w_reservations (arrive w) = w_reservations w" "w_invoices (arrive w) = w_invoices w"
  "w_transactions (arrive w) = w_transactions w" "w_locations (arrive w) = w_locations w"
  "w_notifications (arrive w) = w_notifications w" "w_published (arrive w) = w_published w"
  by (simp_all add: arrive_def)

lemma pass_clock: "w_clock w \<le> w_clock (pass w)"
  by (simp add: pass_def split: list.split)

lemma arrive_clock: "w_clock w \<le> w_clock (arrive w)"
  using pass_clock [of w] by (simp add: arrive_def)

text \<open>A network that serves every call.\<close>

definition reliable :: "'k world \<Rightarrow> bool" where
  "reliable w \<longleftrightarrow> (\<forall>f \<in> set (w_fates w). f = Served)"

lemma reliable_fate [simp]: "reliable w \<Longrightarrow> fate_of w = Served"
  by (auto simp: reliable_def fate_of_def split: list.split)

lemma reliable_arrive [simp]: "reliable w \<Longrightarrow> reliable (arrive w)"
  by (cases "w_fates w") (simp_all add: reliable_def arrive_def)

lemma reliable_pass [simp]: "reliable (pass w) = reliable w"
  by (simp add: reliable_def)

lemma reliable_update [simp]:
  "reliable (w\<lparr>w_uuids := n\<rparr>) = reliable w" "reliable (w\<lparr>w_redis := k\<rparr>) = reliable w"
  "reliable (w\<lparr>w_reservations := rs\<rparr>) = reliable w" "reliable (w\<lparr>w_invoices := is\<rparr>) = reliable w"
  "reliable (w\<lparr>w_transactions := ts\<rparr>) = reliable w" "reliable (w\<lparr>w_locations := ls\<rparr>) = reliable w"
  "reliable (w\<lparr>w_notifications := ns\<rparr>) = reliable w" "reliable (w\<lparr>w_published := ps\<rparr>) = reliable w"
  "reliable (w\<lparr>w_drivers := ds\<rparr>) = reliable w" "reliable (w\<lparr>w_spots := ss\<rparr>) = reliable w"
  by (simp_all add: reliable_def)

section \<open>Weakest preconditions\<close>

text \<open>
  \<open>wp m Q w\<close>: running \<open>m\<close> from \<open>w\<close> ends in a result and a world that satisfy \<open>Q\<close>. Its
  equations take a program apart statement by statement.
\<close>

definition wp :: "('s, 'a) state \<Rightarrow> ('a \<Rightarrow> 's \<Rightarrow> bool) \<Rightarrow> 's \<Rightarrow> bool" where
  "wp m Q s = (case run_state m s of (a, s') \<Rightarrow> Q a s')"

lemma wpD: "wp m Q s \<Longrightarrow> run_state m s = (a, s') \<Longrightarrow> Q a s'"
  by (simp add: wp_def)

lemma wpI: "(\<And>a s'. run_state m s = (a, s') \<Longrightarrow> Q a s') \<Longrightarrow> wp m Q s"
  by (simp add: wp_def split: prod.split)

lemma wp_fst_snd: "wp m Q s = Q (fst (run_state m s)) (snd (run_state m s))"
  by (simp add: wp_def split: prod.split)

lemma wp_mono: "wp m Q s \<Longrightarrow> (\<And>a s'. Q a s' \<Longrightarrow> R a s') \<Longrightarrow> wp m R s"
  by (simp add: wp_fst_snd)

lemma wp_conj: "wp m (\<lambda>a s. Q a s \<and> R a s) s \<longleftrightarrow> wp m Q s \<and> wp m R s"
  by (simp add: wp_fst_snd)

lemma wp_return [wp_simps]: "wp (State_Monad.return x) Q s = Q x s"
  by (simp add: wp_def)

lemma wp_bind [wp_simps]: "wp (State_Monad.bind m f) Q s = wp m (\<lambda>a. wp (f a) Q) s"
  by (simp add: wp_fst_snd split: prod.split)

lemma wp_if [wp_simps]: "wp (if b then m else n) Q s = (if b then wp m Q s else wp n Q s)"
  by simp

lemma wp_case_sum [wp_simps]:
  "wp (case x of Inl e \<Rightarrow> f e | Inr a \<Rightarrow> g a) Q s = (case x of Inl e \<Rightarrow> wp (f e) Q s | Inr a \<Rightarrow> wp (g a) Q s)"
  by (cases x) simp_all

lemma wp_case_option [wp_simps]:
  "wp (case x of None \<Rightarrow> m | Some a \<Rightarrow> g a) Q s = (case x of None \<Rightarrow> wp m Q s | Some a \<Rightarrow> wp (g a) Q s)"
  by (cases x) simp_all

lemma wp_case_prod [wp_simps]:
  "wp (case x of (a, b) \<Rightarrow> f a b) Q s = (case x of (a, b) \<Rightarrow> wp (f a b) Q s)"
  by (cases x) simp

lemma wp_let [wp_simps]: "wp (let x = e in f x) Q s = (let x = e in wp (f x) Q s)"
  by simp

lemma wp_time_Now [wp_simps]: "wp time_Now Q w = Q (w_clock (pass w)) (pass w)"
  by (simp add: wp_def time_Now_def Let_def)

lemma wp_uuid_New [wp_simps]:
  "wp uuid_New Q w = Q (x_uuid (w_ext w) (w_uuids w)) (w\<lparr>w_uuids := Suc (w_uuids w)\<rparr>)"
  by (simp add: wp_def uuid_New_def)

lemma wp_asks [wp_simps]: "wp (asks f) Q w = Q (f w) w"
  by (simp add: wp_def asks_def)

lemma wp_remote [wp_simps]:
  "wp (remote f) Q w =
     (case fate_of w of
        Served \<Rightarrow> Q (fst (f (arrive w))) (snd (f (arrive w)))
      | Refused m \<Rightarrow> Q (Inl (ErrNew m)) (arrive w)
      | ReplyLost m \<Rightarrow> Q (Inl (ErrNew m)) (snd (f (arrive w))))"
  by (simp add: wp_fst_snd remote_def split: fate.split)

lemma wp_query [wp_simps]:
  "wp (query f) Q w =
     (case fate_of w of
        Served \<Rightarrow> Q (f (arrive w)) (arrive w)
      | Refused m \<Rightarrow> Q (Inl (ErrNew m)) (arrive w)
      | ReplyLost m \<Rightarrow> Q (Inl (ErrNew m)) (arrive w))"
  by (simp add: query_def wp_remote split: fate.split)

lemma wp_exec [wp_simps]:
  "wp (exec f) Q w =
     (case fate_of w of
        Served \<Rightarrow> Q (Inr ()) (f (arrive w))
      | Refused m \<Rightarrow> Q (Inl (ErrNew m)) (arrive w)
      | ReplyLost m \<Rightarrow> Q (Inl (ErrNew m)) (f (arrive w)))"
  by (simp add: exec_def wp_remote split: fate.split)

lemma wp_or_return [wp_simps]:
  "wp (or_return m wrap rest) Q w =
     wp m (\<lambda>res w'. case res of Inl err \<Rightarrow> Q (Inl (wrap err)) w' | Inr a \<Rightarrow> wp (rest a) Q w') w"
  by (simp add: or_return_def wp_fst_snd split: prod.split sum.split)

lemma wp_fail [wp_simps]: "wp (fail err) Q w = Q (Inl err) w"
  by (simp add: fail_def wp_return)

lemma wp_ok [wp_simps]: "wp (ok a) Q w = Q (Inr a) w"
  by (simp add: ok_def wp_return)

section \<open>Steps that leave the database alone\<close>

text \<open>
  \<open>db_same w w'\<close>: time may have passed, identifiers been drawn, Redis written, messages
  published and the network have failed, but every table is what it was.
\<close>

definition db_same :: "'k world \<Rightarrow> 'k world \<Rightarrow> bool" where
  "db_same w w' \<longleftrightarrow> w_ext w' = w_ext w \<and> w_clock w \<le> w_clock w' \<and> w_spots w' = w_spots w
     \<and> w_drivers w' = w_drivers w \<and> w_reservations w' = w_reservations w
     \<and> w_invoices w' = w_invoices w \<and> w_transactions w' = w_transactions w
     \<and> w_locations w' = w_locations w \<and> w_notifications w' = w_notifications w"

lemma db_same_refl [simp, intro]: "db_same w w"
  by (simp add: db_same_def)

lemma db_same_trans [trans]: "db_same w w' \<Longrightarrow> db_same w' w'' \<Longrightarrow> db_same w w''"
  by (auto simp: db_same_def)

lemma db_same_pass [simp, intro]: "db_same w (pass w)"
  by (simp add: db_same_def pass_clock)

lemma db_same_arrive [simp, intro]: "db_same w (arrive w)"
  by (simp add: db_same_def arrive_clock)

lemma db_same_update [simp]:
  "db_same w (w'\<lparr>w_uuids := n\<rparr>) = db_same w w'" "db_same w (w'\<lparr>w_redis := k\<rparr>) = db_same w w'"
  "db_same w (w'\<lparr>w_published := ps\<rparr>) = db_same w w'"
  by (simp_all add: db_same_def)

text \<open>An update that selected no row.\<close>

lemma db_same_reset:
  "db_same w w' \<Longrightarrow> db_same w (w'\<lparr>w_invoices := w_invoices w\<rparr>)"
  "db_same w w' \<Longrightarrow> db_same w (w'\<lparr>w_transactions := w_transactions w\<rparr>)"
  "db_same w w' \<Longrightarrow> db_same w (w'\<lparr>w_reservations := w_reservations w\<rparr>)"
  by (simp_all add: db_same_def)

lemma db_same_later [simp]:
  "db_same w w' \<Longrightarrow> db_same w (arrive w')" "db_same w w' \<Longrightarrow> db_same w (pass w')"
  by (auto intro: db_same_trans)

text \<open>A remote call keeps any property that arriving and the call itself keep.\<close>

lemma wp_remoteI:
  assumes "\<And>m. fate_of w = Refused m \<Longrightarrow> Q (Inl (ErrNew m)) (arrive w)"
    and "fate_of w = Served \<Longrightarrow> Q (fst (f (arrive w))) (snd (f (arrive w)))"
    and "\<And>m. fate_of w = ReplyLost m \<Longrightarrow> Q (Inl (ErrNew m)) (snd (f (arrive w)))"
  shows "wp (remote f) Q w"
  using assms by (simp add: wp_remote split: fate.split)

lemma query_db_same: "wp (query f) (\<lambda>r w'. db_same w w' \<and> (\<forall>a. r = Inr a \<longrightarrow> f w' = Inr a)) w"
  by (simp add: wp_query split: fate.split)

text \<open>A program that leaves the database alone, whatever the network does; how such programs compose.\<close>

definition leaves_db :: "('k, 'a) prog \<Rightarrow> bool" where
  "leaves_db m \<longleftrightarrow> (\<forall>w. wp m (\<lambda>_. db_same w) w)"

lemma leaves_dbD: "leaves_db m \<Longrightarrow> wp m (\<lambda>_. db_same w) w"
  by (simp add: leaves_db_def)

lemma leaves_db_return [quiet_intros]: "leaves_db (State_Monad.return x)"
  by (simp add: leaves_db_def wp_return)

lemma leaves_db_ok [quiet_intros]: "leaves_db (ok x)" and leaves_db_fail [quiet_intros]: "leaves_db (fail e)"
  by (simp_all add: leaves_db_def wp_ok wp_fail)

lemma leaves_db_bind [quiet_intros]:
  "leaves_db m \<Longrightarrow> (\<And>x. leaves_db (f x)) \<Longrightarrow> leaves_db (State_Monad.bind m f)"
  unfolding leaves_db_def wp_bind by (auto simp: wp_fst_snd intro: db_same_trans)

lemma leaves_db_or_return [quiet_intros]:
  "leaves_db m \<Longrightarrow> (\<And>x. leaves_db (f x)) \<Longrightarrow> leaves_db (or_return m wrap f)"
  unfolding or_return_def
  by (intro leaves_db_bind) (simp_all add: leaves_db_return split: sum.split)

lemma leaves_db_query [quiet_intros]: "leaves_db (query f)"
  by (auto simp: leaves_db_def wp_query split: fate.split)

lemma leaves_db_time_Now [quiet_intros]: "leaves_db time_Now"
  and leaves_db_uuid_New [quiet_intros]: "leaves_db uuid_New"
  and leaves_db_asks [quiet_intros]: "leaves_db (asks g)"
  by (simp_all add: leaves_db_def wp_time_Now wp_uuid_New wp_asks)

lemma leaves_db_if [quiet_intros]: "leaves_db m \<Longrightarrow> leaves_db n \<Longrightarrow> leaves_db (if b then m else n)"
  and leaves_db_case_sum [quiet_intros]:
    "(\<And>e. leaves_db (f e)) \<Longrightarrow> (\<And>a. leaves_db (g a)) \<Longrightarrow> leaves_db (case x of Inl e \<Rightarrow> f e | Inr a \<Rightarrow> g a)"
  and leaves_db_case_option [quiet_intros]:
    "leaves_db m \<Longrightarrow> (\<And>a. leaves_db (h a)) \<Longrightarrow> leaves_db (case y of None \<Rightarrow> m | Some a \<Rightarrow> h a)"
  and leaves_db_case_prod [quiet_intros]:
    "(\<And>a b. leaves_db (k a b)) \<Longrightarrow> leaves_db (case z of (a, b) \<Rightarrow> k a b)"
  by (simp_all split: sum.split option.split prod.split)

lemma leaves_db_remote:
  "(\<And>w. db_same w (snd (f w))) \<Longrightarrow> leaves_db (remote f)"
  unfolding leaves_db_def using db_same_arrive db_same_trans
  by (fastforce simp: wp_remote split: fate.split)

text \<open>After a call that leaves the database alone: what holds of the rest holds of the whole.\<close>

lemma or_return_quiet:
  assumes "leaves_db m" "db_same w w1"
    and "\<And>a w2. db_same w w2 \<Longrightarrow> wp (rest a) Q w2" "\<And>e w2. db_same w w2 \<Longrightarrow> Q (Inl e) w2"
  shows "wp (or_return m wrap rest) Q w1"
  unfolding wp_or_return
proof (rule wp_mono [OF leaves_dbD [OF assms(1)]])
  fix res w2 assume "db_same w1 w2"
  with assms(2) have "db_same w w2" by (rule db_same_trans)
  then show "case res of Inl e \<Rightarrow> Q (Inl (wrap e)) w2 | Inr a \<Rightarrow> wp (rest a) Q w2"
    using assms(3,4) by (simp split: sum.split)
qed

lemma wp_ifI: "(b \<Longrightarrow> wp m Q w) \<Longrightarrow> (\<not> b \<Longrightarrow> wp n Q w) \<Longrightarrow> wp (if b then m else n) Q w"
  by simp

lemma bind_quiet:
  assumes "leaves_db m" "db_same w w1" "\<And>a w2. db_same w w2 \<Longrightarrow> wp (rest a) Q w2"
  shows "wp (State_Monad.bind m rest) Q w1"
  unfolding wp_bind
  by (rule wp_mono [OF leaves_dbD [OF assms(1)]]) (rule assms(3) [OF db_same_trans [OF assms(2)]])

lemma quiet_end: "leaves_db m \<Longrightarrow> db_same w w1 \<Longrightarrow> wp m (\<lambda>_. db_same w) w1"
  by (rule wp_mono [OF leaves_dbD]) (auto intro: db_same_trans)

section \<open>Invariants of the database\<close>

definition preserves :: "('k world \<Rightarrow> bool) \<Rightarrow> ('k, 'a) prog \<Rightarrow> bool" where
  "preserves I m \<longleftrightarrow> (\<forall>w. I w \<longrightarrow> wp m (\<lambda>_. I) w)"

text \<open>
  The interface of an invariant that speaks of the tables only: every call that leaves the
  database alone keeps it, and it is enough to look at the statements that write.
\<close>

locale db_invariant =
  fixes I :: "'k world \<Rightarrow> bool"
  assumes stable: "I w \<Longrightarrow> db_same w w' \<Longrightarrow> I w'"
begin

lemma preservesD: "preserves I m \<Longrightarrow> I w \<Longrightarrow> wp m (\<lambda>_. I) w"
  by (simp add: preserves_def)

lemma preserves_run: "preserves I m \<Longrightarrow> I w \<Longrightarrow> I (snd (run_state m w))"
  by (simp add: preserves_def wp_fst_snd)

lemma preserves_quiet: "leaves_db m \<Longrightarrow> preserves I m"
  unfolding preserves_def leaves_db_def by (blast intro: wp_mono stable)

lemma preserves_bind:
  "preserves I m \<Longrightarrow> (\<And>x. preserves I (f x)) \<Longrightarrow> preserves I (State_Monad.bind m f)"
  unfolding preserves_def wp_bind by (blast intro: wp_mono)

lemma preserves_if: "(b \<Longrightarrow> preserves I m) \<Longrightarrow> (\<not> b \<Longrightarrow> preserves I n) \<Longrightarrow> preserves I (if b then m else n)"
  by simp

lemma preserves_return: "preserves I (State_Monad.return x)"
  by (simp add: preserves_def wp_return)

lemma preserves_case_sum:
  "(\<And>e. preserves I (f e)) \<Longrightarrow> (\<And>a. preserves I (g a)) \<Longrightarrow> preserves I (case x of Inl e \<Rightarrow> f e | Inr a \<Rightarrow> g a)"
  by (simp split: sum.split)

lemma preserves_case_option:
  "preserves I m \<Longrightarrow> (\<And>a. preserves I (g a)) \<Longrightarrow> preserves I (case x of None \<Rightarrow> m | Some a \<Rightarrow> g a)"
  by (simp split: option.split)

lemma preserves_or_return:
  "preserves I m \<Longrightarrow> (\<And>x. preserves I (f x)) \<Longrightarrow> preserves I (or_return m wrap f)"
  unfolding or_return_def by (intro preserves_bind) (simp_all add: preserves_return split: sum.split)

lemma preserves_remote: "(\<And>w. I w \<Longrightarrow> I (snd (f w))) \<Longrightarrow> preserves I (remote f)"
  unfolding preserves_def wp_remote using stable [OF _ db_same_arrive] by (simp split: fate.split)

lemma preserves_exec: "(\<And>w. I w \<Longrightarrow> I (f w)) \<Longrightarrow> preserves I (exec f)"
  unfolding exec_def by (rule preserves_remote) simp

lemmas preserves_rules = preserves_return preserves_bind preserves_if preserves_case_sum
  preserves_case_option preserves_or_return

end

end
