(* ===== verification/RedisStore.thy ===== *)
theory RedisStore
  imports World
begin

text \<open>
  The Redis server as the services rely on it, and the packages built on it:
  \<open>pkg/redis\<close> (the client), \<open>pkg/lock\<close> (\<open>SET NX\<close> with a time to live, released by a script
  that deletes the key only for its holder) and \<open>pkg/idempotency\<close> (the store of processed
  request keys). The locale \<open>redis_server\<close> states the documented behaviour of the commands
  with respect to what \<open>GET\<close> returns now and later; it is interpreted on a store of values
  with expiry times, and every property that needs it names it as a hypothesis.
\<close>

section \<open>The interface of the server\<close>

locale redis_server =
  fixes get :: "'k \<Rightarrow> time \<Rightarrow> string \<Rightarrow> string option"
    and set :: "'k \<Rightarrow> time \<Rightarrow> string \<Rightarrow> string \<Rightarrow> duration \<Rightarrow> 'k"
    and setnx :: "'k \<Rightarrow> time \<Rightarrow> string \<Rightarrow> string \<Rightarrow> duration \<Rightarrow> bool \<times> 'k"
    and del :: "'k \<Rightarrow> time \<Rightarrow> string \<Rightarrow> 'k"
    and expire :: "'k \<Rightarrow> time \<Rightarrow> string \<Rightarrow> duration \<Rightarrow> bool \<times> 'k"
  assumes get_past: "t \<le> t' \<Longrightarrow> get k t' key = Some v \<Longrightarrow> get k t key = Some v"
    and get_set: "0 < ttl \<Longrightarrow> t \<le> t' \<Longrightarrow> get (set k t key v ttl) t' key' =
      (if key' = key then (if t' < t + ttl then Some v else None) else get k t' key')"
    and setnx_taken: "get k t key \<noteq> None \<Longrightarrow> \<not> fst (setnx k t key v ttl)"
    and get_setnx_taken: "get k t key \<noteq> None \<Longrightarrow> t \<le> t' \<Longrightarrow>
      get (snd (setnx k t key v ttl)) t' key' = get k t' key'"
    and setnx_free: "get k t key = None \<Longrightarrow> 0 < ttl \<Longrightarrow> fst (setnx k t key v ttl)"
    and get_setnx_free: "get k t key = None \<Longrightarrow> 0 < ttl \<Longrightarrow> t \<le> t' \<Longrightarrow>
      get (snd (setnx k t key v ttl)) t' key' =
        (if key' = key then (if t' < t + ttl then Some v else None) else get k t' key')"
    and get_del: "t \<le> t' \<Longrightarrow> get (del k t key) t' key' = (if key' = key then None else get k t' key')"
    and expire_absent: "get k t key = None \<Longrightarrow> t \<le> t' \<Longrightarrow>
      get (snd (expire k t key ttl)) t' key' = get k t' key'"
    and expire_present: "get k t key = Some v \<Longrightarrow> 0 < ttl \<Longrightarrow> t \<le> t' \<Longrightarrow>
      get (snd (expire k t key ttl)) t' key' =
        (if key' = key then (if t' < t + ttl then Some v else None) else get k t' key')"
begin

text \<open>The release script: compare and delete, in one step of the server.\<close>

definition release :: "'k \<Rightarrow> time \<Rightarrow> string \<Rightarrow> string \<Rightarrow> 'k" where
  "release k t key v = (if get k t key = Some v then del k t key else k)"

lemma get_future_None: "t \<le> t' \<Longrightarrow> get k t key = None \<Longrightarrow> get k t' key = None"
  by (metis get_past option.exhaust)

lemma get_later: "t \<le> t' \<Longrightarrow> get k t key = Some v \<Longrightarrow> get k t' key = Some v \<or> get k t' key = None"
  by (metis get_past option.exhaust option.inject)

text \<open>Mutual exclusion: after a successful acquisition nobody acquires before the expiry.\<close>

lemma setnx_excludes:
  assumes "fst (setnx k t key v ttl)" "0 < ttl" "t \<le> t'" "t' < t + ttl"
  shows "\<not> fst (setnx (snd (setnx k t key v ttl)) t' key v' ttl')"
proof -
  have "get k t key = None" using assms(1) setnx_taken by blast
  then have "get (snd (setnx k t key v ttl)) t' key = Some v"
    using get_setnx_free assms by simp
  then show ?thesis using setnx_taken by simp
qed

lemma setnx_renew_keeps:
  assumes "get k t key = Some v" "t \<le> t'"
  shows "get (snd (setnx k t key v' ttl)) t' key = get k t' key"
  using assms get_setnx_taken by simp

lemma release_other: "get k t key \<noteq> Some v \<Longrightarrow> release k t key v = k"
  by (simp add: release_def)

lemma release_own: "get k t key = Some v \<Longrightarrow> t \<le> t' \<Longrightarrow> get (release k t key v) t' key = None"
  by (simp add: release_def get_del)

lemma release_frame: "key' \<noteq> key \<Longrightarrow> t \<le> t' \<Longrightarrow> get (release k t key v) t' key' = get k t' key'"
  by (simp add: release_def get_del)

lemma setnx_frame: "0 < ttl \<Longrightarrow> key' \<noteq> key \<Longrightarrow> t \<le> t' \<Longrightarrow> get (snd (setnx k t key v ttl)) t' key' = get k t' key'"
  by (cases "get k t key") (simp_all add: get_setnx_taken get_setnx_free)

lemma lock_survives_save:
  assumes "get k t1 lock = None" "0 < ttl" "0 < ttl'" "key \<noteq> lock"
    and "t0 \<le> t1" "t1 \<le> t2" "t2 \<le> t" "t < t0 + ttl"
  shows "get (set (snd (setnx k t1 lock v ttl)) t2 key v' ttl') t lock = Some v"
  using assms by (simp add: get_set get_setnx_free)

lemma lock_own_or_free:
  assumes "get k t1 lock = None" "0 < ttl" "0 < ttl'" "key \<noteq> lock" "t1 \<le> t2" "t2 \<le> t"
  shows "get (set (snd (setnx k t1 lock v ttl)) t2 key v' ttl') t lock \<in> {None, Some v}"
  using assms by (simp add: get_set get_setnx_free)

lemma lock_and_save_frame:
  assumes "0 < ttl" "0 < ttl'" "key' \<noteq> key" "key' \<noteq> lock" "t1 \<le> t" "t2 \<le> t"
  shows "get (set (snd (setnx k t1 lock v ttl)) t2 key v' ttl') t key' = get k t key'"
  using assms by (simp add: get_set setnx_frame)

lemma saved_until:
  assumes "0 < ttl" "t0 \<le> t1" "t1 \<le> t" "t < t0 + ttl"
  shows "get (set k t1 key v ttl) t key = Some v"
  using assms by (simp add: get_set)

end

text \<open>The commands of a world's server, and the hypothesis that they behave as documented.\<close>

definition redis_ok :: "'k externals \<Rightarrow> bool" where
  "redis_ok x = redis_server (x_redis_get x) (x_redis_set x) (x_redis_setnx x) (x_redis_del x) (x_redis_expire x)"

section \<open>A store with expiry times\<close>

type_synonym kv = "string \<Rightarrow> (string \<times> time) option"

definition kv_get :: "kv \<Rightarrow> time \<Rightarrow> string \<Rightarrow> string option" where
  "kv_get k t key = (case k key of None \<Rightarrow> None | Some (v, e) \<Rightarrow> if t < e then Some v else None)"

definition kv_set :: "kv \<Rightarrow> time \<Rightarrow> string \<Rightarrow> string \<Rightarrow> duration \<Rightarrow> kv" where
  "kv_set k t key v ttl = k(key \<mapsto> (v, t + ttl))"

definition kv_setnx :: "kv \<Rightarrow> time \<Rightarrow> string \<Rightarrow> string \<Rightarrow> duration \<Rightarrow> bool \<times> kv" where
  "kv_setnx k t key v ttl = (if kv_get k t key = None then (True, kv_set k t key v ttl) else (False, k))"

definition kv_del :: "kv \<Rightarrow> time \<Rightarrow> string \<Rightarrow> kv" where
  "kv_del k t key = k(key := None)"

definition kv_expire :: "kv \<Rightarrow> time \<Rightarrow> string \<Rightarrow> duration \<Rightarrow> bool \<times> kv" where
  "kv_expire k t key ttl =
     (case kv_get k t key of None \<Rightarrow> (False, k) | Some v \<Rightarrow> (True, kv_set k t key v ttl))"

lemmas kv_defs = kv_get_def kv_set_def kv_setnx_def kv_del_def kv_expire_def

interpretation kv: redis_server kv_get kv_set kv_setnx kv_del kv_expire
  by unfold_locales (auto simp: kv_defs split: option.splits if_splits prod.splits)

section \<open>pkg/redis: the client\<close>

record RedisClientConfig =
  rc_Host :: string
  rc_Port :: int
  rc_Password :: string
  rc_DB :: int
  rc_MaxRetries :: int

definition redis_addr :: "RedisClientConfig \<Rightarrow> string" where
  "redis_addr c = rc_Host c @ '':'' @ show_int (rc_Port c)"

definition redis_validate :: "RedisClientConfig \<Rightarrow> goerr option" where
  "redis_validate c =
     (if rc_Host c = [] then Some (ErrNew ''redis host is required'')
      else if rc_Port c = 0 then Some (ErrNew ''redis port is required'')
      else None)"

text \<open>
  The commands as remote calls on the world; \<open>rdb_Get\<close> answers \<open>None\<close> for \<open>redis.Nil\<close>.
\<close>

definition rdb_Get :: "string \<Rightarrow> ('k, string option) io" where
  "rdb_Get key = query (\<lambda>w. Inr (x_redis_get (w_ext w) (w_redis w) (w_clock w) key))"

definition rdb_Set :: "string \<Rightarrow> string \<Rightarrow> duration \<Rightarrow> ('k, unit) io" where
  "rdb_Set key v ttl = exec (\<lambda>w. w\<lparr>w_redis := x_redis_set (w_ext w) (w_redis w) (w_clock w) key v ttl\<rparr>)"

definition rdb_SetNX :: "string \<Rightarrow> string \<Rightarrow> duration \<Rightarrow> ('k, bool) io" where
  "rdb_SetNX key v ttl = remote (\<lambda>w.
     let r = x_redis_setnx (w_ext w) (w_redis w) (w_clock w) key v ttl in
     (Inr (fst r), w\<lparr>w_redis := snd r\<rparr>))"

definition rdb_Expire :: "string \<Rightarrow> duration \<Rightarrow> ('k, bool) io" where
  "rdb_Expire key ttl = remote (\<lambda>w.
     let r = x_redis_expire (w_ext w) (w_redis w) (w_clock w) key ttl in
     (Inr (fst r), w\<lparr>w_redis := snd r\<rparr>))"

definition rdb_Del :: "string list \<Rightarrow> ('k, unit) io" where
  "rdb_Del keys = exec (\<lambda>w.
     w\<lparr>w_redis := fold (\<lambda>key k. x_redis_del (w_ext w) k (w_clock w) key) keys (w_redis w)\<rparr>)"

section \<open>pkg/lock\<close>

definition releaseScript :: "'k externals \<Rightarrow> 'k \<Rightarrow> time \<Rightarrow> string \<Rightarrow> string \<Rightarrow> 'k" where
  "releaseScript x k t key arg =
     (if x_redis_get x k t key = Some arg then x_redis_del x k t key else k)"

definition Acquire :: "string \<Rightarrow> string \<Rightarrow> duration \<Rightarrow> ('k, bool) io" where
  "Acquire key v ttl = rdb_SetNX key v ttl"

definition Release :: "string \<Rightarrow> string \<Rightarrow> ('k, unit) io" where
  "Release key v = exec (\<lambda>w. w\<lparr>w_redis := releaseScript (w_ext w) (w_redis w) (w_clock w) key v\<rparr>)"

section \<open>pkg/idempotency\<close>

definition DefaultTTL :: duration where
  "DefaultTTL = 24 * Hour"

definition Check :: "string \<Rightarrow> ('k, string \<times> bool) io" where
  "Check key = do {
     r \<leftarrow> rdb_Get key;
     State_Monad.return (case r of
         Inl err \<Rightarrow> Inl err
       | Inr None \<Rightarrow> Inr ('''', False)
       | Inr (Some v) \<Rightarrow> Inr (v, True))
   }"

definition Save :: "string \<Rightarrow> string \<Rightarrow> duration \<Rightarrow> ('k, unit) io" where
  "Save key response ttl = rdb_Set key response ttl"

section \<open>None of this touches the database\<close>

lemma leaves_db_rdb [quiet_intros]:
  "leaves_db (rdb_Get key)" "leaves_db (rdb_Set key v ttl)" "leaves_db (rdb_SetNX key v ttl)"
  "leaves_db (rdb_Expire key ttl)" "leaves_db (rdb_Del keys)"
  unfolding rdb_Get_def rdb_Set_def rdb_SetNX_def rdb_Expire_def rdb_Del_def exec_def
  by (intro leaves_db_query leaves_db_remote; simp add: Let_def)+

lemma leaves_db_lock [quiet_intros]: "leaves_db (Acquire key v ttl)" "leaves_db (Release key v)"
  unfolding Acquire_def Release_def exec_def
  by (intro quiet_intros leaves_db_remote; simp)+

lemma leaves_db_idempotency [quiet_intros]: "leaves_db (Check key)" "leaves_db (Save key v ttl)"
  unfolding Check_def Save_def by (intro quiet_intros)+

lemma ttl_pos [simp]: "0 < DefaultTTL"
  by (simp add: DefaultTTL_def Minute_def Hour_def Second_def)

section \<open>Under the documented behaviour of the server\<close>

lemma redis_None_later:
  "redis_ok (w_ext w) \<Longrightarrow> x_redis_get (w_ext w) k t key = None \<Longrightarrow> t \<le> t' \<Longrightarrow> x_redis_get (w_ext w) k t' key = None"
  unfolding redis_ok_def by (rule redis_server.get_future_None)

lemma Check_miss:
  assumes "reliable w" "redis_ok (w_ext w)"
    and "x_redis_get (w_ext w) (w_redis w) (w_clock w) key = None"
  shows "wp (Check key) Q w = Q (Inr ('''', False)) (arrive w)"
  using assms redis_server.get_future_None [OF assms(2) [unfolded redis_ok_def] arrive_clock assms(3)]
  by (simp add: Check_def rdb_Get_def wp_simps)

section \<open>Idempotent requests\<close>

text \<open>
  The contract of the operations that take an idempotency key: while the key is in the store,
  the operation is a query for what was stored under the key. \<open>store_name\<close> is the key's name in
  Redis and \<open>stored\<close> the answer of the query.
\<close>

locale idempotent_request =
  fixes run :: "string \<Rightarrow> ('k, 'a) io"
    and store_name :: "string \<Rightarrow> string"
    and stored :: "'k world \<Rightarrow> string \<Rightarrow> goerr + 'a"
  assumes on_hit: "reliable w \<Longrightarrow>
      x_redis_get (w_ext w) (w_redis w) (w_clock (arrive w)) (store_name key) \<noteq> None \<Longrightarrow>
      wp (run key) Q w = Q (stored w key) (arrive (arrive w))"
    and stored_same: "db_same w w' \<Longrightarrow> stored w' key = stored w key"
begin

definition remembered :: "'k world \<Rightarrow> string \<Rightarrow> time \<Rightarrow> bool" where
  "remembered w key T \<longleftrightarrow>
     (\<forall>t. w_clock w \<le> t \<longrightarrow> t < T \<longrightarrow> x_redis_get (w_ext w) (w_redis w) t (store_name key) \<noteq> None)"

lemma replay:
  assumes "reliable w" "remembered w key T" "w_clock (arrive w) < T"
  shows "wp (run key) (\<lambda>res w'. res = stored w key \<and> db_same w w' \<and> reliable w' \<and> remembered w' key T) w"
proof -
  have "w_clock w \<le> t" if "w_clock (arrive (arrive w)) \<le> t" for t
    using that arrive_clock [of w] arrive_clock [of "arrive w"] by linarith
  then show ?thesis
    using assms arrive_clock [of w] by (subst on_hit) (auto simp: remembered_def)
qed

text \<open>Two repetitions agree, and what the second one sees was not changed by the first.\<close>

lemma replay_twice:
  assumes "reliable w" "remembered w key T" "w_clock (arrive w) < T"
  shows "wp (run key) (\<lambda>res w1. w_clock (arrive w1) < T \<longrightarrow>
     wp (run key) (\<lambda>res' w2. res' = res \<and> db_same w w2) w1) w"
  by (rule wp_mono [OF replay [OF assms]])
    (auto intro!: wp_mono [OF replay [where T = T]] simp: stored_same intro: db_same_trans)

end

end
