(* ===== verification/Sql.thy ===== *)
theory Sql
  imports Prelude
begin

text \<open>
  SQL on lists of rows, shared by the repositories: an \<open>UPDATE\<close> rewrites the rows its \<open>WHERE\<close>
  clause selects, a query that is scanned with \<open>QueryRow\<close> yields its first row. Rows stand in
  the order of their insertion, and a query without \<open>ORDER BY\<close> returns them so. A table with a
  key column is described by the locale \<open>keyed_table\<close>.
\<close>

definition update_where :: "('r \<Rightarrow> bool) \<Rightarrow> ('r \<Rightarrow> 'r) \<Rightarrow> 'r list \<Rightarrow> 'r list" where
  "update_where P f rows = map (\<lambda>r. if P r then f r else r) rows"

lemma set_update_where: "set (update_where P f rows) = {r'. \<exists>r \<in> set rows. r' = (if P r then f r else r)}"
  by (auto simp: update_where_def)

lemma update_where_key [simp]:
  "(\<And>r. P r \<Longrightarrow> k (f r) = k r) \<Longrightarrow> map k (update_where P f rows) = map k rows"
  by (simp add: update_where_def)

lemma length_update_where [simp]: "length (update_where P f rows) = length rows"
  by (simp add: update_where_def)

lemma update_where_none: "(\<And>r. r \<in> set rows \<Longrightarrow> \<not> P r) \<Longrightarrow> update_where P f rows = rows"
  by (induction rows) (auto simp: update_where_def)

text \<open>The first row of a query, or \<open>pgx.ErrNoRows\<close>: \<open>QueryRow(..).Scan(..)\<close>.\<close>

definition first_row :: "'a list \<Rightarrow> goerr + 'a" where
  "first_row rows = (case rows of [] \<Rightarrow> Inl ErrNoRows | r # _ \<Rightarrow> Inr r)"

text \<open>Scanning a count into an \<open>int32\<close>.\<close>

definition scan_int32 :: "int \<Rightarrow> goerr + int" where
  "scan_int32 n = (if n < 2 ^ 31 then Inr n else Inl (ErrNew ''is greater than maximum value for int4''))"

lemma distinct_filter_key:
  "distinct (map key xs) \<Longrightarrow> x \<in> set xs \<Longrightarrow> filter (\<lambda>y. key y = key x) xs = [x]"
  by (induction xs) (auto simp: filter_empty_conv image_iff)

lemma filter_key_none: "k \<notin> key ` set xs \<Longrightarrow> filter (\<lambda>y. key y = k) xs = []"
  by (auto simp: filter_empty_conv)

lemma filter_update_where:
  "(\<And>r. r \<in> set rows \<Longrightarrow> P r \<Longrightarrow> Q (f r) = Q r) \<Longrightarrow>
     filter Q (update_where P f rows) = update_where P f (filter Q rows)"
  by (induction rows) (auto simp: update_where_def)

section \<open>Tables with a key\<close>

text \<open>
  What a repository relies on for a column that is a primary key or \<open>UNIQUE\<close>: a query by that
  column finds the one row, an update through it changes that row and no other.
\<close>

locale keyed_table =
  fixes key :: "'r \<Rightarrow> 'k"
    and rows :: "'w \<Rightarrow> 'r list"
    and ok :: "'w \<Rightarrow> bool"
  assumes unique: "ok w \<Longrightarrow> distinct (map key (rows w))"
begin

definition find_key :: "'w \<Rightarrow> 'k \<Rightarrow> 'r list" where
  "find_key w k = filter (\<lambda>r. key r = k) (rows w)"

lemma find_present: "ok w \<Longrightarrow> row \<in> set (rows w) \<Longrightarrow> filter (\<lambda>r. key r = key row) (rows w) = [row]"
  by (rule distinct_filter_key [OF unique])

lemma find_absent: "k \<notin> key ` set (rows w) \<Longrightarrow> filter (\<lambda>r. key r = k) (rows w) = []"
  by (rule filter_key_none)

lemma first_present: "ok w \<Longrightarrow> row \<in> set (rows w) \<Longrightarrow> first_row (filter (\<lambda>r. key r = key row) (rows w)) = Inr row"
  by (simp add: find_present first_row_def)

lemma first_absent: "k \<notin> key ` set (rows w) \<Longrightarrow> first_row (filter (\<lambda>r. key r = k) (rows w)) = Inl ErrNoRows"
  by (simp add: find_absent first_row_def)

lemma at_most_one: "ok w \<Longrightarrow> length (find_key w k) \<le> 1"
  using find_present [of w] find_absent [of k w] unfolding find_key_def
  by (cases "k \<in> key ` set (rows w)") auto

lemma update_other:
  "row \<in> set (rows w) \<Longrightarrow> key row \<noteq> k \<Longrightarrow> row \<in> set (update_where (\<lambda>r. key r = k) f (rows w))"
  by (force simp: update_where_def)

lemma update_one:
  "ok w \<Longrightarrow> row \<in> set (rows w) \<Longrightarrow> r' \<in> set (update_where (\<lambda>r. key r = key row) f (rows w)) \<Longrightarrow>
     r' = f row \<or> r' \<in> set (rows w) \<and> key r' \<noteq> key row"
  using unique [of w] by (auto simp: set_update_where distinct_map dest: inj_onD split: if_splits)

end

end
