(* ===== verification/ReservationRepo.thy ===== *)
theory ReservationRepo
  imports RedisStore Sql "HOL-Library.Product_Lexorder"
begin

text \<open>
  \<open>services/reservation/internal/repository/repository.go\<close>: the SQL statements of the
  reservation service on the tables \<open>reservations\<close> and \<open>spots\<close>. A query is a comprehension
  over the rows, \<open>ORDER BY floor, number\<close> a stable sort; an \<open>UPDATE\<close> rewrites the rows its
  \<open>WHERE\<close> clause selects, an \<open>INSERT\<close> checks the constraints of the migrations first.
\<close>

section \<open>Scanning\<close>

definition spot_of_row :: "spot_row \<Rightarrow> Spot" where
  "spot_of_row s = \<lparr>s_SpotID = sr_id s, s_Floor = sr_floor s, s_SpotNumber = sr_number s,
     s_VehicleType = sr_vehicle_type s\<rparr>"

definition scanReservation :: "reservation_row \<Rightarrow> spot_row \<Rightarrow> Reservation" where
  "scanReservation r s =
     \<lparr>r_ReservationID = rr_id r, r_DriverID = rr_driver_id r, r_Spot = spot_of_row s,
      r_Status = rr_status r, r_AssignmentMode = rr_assignment_mode r,
      r_ConfirmedAt = rr_confirmed_at r, r_ExpiresAt = rr_expires_at r,
      r_CheckInAt = rr_check_in_at r, r_CheckOutAt = rr_check_out_at r,
      r_CancelledAt = rr_cancelled_at r,
      r_SessionID = (case rr_session_id r of None \<Rightarrow> '''' | Some s \<Rightarrow> s),
      r_IdempotencyKey = rr_idempotency_key r\<rparr>"

text \<open>\<open>FROM reservations r JOIN spots s ON s.id = r.spot_id WHERE ..\<close>\<close>

definition select_reservations :: "(reservation_row \<Rightarrow> bool) \<Rightarrow> 'k world \<Rightarrow> Reservation list" where
  "select_reservations P w =
     [scanReservation r s. r \<leftarrow> w_reservations w, P r, s \<leftarrow> w_spots w, sr_id s = rr_spot_id r]"

definition scan_first :: "Reservation list \<Rightarrow> goerr + Reservation" where
  "scan_first rows = (case first_row rows of
     Inl err \<Rightarrow> Inl (ErrWrap ''scan reservation: '' err) | Inr r \<Rightarrow> Inr r)"

section \<open>Reservations\<close>

definition InsertReservation :: "Reservation \<Rightarrow> ('k, unit) io" where
  "InsertReservation res = remote (\<lambda>w.
     let row = \<lparr>rr_id = r_ReservationID res, rr_driver_id = r_DriverID res,
                rr_spot_id = s_SpotID (r_Spot res), rr_status = r_Status res,
                rr_assignment_mode = r_AssignmentMode res,
                rr_idempotency_key = r_IdempotencyKey res,
                rr_confirmed_at = pg_timestamp (r_ConfirmedAt res),
                rr_expires_at = pg_timestamp (r_ExpiresAt res),
                rr_check_in_at = None, rr_check_out_at = None, rr_cancelled_at = None,
                rr_session_id = None\<rparr>
     in if rr_id row \<in> rr_id ` set (w_reservations w)
        then (Inl (ErrNew (x_unique_violation (w_ext w) ''reservations_pkey'')), w)
        else if rr_idempotency_key row \<in> rr_idempotency_key ` set (w_reservations w)
        then (Inl (ErrNew (x_unique_violation (w_ext w) ''reservations_idempotency_key_key'')), w)
        else if rr_spot_id row \<notin> sr_id ` set (w_spots w)
        then (Inl (ErrNew (x_foreign_key_violation (w_ext w) ''reservations_spot_id_fkey'')), w)
        else (Inr (), w\<lparr>w_reservations := w_reservations w @ [row]\<rparr>))"

definition repo_GetReservation :: "string \<Rightarrow> ('k, Reservation) io" where
  "repo_GetReservation reservationID =
     query (\<lambda>w. scan_first (select_reservations (\<lambda>r. rr_id r = reservationID) w))"

definition repo_GetActiveReservation :: "string \<Rightarrow> ('k, Reservation option) io" where
  "repo_GetActiveReservation driverID = do {
     res \<leftarrow> query (\<lambda>w. scan_first (select_reservations
              (\<lambda>r. rr_driver_id r = driverID \<and> rr_status r \<in> {StatusConfirmed, StatusActive}) w));
     State_Monad.return (case res of
         Inl err \<Rightarrow> if is_no_rows err then Inr None else Inl err
       | Inr r \<Rightarrow> Inr (Some r))
   }"

definition repo_GetByIdempotencyKey :: "string \<Rightarrow> ('k, Reservation) io" where
  "repo_GetByIdempotencyKey key =
     query (\<lambda>w. scan_first (select_reservations (\<lambda>r. rr_idempotency_key r = key) w))"

definition update_reservations ::
  "string \<Rightarrow> (reservation_row \<Rightarrow> reservation_row) \<Rightarrow> 'k world \<Rightarrow> 'k world" where
  "update_reservations reservationID f w =
     w\<lparr>w_reservations := update_where (\<lambda>r. rr_id r = reservationID) f (w_reservations w)\<rparr>"

definition UpdateStatus :: "string \<Rightarrow> ReservationStatus \<Rightarrow> ('k, unit) io" where
  "UpdateStatus reservationID status =
     exec (update_reservations reservationID (\<lambda>r. r\<lparr>rr_status := status\<rparr>))"

definition UpdateConfirmed :: "string \<Rightarrow> time \<Rightarrow> time \<Rightarrow> ('k, unit) io" where
  "UpdateConfirmed reservationID confirmedAt expiresAt =
     exec (update_reservations reservationID (\<lambda>r. r\<lparr>rr_status := StatusConfirmed,
       rr_confirmed_at := pg_timestamp confirmedAt, rr_expires_at := pg_timestamp expiresAt\<rparr>))"

definition UpdateCheckIn :: "string \<Rightarrow> string \<Rightarrow> time \<Rightarrow> ('k, unit) io" where
  "UpdateCheckIn reservationID sessionID checkInAt =
     exec (update_reservations reservationID (\<lambda>r. r\<lparr>rr_status := StatusActive,
       rr_session_id := Some sessionID, rr_check_in_at := Some (pg_timestamp checkInAt)\<rparr>))"

definition UpdateCheckOut :: "string \<Rightarrow> time \<Rightarrow> ('k, unit) io" where
  "UpdateCheckOut reservationID checkOutAt =
     exec (update_reservations reservationID (\<lambda>r. r\<lparr>rr_status := StatusCompleted,
       rr_check_out_at := Some (pg_timestamp checkOutAt)\<rparr>))"

definition UpdateCancelled :: "string \<Rightarrow> time \<Rightarrow> ('k, unit) io" where
  "UpdateCancelled reservationID cancelledAt =
     exec (update_reservations reservationID (\<lambda>r. r\<lparr>rr_status := StatusCancelled,
       rr_cancelled_at := Some (pg_timestamp cancelledAt)\<rparr>))"

definition repo_ListExpiredReservations :: "time \<Rightarrow> ('k, Reservation list) io" where
  "repo_ListExpiredReservations before =
     query (\<lambda>w. Inr (select_reservations
       (\<lambda>r. rr_status r \<in> {StatusConfirmed, StatusPending} \<and> rr_expires_at r < pg_timestamp before) w))"

section \<open>Spots\<close>

definition spot_order :: "spot_row \<Rightarrow> int \<times> int" where
  "spot_order s = (sr_floor s, sr_number s)"

definition select_spots :: "(spot_row \<Rightarrow> bool) \<Rightarrow> 'k world \<Rightarrow> Spot list" where
  "select_spots P w = map spot_of_row (sort_key spot_order (filter P (w_spots w)))"

text \<open>Row locks of the statement's own transaction are gone when it returns.\<close>

definition FindAvailableSpot :: "VehicleType \<Rightarrow> ('k, Spot option) io" where
  "FindAvailableSpot vehicleType = do {
     s \<leftarrow> query (\<lambda>w. first_row (select_spots
            (\<lambda>s. sr_vehicle_type s = vehicleType \<and> sr_status s = SpotAvailable) w));
     State_Monad.return (case s of
         Inl err \<Rightarrow> if is_no_rows err then Inr None else Inl err
       | Inr s \<Rightarrow> Inr (Some s))
   }"

definition GetSpot :: "string \<Rightarrow> ('k, Spot option) io" where
  "GetSpot spotID = do {
     s \<leftarrow> query (\<lambda>w. first_row (map spot_of_row
            (filter (\<lambda>s. sr_id s = spotID \<and> sr_status s = SpotAvailable) (w_spots w))));
     State_Monad.return (case s of
         Inl err \<Rightarrow> if is_no_rows err then Inr None else Inl err
       | Inr s \<Rightarrow> Inr (Some s))
   }"

definition CountAvailable :: "VehicleType \<Rightarrow> ('k, int) io" where
  "CountAvailable vehicleType = query (\<lambda>w. scan_int32 (int (length
     (filter (\<lambda>s. sr_vehicle_type s = vehicleType \<and> sr_status s = SpotAvailable) (w_spots w)))))"

definition repo_ListAvailableSpots :: "VehicleType \<Rightarrow> int \<Rightarrow> ('k, Spot list) io" where
  "repo_ListAvailableSpots vehicleType flr =
     query (\<lambda>w. Inr (select_spots (\<lambda>s. sr_vehicle_type s = vehicleType \<and> sr_status s = SpotAvailable
       \<and> (flr > 0 \<longrightarrow> sr_floor s = flr)) w))"

end
