(* ===== verification/Mq.thy ===== *)
theory Mq
  imports World
begin

text \<open>
  The event bus: \<open>pkg/mq/mq.go\<close> and the reservation service's
  \<open>internal/publisher/publisher.go\<close>. Publishing hands a message with its routing key to the
  broker. A consumer's queue is bound to a list of routing keys and its loop takes the
  deliveries one by one: a body that does not decode and a handler that fails are both
  answered by \<open>Nack\<close> without requeue, everything else by \<open>Ack\<close>. The envelope (event name,
  time, payload) travels as a record; a delivery whose body is no envelope is \<open>None\<close>.
\<close>

section \<open>pkg/mq\<close>

definition EventReservationConfirmed :: string where
  "EventReservationConfirmed = ''reservation.confirmed''"
definition EventReservationExpired :: string where
  "EventReservationExpired = ''reservation.expired''"
definition EventReservationCancelled :: string where
  "EventReservationCancelled = ''reservation.cancelled''"
definition EventCheckInDetected :: string where
  "EventCheckInDetected = ''checkin.detected''"
definition EventCheckOutCompleted :: string where
  "EventCheckOutCompleted = ''checkout.completed''"

lemmas event_defs = EventReservationConfirmed_def EventReservationExpired_def
  EventReservationCancelled_def EventCheckInDetected_def EventCheckOutCompleted_def

definition Publish :: "string \<Rightarrow> json \<Rightarrow> ('k, unit) io" where
  "Publish routingKey payload = do {
     now \<leftarrow> time_Now;
     let msg = \<lparr>m_Event = routingKey, m_Timestamp = now, m_Payload = payload\<rparr>;
     exec (\<lambda>w. w\<lparr>w_published := w_published w @ [msg]\<rparr>)
   }"

text \<open>The exchange is a topic exchange, but no binding uses a wildcard.\<close>

definition bound_messages :: "string list \<Rightarrow> message list \<Rightarrow> message list" where
  "bound_messages routingKeys msgs = filter (\<lambda>m. m_Event m \<in> set routingKeys) msgs"

datatype verdict = Ack | Nack

fun consume :: "(message \<Rightarrow> ('k, unit) io) \<Rightarrow> message option list \<Rightarrow> ('k, verdict list) prog" where
  "consume handler [] = State_Monad.return []"
| "consume handler (None # ds) = do {
     vs \<leftarrow> consume handler ds;
     State_Monad.return (Nack # vs)
   }"
| "consume handler (Some msg # ds) = do {
     err \<leftarrow> handler msg;
     vs \<leftarrow> consume handler ds;
     State_Monad.return ((case err of Inl _ \<Rightarrow> Nack | Inr _ \<Rightarrow> Ack) # vs)
   }"

text \<open>Every delivery is answered exactly once, an undecodable one by \<open>Nack\<close>.\<close>

lemma consume_length: "length (fst (run_state (consume handler ds) w)) = length ds"
  by (induction handler ds arbitrary: w rule: consume.induct) (simp_all add: case_prod_beta)

lemma consume_undecodable:
  "i < length ds \<Longrightarrow> ds ! i = None \<Longrightarrow> fst (run_state (consume handler ds) w) ! i = Nack"
proof (induction handler ds arbitrary: w i rule: consume.induct)
  case (2 handler ds)
  then show ?case by (cases i) (simp_all add: case_prod_beta)
next
  case (3 handler msg ds)
  then show ?case by (cases i) (simp_all add: case_prod_beta)
qed simp

text \<open>A handler that keeps an invariant keeps it over a whole run of the consumer.\<close>

lemma consume_invariant:
  assumes "\<And>msg w. I w \<Longrightarrow> I (snd (run_state (handler msg) w))" "I w"
  shows "I (snd (run_state (consume handler ds) w))"
  using assms
  by (induction handler ds arbitrary: w rule: consume.induct) (simp_all add: case_prod_beta)

section \<open>The publisher of the reservation service\<close>

record ReservationEvent =
  ev_ReservationID :: string
  ev_DriverID :: string
  ev_SpotID :: string
  ev_Floor :: int
  ev_SpotNumber :: int
  ev_VehicleType :: string
  ev_SessionID :: string
  ev_Status :: string

definition fromDomain :: "Reservation \<Rightarrow> ReservationEvent" where
  "fromDomain r = \<lparr>ev_ReservationID = r_ReservationID r, ev_DriverID = r_DriverID r,
     ev_SpotID = s_SpotID (r_Spot r), ev_Floor = s_Floor (r_Spot r),
     ev_SpotNumber = s_SpotNumber (r_Spot r), ev_VehicleType = vehicle_string (s_VehicleType (r_Spot r)),
     ev_SessionID = r_SessionID r, ev_Status = status_string (r_Status r)\<rparr>"

text \<open>\<open>json.Marshal\<close> of the event: the fields under their tags, \<open>session_id\<close> only when not empty.\<close>

definition marshal_event :: "ReservationEvent \<Rightarrow> json" where
  "marshal_event e = JObj ([
       (''reservation_id'', JStr (ev_ReservationID e)),
       (''driver_id'', JStr (ev_DriverID e)),
       (''spot_id'', JStr (ev_SpotID e)),
       (''floor'', JNum (ev_Floor e)),
       (''spot_number'', JNum (ev_SpotNumber e)),
       (''vehicle_type'', JStr (ev_VehicleType e))]
     @ (if ev_SessionID e = [] then [] else [(''session_id'', JStr (ev_SessionID e))])
     @ [(''status'', JStr (ev_Status e))])"

text \<open>
  \<open>domain.EventPublisher\<close> has three implementations: the one on the broker, and the two that
  do nothing (\<open>NoopPublisher\<close> of the package's test entry, \<open>stubPublisher\<close> of \<open>main\<close>, used
  when the broker cannot be reached at the start).
\<close>

datatype EventPublisher = MQPublisher | NoopPublisher | stubPublisher

definition publish :: "EventPublisher \<Rightarrow> string \<Rightarrow> Reservation \<Rightarrow> ('k, unit) io" where
  "publish p event r = (case p of
       MQPublisher \<Rightarrow> Publish event (marshal_event (fromDomain r))
     | NoopPublisher \<Rightarrow> State_Monad.return (Inr ())
     | stubPublisher \<Rightarrow> State_Monad.return (Inr ()))"

definition PublishReservationConfirmed :: "EventPublisher \<Rightarrow> Reservation \<Rightarrow> ('k, unit) io" where
  "PublishReservationConfirmed p r = publish p EventReservationConfirmed r"

definition PublishReservationExpired :: "EventPublisher \<Rightarrow> Reservation \<Rightarrow> ('k, unit) io" where
  "PublishReservationExpired p r = publish p EventReservationExpired r"

definition PublishReservationCancelled :: "EventPublisher \<Rightarrow> Reservation \<Rightarrow> ('k, unit) io" where
  "PublishReservationCancelled p r = publish p EventReservationCancelled r"

definition PublishCheckInDetected :: "EventPublisher \<Rightarrow> Reservation \<Rightarrow> ('k, unit) io" where
  "PublishCheckInDetected p r = publish p EventCheckInDetected r"

definition PublishCheckOutCompleted :: "EventPublisher \<Rightarrow> Reservation \<Rightarrow> ('k, unit) io" where
  "PublishCheckOutCompleted p r = publish p EventCheckOutCompleted r"

lemmas Publish_defs = PublishReservationConfirmed_def PublishReservationExpired_def
  PublishReservationCancelled_def PublishCheckInDetected_def PublishCheckOutCompleted_def

section \<open>The contract of a publisher\<close>

text \<open>
  What the use cases rely on: publishing touches neither the tables nor Redis, and time does
  not run backwards. \<open>quiet\<close> says that a step of the world is of that kind.
\<close>

definition quiet :: "'k world \<Rightarrow> 'k world \<Rightarrow> bool" where
  "quiet w w' \<longleftrightarrow> w_ext w' = w_ext w \<and> w_clock w \<le> w_clock w' \<and> w_uuids w' = w_uuids w
     \<and> w_redis w' = w_redis w \<and> w_spots w' = w_spots w \<and> w_drivers w' = w_drivers w
     \<and> w_reservations w' = w_reservations w \<and> w_invoices w' = w_invoices w
     \<and> w_transactions w' = w_transactions w \<and> w_locations w' = w_locations w
     \<and> w_notifications w' = w_notifications w"

lemma quiet_db_same: "quiet w w' \<Longrightarrow> db_same w w'"
  by (simp add: quiet_def db_same_def)

locale event_publisher =
  fixes pub :: "Reservation \<Rightarrow> ('k, unit) io"
  assumes pub_quiet: "quiet w (snd (run_state (pub r) w))"
    and pub_reliable: "reliable w \<Longrightarrow> fst (run_state (pub r) w) = Inr () \<and> reliable (snd (run_state (pub r) w))"
begin

lemma wp_pub: "(\<And>x w'. quiet w w' \<Longrightarrow> Q x w') \<Longrightarrow> wp (pub r) Q w"
  using pub_quiet by (simp add: wp_fst_snd)

lemma wp_pub_reliable:
  "reliable w \<Longrightarrow> (\<And>w'. quiet w w' \<Longrightarrow> reliable w' \<Longrightarrow> Q (Inr ()) w') \<Longrightarrow> wp (pub r) Q w"
  using pub_quiet pub_reliable by (simp add: wp_fst_snd)

end

lemma pass_clock_arrive: "w_clock w \<le> w_clock (arrive (pass w))"
  using pass_clock [of w] arrive_clock [of "pass w"] by linarith

lemma publish_quiet: "wp (publish p event r) (\<lambda>x w'. quiet w w') w"
  using pass_clock_arrive [of w]
  by (auto simp: publish_def Publish_def wp_simps Let_def quiet_def split: EventPublisher.split fate.split)

lemma publish_reliable:
  "reliable w \<Longrightarrow> wp (publish p event r) (\<lambda>x w'. x = Inr () \<and> reliable w') w"
  by (auto simp: publish_def Publish_def wp_simps Let_def split: EventPublisher.split)

interpretation pubs: event_publisher "publish p event" for p event
  using publish_quiet publish_reliable by unfold_locales (simp_all add: wp_fst_snd)

lemma leaves_db_publish [quiet_intros]: "leaves_db (publish p event r)"
  unfolding leaves_db_def by (intro allI pubs.wp_pub quiet_db_same)

end
