(* ===== verification/Pricing.thy ===== *)
theory Pricing
  imports GoTime
begin

text \<open>
  The pricing engine, \<open>pkg/pricing/pricing.go\<close>: the fees as constants, the number of billed
  hours (computed by the code through \<open>float64\<close> minutes), the overnight test (computed
  through civil dates in WIB), the breakdown of a session and the cancellation fee. The
  lemmas replace each computation by an exact integer description.
\<close>

section \<open>The engine\<close>

definition BookingFee :: int where "BookingFee = 5000"
definition HourlyRate :: int where "HourlyRate = 5000"
definition OvernightFee :: int where "OvernightFee = 20000"
definition CancellationFree :: int where "CancellationFree = 0"
definition CancellationFee :: int where "CancellationFee = 5000"
definition NoShowFee :: int where "NoShowFee = 0"
definition FreeCancelWindow :: duration where "FreeCancelWindow = 2 * Minute"

lemmas fee_defs = BookingFee_def HourlyRate_def OvernightFee_def CancellationFree_def
  CancellationFee_def NoShowFee_def

record Result =
  res_BookingFee :: int
  res_ParkingFee :: int
  res_OvernightFee :: int
  res_TotalAmount :: int
  res_BilledHours :: int
  res_IsOvernight :: bool

definition BilledHours :: "time \<Rightarrow> time \<Rightarrow> int" where
  "BilledHours checkIn checkOut =
     (let mins = minutes_int (Sub checkOut checkIn) in
      if mins \<le> 0 then 0
      else
        let hours = i64 (mins + 59) sdiv 60;
            hours = (if hours > 720 then 720 else hours)
        in i32 hours)"

definition IsOvernight :: "time \<Rightarrow> time \<Rightarrow> bool" where
  "IsOvernight checkIn checkOut =
     (let inDate = midnight_wib (date_in_wib checkIn);
          outDate = midnight_wib (date_in_wib checkOut)
      in After outDate inDate)"

definition Calculate :: "time \<Rightarrow> time \<Rightarrow> Result" where
  "Calculate checkIn checkOut =
     (let billed = BilledHours checkIn checkOut;
          overnight = IsOvernight checkIn checkOut;
          parkingFee = i64 (billed * HourlyRate);
          overnightFee = (if overnight then OvernightFee else 0)
      in \<lparr>res_BookingFee = BookingFee, res_ParkingFee = parkingFee,
          res_OvernightFee = overnightFee, res_TotalAmount = i64 (parkingFee + overnightFee),
          res_BilledHours = billed, res_IsOvernight = overnight\<rparr>)"

definition CalculateCancellationFee :: "time \<Rightarrow> time \<Rightarrow> bool \<Rightarrow> int" where
  "CalculateCancellationFee confirmedAt cancelledAt isNoShow =
     (if isNoShow then NoShowFee
      else if Sub cancelledAt confirmedAt \<le> FreeCancelWindow then CancellationFree
      else CancellationFee)"

section \<open>Billed hours\<close>

text \<open>What the code promises: the whole minutes, rounded up to hours, at most 720.\<close>

definition whole_minutes :: "time \<Rightarrow> time \<Rightarrow> int" where
  "whole_minutes checkIn checkOut = (checkOut - checkIn) div Minute"

definition billed_spec :: "time \<Rightarrow> time \<Rightarrow> int" where
  "billed_spec checkIn checkOut =
     (if checkOut \<le> checkIn then 0 else min 720 ((whole_minutes checkIn checkOut + 59) div 60))"

lemma billed_of_minutes:
  assumes "0 \<le> m" "m < 2 ^ 36"
  shows "(if m \<le> 0 then 0
          else let hours = i64 (m + 59) sdiv 60; hours = (if hours > 720 then 720 else hours) in i32 hours)
    = min 720 ((m + 59) div 60)"
proof -
  have "i64 (m + 59) sdiv 60 = (m + 59) div 60"
    using assms by (simp add: go_int sdiv_nonneg)
  moreover have "0 \<le> (m + 59) div 60" using assms by simp
  moreover have "m = 0 \<Longrightarrow> (m + 59) div 60 = 0" by simp
  ultimately show ?thesis
    using assms by (auto simp: Let_def min_def go_int)
qed

lemma min_720_long: "43200 \<le> m \<Longrightarrow> min 720 ((m + 59) div 60) = (720::int)"
  by simp

lemma BilledHours_spec: "BilledHours checkIn checkOut = billed_spec checkIn checkOut"
proof -
  let ?d = "Sub checkOut checkIn"
  have B: "BilledHours checkIn checkOut = min 720 ((minutes_int ?d + 59) div 60)"
    if "0 \<le> minutes_int ?d" "minutes_int ?d < 2 ^ 36"
    using billed_of_minutes [OF that] by (simp add: BilledHours_def Let_def)
  show ?thesis
  proof (cases "checkOut \<le> checkIn")
    case True
    then have "?d \<le> 0" by (simp add: Sub_le_iff max_duration_def min_duration_def)
    then have "minutes_int ?d \<le> 0" by (intro minutes_int_nonpos) simp_all
    with True show ?thesis by (simp add: BilledHours_def billed_spec_def)
  next
    case False
    then have d: "0 \<le> ?d" "?d \<le> 2 ^ 63" by (auto simp: Sub_def max_duration_def min_duration_def)
    note lower = minutes_int_lower [OF d]
    have nonneg: "0 \<le> ?d div Minute" using d by (simp add: pos_imp_zdiv_nonneg_iff)
    show ?thesis
    proof (cases "?d < 2 ^ 17 * Minute")
      case True
      then have "?d < max_duration" by (simp add: max_duration_def Minute_def Second_def)
      then have exact: "?d = checkOut - checkIn"
        using False by (auto simp: Sub_def min_duration_def max_duration_def)
      have "minutes_int ?d = whole_minutes checkIn checkOut"
        using minutes_int_small [OF d(1) True] exact by (simp add: whole_minutes_def)
      with B lower nonneg False show ?thesis by (simp add: billed_spec_def)
    next
      case big: False
      then have big: "2 ^ 17 * Minute \<le> ?d" by simp
      moreover have "?d \<le> checkOut - checkIn"
        using False by (auto simp: Sub_def min_duration_def max_duration_def)
      ultimately have "2 ^ 17 \<le> ?d div Minute" "2 ^ 17 \<le> whole_minutes checkIn checkOut"
        unfolding whole_minutes_def by (intro le_div_mult; simp)+
      then show ?thesis
        using B lower False by (simp add: billed_spec_def min_720_long)
    qed
  qed
qed

lemma whole_minutes_mono: "out \<le> out' \<Longrightarrow> whole_minutes cin out \<le> whole_minutes cin out'"
  unfolding whole_minutes_def by (intro zdiv_mono1) simp_all

lemma billed_spec_mono: "out \<le> out' \<Longrightarrow> billed_spec cin out \<le> billed_spec cin out'"
proof -
  assume le: "out \<le> out'"
  have "0 \<le> whole_minutes cin out'" if "cin < out'"
    using that by (simp add: whole_minutes_def pos_imp_zdiv_nonneg_iff)
  moreover have "(whole_minutes cin out + 59) div 60 \<le> (whole_minutes cin out' + 59) div 60"
    using whole_minutes_mono [OF le] by (intro zdiv_mono1) simp_all
  ultimately show ?thesis
    using le by (auto simp: billed_spec_def min_def)
qed

lemma billed_spec_bounds: "0 \<le> billed_spec cin out \<and> billed_spec cin out \<le> 720"
  using billed_spec_mono [of cin out cin]
  by (cases "out \<le> cin") (auto simp: billed_spec_def whole_minutes_def pos_imp_zdiv_nonneg_iff)

section \<open>The overnight test\<close>

lemma After_days: "After (a * Day - c) (b * Day - c) \<longleftrightarrow> b < a"
  by (simp add: After_def)

lemma IsOvernight_days: "IsOvernight cin out \<longleftrightarrow> wib_days cin < wib_days out"
  by (simp add: IsOvernight_def midnight_wib_date After_days)

text \<open>Midnights of WIB: the instants a whole number of days from the epoch's midnight there.\<close>

definition is_midnight_wib :: "time \<Rightarrow> bool" where
  "is_midnight_wib t \<longleftrightarrow> (t + wib_offset) mod Day = 0"

lemma is_midnight_wibI: "is_midnight_wib (n * Day - wib_offset)"
  by (simp add: is_midnight_wib_def)

lemma wib_days_mono: "t \<le> u \<Longrightarrow> wib_days t \<le> wib_days u"
  unfolding wib_days_def by (intro zdiv_mono1) simp_all

lemma wib_days_add_Day: "wib_days (t + Day) = wib_days t + 1"
proof -
  have "(t + Day + wib_offset) div Day = ((t + wib_offset) + 1 * Day) div Day"
    by (simp add: algebra_simps)
  also have "\<dots> = 1 + (t + wib_offset) div Day" by (rule div_mult_self1) simp
  finally show ?thesis by (simp add: wib_days_def)
qed

lemma wib_days_bounds: "wib_days t * Day - wib_offset \<le> t \<and> t < (wib_days t + 1) * Day - wib_offset"
  using midnight_wib_date_le [of t] by (simp add: midnight_wib_date algebra_simps)

lemma IsOvernight_midnight:
  "IsOvernight cin out \<longleftrightarrow> (\<exists>m. is_midnight_wib m \<and> cin < m \<and> m \<le> out)"
proof
  assume "IsOvernight cin out"
  then have lt: "wib_days cin + 1 \<le> wib_days out" by (simp add: IsOvernight_days)
  let ?m = "(wib_days cin + 1) * Day - wib_offset"
  have "?m \<le> wib_days out * Day - wib_offset" using lt by (simp add: mult_right_mono)
  also have "\<dots> \<le> out" using wib_days_bounds [of out] by simp
  finally have "?m \<le> out" .
  moreover have "cin < ?m" using wib_days_bounds [of cin] by simp
  ultimately show "\<exists>m. is_midnight_wib m \<and> cin < m \<and> m \<le> out" using is_midnight_wibI by blast
next
  assume "\<exists>m. is_midnight_wib m \<and> cin < m \<and> m \<le> out"
  then obtain m where m: "(m + wib_offset) mod Day = 0" "cin < m" "m \<le> out"
    unfolding is_midnight_wib_def by (elim exE conjE)
  then have M: "m = wib_days m * Day - wib_offset"
    using div_mult_mod_eq [of "m + wib_offset" Day] by (simp add: wib_days_def)
  have "wib_days cin < wib_days m"
  proof (rule ccontr)
    assume "\<not> wib_days cin < wib_days m"
    then have "wib_days m * Day \<le> wib_days cin * Day" by (intro mult_right_mono) simp_all
    with M wib_days_bounds [of cin] m(2) show False by linarith
  qed
  also have "\<dots> \<le> wib_days out" using m(3) by (rule wib_days_mono)
  finally show "IsOvernight cin out" by (simp add: IsOvernight_days)
qed

lemma IsOvernight_after_day: "cin + Day \<le> out \<Longrightarrow> IsOvernight cin out"
proof -
  assume "cin + Day \<le> out"
  from wib_days_mono [OF this] show ?thesis by (simp add: IsOvernight_days wib_days_add_Day)
qed

section \<open>The breakdown and the cancellation fee\<close>

lemma Calculate_spec:
  "Calculate cin out =
    \<lparr>res_BookingFee = 5000, res_ParkingFee = 5000 * billed_spec cin out,
     res_OvernightFee = (if wib_days cin < wib_days out then 20000 else 0),
     res_TotalAmount = 5000 * billed_spec cin out + (if wib_days cin < wib_days out then 20000 else 0),
     res_BilledHours = billed_spec cin out, res_IsOvernight = (wib_days cin < wib_days out)\<rparr>"
proof -
  have b: "0 \<le> billed_spec cin out" "billed_spec cin out \<le> 720"
    using billed_spec_bounds by auto
  then have "i64 (billed_spec cin out * HourlyRate) = 5000 * billed_spec cin out"
    by (simp add: go_int HourlyRate_def)
  moreover have "i64 (5000 * billed_spec cin out + x) = 5000 * billed_spec cin out + x"
    if "0 \<le> x" "x \<le> 20000" for x
    using b that by (simp add: go_int)
  ultimately show ?thesis
    by (simp add: Calculate_def BilledHours_spec IsOvernight_days fee_defs Let_def)
qed

lemma CalculateCancellationFee_spec:
  "CalculateCancellationFee confirmedAt cancelledAt isNoShow =
     (if isNoShow \<or> cancelledAt \<le> confirmedAt + 2 * Minute then 0 else 5000)"
proof -
  have "Sub cancelledAt confirmedAt \<le> FreeCancelWindow \<longleftrightarrow> cancelledAt \<le> confirmedAt + 2 * Minute"
    unfolding FreeCancelWindow_def
    by (rule Sub_le_iff) (simp_all add: max_duration_def min_duration_def Minute_def Second_def)
  then show ?thesis by (simp add: CalculateCancellationFee_def fee_defs)
qed

end
