(* ===== verification/ReservationUsecase.thy ===== *)
theory ReservationUsecase
  imports ReservationRepo Mq Pricing
begin

text \<open>
  \<open>services/reservation/internal/usecase/usecase.go\<close>: the operations of the reservation
  service, one definition per method. \<open>or_return\<close> is the check of the error after a call; a
  call whose error the code discards or only logs is a statement of its own. The publisher
  is an argument, since \<open>main\<close> chooses between the broker and a stub.
\<close>

definition spotLockKey :: "string \<Rightarrow> string" where
  "spotLockKey spotID = ''spot:'' @ spotID @ '':lock''"

text \<open>The key of a request in the idempotency store, and the first block of \<open>CreateReservation\<close>.\<close>

definition store_key :: "string \<Rightarrow> string" where
  "store_key idempotencyKey = ''idempotency:'' @ idempotencyKey"

definition find_spot :: "VehicleType \<Rightarrow> AssignmentMode \<Rightarrow> string \<Rightarrow> ('k, Spot option) io" where
  "find_spot vehicleType mode spotID =
     (if mode = AssignmentModeSelected
      then or_return (GetSpot spotID) (ErrWrap ''get spot: '') ok
      else or_return (FindAvailableSpot vehicleType) (ErrWrap ''find available spot: '') ok)"

text \<open>The last block: the lock is held, the reservation is stored.\<close>

definition store_reservation :: "string \<Rightarrow> string \<Rightarrow> string \<Rightarrow> AssignmentMode \<Rightarrow> Spot \<Rightarrow> ('k, Reservation) io" where
  "store_reservation reservationID driverID idempotencyKey mode spot = do {
     now \<leftarrow> time_Now;
     let r = \<lparr>r_ReservationID = reservationID, r_DriverID = driverID, r_Spot = spot,
              r_Status = StatusPending, r_AssignmentMode = mode, r_ConfirmedAt = now,
              r_ExpiresAt = Add now PaymentTimeout, r_CheckInAt = None,
              r_CheckOutAt = None, r_CancelledAt = None, r_SessionID = '''',
              r_IdempotencyKey = idempotencyKey\<rparr>;
     inserted \<leftarrow> InsertReservation r;
     (case inserted of
        Inl err \<Rightarrow> do {
          _ \<leftarrow> Release (spotLockKey (s_SpotID spot)) reservationID;
          fail (ErrWrap ''insert reservation: '' err)
        }
      | Inr _ \<Rightarrow> do {
          _ \<leftarrow> Save (store_key idempotencyKey) reservationID DefaultTTL;
          ok r
        })
   }"

definition CreateReservation ::
  "string \<Rightarrow> string \<Rightarrow> VehicleType \<Rightarrow> AssignmentMode \<Rightarrow> string \<Rightarrow> ('k, Reservation) io" where
  "CreateReservation driverID idempotencyKey vehicleType mode spotID =
     or_return (Check (store_key idempotencyKey)) (ErrWrap ''idempotency check: '') (\<lambda>(cached, hit).
     if hit then repo_GetByIdempotencyKey idempotencyKey
     else or_return (find_spot vehicleType mode spotID) id (\<lambda>spot. case spot of
          None \<Rightarrow> fail (ErrNew ''no available spot'')
        | Some spot \<Rightarrow> do {
            reservationID \<leftarrow> uuid_New;
            or_return (Acquire (spotLockKey (s_SpotID spot)) reservationID PaymentTimeout)
              (ErrWrap ''acquire lock: '') (\<lambda>acquired.
            if \<not> acquired then fail (ErrNew ''spot unavailable'')
            else store_reservation reservationID driverID idempotencyKey mode spot)
          }))"

definition ConfirmReservation :: "EventPublisher \<Rightarrow> string \<Rightarrow> ('k, Reservation) io" where
  "ConfirmReservation p reservationID =
     or_return (repo_GetReservation reservationID) (ErrWrap ''get reservation: '') (\<lambda>r.
     if r_Status r \<noteq> StatusPending
     then fail (ErrNew (''cannot confirm: status is '' @ status_string (r_Status r)))
     else do {
       now \<leftarrow> time_Now;
       let expiresAt = Add now HoldDuration;
       or_return (UpdateConfirmed reservationID now expiresAt) (ErrWrap ''update confirmed: '') (\<lambda>_. do {
         let lockKey = spotLockKey (s_SpotID (r_Spot r));
         _ \<leftarrow> Acquire lockKey reservationID HoldDuration;
         let r = r\<lparr>r_Status := StatusConfirmed, r_ConfirmedAt := now, r_ExpiresAt := expiresAt\<rparr>;
         _ \<leftarrow> PublishReservationConfirmed p r;
         ok r
       })
     })"

definition CancelReservation :: "EventPublisher \<Rightarrow> string \<Rightarrow> string \<Rightarrow> ('k, Reservation \<times> int) io" where
  "CancelReservation p reservationID driverID =
     or_return (repo_GetReservation reservationID) (ErrWrap ''get reservation: '') (\<lambda>r.
     if r_DriverID r \<noteq> driverID then fail (ErrNew ''reservation not owned by driver'')
     else if r_Status r \<noteq> StatusConfirmed \<and> r_Status r \<noteq> StatusPending
     then fail (ErrNew (''reservation cannot be cancelled in status '' @ status_string (r_Status r)))
     else do {
       now \<leftarrow> time_Now;
       let fee = (if Sub now (r_ConfirmedAt r) \<le> 2 * Minute then 0 else 5000);
       or_return (UpdateCancelled reservationID now) (ErrWrap ''update cancelled: '') (\<lambda>_. do {
         _ \<leftarrow> Release (spotLockKey (s_SpotID (r_Spot r))) reservationID;
         let r = r\<lparr>r_Status := StatusCancelled, r_CancelledAt := Some now\<rparr>;
         _ \<leftarrow> PublishReservationCancelled p r;
         ok (r, fee)
       })
     })"

definition CheckIn :: "EventPublisher \<Rightarrow> string \<Rightarrow> string \<Rightarrow> ('k, Reservation) io" where
  "CheckIn p reservationID driverID =
     or_return (repo_GetReservation reservationID) (ErrWrap ''get reservation: '') (\<lambda>r.
     if r_DriverID r \<noteq> driverID then fail (ErrNew ''reservation not owned by driver'')
     else if r_Status r \<noteq> StatusConfirmed
     then fail (ErrNew (''cannot check in: status is '' @ status_string (r_Status r)))
     else do {
       t \<leftarrow> time_Now;
       if After t (r_ExpiresAt r) then fail (ErrNew ''reservation expired'')
       else do {
         sessionID \<leftarrow> uuid_New;
         now \<leftarrow> time_Now;
         or_return (UpdateCheckIn reservationID sessionID now) (ErrWrap ''update check-in: '') (\<lambda>_. do {
           let r = r\<lparr>r_Status := StatusActive, r_SessionID := sessionID, r_CheckInAt := Some now\<rparr>;
           _ \<leftarrow> PublishCheckInDetected p r;
           ok r
         })
       }
     })"

definition CheckOut :: "EventPublisher \<Rightarrow> string \<Rightarrow> string \<Rightarrow> string \<Rightarrow> ('k, Reservation) io" where
  "CheckOut p reservationID driverID idempotencyKey =
     or_return (Check (store_key idempotencyKey)) (ErrWrap ''idempotency check: '') (\<lambda>(_, hit).
     if hit then repo_GetReservation reservationID
     else or_return (repo_GetReservation reservationID) (ErrWrap ''get reservation: '') (\<lambda>r.
     if r_DriverID r \<noteq> driverID then fail (ErrNew ''reservation not owned by driver'')
     else if r_Status r \<noteq> StatusActive
     then fail (ErrNew (''cannot check out: status is '' @ status_string (r_Status r)))
     else do {
       now \<leftarrow> time_Now;
       or_return (UpdateCheckOut reservationID now) (ErrWrap ''update check-out: '') (\<lambda>_. do {
         _ \<leftarrow> Release (spotLockKey (s_SpotID (r_Spot r))) reservationID;
         _ \<leftarrow> Save (store_key idempotencyKey) reservationID DefaultTTL;
         let r = r\<lparr>r_Status := StatusCompleted, r_CheckOutAt := Some now\<rparr>;
         _ \<leftarrow> PublishCheckOutCompleted p r;
         ok r
       })
     }))"

definition GetReservation :: "string \<Rightarrow> ('k, Reservation) io" where
  "GetReservation reservationID = repo_GetReservation reservationID"

definition GetActiveReservation :: "string \<Rightarrow> ('k, Reservation option) io" where
  "GetActiveReservation driverID = repo_GetActiveReservation driverID"

text \<open>The counts are \<open>int32\<close>; the four results are total, available, occupied and reserved.\<close>

definition GetAvailability :: "VehicleType \<Rightarrow> ('k, int \<times> int \<times> int \<times> int) io" where
  "GetAvailability vehicleType =
     or_return (CountAvailable vehicleType) id (\<lambda>available.
       let total = (if vehicleType = VehicleTypeCar then 150 else 250);
           occupied = i32 (total - available)
       in ok (total, available, occupied, 0))"

definition ListAvailableSpots :: "VehicleType \<Rightarrow> int \<Rightarrow> ('k, Spot list) io" where
  "ListAvailableSpots vehicleType flr = repo_ListAvailableSpots vehicleType flr"

fun expire_loop :: "EventPublisher \<Rightarrow> Reservation list \<Rightarrow> ('k, unit) io" where
  "expire_loop p [] = ok ()"
| "expire_loop p (r # rs) = do {
     updated \<leftarrow> UpdateStatus (r_ReservationID r) StatusExpired;
     (case updated of
        Inl err \<Rightarrow> expire_loop p rs
      | Inr _ \<Rightarrow> do {
          _ \<leftarrow> Release (spotLockKey (s_SpotID (r_Spot r))) (r_ReservationID r);
          _ \<leftarrow> PublishReservationExpired p r;
          expire_loop p rs
        })
   }"

definition ExpireReservations :: "EventPublisher \<Rightarrow> ('k, unit) io" where
  "ExpireReservations p = do {
     now \<leftarrow> time_Now;
     or_return (repo_ListExpiredReservations now) (ErrWrap ''list expired: '') (\<lambda>expired.
       expire_loop p expired)
   }"

end
