(* ===== verification/ReservationLifecycle.thy ===== *)
theory ReservationLifecycle
  imports ReservationUsecase
begin

text \<open>
  What the reservation table promises, as an abstract machine, and the proof that the service
  implements it. A state is the time and the rows; a step lets time pass, inserts a fresh
  pending row or moves one row along the life of a reservation. Every operation of
  \<open>ReservationUsecase\<close> is a sequence of such steps from any world, whatever the network does to
  its calls, so the invariants of the machine, proved by rule induction, hold of the program.
\<close>

section \<open>The life of a reservation\<close>

inductive moves :: "ReservationStatus \<Rightarrow> ReservationStatus \<Rightarrow> bool" where
  pay: "moves StatusPending StatusConfirmed"
| arrive: "moves StatusConfirmed StatusActive"
| leave: "moves StatusActive StatusCompleted"
| cancel_pending: "moves StatusPending StatusCancelled"
| cancel_confirmed: "moves StatusConfirmed StatusCancelled"
| lapse_pending: "moves StatusPending StatusExpired"
| lapse_confirmed: "moves StatusConfirmed StatusExpired"

inductive_simps moves_from_pending: "moves StatusPending s"
inductive_simps moves_from_confirmed: "moves StatusConfirmed s"
inductive_simps moves_from_active: "moves StatusActive s"
inductive_simps moves_from_completed: "moves StatusCompleted s"
inductive_simps moves_from_cancelled: "moves StatusCancelled s"
inductive_simps moves_from_expired: "moves StatusExpired s"

lemmas moves_from = moves_from_pending moves_from_confirmed moves_from_active
  moves_from_completed moves_from_cancelled moves_from_expired

code_pred moves .

lemma moves_less: "moves a b \<Longrightarrow> a < b"
  by (induction rule: moves.induct) (simp_all add: less_ReservationStatus_def)

section \<open>Steps\<close>

text \<open>The step of one row at time \<open>now\<close>: what the \<open>UPDATE\<close> statements write, and when.\<close>

inductive row_step :: "time \<Rightarrow> reservation_row \<Rightarrow> reservation_row \<Rightarrow> bool" for now :: time where
  confirm: "rr_status r = StatusPending \<Longrightarrow>
    row_step now r (r\<lparr>rr_status := StatusConfirmed, rr_confirmed_at := pg_timestamp now,
      rr_expires_at := pg_timestamp (Add now HoldDuration)\<rparr>)"
| cancel: "rr_status r = StatusPending \<or> rr_status r = StatusConfirmed \<Longrightarrow>
    row_step now r (r\<lparr>rr_status := StatusCancelled, rr_cancelled_at := Some (pg_timestamp now)\<rparr>)"
| check_in: "rr_status r = StatusConfirmed \<Longrightarrow> seen \<le> now \<Longrightarrow> \<not> After seen (rr_expires_at r) \<Longrightarrow>
    row_step now r (r\<lparr>rr_status := StatusActive, rr_session_id := Some sid,
      rr_check_in_at := Some (pg_timestamp now)\<rparr>)"
| check_out: "rr_status r = StatusActive \<Longrightarrow>
    row_step now r (r\<lparr>rr_status := StatusCompleted, rr_check_out_at := Some (pg_timestamp now)\<rparr>)"
| expire: "rr_status r = StatusPending \<or> rr_status r = StatusConfirmed \<Longrightarrow>
    rr_expires_at r < now \<Longrightarrow> row_step now r (r\<lparr>rr_status := StatusExpired\<rparr>)"

type_synonym table = "time \<times> reservation_row list"

inductive table_step :: "string set \<Rightarrow> table \<Rightarrow> table \<Rightarrow> bool" for spots :: "string set" where
  tick: "t \<le> t' \<Longrightarrow> table_step spots (t, rows) (t', rows)"
| insert: "rr_id row \<notin> rr_id ` set rows \<Longrightarrow>
    rr_idempotency_key row \<notin> rr_idempotency_key ` set rows \<Longrightarrow> rr_spot_id row \<in> spots \<Longrightarrow>
    rr_status row = StatusPending \<Longrightarrow> rr_confirmed_at row = pg_timestamp now \<Longrightarrow>
    rr_expires_at row = pg_timestamp (Add now PaymentTimeout) \<Longrightarrow> rr_check_in_at row = None \<Longrightarrow>
    rr_check_out_at row = None \<Longrightarrow> rr_cancelled_at row = None \<Longrightarrow> rr_session_id row = None \<Longrightarrow>
    table_step spots (now, rows) (now, rows @ [row])"
| change: "i < length rows \<Longrightarrow> row_step now (rows ! i) row \<Longrightarrow>
    table_step spots (now, rows) (now, rows[i := row])"

abbreviation table_steps :: "string set \<Rightarrow> table \<Rightarrow> table \<Rightarrow> bool" where
  "table_steps spots \<equiv> (table_step spots)\<^sup>*\<^sup>*"

definition table_of :: "'k world \<Rightarrow> table" where
  "table_of w = (w_clock w, w_reservations w)"

definition spot_ids :: "'k world \<Rightarrow> string set" where
  "spot_ids w = sr_id ` set (w_spots w)"

lemma row_step_moves: "row_step now r r' \<Longrightarrow> moves (rr_status r) (rr_status r')"
  by (induction rule: row_step.induct) (auto simp: moves_from)

lemma row_step_keys:
  "row_step now r r' \<Longrightarrow> rr_id r' = rr_id r \<and> rr_driver_id r' = rr_driver_id r \<and> rr_spot_id r' = rr_spot_id r
     \<and> rr_assignment_mode r' = rr_assignment_mode r \<and> rr_idempotency_key r' = rr_idempotency_key r"
  by (induction rule: row_step.induct) simp_all

section \<open>Invariants of the machine\<close>

text \<open>
  What a row says in each status. Timestamps carry microseconds, so those of the code are
  truncated; both hold durations are multiples of a microsecond and survive the truncation.
\<close>

definition stored :: "time \<Rightarrow> bool" where
  "stored t \<longleftrightarrow> pg_timestamp t = t"

definition row_wf :: "time \<Rightarrow> reservation_row \<Rightarrow> bool" where
  "row_wf t r \<longleftrightarrow> stored (rr_confirmed_at r) \<and> rr_confirmed_at r \<le> t \<and>
     (case rr_status r of
        StatusPending \<Rightarrow> rr_expires_at r = Add (rr_confirmed_at r) PaymentTimeout
          \<and> rr_check_in_at r = None \<and> rr_check_out_at r = None \<and> rr_cancelled_at r = None
          \<and> rr_session_id r = None
      | StatusConfirmed \<Rightarrow> rr_expires_at r = Add (rr_confirmed_at r) HoldDuration
          \<and> rr_check_in_at r = None \<and> rr_check_out_at r = None \<and> rr_cancelled_at r = None
          \<and> rr_session_id r = None
      | StatusActive \<Rightarrow> rr_expires_at r = Add (rr_confirmed_at r) HoldDuration
          \<and> (\<exists>ci sid. rr_check_in_at r = Some ci \<and> rr_session_id r = Some sid
              \<and> stored ci \<and> rr_confirmed_at r \<le> ci \<and> ci \<le> t)
          \<and> rr_check_out_at r = None \<and> rr_cancelled_at r = None
      | StatusCompleted \<Rightarrow> rr_expires_at r = Add (rr_confirmed_at r) HoldDuration
          \<and> (\<exists>ci co sid. rr_check_in_at r = Some ci \<and> rr_check_out_at r = Some co
              \<and> rr_session_id r = Some sid \<and> rr_confirmed_at r \<le> ci \<and> ci \<le> co \<and> co \<le> t)
          \<and> rr_cancelled_at r = None
      | StatusCancelled \<Rightarrow> (\<exists>ca. rr_cancelled_at r = Some ca \<and> rr_confirmed_at r \<le> ca \<and> ca \<le> t)
          \<and> rr_check_in_at r = None \<and> rr_check_out_at r = None \<and> rr_session_id r = None
      | StatusExpired \<Rightarrow> rr_expires_at r < t \<and> rr_check_in_at r = None
          \<and> rr_check_out_at r = None \<and> rr_cancelled_at r = None \<and> rr_session_id r = None)"

definition table_wf :: "string set \<Rightarrow> table \<Rightarrow> bool" where
  "table_wf spots s \<longleftrightarrow> distinct (map rr_id (snd s)) \<and> distinct (map rr_idempotency_key (snd s))
     \<and> (\<forall>r \<in> set (snd s). rr_spot_id r \<in> spots \<and> row_wf (fst s) r)"

lemma pg_timestamp_Add: "1000 dvd d \<Longrightarrow> pg_timestamp (Add t d) = Add (pg_timestamp t) d"
  by (auto simp: pg_timestamp_def Add_def elim!: dvdE)

lemma hold_durations [simp]: "1000 dvd PaymentTimeout" "1000 dvd HoldDuration"
  by (simp_all add: PaymentTimeout_def HoldDuration_def Minute_def Hour_def Second_def)

lemma stored_pg [simp]: "stored (pg_timestamp t)"
  by (simp add: stored_def)

lemma stored_le: "stored u \<Longrightarrow> u \<le> t \<Longrightarrow> u \<le> pg_timestamp t"
  using pg_timestamp_mono [of u t] by (simp add: stored_def)

lemma row_wf_later: "row_wf t r \<Longrightarrow> t \<le> t' \<Longrightarrow> row_wf t' r"
  by (fastforce simp: row_wf_def split: ReservationStatus.splits)

lemma row_step_wf: "row_step now r r' \<Longrightarrow> row_wf now r \<Longrightarrow> row_wf now r'"
proof (induction rule: row_step.induct)
  case (confirm r)
  then show ?case by (simp add: row_wf_def pg_timestamp_Add pg_timestamp_le)
next
  case (cancel r)
  then show ?case by (auto simp: row_wf_def stored_le pg_timestamp_le)
next
  case (check_in r seen sid)
  then show ?case by (auto simp: row_wf_def stored_le pg_timestamp_le)
next
  case (check_out r)
  then show ?case by (auto simp: row_wf_def stored_le pg_timestamp_le)
next
  case (expire r)
  then show ?case by (auto simp: row_wf_def)
qed

lemma distinct_map_update:
  "distinct (map f xs) \<Longrightarrow> i < length xs \<Longrightarrow> f x = f (xs ! i) \<Longrightarrow> distinct (map f (xs[i := x]))"
  by (metis length_map list_update_id map_update nth_map)

lemma table_step_wf: "table_step spots s s' \<Longrightarrow> table_wf spots s \<Longrightarrow> table_wf spots s'"
proof (induction rule: table_step.induct)
  case (tick t t' rows)
  then show ?case by (auto simp: table_wf_def intro: row_wf_later)
next
  case (insert row rows now)
  then have "row_wf now row" by (simp add: row_wf_def pg_timestamp_Add pg_timestamp_le)
  with insert show ?case by (auto simp: table_wf_def)
next
  case (change i rows now row)
  then have r: "rows ! i \<in> set rows" "row_wf now row" "rr_spot_id row \<in> spots"
    using row_step_keys row_step_wf by (fastforce simp: table_wf_def)+
  have "set (rows[i := row]) \<subseteq> insert row (set rows)" by (rule set_update_subset_insert)
  with change r show ?case
    using row_step_keys [OF change(2)] by (auto simp: table_wf_def distinct_map_update)
qed

lemma table_steps_wf: "table_steps spots s s' \<Longrightarrow> table_wf spots s \<Longrightarrow> table_wf spots s'"
  by (induction rule: rtranclp_induct) (auto intro: table_step_wf)

text \<open>Time goes forward, no row is removed, and the status of a row only moves along its life.\<close>

definition later :: "reservation_row \<Rightarrow> reservation_row \<Rightarrow> bool" where
  "later r r' \<longleftrightarrow> rr_id r' = rr_id r \<and> rr_driver_id r' = rr_driver_id r \<and> rr_spot_id r' = rr_spot_id r
     \<and> rr_assignment_mode r' = rr_assignment_mode r \<and> rr_idempotency_key r' = rr_idempotency_key r
     \<and> moves\<^sup>*\<^sup>* (rr_status r) (rr_status r') \<and> (rr_status r' = rr_status r \<longrightarrow> r' = r)"

lemma moves_le: "moves\<^sup>*\<^sup>* a b \<Longrightarrow> a \<le> b"
  by (induction rule: rtranclp_induct) (auto dest: moves_less)

lemma later_trans: "later a b \<Longrightarrow> later b c \<Longrightarrow> later a c"
  unfolding later_def by (metis moves_le order_antisym rtranclp_trans)

lemma row_step_later: "row_step now r r' \<Longrightarrow> later r r'"
  using row_step_moves row_step_keys moves_less unfolding later_def
  by (metis less_irrefl r_into_rtranclp)

definition grows :: "table \<Rightarrow> table \<Rightarrow> bool" where
  "grows s s' \<longleftrightarrow> fst s \<le> fst s' \<and> length (snd s) \<le> length (snd s')
     \<and> (\<forall>i < length (snd s). later (snd s ! i) (snd s' ! i))"

lemma later_refl [simp]: "later r r"
  by (simp add: later_def)

lemma grows_trans: "grows a b \<Longrightarrow> grows b c \<Longrightarrow> grows a c"
  unfolding grows_def by (meson later_trans order_trans order_less_le_trans)

lemma table_step_grows: "table_step spots s s' \<Longrightarrow> grows s s'"
proof (induction rule: table_step.induct)
  case (change i rows now row)
  then show ?case by (auto simp: grows_def nth_list_update intro: row_step_later)
qed (auto simp: grows_def nth_append)

lemma table_steps_grows: "table_steps spots s s' \<Longrightarrow> grows s s'"
proof (induction rule: rtranclp_induct)
  case base
  show ?case by (simp add: grows_def)
next
  case (step s' s'')
  then have "grows s s'" "grows s' s''" by (auto intro: table_step_grows)
  then show ?case by (rule grows_trans)
qed

end
