(* ===== verification/ReservationRefinement.thy ===== *)
theory ReservationRefinement
  imports ReservationLifecycle
begin

text \<open>
  Every operation of the reservation service, run from any world whose table and spot keys are
  distinct, performs a sequence of steps of the abstract machine and changes no other table,
  whichever of its calls the network refuses or loses the reply of.
\<close>

section \<open>The refinement relation\<close>

definition evolves :: "'k world \<Rightarrow> 'k world \<Rightarrow> bool" where
  "evolves w w' \<longleftrightarrow> table_steps (spot_ids w) (table_of w) (table_of w')
     \<and> w_ext w' = w_ext w \<and> w_spots w' = w_spots w \<and> w_drivers w' = w_drivers w
     \<and> w_invoices w' = w_invoices w \<and> w_transactions w' = w_transactions w
     \<and> w_locations w' = w_locations w \<and> w_notifications w' = w_notifications w"

lemma evolves_refl [simp, intro]: "evolves w w"
  by (simp add: evolves_def)

lemma evolves_trans [trans]: "evolves w w' \<Longrightarrow> evolves w' w'' \<Longrightarrow> evolves w w''"
  by (auto simp: evolves_def spot_ids_def)

lemma db_same_evolves: "db_same w w' \<Longrightarrow> evolves w w'"
  by (auto simp: db_same_def evolves_def table_of_def intro: table_step.tick)

lemma evolves_db_same: "evolves w w' \<Longrightarrow> db_same w' w'' \<Longrightarrow> evolves w w''"
  using db_same_evolves evolves_trans by blast

lemma evolves_update [simp]:
  "evolves w (w'\<lparr>w_uuids := n\<rparr>) = evolves w w'" "evolves w (w'\<lparr>w_redis := k\<rparr>) = evolves w w'"
  "evolves w (w'\<lparr>w_published := ps\<rparr>) = evolves w w'"
  by (simp_all add: evolves_def table_of_def)

definition keys_ok :: "'k world \<Rightarrow> bool" where
  "keys_ok w \<longleftrightarrow> distinct (map rr_id (w_reservations w)) \<and> distinct (map sr_id (w_spots w))"

interpretation reservations: keyed_table rr_id w_reservations keys_ok
  by unfold_locales (simp add: keys_ok_def)

interpretation spots: keyed_table sr_id w_spots keys_ok
  by unfold_locales (simp add: keys_ok_def)

section \<open>The statements\<close>

definition scanned :: "'k world \<Rightarrow> Reservation \<Rightarrow> bool" where
  "scanned w r \<longleftrightarrow> (\<exists>row \<in> set (w_reservations w). \<exists>s \<in> set (w_spots w).
     sr_id s = rr_spot_id row \<and> r = scanReservation row s)"

lemma select_reservations_iff:
  "r \<in> set (select_reservations P w) \<longleftrightarrow> (\<exists>row \<in> set (w_reservations w). \<exists>s \<in> set (w_spots w).
     P row \<and> sr_id s = rr_spot_id row \<and> r = scanReservation row s)"
  by (auto simp: select_reservations_def)

lemma scan_first_Inr: "scan_first rows = Inr r \<Longrightarrow> r \<in> set rows"
  by (auto simp: scan_first_def first_row_def split: list.splits)

lemma scanReservation_fields [simp]:
  "r_ReservationID (scanReservation row s) = rr_id row" "r_DriverID (scanReservation row s) = rr_driver_id row"
  "r_Status (scanReservation row s) = rr_status row" "r_ExpiresAt (scanReservation row s) = rr_expires_at row"
  "r_ConfirmedAt (scanReservation row s) = rr_confirmed_at row" "r_Spot (scanReservation row s) = spot_of_row s"
  "r_CheckInAt (scanReservation row s) = rr_check_in_at row" "r_CheckOutAt (scanReservation row s) = rr_check_out_at row"
  "r_CancelledAt (scanReservation row s) = rr_cancelled_at row"
  "r_IdempotencyKey (scanReservation row s) = rr_idempotency_key row"
  by (simp_all add: scanReservation_def)

lemma repo_GetReservation_wp:
  "wp (repo_GetReservation rid) (\<lambda>res w'. db_same w w' \<and>
     (\<forall>r. res = Inr r \<longrightarrow> r_ReservationID r = rid \<and> scanned w' r)) w"
  unfolding repo_GetReservation_def
  by (rule wp_mono [OF query_db_same])
    (fastforce dest: scan_first_Inr simp: select_reservations_iff scanned_def)

lemma GetSpot_wp:
  "wp (GetSpot sid) (\<lambda>res w'. db_same w w' \<and>
     (\<forall>s. res = Inr (Some s) \<longrightarrow> s_SpotID s = sid \<and> sid \<in> spot_ids w)) w"
  by (auto simp: GetSpot_def wp_simps first_row_def spot_ids_def spot_of_row_def filter_eq_Cons_iff
      split: fate.splits list.splits sum.splits if_splits)

lemma FindAvailableSpot_wp:
  "wp (FindAvailableSpot vt) (\<lambda>res w'. db_same w w' \<and>
     (\<forall>s. res = Inr (Some s) \<longrightarrow>
        (\<exists>ss. select_spots (\<lambda>s. sr_vehicle_type s = vt \<and> sr_status s = SpotAvailable) w = s # ss))) w"
  by (auto simp: FindAvailableSpot_def wp_simps first_row_def select_spots_def
      split: fate.splits list.splits sum.splits if_splits)

section \<open>One UPDATE is one step\<close>

lemma distinct_update_where:
  assumes "distinct (map key rows)" "i < length rows"
  shows "update_where (\<lambda>r. key r = key (rows ! i)) f rows = rows[i := f (rows ! i)]"
  using assms by (auto simp: update_where_def list_eq_iff_nth_eq nth_list_update nth_eq_iff_index_eq
      distinct_conv_nth)

lemma update_evolves:
  assumes w: "db_same w w1" "w_clock w \<le> now" "now \<le> w_clock w1" "keys_ok w"
    and row: "row \<in> set (w_reservations w)" "rr_id row = rid" "row_step now row (f row)"
  shows "evolves w (update_reservations rid f w1)"
proof -
  obtain i where i: "i < length (w_reservations w)" "row = w_reservations w ! i"
    using row(1) by (metis in_set_conv_nth)
  let ?rows = "w_reservations w" let ?rows' = "?rows[i := f row]"
  have "table_step (spot_ids w) (w_clock w, ?rows) (now, ?rows)"
    "table_step (spot_ids w) (now, ?rows) (now, ?rows')"
    "table_step (spot_ids w) (now, ?rows') (w_clock w1, ?rows')"
    using w i row(3) by (auto intro: table_step.intros)
  moreover have "w_reservations (update_reservations rid f w1) = ?rows'"
    using w i row(2) distinct_update_where [of rr_id ?rows i f]
    by (simp add: update_reservations_def db_same_def keys_ok_def)
  ultimately show ?thesis
    using w(1) unfolding evolves_def
    by (auto simp: table_of_def update_reservations_def db_same_def intro: rtranclp.rtrancl_into_rtrancl)
qed

text \<open>The same for the statement as a remote call, which may fail before or after its effect.\<close>

lemma exec_update_evolves:
  assumes "db_same w w1" "keys_ok w"
    and "row \<in> set (w_reservations w)" "rr_id row = rid" "row_step (w_clock w1) row (f row)"
  shows "wp (exec (update_reservations rid f)) (\<lambda>_. evolves w) w1"
proof -
  have "db_same w (arrive w1)" "w_clock w1 \<le> w_clock (arrive w1)" "w_clock w \<le> w_clock w1"
    using assms(1) arrive_clock [of w1] by (auto intro: db_same_trans simp: db_same_def)
  then have "evolves w (update_reservations rid f (arrive w1))" "evolves w (arrive w1)"
    using assms by (auto intro: update_evolves db_same_evolves)
  then show ?thesis by (simp add: wp_exec split: fate.split)
qed

section \<open>The operations\<close>

text \<open>
  The rules with which the operations are taken apart, for any postcondition on the world that holds
  as long as the database is that of the beginning, and is kept by calls that leave it alone.
\<close>

locale quiet_post =
  fixes w0 :: "'k world" and Q :: "'k world \<Rightarrow> bool"
  assumes unchanged: "db_same w0 w \<Longrightarrow> Q w" and still: "Q w \<Longrightarrow> db_same w w' \<Longrightarrow> Q w'"
begin

lemma quiet: "leaves_db m \<Longrightarrow> Q w1 \<Longrightarrow> wp m (\<lambda>_. Q) w1"
  by (rule wp_mono [OF leaves_dbD]) (auto intro: still)

lemma quiet_same: "leaves_db m \<Longrightarrow> db_same w0 w1 \<Longrightarrow> wp m (\<lambda>_. Q) w1"
  by (blast intro: quiet unchanged)

lemma done_then:
  assumes "wp m (\<lambda>_. Q) w1" "\<And>a. leaves_db (rest a)"
  shows "wp (or_return m wrap rest) (\<lambda>_. Q) w1"
  unfolding wp_or_return
  by (rule wp_mono [OF assms(1)]) (auto intro: quiet [OF assms(2)] split: sum.split)

lemma quiet_then:
  assumes "leaves_db m" "db_same w0 w1"
    and "\<And>a w2. db_same w0 w2 \<Longrightarrow> wp (rest a) (\<lambda>_. Q) w2"
  shows "wp (or_return m wrap rest) (\<lambda>_. Q) w1"
  unfolding wp_or_return
  by (rule wp_mono [OF leaves_dbD [OF assms(1)]])
    (auto intro: assms(3) db_same_trans [OF assms(2)] unchanged split: sum.split)

text \<open>The shared beginning of all of them: read the row, then go on with what was read.\<close>

lemma read_then:
  assumes "db_same w0 w"
    and "\<And>w1 row s. db_same w0 w1 \<Longrightarrow> row \<in> set (w_reservations w0) \<Longrightarrow> rr_id row = rid \<Longrightarrow>
       s \<in> set (w_spots w0) \<Longrightarrow> sr_id s = rr_spot_id row \<Longrightarrow>
       wp (rest (scanReservation row s)) (\<lambda>_. Q) w1"
  shows "wp (or_return (repo_GetReservation rid) wrap rest) (\<lambda>_. Q) w"
  unfolding wp_or_return
proof (rule wp_mono [OF repo_GetReservation_wp], elim conjE)
  fix res w1
  assume "db_same w w1" and res: "\<forall>r. res = Inr r \<longrightarrow> r_ReservationID r = rid \<and> scanned w1 r"
  then have w1: "db_same w0 w1" using assms(1) db_same_trans by blast
  show "case res of Inl err \<Rightarrow> Q w1 | Inr a \<Rightarrow> wp (rest a) (\<lambda>_. Q) w1"
    using res w1 assms(2) [OF w1]
    by (auto simp: unchanged scanned_def db_same_def split: sum.split)
qed

lemma failed: "db_same w0 w1 \<Longrightarrow> wp (fail err) (\<lambda>_. Q) w1"
  and succeeded: "db_same w0 w1 \<Longrightarrow> wp (ok a) (\<lambda>_. Q) w1"
  by (simp_all add: wp_fail wp_ok unchanged)

end

interpretation evolved: quiet_post w "evolves w" for w :: "'k world"
  by unfold_locales (auto intro: db_same_evolves evolves_db_same)

lemma after_now:
  assumes "db_same w w1"
    and "\<And>w2. db_same w w2 \<Longrightarrow> w_clock w1 \<le> w_clock w2 \<Longrightarrow> wp (rest (w_clock w2)) Q w2"
  shows "wp (State_Monad.bind time_Now rest) Q w1"
  using assms db_same_trans [OF assms(1) db_same_pass] pass_clock [of w1]
  by (simp add: wp_bind wp_time_Now)

lemma after_uuid:
  assumes "db_same w w1"
    and "\<And>u w2. db_same w w2 \<Longrightarrow> w_clock w2 = w_clock w1 \<Longrightarrow> wp (rest u) Q w2"
  shows "wp (State_Monad.bind uuid_New rest) Q w1"
  using assms by (simp add: wp_bind wp_uuid_New)

lemmas taken_apart = evolved.read_then [OF db_same_refl] wp_ifI evolved.failed after_now after_uuid evolved.done_then

lemma ConfirmReservation_evolves:
  assumes "keys_ok w"
  shows "wp (ConfirmReservation p rid) (\<lambda>_. evolves w) w"
  unfolding ConfirmReservation_def PublishReservationConfirmed_def UpdateConfirmed_def Let_def
  by (intro taken_apart exec_update_evolves [OF _ assms] quiet_intros) (auto intro: row_step.intros)

lemma CancelReservation_evolves:
  assumes "keys_ok w"
  shows "wp (CancelReservation p rid did) (\<lambda>_. evolves w) w"
  unfolding CancelReservation_def PublishReservationCancelled_def UpdateCancelled_def Let_def
  by (intro taken_apart exec_update_evolves [OF _ assms] quiet_intros) (auto intro: row_step.intros)

lemma CheckIn_evolves:
  assumes "keys_ok w"
  shows "wp (CheckIn p rid did) (\<lambda>_. evolves w) w"
  unfolding CheckIn_def PublishCheckInDetected_def UpdateCheckIn_def Let_def
  by (intro taken_apart exec_update_evolves [OF _ assms] quiet_intros) (auto intro: row_step.intros)

lemma leaves_db_reads [quiet_intros]:
  "leaves_db (repo_GetReservation rid)" "leaves_db (repo_GetActiveReservation did)"
  "leaves_db (repo_GetByIdempotencyKey key)" "leaves_db (repo_ListExpiredReservations t)"
  "leaves_db (FindAvailableSpot vt)" "leaves_db (GetSpot sid)" "leaves_db (CountAvailable vt)"
  "leaves_db (repo_ListAvailableSpots vt flr)"
  unfolding repo_GetReservation_def repo_GetActiveReservation_def repo_GetByIdempotencyKey_def
    repo_ListExpiredReservations_def FindAvailableSpot_def GetSpot_def CountAvailable_def
    repo_ListAvailableSpots_def
  by (intro quiet_intros)+

lemma CheckOut_evolves:
  assumes "keys_ok w"
  shows "wp (CheckOut p rid did key) (\<lambda>_. evolves w) w"
  unfolding CheckOut_def PublishCheckOutCompleted_def UpdateCheckOut_def Let_def case_prod_beta
  by (rule evolved.quiet_then [OF leaves_db_idempotency(1) db_same_refl], rule wp_ifI,
      erule evolved.quiet_same [rotated], (intro quiet_intros)[1], intro evolved.read_then wp_ifI evolved.failed after_now evolved.done_then exec_update_evolves [OF _ assms] quiet_intros)
    (auto intro: row_step.intros)

lemma InsertReservation_evolves:
  assumes "db_same w w1" "s_SpotID (r_Spot r) \<in> spot_ids w" "r_Status r = StatusPending"
    and "r_ConfirmedAt r = w_clock w1" "r_ExpiresAt r = Add (w_clock w1) PaymentTimeout"
  shows "wp (InsertReservation r) (\<lambda>_. evolves w) w1"
proof -
  let ?row = "\<lparr>rr_id = r_ReservationID r, rr_driver_id = r_DriverID r, rr_spot_id = s_SpotID (r_Spot r),
    rr_status = r_Status r, rr_assignment_mode = r_AssignmentMode r, rr_idempotency_key = r_IdempotencyKey r,
    rr_confirmed_at = pg_timestamp (r_ConfirmedAt r), rr_expires_at = pg_timestamp (r_ExpiresAt r),
    rr_check_in_at = None, rr_check_out_at = None, rr_cancelled_at = None, rr_session_id = None\<rparr>"
  let ?rows = "w_reservations w" let ?w2 = "arrive w1"
  have w2: "db_same w ?w2" "db_same w w1" "w_clock w1 \<le> w_clock ?w2" "w_clock w \<le> w_clock w1"
    using assms(1) arrive_clock [of w1] by (auto intro: db_same_trans simp: db_same_def)
  have "evolves w (?w2\<lparr>w_reservations := ?rows @ [?row]\<rparr>)"
    if "r_ReservationID r \<notin> rr_id ` set ?rows" "r_IdempotencyKey r \<notin> rr_idempotency_key ` set ?rows"
  proof -
    have "table_step (spot_ids w) (w_clock w, ?rows) (w_clock w1, ?rows)"
      "table_step (spot_ids w) (w_clock w1, ?rows) (w_clock w1, ?rows @ [?row])"
      "table_step (spot_ids w) (w_clock w1, ?rows @ [?row]) (w_clock ?w2, ?rows @ [?row])"
      using w2 assms that by (auto intro!: table_step.intros)
    then show ?thesis
      using w2(1) unfolding evolves_def
      by (auto simp: table_of_def db_same_def intro: rtranclp.rtrancl_into_rtrancl)
  qed
  then show ?thesis
    using w2 db_same_evolves [OF w2(1)]
    by (auto simp: InsertReservation_def wp_simps Let_def db_same_def split: fate.split)
qed

lemma chosen_spot_wp:
  assumes "db_same w w1"
  shows "wp (find_spot vt mode sid)
    (\<lambda>res w2. db_same w w2 \<and> (\<forall>s. res = Inr (Some s) \<longrightarrow> s_SpotID s \<in> spot_ids w)) w1"
proof (cases "mode = AssignmentModeSelected")
  case True
  have "wp (GetSpot sid) (\<lambda>res w2. db_same w w2 \<and> (\<forall>s. res = Inr (Some s) \<longrightarrow> s_SpotID s \<in> spot_ids w)) w1"
    by (rule wp_mono [OF GetSpot_wp]) (use assms db_same_trans in \<open>auto simp: spot_ids_def db_same_def\<close>)
  with True show ?thesis
    by (auto simp: find_spot_def wp_or_return wp_ok elim!: wp_mono split: sum.split)
next
  case False
  have "s_SpotID s \<in> spot_ids w" if "select_spots P w1 = s # ss" for P s ss
  proof -
    have "s \<in> set (select_spots P w1)" using that by simp
    then show ?thesis using assms by (auto simp: select_spots_def spot_ids_def db_same_def spot_of_row_def)
  qed
  then have "wp (FindAvailableSpot vt) (\<lambda>res w2. db_same w w2 \<and> (\<forall>s. res = Inr (Some s) \<longrightarrow> s_SpotID s \<in> spot_ids w)) w1"
    by (intro wp_mono [OF FindAvailableSpot_wp]) (use assms db_same_trans in blast)
  with False show ?thesis
    by (auto simp: find_spot_def wp_or_return wp_ok elim!: wp_mono split: sum.split)
qed

lemma CreateReservation_store_evolves:
  assumes "db_same w w1" "s_SpotID (r_Spot r) \<in> spot_ids w" "r_Status r = StatusPending"
    and "r_ConfirmedAt r = w_clock w1" "r_ExpiresAt r = Add (w_clock w1) PaymentTimeout"
    and "\<And>res. leaves_db (rest res)"
  shows "wp (State_Monad.bind (InsertReservation r) rest) (\<lambda>_. evolves w) w1"
  unfolding wp_bind
  by (rule wp_mono [OF InsertReservation_evolves [OF assms(1-5)]]) (rule evolved.quiet [OF assms(6)])

lemma store_reservation_evolves:
  assumes "db_same w w1" "s_SpotID s \<in> spot_ids w"
  shows "wp (store_reservation rid did key mode s) (\<lambda>_. evolves w) w1"
  unfolding store_reservation_def Let_def
  by (intro after_now [OF assms(1)] CreateReservation_store_evolves quiet_intros) (simp_all add: assms(2))

lemma CreateReservation_evolves: "wp (CreateReservation did key vt mode sid) (\<lambda>_. evolves w) w"
  unfolding CreateReservation_def case_prod_beta
proof (rule evolved.quiet_then [OF leaves_db_idempotency(1) db_same_refl], rule wp_ifI, goal_cases)
  case (1 c w1)
  then show ?case by (intro evolved.quiet_same quiet_intros)
next
  case (2 c w1)
  show ?case
    unfolding wp_or_return [where m = "find_spot _ _ _"]
  proof (rule wp_mono [OF chosen_spot_wp [OF 2(1)]], elim conjE, goal_cases)
    case (1 spot w2)
    show ?case
    proof (cases spot)
      case (Inr chosen)
      with 1 show ?thesis
        by (cases chosen)
          (auto intro!: evolved.failed after_uuid evolved.quiet_then wp_ifI store_reservation_evolves quiet_intros)
    qed (use 1 in \<open>simp add: db_same_evolves\<close>)
  qed
qed

section \<open>The expiry job\<close>

text \<open>
  The job works on the list it read at the start. What it relies on is that the rows it has
  not come to yet are still as it read them.
\<close>

definition lapsed :: "time \<Rightarrow> reservation_row \<Rightarrow> bool" where
  "lapsed before row \<longleftrightarrow> rr_status row \<in> {StatusConfirmed, StatusPending} \<and> rr_expires_at row < pg_timestamp before"

definition to_expire :: "time \<Rightarrow> reservation_row list \<Rightarrow> Reservation list \<Rightarrow> bool" where
  "to_expire before rows rs \<longleftrightarrow> distinct (map r_ReservationID rs) \<and>
     (\<forall>r \<in> set rs. \<exists>row \<in> set rows. rr_id row = r_ReservationID r \<and> lapsed before row)"

lemma table_steps_distinct:
  "table_steps spots s s' \<Longrightarrow> distinct (map rr_id (snd s)) \<Longrightarrow> distinct (map rr_id (snd s'))"
proof (induction rule: rtranclp_induct)
  case (step s' s'')
  from step.hyps(2) step.IH [OF step.prems] show ?case
    by (induction rule: table_step.induct) (auto simp: distinct_map_update dest: row_step_keys)
qed

lemma evolves_keys_ok: "evolves w w' \<Longrightarrow> keys_ok w \<Longrightarrow> keys_ok w'"
  using table_steps_distinct [of "spot_ids w" "table_of w" "table_of w'"]
  by (auto simp: evolves_def keys_ok_def table_of_def)

lemma evolves_clock: "evolves w w' \<Longrightarrow> w_clock w \<le> w_clock w'"
  using table_steps_grows [of "spot_ids w" "table_of w" "table_of w'"]
  by (auto simp: evolves_def grows_def table_of_def)

lemma to_expire_update:
  assumes "to_expire before rows (r # rs)"
  shows "to_expire before (update_where (\<lambda>row. rr_id row = r_ReservationID r) f rows) rs"
  unfolding to_expire_def
proof (intro conjI ballI)
  show "distinct (map r_ReservationID rs)" using assms by (simp add: to_expire_def)
  fix r' assume "r' \<in> set rs"
  then obtain row where "row \<in> set rows" "rr_id row = r_ReservationID r'" "lapsed before row"
    "r_ReservationID r' \<noteq> r_ReservationID r"
    using assms by (force simp: to_expire_def)
  then show "\<exists>row \<in> set (update_where (\<lambda>row. rr_id row = r_ReservationID r) f rows).
      rr_id row = r_ReservationID r' \<and> lapsed before row"
    unfolding set_update_where by (intro bexI [of _ row] CollectI) auto
qed

lemma UpdateStatus_expire:
  assumes "keys_ok w" "to_expire before (w_reservations w) (r # rs)" "before \<le> w_clock w"
  shows "wp (UpdateStatus (r_ReservationID r) StatusExpired)
    (\<lambda>_ w1. evolves w w1 \<and> to_expire before (w_reservations w1) rs) w"
proof -
  obtain row where row: "row \<in> set (w_reservations w)" "rr_id row = r_ReservationID r" "lapsed before row"
    using assms by (auto simp: to_expire_def)
  have "row_step (w_clock w) row (row\<lparr>rr_status := StatusExpired\<rparr>)"
    using row(3) assms(3) pg_timestamp_le [of before]
    by (auto simp: lapsed_def intro: row_step.expire)
  with row have "wp (UpdateStatus (r_ReservationID r) StatusExpired) (\<lambda>_. evolves w) w"
    unfolding UpdateStatus_def by (intro exec_update_evolves [OF db_same_refl assms(1)])
  moreover have "wp (UpdateStatus (r_ReservationID r) StatusExpired)
    (\<lambda>_ w1. to_expire before (w_reservations w1) rs) w"
    using to_expire_update [OF assms(2)] assms(2)
    by (auto simp: UpdateStatus_def wp_exec update_reservations_def split: fate.split)
      (auto simp: to_expire_def)
  ultimately show ?thesis by (simp add: wp_conj)
qed

lemma expire_loop_evolves:
  assumes "keys_ok w" "to_expire before (w_reservations w) rs" "before \<le> w_clock w"
  shows "wp (expire_loop p rs) (\<lambda>_. evolves w) w"
  using assms
proof (induction rs arbitrary: w)
  case Nil
  show ?case by (simp add: wp_ok)
next
  case (Cons r rs)
  have rest: "wp (expire_loop p rs) (\<lambda>_. evolves w) w2"
    if "evolves w w2" "to_expire before (w_reservations w2) rs" for w2
    using Cons.IH [OF evolves_keys_ok [OF that(1) Cons.prems(1)] that(2)] Cons.prems(3)
      evolves_clock [OF that(1)] evolves_trans [OF that(1)] by (auto elim!: wp_mono)
  have tail: "wp (State_Monad.bind (Release k v) (\<lambda>_. State_Monad.bind (publish p e r) (\<lambda>_. expire_loop p rs)))
      (\<lambda>_. evolves w) w1"
    if "evolves w w1" "to_expire before (w_reservations w1) rs" for k v e w1
  proof -
    have "leaves_db (State_Monad.bind (Release k v) (\<lambda>_. publish p e r))" by (intro quiet_intros)
    then have "wp (State_Monad.bind (Release k v) (\<lambda>_. publish p e r)) (\<lambda>_. db_same w1) w1" by (rule leaves_dbD)
    then show ?thesis
      using that by (auto simp: wp_bind db_same_def elim!: wp_mono intro!: rest intro: evolves_db_same)
  qed
  show ?case
    unfolding expire_loop.simps wp_bind [of "UpdateStatus _ _"] PublishReservationExpired_def
    by (rule wp_mono [OF UpdateStatus_expire [OF Cons.prems]]) (auto simp: wp_case_sum intro!: rest tail split: sum.split)
qed

lemma filter_key_single:
  "distinct (map key xs) \<Longrightarrow> filter (\<lambda>x. key x = k) xs = [] \<or> (\<exists>x. filter (\<lambda>x. key x = k) xs = [x])"
proof (induction xs)
  case (Cons x xs)
  then show ?case by (cases "key x = k") (auto simp: filter_empty_conv image_iff)
qed simp

lemma select_reservations_distinct:
  assumes "keys_ok w"
  shows "distinct (map r_ReservationID (select_reservations P w))"
proof -
  have join: "select_reservations P w =
      concat (map (\<lambda>r. if P r then map (scanReservation r) (filter (\<lambda>s. sr_id s = rr_spot_id r) (w_spots w)) else [])
        (w_reservations w))"
  proof -
    have "[scanReservation r s. s \<leftarrow> ss, sr_id s = x] = map (scanReservation r) (filter (\<lambda>s. sr_id s = x) ss)"
      for r ss x by (induction ss) auto
    then show ?thesis by (simp add: select_reservations_def if_distrib cong: if_cong)
  qed
  have "distinct (map r_ReservationID (concat (map (\<lambda>r. if P r
      then map (scanReservation r) (filter (\<lambda>s. sr_id s = rr_spot_id r) (w_spots w)) else []) rows)))"
    if "distinct (map rr_id rows)" for rows
    using that
  proof (induction rows)
    case (Cons r rows)
    then show ?case
      using filter_key_single [of sr_id "w_spots w" "rr_spot_id r"] assms
      by (auto simp: keys_ok_def)
  qed simp
  then show ?thesis using assms by (simp add: join keys_ok_def)
qed

lemma read_expired:
  assumes "keys_ok w"
  shows "to_expire before (w_reservations w) (select_reservations
    (\<lambda>r. rr_status r \<in> {StatusConfirmed, StatusPending} \<and> rr_expires_at r < pg_timestamp before) w)"
  using select_reservations_distinct [OF assms]
  by (fastforce simp: to_expire_def select_reservations_iff lapsed_def)

lemma ExpireReservations_evolves:
  assumes "keys_ok w"
  shows "wp (ExpireReservations p) (\<lambda>_. evolves w) w"
  unfolding ExpireReservations_def
proof (rule after_now [OF db_same_refl], goal_cases)
  case (1 w1)
  have "wp (repo_ListExpiredReservations (w_clock w1)) (\<lambda>res w2. db_same w w2 \<and> w_clock w1 \<le> w_clock w2 \<and>
      (\<forall>rs. res = Inr rs \<longrightarrow> to_expire (w_clock w1) (w_reservations w2) rs)) w1"
    unfolding repo_ListExpiredReservations_def
  proof (rule wp_mono [OF query_db_same], goal_cases)
    case (1 res w2)
    then have "db_same w w2" using \<open>db_same w w1\<close> db_same_trans by blast
    then have "keys_ok w2" using assms by (simp add: keys_ok_def db_same_def)
    then have "to_expire (w_clock w1) (w_reservations w2) rs" if "res = Inr rs" for rs
      using 1 that read_expired [of w2 "w_clock w1"] by auto
    moreover have "w_clock w1 \<le> w_clock w2" using 1 by (simp add: db_same_def)
    ultimately show ?case using \<open>db_same w w2\<close> by simp
  qed
  then show ?case
    unfolding wp_or_return
  proof (rule wp_mono, elim conjE, goal_cases)
    case (1 res w2)
    show ?case
    proof (cases res)
      case (Inr rs)
      have "wp (expire_loop p rs) (\<lambda>_. evolves w2) w2"
        using 1 Inr assms
        by (intro expire_loop_evolves [where before = "w_clock w1"]) (auto simp: keys_ok_def db_same_def)
      then show ?thesis
        using Inr evolves_trans [OF db_same_evolves [OF 1(2)]] by (auto elim: wp_mono)
    qed (use 1 in \<open>simp add: db_same_evolves\<close>)
  qed
qed

section \<open>Any sequence of calls\<close>

text \<open>
  The requests the service answers and the tick of its background job. \<open>run_call\<close> is the world
  after one of them; the requests of all drivers and the job share the world, one after
  the other.
\<close>

datatype res_call =
    CreateCall string string VehicleType AssignmentMode string
  | ConfirmCall string
  | CancelCall string string
  | CheckInCall string string
  | CheckOutCall string string string
  | GetCall string
  | GetActiveCall string
  | AvailabilityCall VehicleType
  | ListSpotsCall VehicleType int
  | ExpireTick

fun run_call :: "EventPublisher \<Rightarrow> res_call \<Rightarrow> 'k world \<Rightarrow> 'k world" where
  "run_call p (CreateCall did key vt mode sid) w = snd (run_state (CreateReservation did key vt mode sid) w)"
| "run_call p (ConfirmCall rid) w = snd (run_state (ConfirmReservation p rid) w)"
| "run_call p (CancelCall rid did) w = snd (run_state (CancelReservation p rid did) w)"
| "run_call p (CheckInCall rid did) w = snd (run_state (CheckIn p rid did) w)"
| "run_call p (CheckOutCall rid did key) w = snd (run_state (CheckOut p rid did key) w)"
| "run_call p (GetCall rid) w = snd (run_state (GetReservation rid) w)"
| "run_call p (GetActiveCall did) w = snd (run_state (GetActiveReservation did) w)"
| "run_call p (AvailabilityCall vt) w = snd (run_state (GetAvailability vt) w)"
| "run_call p (ListSpotsCall vt flr) w = snd (run_state (ListAvailableSpots vt flr) w)"
| "run_call p ExpireTick w = snd (run_state (ExpireReservations p) w)"

definition run_calls :: "EventPublisher \<Rightarrow> res_call list \<Rightarrow> 'k world \<Rightarrow> 'k world" where
  "run_calls p cs w = fold (run_call p) cs w"

lemma leaves_db_getters [quiet_intros]:
  "leaves_db (GetReservation rid)" "leaves_db (GetActiveReservation did)"
  "leaves_db (GetAvailability vt)" "leaves_db (ListAvailableSpots vt flr)"
  unfolding GetReservation_def GetActiveReservation_def GetAvailability_def ListAvailableSpots_def Let_def
  by (intro quiet_intros)+

lemma run_call_evolves:
  assumes "keys_ok w"
  shows "evolves w (run_call p c w)"
  using CreateReservation_evolves ConfirmReservation_evolves [OF assms] CancelReservation_evolves [OF assms]
    CheckIn_evolves [OF assms] CheckOut_evolves [OF assms] ExpireReservations_evolves [OF assms]
    leaves_db_getters [THEN leaves_dbD, THEN wp_fst_snd [THEN iffD1], THEN db_same_evolves]
  by (cases c) (auto simp: wp_fst_snd)

lemma run_calls_evolves: "keys_ok w \<Longrightarrow> evolves w (run_calls p cs w)"
proof (induction cs arbitrary: w)
  case (Cons c cs)
  have "evolves w (run_call p c w)" by (rule run_call_evolves [OF Cons.prems])
  also have "evolves \<dots> (run_calls p cs \<dots>)"
    by (rule Cons.IH) (rule evolves_keys_ok [OF calculation Cons.prems])
  finally show ?case by (simp add: run_calls_def)
qed (simp add: run_calls_def)

text \<open>The invariant of the database, with the one of the machine behind it.\<close>

definition db_wf :: "'k world \<Rightarrow> bool" where
  "db_wf w \<longleftrightarrow> distinct (map sr_id (w_spots w)) \<and> table_wf (spot_ids w) (table_of w)"

lemma db_wf_keys_ok: "db_wf w \<Longrightarrow> keys_ok w"
  by (simp add: db_wf_def keys_ok_def table_wf_def table_of_def)

lemma evolves_db_wf: "evolves w w' \<Longrightarrow> db_wf w \<Longrightarrow> db_wf w'"
  using table_steps_wf [of "spot_ids w" "table_of w" "table_of w'"]
  by (auto simp: evolves_def db_wf_def spot_ids_def)

lemma evolves_later:
  "evolves w w' \<Longrightarrow> i < length (w_reservations w) \<Longrightarrow>
     i < length (w_reservations w') \<and> later (w_reservations w ! i) (w_reservations w' ! i)"
  using table_steps_grows [of "spot_ids w" "table_of w" "table_of w'"]
  by (auto simp: evolves_def grows_def table_of_def)

end
