(* ===== verification/ReservationBehaviour.thy ===== *)
theory ReservationBehaviour
  imports ReservationRefinement
begin

text \<open>
  What the operations of the reservation service return and write, branch by branch: the
  requests that succeed on a network that serves every call, the requests that are refused and
  change nothing, the lock of a spot and the replay of a request under its idempotency key.
\<close>

section \<open>Reading a row\<close>

text \<open>\<open>current w row s\<close>: \<open>row\<close> is in the table and \<open>s\<close> is the spot it refers to.\<close>

definition current :: "'k world \<Rightarrow> reservation_row \<Rightarrow> spot_row \<Rightarrow> bool" where
  "current w row s \<longleftrightarrow> row \<in> set (w_reservations w) \<and> s \<in> set (w_spots w) \<and> sr_id s = rr_spot_id row"

lemma current_frame [simp]:
  "current (arrive w) row s = current w row s" "current (pass w) row s = current w row s"
  by (simp_all add: current_def)

lemma keys_ok_frame [simp]: "keys_ok (arrive w) = keys_ok w" "keys_ok (pass w) = keys_ok w"
  by (simp_all add: keys_ok_def)

lemma select_reservations_join:
  "select_reservations P w = concat (map (\<lambda>r. map (scanReservation r) (filter (\<lambda>s. sr_id s = rr_spot_id r) (w_spots w)))
     (filter P (w_reservations w)))"
proof -
  have "[scanReservation r s. s \<leftarrow> ss, sr_id s = x] = map (scanReservation r) (filter (\<lambda>s. sr_id s = x) ss)"
    for r ss x by (induction ss) auto
  moreover have "concat (map (\<lambda>r. if P r then f r else []) rs) = concat (map f (filter P rs))"
    for f :: "reservation_row \<Rightarrow> Reservation list" and rs by (induction rs) auto
  ultimately show ?thesis by (simp add: select_reservations_def if_distrib cong: if_cong)
qed

lemma select_by_id:
  assumes "keys_ok w" "current w row s"
  shows "select_reservations (\<lambda>r. rr_id r = rr_id row) w = [scanReservation row s]"
proof -
  have "filter (\<lambda>r. rr_id r = rr_id row) (w_reservations w) = [row]"
    "filter (\<lambda>x. sr_id x = rr_spot_id row) (w_spots w) = [s]"
    using assms reservations.find_present [of w row] spots.find_present [of w s] by (auto simp: current_def)
  then show ?thesis by (simp add: select_reservations_join)
qed

lemma read_served [wp_simps]:
  assumes "reliable w" "keys_ok w" "current w row s" "rid = rr_id row"
  shows "wp (repo_GetReservation rid) Q w = Q (Inr (scanReservation row s)) (arrive w)"
  using assms
  by (simp add: repo_GetReservation_def wp_query select_by_id scan_first_def first_row_def)

text \<open>A reservation id without a row: every operation answers with the wrapped \<open>pgx.ErrNoRows\<close>.\<close>

lemma read_missing [wp_simps]:
  assumes "reliable w" "rid \<notin> rr_id ` set (w_reservations w)"
  shows "wp (repo_GetReservation rid) Q w = Q (Inl (ErrWrap ''scan reservation: '' ErrNoRows)) (arrive w)"
proof -
  have "select_reservations (\<lambda>r. rr_id r = rid) (arrive w) = []"
    using assms by (auto simp: select_reservations_join filter_empty_conv)
  with assms show ?thesis
    by (simp add: repo_GetReservation_def wp_query scan_first_def first_row_def)
qed

text \<open>Publishing on a network that serves every call: the message is handed to the broker.\<close>

definition announced :: "EventPublisher \<Rightarrow> string \<Rightarrow> Reservation \<Rightarrow> 'k world \<Rightarrow> 'k world \<Rightarrow> bool" where
  "announced p event r w w' \<longleftrightarrow> (case p of
       MQPublisher \<Rightarrow> (\<exists>t. w_clock w \<le> t \<and> t \<le> w_clock w' \<and> w_published w' = w_published w @
         [\<lparr>m_Event = event, m_Timestamp = t, m_Payload = marshal_event (fromDomain r)\<rparr>])
     | NoopPublisher \<Rightarrow> w_published w' = w_published w
     | stubPublisher \<Rightarrow> w_published w' = w_published w)"

lemma publish_served:
  assumes "reliable w" "\<And>w'. quiet w w' \<Longrightarrow> reliable w' \<Longrightarrow> announced p event r w w' \<Longrightarrow> Q (Inr ()) w'"
  shows "wp (publish p event r) Q w"
proof -
  have c: "w_clock w \<le> w_clock (pass w)" "w_clock (pass w) \<le> w_clock (arrive (pass w))"
    by (rule pass_clock, rule arrive_clock)
  show ?thesis
    using assms(1) c
    by (cases p) (auto simp: publish_def Publish_def wp_simps Let_def quiet_def announced_def intro!: assms(2))
qed

lemma update_reservations_frame [simp]:
  "reliable (update_reservations rid f w) = reliable w"
  "w_clock (update_reservations rid f w) = w_clock w"
  "w_published (update_reservations rid f w) = w_published w"
  "w_ext (update_reservations rid f w) = w_ext w" "w_redis (update_reservations rid f w) = w_redis w"
  "w_reservations (update_reservations rid f w) = update_where (\<lambda>r. rr_id r = rid) f (w_reservations w)"
  by (simp_all add: update_reservations_def)

lemma clock_later [simp, intro]:
  "t \<le> w_clock w \<Longrightarrow> t \<le> w_clock (arrive w)" "t \<le> w_clock w \<Longrightarrow> t \<le> w_clock (pass w)"
  using arrive_clock [of w] pass_clock [of w] by linarith+

lemma announced_from:
  "announced p e r w1 w2 \<Longrightarrow> w_clock w \<le> w_clock w1 \<Longrightarrow> w_published w1 = w_published w \<Longrightarrow> announced p e r w w2"
  by (auto simp: announced_def split: EventPublisher.splits intro: order_trans)

lemma publish_tail:
  assumes "reliable w1" "w_clock w \<le> now" "now \<le> w_clock w1" "w_published w1 = w_published w"
    and "\<And>w'. now \<le> w_clock w' \<Longrightarrow> w_clock w1 \<le> w_clock w' \<Longrightarrow> w_reservations w' = w_reservations w1 \<Longrightarrow>
       w_redis w' = w_redis w1 \<Longrightarrow> reliable w' \<Longrightarrow> announced p e r w w' \<Longrightarrow> Q (Inr ()) w'"
  shows "wp (publish p e r) Q w1"
  using assms
  by (intro publish_served) (auto simp: quiet_def intro!: assms(5) elim!: announced_from)

section \<open>Requests that succeed\<close>

lemma spot_of_row_id [simp]: "s_SpotID (spot_of_row s) = sr_id s"
  by (simp add: spot_of_row_def)

lemma ConfirmReservation_pending:
  assumes "reliable w" "keys_ok w" "current w row s" "rr_status row = StatusPending"
  shows "wp (ConfirmReservation p (rr_id row)) (\<lambda>res w'. \<exists>now.
     let r = (scanReservation row s)\<lparr>r_Status := StatusConfirmed, r_ConfirmedAt := now, r_ExpiresAt := Add now HoldDuration\<rparr> in
     res = Inr r \<and> w_clock w \<le> now \<and> now \<le> w_clock w' \<and>
     w_reservations w' = update_where (\<lambda>x. rr_id x = rr_id row)
       (\<lambda>x. x\<lparr>rr_status := StatusConfirmed, rr_confirmed_at := pg_timestamp now,
          rr_expires_at := pg_timestamp (Add now HoldDuration)\<rparr>) (w_reservations w) \<and>
     announced p EventReservationConfirmed r w w') w"
  using assms
  by (simp add: ConfirmReservation_def wp_simps Let_def UpdateConfirmed_def Acquire_def rdb_SetNX_def
        PublishReservationConfirmed_def)
    (rule publish_tail [where now = "w_clock (pass (arrive w))"];
     auto simp: wp_ok intro!: exI [of _ "w_clock (pass (arrive w))"])

text \<open>Cancelling: the fee depends on how long ago the reservation was confirmed, as \<open>pkg/pricing\<close> says.\<close>

lemma CancelReservation_open:
  assumes "reliable w" "keys_ok w" "current w row s" "rr_status row \<in> {StatusPending, StatusConfirmed}"
  shows "wp (CancelReservation p (rr_id row) (rr_driver_id row)) (\<lambda>res w'. \<exists>now.
     let r = (scanReservation row s)\<lparr>r_Status := StatusCancelled, r_CancelledAt := Some now\<rparr> in
     res = Inr (r, CalculateCancellationFee (rr_confirmed_at row) now False) \<and>
     w_clock w \<le> now \<and> now \<le> w_clock w' \<and>
     w_reservations w' = update_where (\<lambda>x. rr_id x = rr_id row)
       (\<lambda>x. x\<lparr>rr_status := StatusCancelled, rr_cancelled_at := Some (pg_timestamp now)\<rparr>) (w_reservations w) \<and>
     announced p EventReservationCancelled r w w' \<and> reliable w' \<and>
     (\<exists>t. w_clock w \<le> t \<and> t \<le> w_clock w' \<and>
        w_redis w' = releaseScript (w_ext w) (w_redis w) t (spotLockKey (sr_id s)) (rr_id row))) w"
proof -
  have fee: "(if Sub now t \<le> 2 * Minute then 0 else 5000) = CalculateCancellationFee t now False" for now t
    by (simp add: CalculateCancellationFee_def FreeCancelWindow_def CancellationFree_def CancellationFee_def)
  from assms show ?thesis
    by (auto simp: CancelReservation_def wp_simps Let_def UpdateCancelled_def Release_def fee
        PublishReservationCancelled_def)
      (rule publish_tail [where now = "w_clock (pass (arrive w))"]; simp add: wp_ok;
       rule exI [of _ "w_clock (pass (arrive w))"]; simp; rule exI; intro conjI; (rule refl | simp))+
qed

text \<open>
  Checking in within the hold: the session id is the next identifier drawn. \<open>seen\<close> is the
  clock at the test, \<open>now\<close> the one that is written.
\<close>

lemma CheckIn_confirmed:
  assumes "reliable w" "keys_ok w" "current w row s" "rr_status row = StatusConfirmed"
  shows "wp (CheckIn p (rr_id row) (rr_driver_id row)) (\<lambda>res w'. \<exists>seen now.
     let sid = x_uuid (w_ext w) (w_uuids w);
         r = (scanReservation row s)\<lparr>r_Status := StatusActive, r_SessionID := sid, r_CheckInAt := Some now\<rparr> in
     w_clock w \<le> seen \<and> seen \<le> now \<and> now \<le> w_clock w' \<and>
     (if rr_expires_at row < seen
      then res = Inl (ErrNew ''reservation expired'') \<and> w_reservations w' = w_reservations w
      else res = Inr r \<and>
        w_reservations w' = update_where (\<lambda>x. rr_id x = rr_id row)
          (\<lambda>x. x\<lparr>rr_status := StatusActive, rr_session_id := Some sid,
             rr_check_in_at := Some (pg_timestamp now)\<rparr>) (w_reservations w) \<and>
        announced p EventCheckInDetected r w w')) w"
proof (cases "rr_expires_at row < w_clock (pass (arrive w))")
  case True
  with assms show ?thesis
    by (auto simp: CheckIn_def wp_simps Let_def After_def intro!: exI [of _ "w_clock (pass (arrive w))"])
next
  case False
  let ?seen = "w_clock (pass (arrive w))"
  let ?w2 = "(pass (arrive w))\<lparr>w_uuids := Suc (w_uuids w)\<rparr>"
  have "w_clock w \<le> ?seen" "?seen \<le> w_clock (pass ?w2)"
    using pass_clock [of ?w2] by simp_all
  with assms False show ?thesis
    by (simp add: CheckIn_def wp_simps Let_def After_def UpdateCheckIn_def PublishCheckInDetected_def)
      (rule publish_tail [where now = "w_clock (pass ?w2)"]; simp add: wp_ok;
       rule exI [of _ ?seen]; simp; rule exI [of _ "w_clock (pass ?w2)"]; simp)
qed

lemma CheckOut_active:
  assumes "reliable w" "keys_ok w" "current w row s" "rr_status row = StatusActive"
    and "\<And>t. w_clock w \<le> t \<Longrightarrow> x_redis_get (w_ext w) (w_redis w) t (store_key key) = None"
  shows "wp (CheckOut p (rr_id row) (rr_driver_id row) key) (\<lambda>res w'. \<exists>now.
     let r = (scanReservation row s)\<lparr>r_Status := StatusCompleted, r_CheckOutAt := Some now\<rparr> in
     res = Inr r \<and> w_clock w \<le> now \<and> now \<le> w_clock w' \<and>
     w_reservations w' = update_where (\<lambda>x. rr_id x = rr_id row)
       (\<lambda>x. x\<lparr>rr_status := StatusCompleted, rr_check_out_at := Some (pg_timestamp now)\<rparr>) (w_reservations w) \<and>
     announced p EventCheckOutCompleted r w w' \<and> reliable w' \<and>
     (\<exists>t t'. w_clock w \<le> t \<and> t \<le> t' \<and> t' \<le> w_clock w' \<and>
        w_redis w' = x_redis_set (w_ext w) (releaseScript (w_ext w) (w_redis w) t (spotLockKey (sr_id s)) (rr_id row))
          t' (store_key key) (rr_id row) DefaultTTL)) w"
proof -
  let ?now = "w_clock (pass (arrive (arrive w)))"
  let ?w1 = "arrive (update_reservations (rr_id row) (\<lambda>x. x\<lparr>rr_status := StatusCompleted,
    rr_check_out_at := Some (pg_timestamp ?now)\<rparr>) (arrive (pass (arrive (arrive w)))))"
  let ?w2 = "arrive (?w1\<lparr>w_redis := releaseScript (w_ext w) (w_redis w) (w_clock ?w1) (spotLockKey (sr_id s)) (rr_id row)\<rparr>)"
  have "w_clock w \<le> w_clock ?w1" by simp
  moreover have "w_clock ?w1 \<le> w_clock ?w2" by (rule order_trans [OF _ arrive_clock]) simp
  ultimately show ?thesis
    using assms
    by (simp add: CheckOut_def Check_def rdb_Get_def wp_simps Let_def UpdateCheckOut_def Release_def Save_def
          rdb_Set_def PublishCheckOutCompleted_def)
      (rule publish_tail [where now = ?now]; simp add: wp_ok; rule exI [of _ ?now]; simp;
       rule exI [of _ "w_clock ?w1"]; simp; rule exI [of _ "w_clock ?w2"]; simp)
qed

section \<open>Requests that are refused\<close>

lemma read_current:
  assumes "keys_ok w" "current w row s"
  shows "wp (repo_GetReservation (rr_id row)) (\<lambda>res w'. db_same w w' \<and>
     (\<forall>r. res = Inr r \<longrightarrow> r = scanReservation row s)) w"
  using assms select_by_id [of "arrive w" row s]
  by (simp add: repo_GetReservation_def wp_query scan_first_def first_row_def split: fate.split)

lemma read_current_later:
  assumes "keys_ok w" "current w row s" "db_same w w1"
  shows "wp (repo_GetReservation (rr_id row)) (\<lambda>res w'. db_same w w' \<and>
     (\<forall>r. res = Inr r \<longrightarrow> r = scanReservation row s)) w1"
proof -
  have "keys_ok w1" "current w1 row s" using assms by (auto simp: keys_ok_def current_def db_same_def)
  from read_current [OF this] show ?thesis
    by (rule wp_mono) (use db_same_trans [OF assms(3)] in blast)
qed

text \<open>
  After reading a row: what holds of the rest and of any error holds of the whole.
\<close>

lemma or_return_read:
  assumes "keys_ok w" "current w row s" "db_same w w1"
    and "\<And>w2. db_same w w2 \<Longrightarrow> wp (rest (scanReservation row s)) Q w2"
    and "\<And>e w2. db_same w w2 \<Longrightarrow> Q (Inl e) w2"
  shows "wp (or_return (repo_GetReservation (rr_id row)) wrap rest) Q w1"
  unfolding wp_or_return
proof (rule wp_mono [OF read_current_later [OF assms(1-3)]], elim conjE)
  fix res :: "goerr + Reservation" and w2 assume "db_same w w2" "\<forall>r. res = Inr r \<longrightarrow> r = scanReservation row s"
  then show "case res of Inl e \<Rightarrow> Q (Inl (wrap e)) w2 | Inr a \<Rightarrow> wp (rest a) Q w2"
    using assms(4,5) by (cases res) simp_all
qed

lemma refused_after_read:
  assumes "keys_ok w" "current w row s" "db_same w w1"
    and "\<And>w2. db_same w w2 \<Longrightarrow> wp (rest (scanReservation row s)) (\<lambda>res w'. isl res \<and> db_same w w') w2"
  shows "wp (or_return (repo_GetReservation (rr_id row)) wrap rest) (\<lambda>res w'. isl res \<and> db_same w w') w1"
  by (rule or_return_read [OF assms(1-3)]) (simp_all add: assms(4))

lemma refused_by_guard: "db_same w w1 \<Longrightarrow> wp (fail err) (\<lambda>res w'. isl res \<and> db_same w w') w1"
  by (simp add: wp_fail)

lemma ConfirmReservation_refused:
  assumes "keys_ok w" "current w row s" "rr_status row \<noteq> StatusPending"
  shows "wp (ConfirmReservation p (rr_id row)) (\<lambda>res w'. isl res \<and> db_same w w') w"
  unfolding ConfirmReservation_def using assms
  by (intro refused_after_read [OF assms(1,2)]) (simp_all add: refused_by_guard)

lemma CancelReservation_refused:
  assumes "keys_ok w" "current w row s"
    and "did \<noteq> rr_driver_id row \<or> rr_status row \<notin> {StatusPending, StatusConfirmed}"
  shows "wp (CancelReservation p (rr_id row) did) (\<lambda>res w'. isl res \<and> db_same w w') w"
  unfolding CancelReservation_def using assms
  by (intro refused_after_read [OF assms(1,2)]) (auto simp: refused_by_guard)

lemma CheckIn_refused:
  assumes "keys_ok w" "current w row s"
    and "did \<noteq> rr_driver_id row \<or> rr_status row \<noteq> StatusConfirmed \<or> rr_expires_at row < w_clock w"
  shows "wp (CheckIn p (rr_id row) did) (\<lambda>res w'. isl res \<and> db_same w w') w"
  unfolding CheckIn_def
proof (rule refused_after_read [OF assms(1,2) db_same_refl], goal_cases)
  case (1 w2)
  then have "w_clock w \<le> w_clock (pass w2)" "db_same w (pass w2)"
    using db_same_trans [OF _ db_same_pass] by (auto simp: db_same_def)
  with 1 assms(3) show ?case
    by (auto simp: refused_by_guard wp_bind wp_time_Now After_def)
qed

text \<open>
  Checking out under a key that was used before returns the stored row to whoever asks; it
  changes nothing either.
\<close>

lemma CheckOut_refused:
  assumes "keys_ok w" "current w row s" "did \<noteq> rr_driver_id row \<or> rr_status row \<noteq> StatusActive"
  shows "wp (CheckOut p (rr_id row) did key) (\<lambda>res w'. db_same w w' \<and>
     (\<forall>r. res = Inr r \<longrightarrow> r = scanReservation row s)) w"
  unfolding CheckOut_def case_prod_beta
proof (rule or_return_quiet [OF leaves_db_idempotency(1) db_same_refl], rule wp_ifI, goal_cases)
  case (2 hit w1)
  show ?case
    by (rule or_return_read [OF assms(1,2) 2(1)]) (use assms(3) in \<open>auto simp: wp_fail\<close>)
qed (simp_all add: read_current_later [OF assms(1,2)])

text \<open>An operation on a reservation id that is not in the table fails with the text of \<open>pgx.ErrNoRows\<close>.\<close>

lemma missing_reservation:
  assumes "reliable w" "rid \<notin> rr_id ` set (w_reservations w)"
  defines "notfound \<equiv> ErrWrap ''get reservation: '' (ErrWrap ''scan reservation: '' ErrNoRows)"
  shows "wp (ConfirmReservation p rid) (\<lambda>res w'. res = Inl notfound \<and> db_same w w') w"
    and "wp (CancelReservation p rid did) (\<lambda>res w'. res = Inl notfound \<and> db_same w w') w"
    and "wp (CheckIn p rid did) (\<lambda>res w'. res = Inl notfound \<and> db_same w w') w"
  using assms(1,2)
  by (simp_all add: ConfirmReservation_def CancelReservation_def CheckIn_def notfound_def wp_or_return read_missing)

section \<open>Creating a reservation\<close>

text \<open>The spot the request is about: the one the driver names, or the first one that is free.\<close>

definition chosen :: "'k world \<Rightarrow> VehicleType \<Rightarrow> AssignmentMode \<Rightarrow> string \<Rightarrow> Spot option" where
  "chosen w vt mode sid =
     (let ss = (if mode = AssignmentModeSelected
        then map spot_of_row (filter (\<lambda>s. sr_id s = sid \<and> sr_status s = SpotAvailable) (w_spots w))
        else select_spots (\<lambda>s. sr_vehicle_type s = vt \<and> sr_status s = SpotAvailable) w)
      in case ss of [] \<Rightarrow> None | s # _ \<Rightarrow> Some s)"

lemma chosen_frame [simp]: "chosen (arrive w) vt mode sid = chosen w vt mode sid"
  by (simp add: chosen_def select_spots_def)

lemma chosen_wp:
  assumes "reliable w"
  shows "wp (find_spot vt mode sid) Q w =
     Q (Inr (chosen w vt mode sid)) (arrive w)"
  using assms
  by (auto simp: find_spot_def GetSpot_def FindAvailableSpot_def wp_simps chosen_def first_row_def select_spots_def
      split: list.split)

lemma chosen_spot_ids:
  assumes "chosen w vt mode sid = Some s"
  shows "s_SpotID s \<in> spot_ids w"
proof -
  have pick: "(case ss of [] \<Rightarrow> None | x # _ \<Rightarrow> Some x) = Some s \<Longrightarrow> s \<in> set ss" for ss
    by (auto split: list.splits)
  have "s \<in> spot_of_row ` set (w_spots w)"
    using assms pick by (cases "mode = AssignmentModeSelected") (fastforce simp: chosen_def select_spots_def)+
  then show ?thesis by (auto simp: spot_ids_def spot_of_row_def)
qed

text \<open>A request that meets no obstacle.\<close>

definition creatable :: "'k world \<Rightarrow> string \<Rightarrow> Spot \<Rightarrow> bool" where
  "creatable w key s \<longleftrightarrow> redis_ok (w_ext w)
     \<and> x_redis_get (w_ext w) (w_redis w) (w_clock w) (store_key key) = None
     \<and> x_redis_get (w_ext w) (w_redis w) (w_clock w) (spotLockKey (s_SpotID s)) = None
     \<and> x_uuid (w_ext w) (w_uuids w) \<notin> rr_id ` set (w_reservations w)
     \<and> key \<notin> rr_idempotency_key ` set (w_reservations w)"

lemma Acquire_free:
  assumes "reliable w" "redis_ok (w_ext w)" "0 < ttl"
    and "x_redis_get (w_ext w) (w_redis w) (w_clock w) key = None"
  shows "wp (Acquire key v ttl) Q w = Q (Inr True)
    ((arrive w)\<lparr>w_redis := snd (x_redis_setnx (w_ext w) (w_redis w) (w_clock (arrive w)) key v ttl)\<rparr>)"
proof -
  have "fst (x_redis_setnx (w_ext w) (w_redis w) (w_clock (arrive w)) key v ttl)"
    by (rule redis_server.setnx_free [OF assms(2) [unfolded redis_ok_def]
          redis_server.get_future_None [OF assms(2) [unfolded redis_ok_def] arrive_clock assms(4)] assms(3)])
  then show ?thesis using assms(1) by (simp add: Acquire_def rdb_SetNX_def wp_simps Let_def)
qed

lemma store_key_not_lock [simp]: "store_key key \<noteq> spotLockKey sid" "spotLockKey sid \<noteq> store_key key"
  by (simp_all add: store_key_def spotLockKey_def)

lemma PaymentTimeout_pos [simp]: "0 < PaymentTimeout"
  by (simp add: PaymentTimeout_def Minute_def Hour_def Second_def)

definition row_of :: "Reservation \<Rightarrow> reservation_row" where
  "row_of r = \<lparr>rr_id = r_ReservationID r, rr_driver_id = r_DriverID r, rr_spot_id = s_SpotID (r_Spot r),
     rr_status = r_Status r, rr_assignment_mode = r_AssignmentMode r, rr_idempotency_key = r_IdempotencyKey r,
     rr_confirmed_at = pg_timestamp (r_ConfirmedAt r), rr_expires_at = pg_timestamp (r_ExpiresAt r),
     rr_check_in_at = None, rr_check_out_at = None, rr_cancelled_at = None, rr_session_id = None\<rparr>"

text \<open>The last part of the operation: the row is stored and the key saved.\<close>

definition new_reservation :: "string \<Rightarrow> string \<Rightarrow> string \<Rightarrow> AssignmentMode \<Rightarrow> Spot \<Rightarrow> time \<Rightarrow> Reservation" where
  "new_reservation rid did key mode s now =
     \<lparr>r_ReservationID = rid, r_DriverID = did, r_Spot = s, r_Status = StatusPending, r_AssignmentMode = mode,
      r_ConfirmedAt = now, r_ExpiresAt = Add now PaymentTimeout, r_CheckInAt = None, r_CheckOutAt = None,
      r_CancelledAt = None, r_SessionID = '''', r_IdempotencyKey = key\<rparr>"

lemma store_reservation_served:
  assumes "reliable w" "rid \<notin> rr_id ` set (w_reservations w)"
    and "key \<notin> rr_idempotency_key ` set (w_reservations w)" "s_SpotID s \<in> sr_id ` set (w_spots w)"
  shows "wp (store_reservation rid did key mode s) Q w =
   (let r = new_reservation rid did key mode s (w_clock (pass w));
        w1 = arrive ((arrive (pass w))\<lparr>w_reservations := w_reservations w @ [row_of r]\<rparr>)
    in Q (Inr r) (w1\<lparr>w_redis := x_redis_set (w_ext w) (w_redis w) (w_clock w1) (store_key key) rid DefaultTTL\<rparr>))"
  using assms
  by (simp add: store_reservation_def InsertReservation_def Save_def rdb_Set_def wp_simps Let_def row_of_def
      new_reservation_def)

text \<open>
  What the request leaves behind: a pending reservation of the chosen spot that expires five
  minutes after \<open>now\<close>, the lock of the spot, held in its name, and its idempotency key.
\<close>

lemma CreateReservation_creates:
  assumes "reliable w" "chosen w vt mode sid = Some s" "creatable w key s"
  shows "wp (CreateReservation did key vt mode sid) (\<lambda>res w'. \<exists>now.
     let id = x_uuid (w_ext w) (w_uuids w); r = new_reservation id did key mode s now in
     res = Inr r \<and> w_clock w \<le> now \<and> now \<le> w_clock w' \<and>
     w_reservations w' = w_reservations w @ [row_of r] \<and>
     (\<forall>t \<ge> w_clock w'. t < w_clock w + PaymentTimeout \<longrightarrow>
        x_redis_get (w_ext w') (w_redis w') t (spotLockKey (s_SpotID s)) = Some id) \<and>
     (\<forall>t \<ge> w_clock w'. x_redis_get (w_ext w') (w_redis w') t (spotLockKey (s_SpotID s)) \<in> {None, Some id}) \<and>
     (\<forall>t \<ge> w_clock w'. t < w_clock w + DefaultTTL \<longrightarrow>
        x_redis_get (w_ext w') (w_redis w') t (store_key key) = Some id) \<and>
     (\<forall>t \<ge> w_clock w'. \<forall>k. k \<noteq> store_key key \<and> k \<noteq> spotLockKey (s_SpotID s) \<longrightarrow>
        x_redis_get (w_ext w') (w_redis w') t k = x_redis_get (w_ext w) (w_redis w) t k) \<and>
     reliable w' \<and> w_ext w' = w_ext w \<and> w_spots w' = w_spots w) w"
proof -
  let ?id = "x_uuid (w_ext w) (w_uuids w)"
  let ?lock = "spotLockKey (s_SpotID s)"
  let ?w1 = "arrive ((arrive (arrive w))\<lparr>w_uuids := Suc (w_uuids w)\<rparr>)"
  let ?k1 = "snd (x_redis_setnx (w_ext w) (w_redis w) (w_clock ?w1) ?lock ?id PaymentTimeout)"
  let ?w2 = "pass (?w1\<lparr>w_redis := ?k1\<rparr>)"
  let ?now = "w_clock ?w2"
  let ?r = "new_reservation ?id did key mode s ?now"
  let ?w3 = "arrive ((arrive ?w2)\<lparr>w_reservations := w_reservations w @ [row_of ?r]\<rparr>)"
  let ?k2 = "x_redis_set (w_ext w) ?k1 (w_clock ?w3) (store_key key) ?id DefaultTTL"
  have ok: "redis_ok (w_ext w)" and id: "x_redis_get (w_ext w) (w_redis w) (w_clock w) (store_key key) = None"
    using assms(3) by (simp_all add: creatable_def)
  note server = ok [unfolded redis_ok_def]
  have lock: "x_redis_get (w_ext w) (w_redis w) t ?lock = None" if "w_clock w \<le> t" for t
    by (rule redis_None_later [OF ok _ that]) (use assms(3) in \<open>simp add: creatable_def\<close>)
  have spot: "s_SpotID s \<in> sr_id ` set (w_spots w)"
    using chosen_spot_ids [OF assms(2)] by (simp add: spot_ids_def)
  have wp: "wp (CreateReservation did key vt mode sid) Q w \<longleftrightarrow> Q (Inr ?r) (?w3\<lparr>w_redis := ?k2\<rparr>)" for Q
    using assms(1-3) lock spot
    by (simp add: CreateReservation_def wp_or_return [where m = "Check _"] Check_miss ok id
      wp_or_return [where m = "find_spot _ _ _"] chosen_wp Let_def wp_bind [of uuid_New] wp_uuid_New
      wp_or_return [where m = "Acquire _ _ _"] Acquire_free store_reservation_served creatable_def)
  have c1: "w_clock w \<le> w_clock ?w1" and c2: "w_clock ?w1 \<le> ?now" and c3: "?now \<le> w_clock ?w3"
    using arrive_clock [of "(arrive (arrive w))\<lparr>w_uuids := Suc (w_uuids w)\<rparr>"] pass_clock [of "?w1\<lparr>w_redis := ?k1\<rparr>"]
      arrive_clock [of "arrive ?w2\<lparr>w_reservations := w_reservations w @ [row_of ?r]\<rparr>"] arrive_clock [of ?w2]
    by (auto intro: order_trans)
  have "x_redis_get (w_ext w) ?k2 t ?lock = Some ?id"
    if "w_clock ?w3 \<le> t" "t < w_clock w + PaymentTimeout" for t
    by (rule redis_server.lock_survives_save [OF server lock [OF c1] _ _ _ c1 order_trans [OF c2 c3] that]) simp_all
  moreover have "x_redis_get (w_ext w) ?k2 t ?lock \<in> {None, Some ?id}" if "w_clock ?w3 \<le> t" for t
    by (rule redis_server.lock_own_or_free [OF server lock [OF c1] _ _ _ order_trans [OF c2 c3] that]) simp_all
  moreover have "x_redis_get (w_ext w) ?k2 t (store_key key) = Some ?id"
    if "w_clock ?w3 \<le> t" "t < w_clock w + DefaultTTL" for t
    by (rule redis_server.saved_until [OF server _ order_trans [OF c1 order_trans [OF c2 c3]] that]) simp
  moreover have "x_redis_get (w_ext w) ?k2 t k = x_redis_get (w_ext w) (w_redis w) t k"
    if "w_clock ?w3 \<le> t" "k \<noteq> store_key key \<and> k \<noteq> ?lock" for t k
    by (rule redis_server.lock_and_save_frame [OF server])
      (use that order_trans [OF c2 order_trans [OF c3 that(1)]] in simp_all)
  ultimately show ?thesis
    unfolding wp Let_def using c1 c2 c3 assms(1)
    by (intro exI [of _ ?now]) (simp del: insert_iff)
qed

section \<open>The lock and the idempotency key\<close>

text \<open>
  A spot whose lock is held, by anyone, cannot be reserved: on any network the request adds no
  row, and on one that serves every call it is answered ``spot unavailable''.
\<close>

lemma Acquire_taken:
  assumes "redis_ok (w_ext w)" "\<And>t. w_clock w \<le> t \<Longrightarrow> t \<le> w_clock (arrive w) \<Longrightarrow> x_redis_get (w_ext w) (w_redis w) t key \<noteq> None"
  shows "wp (Acquire key v ttl) (\<lambda>res w'. res \<noteq> Inr True) w"
proof -
  have "\<not> fst (x_redis_setnx (w_ext w) (w_redis w) (w_clock (arrive w)) key v ttl)"
    by (rule redis_server.setnx_taken [OF assms(1) [unfolded redis_ok_def]]) (rule assms(2) [OF arrive_clock order_refl])
  then show ?thesis by (simp add: Acquire_def rdb_SetNX_def wp_simps Let_def split: fate.split)
qed

lemma Acquire_taken_served:
  assumes "reliable w" "redis_ok (w_ext w)" "x_redis_get (w_ext w) (w_redis w) (w_clock (arrive w)) key \<noteq> None"
  shows "wp (Acquire key v ttl) Q w = Q (Inr False)
    ((arrive w)\<lparr>w_redis := snd (x_redis_setnx (w_ext w) (w_redis w) (w_clock (arrive w)) key v ttl)\<rparr>)"
proof -
  have "\<not> fst (x_redis_setnx (w_ext w) (w_redis w) (w_clock (arrive w)) key v ttl)"
    by (rule redis_server.setnx_taken [OF assms(2) [unfolded redis_ok_def] assms(3)])
  then show ?thesis using assms(1) by (simp add: Acquire_def rdb_SetNX_def wp_simps Let_def)
qed

lemma CreateReservation_locked:
  assumes "reliable w" "redis_ok (w_ext w)" "chosen w vt mode sid = Some s"
    and "x_redis_get (w_ext w) (w_redis w) (w_clock w) (store_key key) = None"
    and "\<And>t. w_clock w \<le> t \<Longrightarrow> t < T \<Longrightarrow> x_redis_get (w_ext w) (w_redis w) t (spotLockKey (s_SpotID s)) \<noteq> None"
  shows "wp (CreateReservation did key vt mode sid) (\<lambda>res w'. w_clock w' < T \<longrightarrow>
     res = Inl (ErrNew ''spot unavailable'') \<and> w_reservations w' = w_reservations w) w"
proof -
  let ?w1 = "(arrive (arrive w))\<lparr>w_uuids := Suc (w_uuids w)\<rparr>"
  let ?lock = "spotLockKey (s_SpotID s)" let ?id = "x_uuid (w_ext w) (w_uuids w)"
  let ?w2 = "(arrive ?w1)\<lparr>w_redis := snd (x_redis_setnx (w_ext w) (w_redis w) (w_clock (arrive ?w1)) ?lock ?id PaymentTimeout)\<rparr>"
  show ?thesis
  proof (cases "w_clock (arrive ?w1) < T")
    case True
    then have "x_redis_get (w_ext w) (w_redis w) (w_clock (arrive ?w1)) ?lock \<noteq> None"
      using arrive_clock [of ?w1] by (intro assms(5)) (auto intro: order_trans)
    then have "wp (CreateReservation did key vt mode sid) Q w = Q (Inl (ErrNew ''spot unavailable'')) ?w2" for Q
      using assms(1-4)
      by (simp add: CreateReservation_def wp_or_return [where m = "Check _"] Check_miss
        wp_or_return [where m = "find_spot _ _ _"] chosen_wp Let_def wp_bind [of uuid_New] wp_uuid_New
        wp_or_return [where m = "Acquire _ _ _"] Acquire_taken_served wp_fail)
    then show ?thesis by simp
  next
    case False
    have spot: "s_SpotID s \<in> spot_ids w" by (rule chosen_spot_ids [OF assms(3)])
    have "wp (store_reservation ?id did key mode s) (\<lambda>_. evolves ?w2) ?w2"
      by (rule store_reservation_evolves) (use spot in \<open>simp_all add: spot_ids_def\<close>)
    then have rest: "wp (store_reservation ?id did key mode s) (\<lambda>_ w'. w_clock (arrive ?w1) \<le> w_clock w') ?w2"
      by (rule wp_mono) (use evolves_clock in fastforce)
    have "wp (CreateReservation did key vt mode sid) (\<lambda>res w'. w_clock (arrive ?w1) \<le> w_clock w') w"
      using assms(1-4) rest
      by (simp add: CreateReservation_def wp_or_return [where m = "Check _"] Check_miss
        wp_or_return [where m = "find_spot _ _ _"] chosen_wp wp_bind [of uuid_New] wp_uuid_New
        wp_or_return Acquire_def rdb_SetNX_def wp_remote wp_fail Let_def)
    with False show ?thesis by (auto elim: wp_mono)
  qed
qed

text \<open>
  A request under a key that is in the store returns the reservation that was made under it,
  whatever else it asks for, and changes nothing.
\<close>

interpretation requests: keyed_table rr_idempotency_key w_reservations db_wf
  by unfold_locales (simp add: db_wf_def table_wf_def table_of_def)

lemma select_by_key:
  assumes "db_wf w" "current w row s"
  shows "select_reservations (\<lambda>r. rr_idempotency_key r = rr_idempotency_key row) w = [scanReservation row s]"
proof -
  have "filter (\<lambda>r. rr_idempotency_key r = rr_idempotency_key row) (w_reservations w) = [row]"
    "filter (\<lambda>x. sr_id x = rr_spot_id row) (w_spots w) = [s]"
    using assms requests.find_present [of w row] spots.find_present [of w s] db_wf_keys_ok [of w]
    by (auto simp: current_def)
  then show ?thesis by (simp add: select_reservations_join)
qed

lemma CreateReservation_replay:
  assumes "reliable w" "db_wf w" "current w row s" "rr_idempotency_key row = key"
    and "x_redis_get (w_ext w) (w_redis w) (w_clock (arrive w)) (store_key key) \<noteq> None"
  shows "wp (CreateReservation did key vt mode sid) (\<lambda>res w'. res = Inr (scanReservation row s) \<and> db_same w w') w"
proof -
  have "select_reservations (\<lambda>r. rr_idempotency_key r = key) (arrive (arrive w)) = [scanReservation row s]"
    using select_by_key [OF assms(2,3)] assms(4) by (simp add: select_reservations_join)
  with assms(1,5) show ?thesis
    by (auto simp: CreateReservation_def Check_def rdb_Get_def repo_GetByIdempotencyKey_def wp_simps
        scan_first_def first_row_def )
qed

text \<open>
  The two together: after a reservation was made, a second request for the same spot under
  another key is refused as long as it ends within five minutes of the start of the first.
\<close>

lemma chosen_same_spots: "w_spots w' = w_spots w \<Longrightarrow> chosen w' = chosen w"
  by (intro ext) (simp add: chosen_def select_spots_def)

lemma spot_not_reserved_twice:
  assumes "reliable w" "chosen w vt mode sid = Some s" "creatable w key s"
    and "chosen w vt' mode' sid' = Some s'" "s_SpotID s' = s_SpotID s" "key' \<noteq> key"
    and "x_redis_get (w_ext w) (w_redis w) (w_clock w) (store_key key') = None"
  shows "wp (CreateReservation did key vt mode sid) (\<lambda>_ w1.
     wp (CreateReservation did' key' vt' mode' sid') (\<lambda>res w2. w_clock w2 < w_clock w + PaymentTimeout \<longrightarrow>
       res = Inl (ErrNew ''spot unavailable'') \<and> w_reservations w2 = w_reservations w1) w1) w"
proof (rule wp_mono [OF CreateReservation_creates [OF assms(1-3)]], unfold Let_def, elim exE conjE, goal_cases)
  case (1 res w1 now)
  have ok: "redis_ok (w_ext w)" using assms(3) by (simp add: creatable_def)
  have later: "w_clock w \<le> w_clock w1" using 1 by linarith
  have key: "store_key key' \<noteq> store_key key" using assms(6) by (simp add: store_key_def)
  have "x_redis_get (w_ext w1) (w_redis w1) (w_clock w1) (store_key key') = None"
    using 1 key redis_None_later [OF ok assms(7) later] by simp
  moreover have "redis_ok (w_ext w1)" "chosen w1 vt' mode' sid' = Some s'" using ok 1 assms(4) chosen_same_spots [of w1 w] by simp_all
  ultimately show ?case
    using 1 assms(5) by (intro CreateReservation_locked) auto
qed

lemma new_reservation_fields [simp]:
  "r_ReservationID (new_reservation rid did key mode s now) = rid"
  "r_DriverID (new_reservation rid did key mode s now) = did"
  "r_Spot (new_reservation rid did key mode s now) = s"
  "r_Status (new_reservation rid did key mode s now) = StatusPending"
  "r_ConfirmedAt (new_reservation rid did key mode s now) = now"
  "r_ExpiresAt (new_reservation rid did key mode s now) = Add now PaymentTimeout"
  by (simp_all add: new_reservation_def)

lemma row_of_new [simp]:
  "rr_id (row_of (new_reservation rid did key mode s now)) = rid"
  "rr_driver_id (row_of (new_reservation rid did key mode s now)) = did"
  "rr_spot_id (row_of (new_reservation rid did key mode s now)) = s_SpotID s"
  "rr_status (row_of (new_reservation rid did key mode s now)) = StatusPending"
  "rr_idempotency_key (row_of (new_reservation rid did key mode s now)) = key"
  "rr_confirmed_at (row_of (new_reservation rid did key mode s now)) = pg_timestamp now"
  "rr_expires_at (row_of (new_reservation rid did key mode s now)) = pg_timestamp (Add now PaymentTimeout)"
  by (simp_all add: row_of_def new_reservation_def)

lemma retried_request_is_replayed:
  assumes "reliable w" "db_wf w" "chosen w vt mode sid = Some s" "creatable w key s"
  shows "wp (CreateReservation did key vt mode sid) (\<lambda>res w1. w_clock (arrive w1) < w_clock w + DefaultTTL \<longrightarrow>
     (\<exists>r. res = Inr r \<and>
       wp (CreateReservation did' key vt' mode' sid') (\<lambda>res' w2. \<exists>r'. res' = Inr r'
         \<and> r_ReservationID r' = r_ReservationID r \<and> r_DriverID r' = r_DriverID r
         \<and> s_SpotID (r_Spot r') = s_SpotID (r_Spot r) \<and> r_Status r' = StatusPending
         \<and> r_ExpiresAt r' = pg_timestamp (r_ExpiresAt r) \<and> db_same w1 w2) w1)) w"
proof (rule wp_mono [OF wp_conj [THEN iffD2, OF conjI,
      OF CreateReservation_evolves CreateReservation_creates [OF assms(1,3,4)]]],
    unfold Let_def, elim exE conjE, intro impI, goal_cases)
  case (1 res w1 now)
  let ?r = "new_reservation (x_uuid (w_ext w) (w_uuids w)) did key mode s now"
  obtain srow where srow: "srow \<in> set (w_spots w)" "sr_id srow = s_SpotID s"
    using chosen_spot_ids [OF assms(3)] by (auto simp: spot_ids_def)
  have "wp (CreateReservation did' key vt' mode' sid') (\<lambda>res' w2. res' = Inr (scanReservation (row_of ?r) srow) \<and> db_same w1 w2) w1"
    using 1 srow arrive_clock [of w1]
    by (intro CreateReservation_replay evolves_db_wf [OF _ assms(2)]) (simp_all add: current_def)
  then show ?case
    using 1 srow by (intro exI [of _ ?r] conjI) (auto elim!: wp_mono simp: spot_of_row_def)
qed

section \<open>The expiry job\<close>

text \<open>On a network that serves every call the job expires exactly the rows that had lapsed when it read the clock.\<close>

lemma quiet_served [simp]:
  "reliable w \<Longrightarrow> wp (Release k v) Q w = Q (Inr ()) ((arrive w)\<lparr>w_redis := releaseScript (w_ext w) (w_redis w) (w_clock (arrive w)) k v\<rparr>)"
  by (simp add: Release_def wp_simps)

lemma expire_loop_served:
  "reliable w \<Longrightarrow> wp (expire_loop p rs) (\<lambda>res w'. res = Inr () \<and> w_clock w \<le> w_clock w' \<and> w_reservations w' =
     map (\<lambda>row. if rr_id row \<in> r_ReservationID ` set rs then row\<lparr>rr_status := StatusExpired\<rparr> else row) (w_reservations w)) w"
proof (induction rs arbitrary: w)
  case Nil
  then show ?case by (simp add: wp_ok)
next
  case (Cons r rs)
  let ?f = "\<lambda>row. row\<lparr>rr_status := StatusExpired\<rparr>"
  let ?w1 = "update_reservations (r_ReservationID r) ?f (arrive w)"
  let ?w2 = "(arrive ?w1)\<lparr>w_redis := releaseScript (w_ext w) (w_redis w) (w_clock (arrive ?w1))
    (spotLockKey (s_SpotID (r_Spot r))) (r_ReservationID r)\<rparr>"
  have "w_clock w \<le> w_clock ?w2" using arrive_clock [of ?w1] by (auto intro: order_trans)
  moreover have "wp (expire_loop p rs) (\<lambda>res w'. res = Inr () \<and> w_clock w \<le> w_clock w' \<and> w_reservations w' =
     map (\<lambda>row. if rr_id row \<in> r_ReservationID ` set (r # rs) then ?f row else row) (w_reservations w)) w3"
    if "quiet ?w2 w3" "reliable w3" "w_clock w \<le> w_clock ?w2" for w3
  proof (rule wp_mono [OF Cons.IH [OF that(2)]], elim conjE, intro conjI)
    fix res :: "goerr + unit" and w' :: "'a world"
    assume IH: "w_clock w3 \<le> w_clock w'" "w_reservations w' = map (\<lambda>row. if rr_id row \<in> r_ReservationID ` set rs
      then ?f row else row) (w_reservations w3)"
    show "w_clock w \<le> w_clock w'" using that(1,3) IH(1) unfolding quiet_def by linarith
    show "w_reservations w' = map (\<lambda>row. if rr_id row \<in> r_ReservationID ` set (r # rs) then ?f row else row) (w_reservations w)"
      using that(1) IH(2) by (auto simp: quiet_def update_where_def)
  qed
  ultimately have "wp (publish p EventReservationExpired r) (\<lambda>_. wp (expire_loop p rs) (\<lambda>res w'. res = Inr ()
     \<and> w_clock w \<le> w_clock w' \<and> w_reservations w' =
     map (\<lambda>row. if rr_id row \<in> r_ReservationID ` set (r # rs) then ?f row else row) (w_reservations w))) ?w2"
    using Cons.prems by (intro pubs.wp_pub_reliable) auto
  then show ?case
    using Cons.prems by (simp add: UpdateStatus_def wp_bind wp_exec PublishReservationExpired_def)
qed

lemma ExpireReservations_expires:
  assumes "reliable w" "db_wf w"
  shows "wp (ExpireReservations p) (\<lambda>res w'. \<exists>now. res = Inr () \<and> w_clock w \<le> now \<and> now \<le> w_clock w' \<and>
     w_reservations w' = map (\<lambda>row. if rr_status row \<in> {StatusPending, StatusConfirmed} \<and>
         rr_expires_at row < pg_timestamp now then row\<lparr>rr_status := StatusExpired\<rparr> else row) (w_reservations w)) w"
proof -
  let ?now = "w_clock (pass w)"
  let ?P = "\<lambda>r. rr_status r \<in> {StatusConfirmed, StatusPending} \<and> rr_expires_at r < pg_timestamp ?now"
  let ?rs = "select_reservations ?P (arrive (pass w))"
  have ids: "rr_id row \<in> r_ReservationID ` set ?rs \<longleftrightarrow> ?P row" if "row \<in> set (w_reservations w)" for row
  proof
    assume "rr_id row \<in> r_ReservationID ` set ?rs"
    then obtain row' where "row' \<in> set (w_reservations w)" "?P row'" "rr_id row' = rr_id row"
      by (fastforce simp: select_reservations_iff)
    moreover have "inj_on rr_id (set (w_reservations w))"
      using assms(2) by (simp add: db_wf_def table_wf_def table_of_def distinct_map)
    ultimately show "?P row" using that by (metis inj_onD)
  next
    assume P: "?P row"
    have "rr_spot_id row \<in> sr_id ` set (w_spots w)"
      using assms(2) that by (auto simp: db_wf_def table_wf_def table_of_def spot_ids_def)
    then obtain s where "s \<in> set (w_spots w)" "sr_id s = rr_spot_id row" by force
    with P that have "scanReservation row s \<in> set ?rs" by (fastforce simp: select_reservations_iff)
    then show "rr_id row \<in> r_ReservationID ` set ?rs" by force
  qed
  have "wp (expire_loop p ?rs) (\<lambda>res w'. \<exists>now. res = Inr () \<and> w_clock w \<le> now \<and> now \<le> w_clock w' \<and>
     w_reservations w' = map (\<lambda>row. if rr_status row \<in> {StatusPending, StatusConfirmed} \<and>
         rr_expires_at row < pg_timestamp now then row\<lparr>rr_status := StatusExpired\<rparr> else row) (w_reservations w)) (arrive (pass w))"
    using assms(1) pass_clock [of w] arrive_clock [of "pass w"] ids
    by (intro wp_mono [OF expire_loop_served]) (auto intro!: exI [of _ ?now] order_trans [OF arrive_clock [of "pass w"]])
  then show ?thesis
    using assms(1) by (simp add: ExpireReservations_def repo_ListExpiredReservations_def wp_bind wp_time_Now wp_or_return wp_query)
qed

section \<open>Availability\<close>

definition free_count :: "'k world \<Rightarrow> VehicleType \<Rightarrow> int" where
  "free_count w vt = int (length (filter (\<lambda>s. sr_vehicle_type s = vt \<and> sr_status s = SpotAvailable) (w_spots w)))"

definition capacity :: "VehicleType \<Rightarrow> int" where
  "capacity vt = (if vt = VehicleTypeCar then 5 * 30 else 5 * 50)"

lemma GetAvailability_counts:
  assumes "reliable w" "free_count w vt < 2 ^ 31"
  shows "wp (GetAvailability vt) (\<lambda>res w'. db_same w w' \<and>
     res = Inr (capacity vt, free_count w vt, capacity vt - free_count w vt, 0)) w"
proof -
  have "i32 (capacity vt - free_count w vt) = capacity vt - free_count w vt"
    using assms(2) by (intro i32_id) (auto simp: free_count_def capacity_def)
  with assms show ?thesis
    by (cases vt) (auto simp: GetAvailability_def CountAvailable_def scan_int32_def wp_simps Let_def free_count_def capacity_def)
qed

text \<open>
  No operation writes the status of a spot: what is reported as available does not depend on
  the reservations that were made.
\<close>

lemma availability_ignores_reservations:
  assumes "keys_ok w" "reliable w" "reliable (run_calls p cs w)"
  shows "wp (GetAvailability vt) (\<lambda>res _. wp (GetAvailability vt) (\<lambda>res' _. res' = res) (run_calls p cs w)) w"
proof -
  have "w_spots (run_calls p cs w) = w_spots w"
    using run_calls_evolves [OF assms(1)] by (auto simp: evolves_def)
  with assms(2,3) show ?thesis
    by (simp add: GetAvailability_def CountAvailable_def scan_int32_def wp_simps Let_def)
qed

end
