(* ===== verification/Http.thy ===== *)
theory Http
  imports World
begin

text \<open>
  HTTP as the gateway's handlers see it. A request has its method, path, remote address, headers
  and query parameters (\<open>Header.Get\<close> and \<open>Query().Get\<close> answer the empty string for a missing
  one), the JSON value at the start of its body, if there is one, and the value a middleware put
  into its context. A reply is a status with a body: the value a handler encodes with \<open>writeJSON\<close>,
  the error object of \<open>writeError\<close>, a plain text or nothing. When a handler panics, \<open>net/http\<close>
  closes the connection without a reply (\<open>Aborted\<close>).
\<close>

record http_request =
  hq_Method :: string
  hq_Path :: string
  hq_RemoteAddr :: string
  hq_Header :: "string \<Rightarrow> string"
  hq_Query :: "string \<Rightarrow> string"
  hq_Body :: "json option"
  hq_UserID :: "string option"

datatype 'a http_reply =
    JSONBody int 'a
  | ErrorBody int string
  | TextBody int string
  | EmptyBody int
  | is_Aborted: Aborted

type_synonym ('k, 'a) http_handler = "http_request \<Rightarrow> ('k, 'a http_reply) prog"

definition StatusOK :: int where "StatusOK = 200"
definition StatusCreated :: int where "StatusCreated = 201"
definition StatusNoContent :: int where "StatusNoContent = 204"
definition StatusBadRequest :: int where "StatusBadRequest = 400"
definition StatusUnauthorized :: int where "StatusUnauthorized = 401"
definition StatusNotFound :: int where "StatusNotFound = 404"
definition StatusConflict :: int where "StatusConflict = 409"
definition StatusGone :: int where "StatusGone = 410"
definition StatusTooManyRequests :: int where "StatusTooManyRequests = 429"
definition StatusInternalServerError :: int where "StatusInternalServerError = 500"

lemmas http_statuses = StatusOK_def StatusCreated_def StatusNoContent_def StatusBadRequest_def
  StatusUnauthorized_def StatusNotFound_def StatusConflict_def StatusGone_def
  StatusTooManyRequests_def StatusInternalServerError_def

definition writeJSON :: "int \<Rightarrow> 'a \<Rightarrow> ('k, 'a http_reply) prog" where
  "writeJSON status v = State_Monad.return (JSONBody status v)"

definition writeError :: "int \<Rightarrow> string \<Rightarrow> ('k, 'a http_reply) prog" where
  "writeError status msg = State_Monad.return (ErrorBody status msg)"

lemma wp_write [wp_simps]:
  "wp (writeJSON status v) Q w = Q (JSONBody status v) w"
  "wp (writeError status msg) Q w = Q (ErrorBody status msg) w"
  by (simp_all add: writeJSON_def writeError_def wp_return)

lemma leaves_db_write [quiet_intros]: "leaves_db (writeJSON status v)" "leaves_db (writeError status msg)"
  unfolding writeJSON_def writeError_def by (intro quiet_intros)+

end
