(* ===== verification/Proto.thy ===== *)
theory Proto
  imports World
begin

text \<open>
  What the gRPC services and the gateway share: status codes, the replies of a handler, the
  enumerations and messages of \<open>proto/common\<close> as the generated code in \<open>gen/\<close> has them. An enum
  of Protocol Buffers is an \<open>int32\<close> that may hold any value, so it is an \<open>int\<close> here and its
  constants are definitions. A missing timestamp is \<open>None\<close>, and \<open>AsTime\<close> reads it as the epoch.
\<close>

section \<open>Replies\<close>

datatype code = InvalidArgument | NotFound | FailedPrecondition | ResourceExhausted
  | PermissionDenied | Internal | Unimplemented | Unauthenticated | Unavailable | AlreadyExists | Unknown

text \<open>A handler answers with a message or a status; \<open>Panic\<close> is a nil pointer dereference.\<close>

datatype 'a reply = Reply 'a | Status code string | Panic

type_synonym ('k, 'a) rpc = "('k world, 'a reply) state"

definition or_status :: "('k, 'a) io \<Rightarrow> (goerr \<Rightarrow> 'b reply) \<Rightarrow> ('a \<Rightarrow> ('k, 'b) rpc) \<Rightarrow> ('k, 'b) rpc" where
  "or_status m status rest = do {
     res \<leftarrow> m;
     (case res of
        Inl err \<Rightarrow> State_Monad.return (status err)
      | Inr a \<Rightarrow> rest a)
   }"

lemma wp_or_status [wp_simps]:
  "wp (or_status m status rest) Q w =
     wp m (\<lambda>res w'. case res of Inl err \<Rightarrow> Q (status err) w' | Inr a \<Rightarrow> wp (rest a) Q w') w"
  by (simp add: or_status_def wp_fst_snd split: prod.split sum.split)

lemma leaves_db_or_status [quiet_intros]:
  "leaves_db m \<Longrightarrow> (\<And>x. leaves_db (f x)) \<Longrightarrow> leaves_db (or_status m status f)"
  unfolding or_status_def
  by (intro leaves_db_bind) (simp_all add: leaves_db_return split: sum.split)

text \<open>\<open>*p\<close> for a pointer that may be nil, in the last expression of a handler.\<close>

definition deref :: "'a option \<Rightarrow> ('a \<Rightarrow> 'b reply) \<Rightarrow> 'b reply" where
  "deref p f = (case p of None \<Rightarrow> Panic | Some a \<Rightarrow> f a)"

lemma deref_simps [simp]: "deref None f = Panic" "deref (Some a) f = f a"
  by (simp_all add: deref_def)

section \<open>proto/common\<close>

record Money =
  mo_Amount :: int
  mo_Currency :: string

definition idr :: "int \<Rightarrow> Money" where
  "idr amount = \<lparr>mo_Amount = amount, mo_Currency = ''IDR''\<rparr>"

text \<open>\<open>timestamppb.Timestamp.AsTime\<close>, which a nil timestamp answers with the epoch.\<close>

definition AsTime :: "time option \<Rightarrow> time" where
  "AsTime t = (case t of None \<Rightarrow> 0 | Some t \<Rightarrow> t)"

definition VEHICLE_TYPE_CAR :: int where "VEHICLE_TYPE_CAR = 1"
definition VEHICLE_TYPE_MOTORCYCLE :: int where "VEHICLE_TYPE_MOTORCYCLE = 2"

definition ASSIGNMENT_MODE_SYSTEM :: int where "ASSIGNMENT_MODE_SYSTEM = 1"
definition ASSIGNMENT_MODE_USER_SELECTED :: int where "ASSIGNMENT_MODE_USER_SELECTED = 2"

definition RESERVATION_STATUS_UNSPECIFIED :: int where "RESERVATION_STATUS_UNSPECIFIED = 0"
definition RESERVATION_STATUS_PENDING :: int where "RESERVATION_STATUS_PENDING = 1"
definition RESERVATION_STATUS_CONFIRMED :: int where "RESERVATION_STATUS_CONFIRMED = 2"
definition RESERVATION_STATUS_ACTIVE :: int where "RESERVATION_STATUS_ACTIVE = 3"
definition RESERVATION_STATUS_COMPLETED :: int where "RESERVATION_STATUS_COMPLETED = 4"
definition RESERVATION_STATUS_CANCELLED :: int where "RESERVATION_STATUS_CANCELLED = 5"
definition RESERVATION_STATUS_EXPIRED :: int where "RESERVATION_STATUS_EXPIRED = 6"

definition INVOICE_STATUS_DRAFT :: int where "INVOICE_STATUS_DRAFT = 1"
definition INVOICE_STATUS_PENDING_PAYMENT :: int where "INVOICE_STATUS_PENDING_PAYMENT = 2"
definition INVOICE_STATUS_PAID :: int where "INVOICE_STATUS_PAID = 3"
definition INVOICE_STATUS_VOID :: int where "INVOICE_STATUS_VOID = 4"

definition TRANSACTION_STATUS_PENDING :: int where "TRANSACTION_STATUS_PENDING = 1"
definition TRANSACTION_STATUS_SETTLED :: int where "TRANSACTION_STATUS_SETTLED = 2"
definition TRANSACTION_STATUS_FAILED :: int where "TRANSACTION_STATUS_FAILED = 3"
definition TRANSACTION_STATUS_EXPIRED :: int where "TRANSACTION_STATUS_EXPIRED = 4"
definition TRANSACTION_STATUS_REFUNDED :: int where "TRANSACTION_STATUS_REFUNDED = 5"

definition PAYMENT_METHOD_QRIS :: int where "PAYMENT_METHOD_QRIS = 1"
definition PAYMENT_METHOD_GOPAY :: int where "PAYMENT_METHOD_GOPAY = 2"
definition PAYMENT_METHOD_OVO :: int where "PAYMENT_METHOD_OVO = 3"
definition PAYMENT_METHOD_DANA :: int where "PAYMENT_METHOD_DANA = 4"
definition PAYMENT_METHOD_VA_BCA :: int where "PAYMENT_METHOD_VA_BCA = 5"
definition PAYMENT_METHOD_VA_BNI :: int where "PAYMENT_METHOD_VA_BNI = 6"
definition PAYMENT_METHOD_VA_BRI :: int where "PAYMENT_METHOD_VA_BRI = 7"
definition PAYMENT_METHOD_VA_MANDIRI :: int where "PAYMENT_METHOD_VA_MANDIRI = 8"

lemmas proto_enums = VEHICLE_TYPE_CAR_def VEHICLE_TYPE_MOTORCYCLE_def ASSIGNMENT_MODE_SYSTEM_def
  ASSIGNMENT_MODE_USER_SELECTED_def RESERVATION_STATUS_UNSPECIFIED_def RESERVATION_STATUS_PENDING_def
  RESERVATION_STATUS_CONFIRMED_def RESERVATION_STATUS_ACTIVE_def RESERVATION_STATUS_COMPLETED_def
  RESERVATION_STATUS_CANCELLED_def RESERVATION_STATUS_EXPIRED_def INVOICE_STATUS_DRAFT_def
  INVOICE_STATUS_PENDING_PAYMENT_def INVOICE_STATUS_PAID_def INVOICE_STATUS_VOID_def
  TRANSACTION_STATUS_PENDING_def TRANSACTION_STATUS_SETTLED_def TRANSACTION_STATUS_FAILED_def
  TRANSACTION_STATUS_EXPIRED_def TRANSACTION_STATUS_REFUNDED_def PAYMENT_METHOD_QRIS_def
  PAYMENT_METHOD_GOPAY_def PAYMENT_METHOD_OVO_def PAYMENT_METHOD_DANA_def PAYMENT_METHOD_VA_BCA_def
  PAYMENT_METHOD_VA_BNI_def PAYMENT_METHOD_VA_BRI_def PAYMENT_METHOD_VA_MANDIRI_def

text \<open>\<open>PaymentMethod.String\<close>: the name in the generated table, or the number.\<close>

definition PaymentMethod_name :: "int \<Rightarrow> string option" where
  "PaymentMethod_name = map_of [(0, ''PAYMENT_METHOD_UNSPECIFIED''), (1, ''PAYMENT_METHOD_QRIS''),
     (2, ''PAYMENT_METHOD_GOPAY''), (3, ''PAYMENT_METHOD_OVO''), (4, ''PAYMENT_METHOD_DANA''),
     (5, ''PAYMENT_METHOD_VA_BCA''), (6, ''PAYMENT_METHOD_VA_BNI''), (7, ''PAYMENT_METHOD_VA_BRI''),
     (8, ''PAYMENT_METHOD_VA_MANDIRI'')]"

definition PaymentMethod_String :: "int \<Rightarrow> string" where
  "PaymentMethod_String m = (case PaymentMethod_name m of Some s \<Rightarrow> s | None \<Rightarrow> show_int m)"

record SpotProto =
  ps_SpotId :: string
  ps_Floor :: int
  ps_Number :: int
  ps_VehicleType :: int

end
