(* ===== verification/Auth.thy ===== *)
theory Auth
  imports Http Proto
begin

text \<open>
  \<open>pkg/auth/auth.go\<close>: issuing and validating the tokens, the interceptor of the gRPC server and
  the middleware of the HTTP server, which both put the user's id into the context of the
  request. The JWT library is a parameter: signing claims with HS256, and
  \<open>ParseWithClaims\<close>, which calls the key function with the method of the token (whether it is an
  HMAC method, and its name) and answers with the claims and whether the token is valid.
\<close>

section \<open>Tokens\<close>

record Claims =
  cl_UserID :: string
  cl_VehicleType :: string

definition keyfunc :: "string \<Rightarrow> bool \<Rightarrow> string \<Rightarrow> string + string" where
  "keyfunc secret is_hmac alg = (if \<not> is_hmac then Inl (''unexpected signing method: '' @ alg) else Inr secret)"

definition ParseToken :: "string \<Rightarrow> string \<Rightarrow> ('k, Claims) io" where
  "ParseToken secret tokenStr = do {
     now \<leftarrow> time_Now;
     parse \<leftarrow> asks (\<lambda>w. x_jwt_parse (w_ext w));
     (case parse (keyfunc secret) now tokenStr of
        Inl err \<Rightarrow> fail (ErrNew err)
      | Inr (claims, valid) \<Rightarrow> (case claims of
          None \<Rightarrow> fail (ErrNew ''invalid token claims'')
        | Some (userID, vehicleType) \<Rightarrow>
            if \<not> valid then fail (ErrNew ''invalid token claims'')
            else ok \<lparr>cl_UserID = userID, cl_VehicleType = vehicleType\<rparr>))
   }"

text \<open>\<open>time.Duration(expiryHours) * time.Hour\<close> is a product of 64-bit integers.\<close>

definition GenerateToken :: "string \<Rightarrow> string \<Rightarrow> string \<Rightarrow> int \<Rightarrow> ('k, string) io" where
  "GenerateToken secret userID vehicleType expiryHours = do {
     now \<leftarrow> time_Now;
     let expiresAt = Add now (i64 (expiryHours * Hour));
     issuedAt \<leftarrow> time_Now;
     sign \<leftarrow> asks (\<lambda>w. x_jwt_sign (w_ext w));
     (case sign secret (userID, vehicleType) expiresAt issuedAt of
        Inl err \<Rightarrow> fail (ErrNew err)
      | Inr token \<Rightarrow> ok token)
   }"

section \<open>The interceptor and the middleware\<close>

definition invalid_token :: "goerr \<Rightarrow> string" where
  "invalid_token err = ''invalid token: '' @ err_msg err"

definition isPublicMethod :: "string \<Rightarrow> bool" where
  "isPublicMethod meth \<longleftrightarrow> meth = ''/grpc.health.v1.Health/Check''"

text \<open>The incoming metadata, if there is any, answers a lower-case key with its values.\<close>

definition UnaryInterceptor ::
  "string \<Rightarrow> string \<Rightarrow> (string \<Rightarrow> string list) option \<Rightarrow> string option \<Rightarrow>
   (string option \<Rightarrow> ('k, 'a) rpc) \<Rightarrow> ('k, 'a) rpc" where
  "UnaryInterceptor secret meth md ctx handler =
     (if isPublicMethod meth then handler ctx
      else case md of
        None \<Rightarrow> State_Monad.return (Status Unauthenticated ''missing metadata'')
      | Some md \<Rightarrow> (case md ''authorization'' of
          [] \<Rightarrow> State_Monad.return (Status Unauthenticated ''missing authorization header'')
        | v # _ \<Rightarrow> or_status (ParseToken secret (trim_prefix v ''Bearer ''))
            (\<lambda>err. Status Unauthenticated (invalid_token err))
            (\<lambda>claims. handler (Some (cl_UserID claims)))))"

definition UserIDFromContext :: "string option \<Rightarrow> string option" where
  "UserIDFromContext ctx = (case ctx of None \<Rightarrow> None | Some uid \<Rightarrow> if uid = '''' then None else Some uid)"

definition is_public_path :: "string \<Rightarrow> bool" where
  "is_public_path path \<longleftrightarrow> path = ''/healthz'' \<or> path = ''/swagger.json'' \<or> has_prefix path ''/swagger/''
     \<or> path = ''/v1/auth/register'' \<or> path = ''/v1/auth/login''"

text \<open>The two error bodies are JSON texts written with \<open>http.Error\<close>.\<close>

definition unauthorized_body :: "string \<Rightarrow> string" where
  "unauthorized_body msg = [CHR 0x7B, CHR 0x22] @ ''code'' @ [CHR 0x22] @ '':16,'' @ [CHR 0x22] @ ''message''
     @ [CHR 0x22] @ '':'' @ [CHR 0x22] @ msg @ [CHR 0x22, CHR 0x7D]"

definition HTTPMiddleware :: "string \<Rightarrow> ('k, 'a) http_handler \<Rightarrow> ('k, 'a) http_handler" where
  "HTTPMiddleware secret next r =
     (if is_public_path (hq_Path r) then next r
      else if hq_Header r ''Authorization'' = ''''
      then State_Monad.return (TextBody StatusUnauthorized (unauthorized_body ''missing authorization header''))
      else do {
        parsed \<leftarrow> ParseToken secret (trim_prefix (hq_Header r ''Authorization'') ''Bearer '');
        (case parsed of
           Inl err \<Rightarrow> State_Monad.return (TextBody StatusUnauthorized (unauthorized_body (invalid_token err)))
         | Inr claims \<Rightarrow> next (r\<lparr>hq_UserID := Some (cl_UserID claims)\<rparr>))
      })"

section \<open>What it promises\<close>

text \<open>
  The documented behaviour of the library that the round trip needs: a token signed with HS256
  is accepted with its claims under the same key until its expiry, which has whole seconds, and
  rejected from then on; and a token whose key function fails is rejected.
\<close>

definition numeric_date :: "time \<Rightarrow> time" where
  "numeric_date t = t div Second * Second"

definition jwt_ok :: "'k externals \<Rightarrow> bool" where
  "jwt_ok x \<longleftrightarrow> (\<forall>secret claims expiresAt issuedAt token kf now.
     x_jwt_sign x secret claims expiresAt issuedAt = Inr token \<longrightarrow> 0 \<le> expiresAt \<longrightarrow> kf True ''HS256'' = Inr secret \<longrightarrow>
     (now < numeric_date expiresAt \<longrightarrow> x_jwt_parse x kf now token = Inr (Some claims, True)) \<and>
     (numeric_date expiresAt \<le> now \<longrightarrow> isl (x_jwt_parse x kf now token)))"

lemma leaves_db_ParseToken [quiet_intros]: "leaves_db (ParseToken secret token)"
  unfolding ParseToken_def by (intro quiet_intros)

lemma leaves_db_GenerateToken [quiet_intros]: "leaves_db (GenerateToken secret u v h)"
  unfolding GenerateToken_def Let_def by (intro quiet_intros)

text \<open>The claims a token is accepted with at the time the clock shows.\<close>

definition accepts :: "string \<Rightarrow> 'k world \<Rightarrow> string \<Rightarrow> Claims \<Rightarrow> bool" where
  "accepts secret w token c \<longleftrightarrow>
     x_jwt_parse (w_ext w) (keyfunc secret) (w_clock (pass w)) token = Inr (Some (cl_UserID c, cl_VehicleType c), True)"

lemma ParseToken_accepts:
  "wp (ParseToken secret token) (\<lambda>res w'. w' = pass w \<and> (\<forall>c. res = Inr c \<longleftrightarrow> accepts secret w token c)) w"
  by (auto simp: ParseToken_def wp_simps accepts_def split: sum.split prod.split option.split)

text \<open>
  The rule for a handler behind the middleware: it runs on a public path, or with the user id of
  claims that were accepted; every other request is answered with 401 and changes nothing.
\<close>

lemma HTTPMiddleware_guard:
  assumes "\<not> is_public_path (hq_Path r)"
    and "\<And>msg w'. w' = w \<or> w' = pass w \<Longrightarrow> Q (TextBody StatusUnauthorized msg) w'"
    and "\<And>c. hq_Header r ''Authorization'' \<noteq> '''' \<Longrightarrow> accepts secret w (trim_prefix (hq_Header r ''Authorization'') ''Bearer '') c \<Longrightarrow>
       wp (next (r\<lparr>hq_UserID := Some (cl_UserID c)\<rparr>)) Q (pass w)"
  shows "wp (HTTPMiddleware secret next r) Q w"
proof (cases "hq_Header r ''Authorization'' = ''''")
  case True
  then show ?thesis using assms(1,2) by (simp add: HTTPMiddleware_def wp_return)
next
  case False
  then have "wp (HTTPMiddleware secret next r) Q w = wp (ParseToken secret (trim_prefix (hq_Header r ''Authorization'') ''Bearer ''))
    (\<lambda>res. wp (case res of
       Inl err \<Rightarrow> State_Monad.return (TextBody StatusUnauthorized (unauthorized_body (invalid_token err)))
     | Inr claims \<Rightarrow> next (r\<lparr>hq_UserID := Some (cl_UserID claims)\<rparr>)) Q) w"
    using assms(1) by (simp only: HTTPMiddleware_def wp_bind if_False)
  also have \<dots>
    by (rule wp_mono [OF ParseToken_accepts]) (use assms(2,3) False in \<open>auto simp: wp_return split: sum.split\<close>)
  finally show ?thesis .
qed

lemma UnaryInterceptor_guard:
  assumes "\<not> isPublicMethod meth"
    and "\<And>msg w'. w' = w \<or> w' = pass w \<Longrightarrow> Q (Status Unauthenticated msg) w'"
    and "\<And>c. accepts secret w (trim_prefix (hd (the md ''authorization'')) ''Bearer '') c \<Longrightarrow>
       wp (handler (Some (cl_UserID c))) Q (pass w)"
  shows "wp (UnaryInterceptor secret meth md ctx handler) Q w"
proof (cases "md = None \<or> the md ''authorization'' = []")
  case True
  then show ?thesis using assms(1,2) by (auto simp: UnaryInterceptor_def wp_return split: option.split)
next
  case False
  then obtain m v vs where md: "md = Some m" "m ''authorization'' = v # vs" by (auto simp: neq_Nil_conv)
  have "wp (ParseToken secret (trim_prefix v ''Bearer ''))
    (\<lambda>res w'. case res of Inl e \<Rightarrow> Q (Status Unauthenticated (invalid_token e)) w'
       | Inr c \<Rightarrow> wp (handler (Some (cl_UserID c))) Q w') w"
    by (rule wp_mono [OF ParseToken_accepts]) (use assms(2,3) md in \<open>auto split: sum.split\<close>)
  then show ?thesis using assms(1) md by (simp add: UnaryInterceptor_def wp_or_status)
qed

text \<open>A token issued for a driver is accepted as that driver's until it expires.\<close>

lemma GenerateToken_accepted:
  assumes "jwt_ok (w_ext w)" "0 \<le> w_clock w" "0 \<le> hours" "hours * Hour < 2 ^ 63"
  shows "wp (GenerateToken secret u v hours) (\<lambda>res w'. \<forall>token. res = Inr token \<longrightarrow>
     (\<exists>issued. w_clock w \<le> issued \<and> issued \<le> w_clock w' \<and> (\<forall>w2. w_ext w2 = w_ext w \<longrightarrow>
        w_clock (pass w2) < numeric_date (issued + hours * Hour) \<longrightarrow>
        accepts secret w2 token \<lparr>cl_UserID = u, cl_VehicleType = v\<rparr>))) w"
proof -
  have "0 \<le> hours * Hour" using assms(3) by (simp add: Hour_def Minute_def Second_def)
  then have wrap: "i64 (hours * Hour) = hours * Hour" using assms(4) by (simp add: go_int)
  have c: "w_clock w \<le> w_clock (pass w)" "w_clock (pass w) \<le> w_clock (pass (pass w))"
    by (rule pass_clock)+
  let ?t = "w_clock (pass w) + hours * Hour"
  have t: "0 \<le> ?t" using assms(2) c(1) \<open>0 \<le> hours * Hour\<close> by linarith
  have "accepts secret w2 token \<lparr>cl_UserID = u, cl_VehicleType = v\<rparr>"
    if "x_jwt_sign (w_ext w) secret (u, v) ?t issued = Inr token" "w_ext w2 = w_ext w"
      "w_clock (pass w2) < numeric_date ?t" for w2 token issued
    using assms(1) [unfolded jwt_ok_def, rule_format, OF that(1) t, of "keyfunc secret"] that(2,3)
    by (simp add: accepts_def keyfunc_def)
  then show ?thesis
    using c wrap by (auto simp: GenerateToken_def wp_simps Let_def Add_def split: sum.split)
qed

lemma numeric_date_mono: "t \<le> u \<Longrightarrow> numeric_date t \<le> numeric_date u"
  unfolding numeric_date_def by (intro mult_right_mono zdiv_mono1) (simp_all add: less_imp_le)

lemma HTTPMiddleware_accepted:
  assumes "accepts secret w token c" "\<not> is_public_path (hq_Path r)" "hq_Header r ''Authorization'' = ''Bearer '' @ token"
  shows "wp (HTTPMiddleware secret next r) Q w = wp (next (r\<lparr>hq_UserID := Some (cl_UserID c)\<rparr>)) Q (pass w)"
proof -
  have "trim_prefix (hq_Header r ''Authorization'') ''Bearer '' = token" "hq_Header r ''Authorization'' \<noteq> ''''"
    by (simp_all only: assms(3) trim_prefix_append) simp
  moreover have "wp (ParseToken secret token) R w = R (Inr c) (pass w)" for R
    using assms(1) by (cases c) (simp add: ParseToken_def accepts_def wp_simps)
  ultimately show ?thesis using assms(2) by (simp add: HTTPMiddleware_def wp_bind)
qed

end
