(* ===== verification/Samples.thy ===== *)
theory Samples
  imports ReservationBehaviour Auth
begin

text \<open>
  A concrete world on which the theorems are applied: the store with expiry times for Redis,
  numbered identifiers, a network that serves every call, and a small car park.
\<close>

text \<open>
  Tokens in the clear: the user, the vehicle type and the secret, each after its length in
  unary, and the expiry in seconds.
\<close>

definition frame_field :: "string \<Rightarrow> string" where
  "frame_field s = replicate (length s) CHR ''x'' @ CHR ''.'' # s"

definition unframe :: "string \<Rightarrow> string \<times> string" where
  "unframe t = (let n = length (takeWhile ((=) CHR ''x'') t); rest = drop (Suc n) t in (take n rest, drop n rest))"

definition read_nat :: "string \<Rightarrow> nat" where
  "read_nat s = foldl (\<lambda>a c. 10 * a + (of_char c - 48)) 0 s"

definition sample_sign :: "string \<Rightarrow> string \<times> string \<Rightarrow> time \<Rightarrow> time \<Rightarrow> string + string" where
  "sample_sign secret claims expiry issued = Inr (frame_field (fst claims) @ frame_field (snd claims)
     @ frame_field secret @ show_nat (nat (expiry div Second)))"

definition sample_parse :: "(bool \<Rightarrow> string \<Rightarrow> string + string) \<Rightarrow> time \<Rightarrow> string \<Rightarrow> string + ((string \<times> string) option \<times> bool)" where
  "sample_parse kf now token =
     (let (user, r1) = unframe token; (vt, r2) = unframe r1; (secret, r3) = unframe r2 in
      case kf True ''HS256'' of
        Inl e \<Rightarrow> Inl e
      | Inr key \<Rightarrow> if key \<noteq> secret then Inl ''signature is invalid''
                   else if int (read_nat r3) * Second \<le> now then Inl ''token is expired''
                   else Inr (Some (user, vt), True))"

definition sample_ext :: "kv externals" where
  "sample_ext = \<lparr>x_redis_get = kv_get, x_redis_set = kv_set, x_redis_setnx = kv_setnx,
     x_redis_del = kv_del, x_redis_expire = kv_expire,
     x_uuid = (\<lambda>n. ''id-'' @ show_nat n @ ''-sample''),
     x_unique_violation = (\<lambda>c. ''duplicate key value violates unique constraint '' @ c),
     x_foreign_key_violation = (\<lambda>c. ''violates foreign key constraint '' @ c),
     x_enum_error = (\<lambda>v. ''invalid input value for enum '' @ v),
     x_int2_in = (\<lambda>s. if s \<noteq> [] \<and> list_all (\<lambda>c. c \<in> {CHR ''0'', CHR ''1'', CHR ''2'', CHR ''3'', CHR ''4'', CHR ''5''}) s
        then Inr (int (read_nat s)) else Inl ''invalid input syntax for type smallint''),
     x_sha512_hex = (\<lambda>s. ''sha:'' @ s),
     x_bcrypt_hash = (\<lambda>n s. Inr (''bcrypt:'' @ s)),
     x_bcrypt_compare = (\<lambda>h s. h = ''bcrypt:'' @ s),
     x_jwt_sign = sample_sign, x_jwt_parse = sample_parse\<rparr>"

definition sample_world :: "kv world" where
  "sample_world = \<lparr>w_ext = sample_ext, w_clock = 1700000000 * Second, w_delays = [], w_fates = [],
     w_uuids = 0, w_redis = (\<lambda>_. None),
     w_spots = [\<lparr>sr_id = ''s1'', sr_floor = 1, sr_number = 1, sr_vehicle_type = VehicleTypeCar, sr_status = SpotAvailable\<rparr>,
       \<lparr>sr_id = ''s2'', sr_floor = 1, sr_number = 2, sr_vehicle_type = VehicleTypeCar, sr_status = SpotAvailable\<rparr>],
     w_drivers = [], w_reservations = [], w_invoices = [], w_transactions = [], w_locations = [],
     w_notifications = [], w_published = []\<rparr>"

definition forward :: "duration \<Rightarrow> 'k world \<Rightarrow> 'k world" where
  "forward d w = w\<lparr>w_clock := w_clock w + d\<rparr>"

definition after_run :: "('k, 'a) prog \<Rightarrow> 'k world \<Rightarrow> 'k world" where
  "after_run m w = snd (run_state m w)"

lemma redis_ok_sample [simp]: "redis_ok sample_ext"
  unfolding redis_ok_def sample_ext_def by simp (rule kv.redis_server_axioms)

lemma unframe_field [simp]: "unframe (frame_field s @ t) = (s, t)"
proof -
  have "takeWhile ((=) CHR ''x'') (frame_field s @ t) = replicate (length s) CHR ''x''"
    by (subst frame_field_def, subst append_assoc, subst takeWhile_append2) simp_all
  then show ?thesis by (simp add: unframe_def frame_field_def Let_def)
qed

lemma read_show_nat [simp]: "read_nat (show_nat n) = n"
proof (induction n rule: less_induct)
  case (less n)
  have digit: "of_char (digit_char d) - 48 = d" if "d < 10" for d :: nat
    using that by (simp add: digit_char_def)
  show ?case
    using less.IH [of "n div 10"] digit
    by (subst show_nat.simps) (simp add: read_nat_def)
qed

lemma jwt_ok_sample [simp]: "jwt_ok sample_ext"
proof -
  have "int (nat (expiry div Second)) * Second \<le> now \<longleftrightarrow> numeric_date expiry \<le> now"
    if "0 \<le> expiry" for expiry now :: int
  proof -
    have "0 \<le> expiry div Second" using that by (simp add: pos_imp_zdiv_nonneg_iff)
    then show ?thesis by (simp add: numeric_date_def)
  qed
  then show ?thesis
    by (auto simp: jwt_ok_def sample_ext_def sample_sign_def sample_parse_def)
qed

definition booked :: "kv world" where
  "booked = after_run (CreateReservation ''d1'' ''k1'' VehicleTypeCar AssignmentModeSystem '''') sample_world"

definition paid :: "kv world" where
  "paid = after_run (ConfirmReservation MQPublisher ''id-0-sample'') (forward (1 * Minute) booked)"

definition parked :: "kv world" where
  "parked = after_run (CheckIn MQPublisher ''id-0-sample'' ''d1'') (forward (10 * Minute) paid)"

definition left_park :: "kv world" where
  "left_park = after_run (CheckOut MQPublisher ''id-0-sample'' ''d1'' ''k2'') (forward (90 * Minute) parked)"

lemmas sample_runs = booked_def paid_def parked_def left_park_def

lemma sample_life:
  "map rr_status (w_reservations booked) = [StatusPending]"
  "map rr_status (w_reservations paid) = [StatusConfirmed]"
  "map rr_status (w_reservations parked) = [StatusActive]"
  "map rr_status (w_reservations left_park) = [StatusCompleted]"
  "map m_Event (w_published left_park) = [EventReservationConfirmed, EventCheckInDetected, EventCheckOutCompleted]"
  by code_simp+

text \<open>
  Confirming does not extend the lock of the spot: six minutes later the same spot is reserved,
  confirmed and checked into by another driver.
\<close>

definition booked_twice :: "kv world" where
  "booked_twice = (let w1 = after_run (CreateReservation ''d2'' ''k9'' VehicleTypeCar AssignmentModeSelected ''s1'') (forward (6 * Minute) paid);
     w2 = after_run (ConfirmReservation MQPublisher ''id-1-sample'') w1;
     w3 = after_run (CheckIn MQPublisher ''id-1-sample'' ''d2'') w2
   in after_run (CheckIn MQPublisher ''id-0-sample'' ''d1'') w3)"

lemma booked_twice_rows:
  "map (\<lambda>r. (rr_id r, rr_driver_id r, rr_spot_id r, rr_status r)) (w_reservations booked_twice) =
     [(''id-0-sample'', ''d1'', ''s1'', StatusActive), (''id-1-sample'', ''d2'', ''s1'', StatusActive)]"
  by code_simp

section \<open>Facts about the sample worlds\<close>

definition first_row_of :: "'k world \<Rightarrow> reservation_row" where
  "first_row_of w = hd (w_reservations w)"

definition first_spot_of :: "'k world \<Rightarrow> spot_row" where
  "first_spot_of w = hd (w_spots w)"

lemma sample_reliable [simp]: "reliable sample_world" "reliable (forward d booked)" "reliable (forward d paid)"
  "reliable (forward d parked)" "reliable booked"
proof -
  have *: "w_fates booked = []" "w_fates paid = []" "w_fates parked = []" by code_simp+
  show "reliable sample_world" by code_simp
  show "reliable (forward d booked)" "reliable (forward d paid)" "reliable (forward d parked)" "reliable booked"
    using * by (simp_all add: reliable_def forward_def)
qed

lemma forward_frame [simp]:
  "w_ext (forward d w) = w_ext w" "w_reservations (forward d w) = w_reservations w" "w_spots (forward d w) = w_spots w"
  "w_clock (forward d w) = w_clock w + d" "w_redis (forward d w) = w_redis w" "w_uuids (forward d w) = w_uuids w"
  by (simp_all add: forward_def)

lemma sample_wf: "db_wf sample_world"
  by (simp add: db_wf_def table_wf_def table_of_def sample_world_def)

lemma forward_wf: "db_wf w \<Longrightarrow> 0 \<le> d \<Longrightarrow> db_wf (forward d w)"
  by (auto simp: db_wf_def table_wf_def table_of_def spot_ids_def intro: row_wf_later)

lemma after_evolves: "wp m (\<lambda>_. evolves w) w \<Longrightarrow> evolves w (after_run m w)"
  by (simp add: wp_fst_snd after_run_def)

lemma booked_evolves: "evolves sample_world booked"
  unfolding booked_def by (rule after_evolves) (rule CreateReservation_evolves)

lemma booked_wf [simp]: "db_wf booked"
  by (rule evolves_db_wf [OF booked_evolves sample_wf])

lemma Minute_nonneg [simp]: "0 \<le> Minute" "0 \<le> numeral k * Minute"
  by (simp_all add: Minute_def Second_def)

lemma paid_evolves: "evolves (forward (1 * Minute) booked) paid"
  unfolding paid_def
  by (rule after_evolves) (rule ConfirmReservation_evolves, rule db_wf_keys_ok, rule forward_wf; simp)

lemma paid_wf [simp]: "db_wf paid"
  by (rule evolves_db_wf [OF paid_evolves]) (rule forward_wf; simp)

lemma parked_evolves: "evolves (forward (10 * Minute) paid) parked"
  unfolding parked_def
  by (rule after_evolves) (rule CheckIn_evolves, rule db_wf_keys_ok, rule forward_wf; simp)

lemma parked_wf [simp]: "db_wf parked"
  by (rule evolves_db_wf [OF parked_evolves]) (rule forward_wf; simp)

lemma sample_ext_kept [simp]: "w_ext sample_world = sample_ext" "w_ext booked = sample_ext" "w_ext paid = sample_ext"
  "w_ext parked = sample_ext"
proof -
  show s: "w_ext sample_world = sample_ext" by (simp add: sample_world_def)
  then show b: "w_ext booked = sample_ext" using booked_evolves by (simp add: evolves_def)
  then show p: "w_ext paid = sample_ext" using paid_evolves by (simp add: evolves_def)
  then show "w_ext parked = sample_ext" using parked_evolves by (simp add: evolves_def)
qed

lemma sample_keys [simp]: "keys_ok (forward d booked)" "keys_ok (forward d paid)" "keys_ok (forward d parked)"
  using db_wf_keys_ok [of booked] db_wf_keys_ok [of paid] db_wf_keys_ok [of parked]
  by (simp_all add: keys_ok_def)

lemma sample_current [simp]:
  "current (forward d booked) (first_row_of booked) (first_spot_of booked)"
  "current (forward d paid) (first_row_of paid) (first_spot_of paid)"
  "current (forward d parked) (first_row_of parked) (first_spot_of parked)"
proof -
  have "current booked (first_row_of booked) (first_spot_of booked)" by code_simp
  moreover have "current paid (first_row_of paid) (first_spot_of paid)" by code_simp
  moreover have "current parked (first_row_of parked) (first_spot_of parked)" by code_simp
  ultimately show "current (forward d booked) (first_row_of booked) (first_spot_of booked)"
    "current (forward d paid) (first_row_of paid) (first_spot_of paid)"
    "current (forward d parked) (first_row_of parked) (first_spot_of parked)"
    by (simp_all add: current_def)
qed

lemma sample_rows [simp]:
  "rr_id (first_row_of booked) = ''id-0-sample''" "rr_status (first_row_of booked) = StatusPending"
  "rr_id (first_row_of paid) = ''id-0-sample''" "rr_status (first_row_of paid) = StatusConfirmed"
  "rr_id (first_row_of parked) = ''id-0-sample''" "rr_status (first_row_of parked) = StatusActive"
  "rr_driver_id (first_row_of booked) = ''d1''" "rr_driver_id (first_row_of paid) = ''d1''"
  "rr_driver_id (first_row_of parked) = ''d1''"
  by code_simp+

lemma sample_single: "w_reservations booked = [first_row_of booked]" "w_reservations paid = [first_row_of paid]"
  "w_reservations parked = [first_row_of parked]"
  by code_simp+

definition sample_spot :: Spot where
  "sample_spot = \<lparr>s_SpotID = ''s1'', s_Floor = 1, s_SpotNumber = 1, s_VehicleType = VehicleTypeCar\<rparr>"

lemma sample_chosen: "chosen sample_world VehicleTypeCar AssignmentModeSystem '''' = Some sample_spot"
  "chosen sample_world VehicleTypeCar AssignmentModeSelected ''s1'' = Some sample_spot"
  by code_simp+

lemma sample_creatable: "creatable sample_world ''k1'' sample_spot"
  by (simp add: creatable_def redis_ok_sample [unfolded sample_ext_def]) (simp add: sample_world_def sample_ext_def kv_get_def)

lemma sample_unused: "x_redis_get (w_ext sample_world) (w_redis sample_world) (w_clock sample_world) key = None"
  by (simp add: sample_world_def sample_ext_def kv_get_def)

end
