(* ===== verification/Interleaving.thy ===== *)
theory Interleaving
  imports Samples
begin

text \<open>
  Booking requests that are served at the same time. A program of the other theories runs to its
  end; here it is cut at its remote calls, into a process whose steps a scheduler may mix with those
  of other processes. \<open>booking_proc\<close> is \<open>CreateReservation\<close> in this form, with the same value when it
  runs alone. The locale \<open>critical_section\<close> is the argument of a lock with a time limit, and its
  interpretation is the lock of a spot.
\<close>

section \<open>Processes\<close>

datatype ('s, 'a) proc = Ret 'a | Step "'s \<Rightarrow> ('s, 'a) proc \<times> 's"

primrec run_proc :: "('s, 'a) proc \<Rightarrow> 's \<Rightarrow> 'a \<times> 's" where
  "run_proc (Ret a) = (\<lambda>s. (a, s))"
| "run_proc (Step f) = (\<lambda>s. case (map_prod run_proc id \<circ> f) s of (r, s') \<Rightarrow> r s')"

definition atom :: "('s, 'a) state \<Rightarrow> ('s, 'a) proc" where
  "atom m = Step (\<lambda>s. case run_state m s of (a, s') \<Rightarrow> (Ret a, s'))"

primrec bind_proc :: "('s, 'a) proc \<Rightarrow> ('a \<Rightarrow> ('s, 'b) proc) \<Rightarrow> ('s, 'b) proc" where
  "bind_proc (Ret a) g = g a"
| "bind_proc (Step f) g = Step (map_prod (\<lambda>p. bind_proc p g) id \<circ> f)"

definition or_return_proc ::
  "('s, 'e + 'a) proc \<Rightarrow> ('e \<Rightarrow> 'f) \<Rightarrow> ('a \<Rightarrow> ('s, 'f + 'b) proc) \<Rightarrow> ('s, 'f + 'b) proc" where
  "or_return_proc p wrap rest = bind_proc p (\<lambda>res. case res of Inl err \<Rightarrow> Ret (Inl (wrap err)) | Inr a \<Rightarrow> rest a)"

text \<open>One turn of a process of a pool, and a schedule.\<close>

definition turn :: "nat \<Rightarrow> ('s, 'a) proc list \<times> 's \<Rightarrow> ('s, 'a) proc list \<times> 's" where
  "turn i c = (case c of (ps, s) \<Rightarrow>
     if i < length ps then (case ps ! i of Ret _ \<Rightarrow> (ps, s) | Step f \<Rightarrow> (case f s of (p, s') \<Rightarrow> (ps[i := p], s')))
     else (ps, s))"

definition interleave :: "nat list \<Rightarrow> ('s, 'a) proc list \<times> 's \<Rightarrow> ('s, 'a) proc list \<times> 's" where
  "interleave schedule c = fold turn schedule c"

lemma run_atom [simp]: "run_proc (atom m) s = run_state m s"
  by (simp add: atom_def split: prod.split)

lemma run_bind_proc [simp]: "run_proc (bind_proc p g) s = (case run_proc p s of (a, s') \<Rightarrow> run_proc (g a) s')"
proof (induction p arbitrary: s)
  case (Step f)
  obtain p' s' where f: "f s = (p', s')" by (cases "f s")
  have "run_proc (bind_proc p' g) s' = (case run_proc p' s' of (a, s'') \<Rightarrow> run_proc (g a) s'')"
    by (rule Step.IH [of "(p', s')"]) (use f in \<open>auto simp: prod_set_defs intro: range_eqI [of _ f s]\<close>)
  then show ?case by (simp add: f)
qed simp

lemma bind_atom: "bind_proc (atom m) g = Step (\<lambda>s. (g (fst (run_state m s)), snd (run_state m s)))"
  by (auto simp: atom_def split: prod.split)

lemma bind_Ret: "bind_proc (atom m) Ret = atom m"
  unfolding bind_atom by (simp add: atom_def case_prod_beta)

section \<open>CreateReservation, call by call\<close>

definition store_proc :: "string \<Rightarrow> string \<Rightarrow> string \<Rightarrow> AssignmentMode \<Rightarrow> Spot \<Rightarrow> ('k world, goerr + Reservation) proc" where
  "store_proc reservationID driverID idempotencyKey mode spot =
     bind_proc (atom time_Now) (\<lambda>now.
     let r = \<lparr>r_ReservationID = reservationID, r_DriverID = driverID, r_Spot = spot,
              r_Status = StatusPending, r_AssignmentMode = mode, r_ConfirmedAt = now,
              r_ExpiresAt = Add now PaymentTimeout, r_CheckInAt = None,
              r_CheckOutAt = None, r_CancelledAt = None, r_SessionID = '''',
              r_IdempotencyKey = idempotencyKey\<rparr>
     in bind_proc (atom (InsertReservation r)) (\<lambda>inserted. case inserted of
          Inl err \<Rightarrow> bind_proc (atom (Release (spotLockKey (s_SpotID spot)) reservationID))
            (\<lambda>_. Ret (Inl (ErrWrap ''insert reservation: '' err)))
        | Inr _ \<Rightarrow> bind_proc (atom (Save (store_key idempotencyKey) reservationID DefaultTTL)) (\<lambda>_. Ret (Inr r))))"

definition booking_proc ::
  "string \<Rightarrow> string \<Rightarrow> VehicleType \<Rightarrow> AssignmentMode \<Rightarrow> string \<Rightarrow> ('k world, goerr + Reservation) proc" where
  "booking_proc driverID idempotencyKey vehicleType mode spotID =
     or_return_proc (atom (Check (store_key idempotencyKey))) (ErrWrap ''idempotency check: '') (\<lambda>(cached, hit).
     if hit then atom (repo_GetByIdempotencyKey idempotencyKey)
     else or_return_proc (atom (find_spot vehicleType mode spotID)) id (\<lambda>spot. case spot of
          None \<Rightarrow> Ret (Inl (ErrNew ''no available spot''))
        | Some spot \<Rightarrow> bind_proc (atom uuid_New) (\<lambda>reservationID.
            or_return_proc (atom (Acquire (spotLockKey (s_SpotID spot)) reservationID PaymentTimeout))
              (ErrWrap ''acquire lock: '') (\<lambda>acquired.
            if \<not> acquired then Ret (Inl (ErrNew ''spot unavailable''))
            else store_proc reservationID driverID idempotencyKey mode spot))))"

text \<open>A process that runs alone is the operation of theory \<open>ReservationUsecase\<close>.\<close>

lemma run_state_bind: "run_state (State_Monad.bind m f) s = (case run_state m s of (a, s') \<Rightarrow> run_state (f a) s')"
  by simp

lemma store_proc_alone: "run_proc (store_proc rid did key mode spot) w = run_state (store_reservation rid did key mode spot) w"
  by (auto simp: store_proc_def store_reservation_def Let_def ok_def fail_def split: prod.split sum.split)

lemma booking_proc_alone: "run_proc (booking_proc did key vt mode sid) w = run_state (CreateReservation did key vt mode sid) w"
  by (auto simp: booking_proc_def CreateReservation_def or_return_proc_def or_return_def store_proc_alone ok_def fail_def
      split: prod.split sum.split option.split)

section \<open>A lock with a time limit\<close>

text \<open>
  \<open>valid\<close> is kept by every step and \<open>in_time\<close> holds before it holds later: the time the lock is sure to
  last. A process is \<open>calm\<close> while it does not have the lock, and a step that takes it finds it free
  in that time; the \<open>owner\<close> may store one item, after which it is calm, or give the lock back.
\<close>

locale critical_section =
  fixes valid in_time held :: "'s \<Rightarrow> bool" and onward :: "'s \<Rightarrow> 's \<Rightarrow> bool" and stored :: "'s \<Rightarrow> nat"
  assumes valid_onward: "valid s \<Longrightarrow> onward s s' \<Longrightarrow> valid s'"
    and in_time_before: "onward s s' \<Longrightarrow> in_time s' \<Longrightarrow> in_time s"
begin

inductive calm and owner :: "('s, 'a) proc \<Rightarrow> bool" where
  calm_Ret: "calm (Ret a)"
| calm_Step: "(\<And>s. valid s \<Longrightarrow> onward s (snd (f s)) \<and> stored (snd (f s)) = stored s
      \<and> ((held s \<longrightarrow> held (snd (f s))) \<and> calm (fst (f s))
        \<or> (held s \<longrightarrow> \<not> in_time (snd (f s))) \<and> held (snd (f s)) \<and> owner (fst (f s)))) \<Longrightarrow> calm (Step f)"
| owner_Step: "(\<And>s. valid s \<Longrightarrow> onward s (snd (f s))
      \<and> (stored (snd (f s)) = stored s \<and> ((held s \<longrightarrow> held (snd (f s))) \<and> owner (fst (f s)) \<or> calm (fst (f s)))
        \<or> stored (snd (f s)) = Suc (stored s) \<and> (held s \<longrightarrow> held (snd (f s))) \<and> calm (fst (f s)))) \<Longrightarrow> owner (Step f)"

inductive_cases calm_StepE: "calm (Step f)"
inductive_cases owner_StepE: "owner (Step f)"
inductive_cases owner_RetE: "owner (Ret a)"

definition at_rest :: "nat \<Rightarrow> ('s, 'a) proc list \<Rightarrow> 's \<Rightarrow> bool" where
  "at_rest n ps s \<longleftrightarrow> (\<forall>p \<in> set ps. calm p) \<and> (stored s = n \<or> stored s = Suc n \<and> held s)"

definition owned_by :: "nat \<Rightarrow> nat \<Rightarrow> ('s, 'a) proc list \<Rightarrow> 's \<Rightarrow> bool" where
  "owned_by i n ps s \<longleftrightarrow> i < length ps \<and> owner (ps ! i) \<and> (\<forall>j < length ps. j \<noteq> i \<longrightarrow> calm (ps ! j))
     \<and> stored s = n \<and> held s"

definition exclusive :: "nat \<Rightarrow> ('s, 'a) proc list \<times> 's \<Rightarrow> bool" where
  "exclusive n c \<longleftrightarrow> (case c of (ps, s) \<Rightarrow> valid s \<and> (\<forall>p \<in> set ps. calm p \<or> owner p)
     \<and> (in_time s \<longrightarrow> at_rest n ps s \<or> (\<exists>i. owned_by i n ps s)))"

lemma calm_turn:
  assumes "at_rest n ps s" "i < length ps" "ps ! i = Step f" "valid s" "in_time (snd (f s))"
  shows "at_rest n (ps[i := fst (f s)]) (snd (f s)) \<or> owned_by i n (ps[i := fst (f s)]) (snd (f s))"
proof -
  have "calm (Step f)" using assms(1-3) by (metis at_rest_def nth_mem)
  then have "stored (snd (f s)) = stored s \<and> ((held s \<longrightarrow> held (snd (f s))) \<and> calm (fst (f s))
        \<or> \<not> held s \<and> held (snd (f s)) \<and> owner (fst (f s)))"
    using assms(4,5) by (auto elim: calm_StepE)
  then show ?thesis
    using assms(1,2) by (auto simp: at_rest_def owned_by_def nth_list_update dest: subsetD [OF set_update_subset_insert])
qed

lemma other_turn:
  assumes "owned_by i n ps s" "j \<noteq> i" "j < length ps" "ps ! j = Step f" "valid s" "in_time (snd (f s))"
  shows "owned_by i n (ps[j := fst (f s)]) (snd (f s))"
proof -
  have "calm (Step f)" "held s" using assms(1-4) by (auto simp: owned_by_def)
  then have "stored (snd (f s)) = stored s \<and> held (snd (f s)) \<and> calm (fst (f s))"
    using assms(5,6) by (auto elim: calm_StepE)
  then show ?thesis using assms(1-3) by (auto simp: owned_by_def nth_list_update)
qed

lemma owner_turn:
  assumes "owned_by i n ps s" "ps ! i = Step f" "valid s"
  shows "at_rest n (ps[i := fst (f s)]) (snd (f s)) \<or> owned_by i n (ps[i := fst (f s)]) (snd (f s))"
proof -
  have "owner (Step f)" "held s" using assms(1,2) by (auto simp: owned_by_def)
  then have "stored (snd (f s)) = stored s \<and> (held (snd (f s)) \<and> owner (fst (f s)) \<or> calm (fst (f s)))
      \<or> stored (snd (f s)) = Suc (stored s) \<and> held (snd (f s)) \<and> calm (fst (f s))"
    using assms(3) by (auto elim: owner_StepE)
  moreover have "calm (fst (f s)) \<Longrightarrow> \<forall>p \<in> set (ps[i := fst (f s)]). calm p"
    using assms(1) by (auto simp: owned_by_def in_set_conv_nth nth_list_update)
  ultimately show ?thesis using assms(1) by (auto simp: at_rest_def owned_by_def nth_list_update)
qed

lemma exclusive_turn:
  assumes "exclusive n c"
  shows "exclusive n (turn i c)"
proof -
  obtain ps s where c: "c = (ps, s)" by (cases c)
  show ?thesis
  proof (cases "i < length ps \<and> (\<exists>f. ps ! i = Step f)")
    case True
    then obtain f where i: "i < length ps" "ps ! i = Step f" by blast
    have turn: "turn i c = (ps[i := fst (f s)], snd (f s))"
      using i by (simp add: c turn_def split: prod.split)
    have "calm (Step f) \<or> owner (Step f)" and valid: "valid s"
      using assms i nth_mem [OF i(1)] by (auto simp: exclusive_def c)
    then have go: "onward s (snd (f s))" "calm (fst (f s)) \<or> owner (fst (f s))"
      by (auto elim!: calm_StepE owner_StepE)
    have "at_rest n (ps[i := fst (f s)]) (snd (f s)) \<or> (\<exists>j. owned_by j n (ps[i := fst (f s)]) (snd (f s)))"
      if "in_time (snd (f s))"
    proof -
      have "at_rest n ps s \<or> (\<exists>j. owned_by j n ps s)"
        using assms in_time_before [OF go(1) that] by (simp add: exclusive_def c)
      then show ?thesis
        using calm_turn [OF _ i valid that] other_turn [OF _ _ i valid that] owner_turn [OF _ _ valid] i(2) by metis
    qed
    moreover have "\<forall>p \<in> set (ps[i := fst (f s)]). calm p \<or> owner p"
      using assms go(2) by (auto simp: exclusive_def c dest: subsetD [OF set_update_subset_insert])
    ultimately show ?thesis
      unfolding turn exclusive_def using valid_onward [OF valid go(1)] by simp
  next
    case False
    then have "turn i c = c" by (auto simp: c turn_def split: proc.split)
    then show ?thesis using assms by simp
  qed
qed

text \<open>Whatever the schedule, one item at most is stored while the lock lasts.\<close>

lemma interleave_exclusive:
  assumes "exclusive n c"
  shows "exclusive n (interleave schedule c)"
  using assms by (induction schedule arbitrary: c) (auto simp: interleave_def exclusive_turn)

lemma stored_once:
  assumes "valid s" "\<And>p. p \<in> set ps \<Longrightarrow> calm p" "in_time (snd (interleave schedule (ps, s)))"
  shows "stored (snd (interleave schedule (ps, s))) \<le> Suc (stored s)"
proof -
  have "exclusive (stored s) (ps, s)" using assms(1,2) by (auto simp: exclusive_def at_rest_def)
  then have "exclusive (stored s) (interleave schedule (ps, s))" by (rule interleave_exclusive)
  then show ?thesis
    using assms(3) by (auto simp: exclusive_def at_rest_def owned_by_def split: prod.splits)
qed

end

section \<open>The lock of a spot\<close>

text \<open>No reply is lost: every call either is served and answered or does not take effect.\<close>

definition answered :: "'k world \<Rightarrow> bool" where
  "answered w \<longleftrightarrow> (\<forall>f \<in> set (w_fates w). \<forall>m. f \<noteq> ReplyLost m)"

definition from_time :: "time \<Rightarrow> 'k world \<Rightarrow> bool" where
  "from_time t0 w \<longleftrightarrow> redis_ok (w_ext w) \<and> answered w \<and> t0 \<le> w_clock w"

definition before_timeout :: "time \<Rightarrow> 'k world \<Rightarrow> bool" where
  "before_timeout t0 w \<longleftrightarrow> w_clock w < t0 + PaymentTimeout"

definition spot_locked :: "string \<Rightarrow> time \<Rightarrow> 'k world \<Rightarrow> bool" where
  "spot_locked sid t0 w \<longleftrightarrow> (\<forall>t. w_clock w \<le> t \<longrightarrow> t < t0 + PaymentTimeout \<longrightarrow>
     x_redis_get (w_ext w) (w_redis w) t (spotLockKey sid) \<noteq> None)"

definition runs_on :: "'k world \<Rightarrow> 'k world \<Rightarrow> bool" where
  "runs_on w w' \<longleftrightarrow> w_ext w' = w_ext w \<and> w_clock w \<le> w_clock w' \<and> (answered w \<longrightarrow> answered w')"

definition bookings_of :: "string \<Rightarrow> 'k world \<Rightarrow> nat" where
  "bookings_of sid w = length (filter (\<lambda>r. rr_spot_id r = sid) (w_reservations w))"

interpretation spot: critical_section "from_time t0" "before_timeout t0" "spot_locked sid t0" runs_on "bookings_of sid"
  for sid t0
  by unfold_locales (auto simp: from_time_def runs_on_def before_timeout_def)

lemma answered_arrive [simp]: "answered w \<Longrightarrow> answered (arrive w)"
  by (cases "w_fates w") (simp_all add: answered_def arrive_def)

lemma answered_fate: "answered w \<Longrightarrow> fate_of w \<noteq> ReplyLost m"
  by (cases "w_fates w") (auto simp: answered_def fate_of_def)

lemma answered_frame [simp]: "answered (pass w) = answered w" "answered (w\<lparr>w_uuids := n\<rparr>) = answered w"
  "answered (w\<lparr>w_redis := k\<rparr>) = answered w" "answered (w\<lparr>w_reservations := rs\<rparr>) = answered w"
  by (simp_all add: answered_def)

text \<open>Calls that only read, or do not concern the lock of the spot.\<close>

definition reads_only :: "('k, 'a) prog \<Rightarrow> bool" where
  "reads_only m \<longleftrightarrow> (\<forall>w. wp m (\<lambda>_ w'. runs_on w w' \<and> w_reservations w' = w_reservations w \<and> w_redis w' = w_redis w) w)"

lemma reads_only_query: "reads_only (query f)"
  by (simp add: reads_only_def wp_query runs_on_def arrive_clock split: fate.split)

lemma runs_on_trans: "runs_on w w' \<Longrightarrow> runs_on w' w'' \<Longrightarrow> runs_on w w''"
  by (auto simp: runs_on_def)

lemma reads_only_return: "reads_only (State_Monad.return r)"
  by (simp add: reads_only_def wp_return runs_on_def)

lemma reads_only_bind:
  assumes "reads_only m" "\<And>a. reads_only (rest a)"
  shows "reads_only (State_Monad.bind m rest)"
  unfolding reads_only_def wp_bind
proof (intro allI wp_mono [OF assms(1) [unfolded reads_only_def, rule_format]], goal_cases)
  case (1 w a w1)
  show ?case
    by (rule wp_mono [OF assms(2) [unfolded reads_only_def, rule_format]]) (use 1 in \<open>auto intro: runs_on_trans\<close>)
qed

lemma reads_only_or_return:
  "reads_only m \<Longrightarrow> (\<And>a. reads_only (rest a)) \<Longrightarrow> reads_only (or_return m wrap rest)"
  unfolding or_return_def by (rule reads_only_bind) (simp_all add: reads_only_return split: sum.split)

lemma booking_reads: "reads_only time_Now" "reads_only uuid_New" "reads_only (Check key)" "reads_only (find_spot vt mode sid)"
  "reads_only (repo_GetByIdempotencyKey key)"
proof -
  show "reads_only time_Now" "reads_only uuid_New"
    by (simp_all add: reads_only_def wp_simps runs_on_def pass_clock)
  show "reads_only (find_spot vt mode sid)"
    unfolding find_spot_def GetSpot_def FindAvailableSpot_def ok_def
    by (simp add: reads_only_or_return reads_only_bind reads_only_query reads_only_return)
  show "reads_only (Check key)"
    unfolding Check_def rdb_Get_def by (intro reads_only_bind reads_only_query reads_only_return)
  show "reads_only (repo_GetByIdempotencyKey key)"
    unfolding repo_GetByIdempotencyKey_def by (rule reads_only_query)
qed


text \<open>Calls that leave the lock of the spot and the number of its reservations as they are.\<close>

definition spares :: "string \<Rightarrow> ('k, 'a) prog \<Rightarrow> bool" where
  "spares sid m \<longleftrightarrow> (\<forall>w. redis_ok (w_ext w) \<longrightarrow> wp m (\<lambda>_ w'. runs_on w w' \<and> bookings_of sid w' = bookings_of sid w
     \<and> (\<forall>t \<ge> w_clock w'. x_redis_get (w_ext w) (w_redis w') t (spotLockKey sid) =
          x_redis_get (w_ext w) (w_redis w) t (spotLockKey sid))) w)"

lemma spotLockKey_inj: "spotLockKey s = spotLockKey s' \<longleftrightarrow> s = s'"
  by (simp add: spotLockKey_def)

lemma reads_spare: "reads_only m \<Longrightarrow> spares sid m"
  by (simp add: reads_only_def spares_def bookings_of_def wp_fst_snd)

lemma other_key_spares:
  "key \<noteq> spotLockKey sid \<Longrightarrow> 0 < ttl \<Longrightarrow> spares sid (Save key v ttl)"
  "key \<noteq> spotLockKey sid \<Longrightarrow> 0 < ttl \<Longrightarrow> spares sid (Acquire key v ttl)"
  "key \<noteq> spotLockKey sid \<Longrightarrow> spares sid (Release key v)"
  unfolding spares_def Save_def Acquire_def Release_def rdb_Set_def rdb_SetNX_def redis_ok_def exec_def releaseScript_def
  by (auto simp: wp_remote Let_def runs_on_def bookings_of_def arrive_clock redis_server.get_set redis_server.setnx_frame
      redis_server.get_del split: fate.split)

lemma other_spot_spares: "s_SpotID (r_Spot r) \<noteq> sid \<Longrightarrow> spares sid (InsertReservation r)"
  unfolding spares_def InsertReservation_def
  by (auto simp: wp_remote Let_def runs_on_def bookings_of_def arrive_clock split: fate.split)

lemma spared:
  assumes "spares sid m" "from_time t0 w"
  shows "runs_on w (snd (run_state m w))" "bookings_of sid (snd (run_state m w)) = bookings_of sid w"
    "spot_locked sid t0 w \<Longrightarrow> spot_locked sid t0 (snd (run_state m w))"
  using assms by (auto simp: spares_def from_time_def wp_fst_snd spot_locked_def runs_on_def)

lemma calm_spares:
  assumes "spares sid m" "\<And>a. spot.calm t0 sid (g a)"
  shows "spot.calm t0 sid (bind_proc (atom m) g)"
  unfolding bind_atom
  by (rule spot.calm_Step) (use spared [OF assms(1)] assms(2) in auto)

lemma owner_spares:
  assumes "spares sid m" "\<And>a. spot.owner t0 sid (g a)"
  shows "spot.owner t0 sid (bind_proc (atom m) g)"
  unfolding bind_atom
  by (rule spot.owner_Step) (use spared [OF assms(1)] assms(2) in auto)

text \<open>The three calls that matter: taking the lock, giving it back, and storing the reservation.\<close>

lemma Acquire_takes:
  assumes "from_time t0 w"
  shows "wp (Acquire (spotLockKey sid) v PaymentTimeout) (\<lambda>res w'. runs_on w w' \<and> bookings_of sid w' = bookings_of sid w
     \<and> (if res = Inr True then (spot_locked sid t0 w \<longrightarrow> \<not> before_timeout t0 w') \<and> spot_locked sid t0 w'
        else spot_locked sid t0 w \<longrightarrow> spot_locked sid t0 w')) w"
proof -
  let ?x = "w_ext w" and ?k = "w_redis w" and ?t = "w_clock (arrive w)" and ?lock = "spotLockKey sid"
  note laws = assms [unfolded from_time_def redis_ok_def, THEN conjunct1]
  note setnx = redis_server.get_setnx_free [OF laws] redis_server.get_setnx_taken [OF laws] redis_server.setnx_taken [OF laws]
    redis_server.setnx_free [OF laws]
  have ans: "answered w" "t0 \<le> w_clock w" using assms by (simp_all add: from_time_def)
  have times: "?t \<le> t \<Longrightarrow> w_clock w \<le> t" "t < t0 + PaymentTimeout \<Longrightarrow> t < ?t + PaymentTimeout" for t
    using arrive_clock [of w] ans(2) by linarith+
  show ?thesis
    by (cases "x_redis_get ?x ?k ?t ?lock = None"; cases "fate_of w")
      (use ans arrive_clock [of w] answered_fate [OF ans(1)] in
        \<open>auto simp: Acquire_def rdb_SetNX_def wp_remote Let_def runs_on_def bookings_of_def spot_locked_def before_timeout_def
          setnx dest: times\<close>)
qed


lemma calm_Acquire:
  assumes "spot.owner t0 sid p"
  shows "spot.calm t0 sid (or_return_proc (atom (Acquire (spotLockKey sid) v PaymentTimeout)) wrap
     (\<lambda>acquired. if \<not> acquired then Ret (Inl e) else p))"
  unfolding or_return_proc_def bind_atom
proof (rule spot.calm_Step, goal_cases)
  case (1 w)
  obtain res w' where run: "run_state (Acquire (spotLockKey sid) v PaymentTimeout) w = (res, w')"
    by (cases "run_state (Acquire (spotLockKey sid) v PaymentTimeout) w")
  then show ?case
    using wpD [OF Acquire_takes [OF 1] run] assms by (cases res) (auto simp: spot.calm_Ret)
qed

lemma owner_Insert:
  assumes "s_SpotID (r_Spot r) = sid" "\<And>e. spot.owner t0 sid (g (Inl e))" "spot.calm t0 sid (g (Inr ()))"
  shows "spot.owner t0 sid (bind_proc (atom (InsertReservation r)) g)"
proof -
  have stores: "wp (InsertReservation r) (\<lambda>res w'. runs_on w w' \<and> (spot_locked sid t0 w \<longrightarrow> spot_locked sid t0 w')
      \<and> bookings_of sid w' = (if res = Inr () then Suc (bookings_of sid w) else bookings_of sid w)) w"
    if "from_time t0 w" for w :: "'a world"
    using that arrive_clock [of w] answered_fate [of w] assms(1)
    by (cases "fate_of w")
      (auto simp: InsertReservation_def wp_remote Let_def runs_on_def bookings_of_def spot_locked_def from_time_def
        dest: order_trans [OF arrive_clock])
  show ?thesis
    unfolding bind_atom
  proof (rule spot.owner_Step, goal_cases)
    case (1 w)
    then show ?case
      using stores [OF 1] assms(2,3)
      by (cases "fst (run_state (InsertReservation r) w)") (auto simp: wp_fst_snd)
  qed
qed

lemma owner_Release:
  assumes "\<And>a. spot.calm t0 sid (g a)"
  shows "spot.owner t0 sid (bind_proc (atom (Release (spotLockKey sid) v)) g)"
proof -
  have "wp (Release (spotLockKey sid) v) (\<lambda>_ w'. runs_on w w' \<and> bookings_of sid w' = bookings_of sid w) w"
    if "from_time t0 w" for w :: "'a world"
    using that arrive_clock [of w]
    by (auto simp: Release_def exec_def wp_remote runs_on_def bookings_of_def from_time_def split: fate.split)
  then show ?thesis
    unfolding bind_atom by (intro spot.owner_Step) (use assms in \<open>auto simp: wp_fst_snd\<close>)
qed

section \<open>Requests that are served at the same time\<close>

lemma store_proc_owner: "spot.owner t0 (s_SpotID s) (store_proc rid did key mode s)"
  unfolding store_proc_def Let_def
  by (rule owner_spares [OF reads_spare [OF booking_reads(1)]], rule owner_Insert)
    (auto intro!: owner_Release calm_spares other_key_spares spot.calm_Ret)

lemma store_proc_calm: "s_SpotID s \<noteq> sid \<Longrightarrow> spot.calm t0 sid (store_proc rid did key mode s)"
  unfolding store_proc_def Let_def
  by (intro calm_spares [OF reads_spare [OF booking_reads(1)]] calm_spares [OF other_spot_spares])
    (auto intro!: calm_spares other_key_spares spot.calm_Ret simp: spotLockKey_inj split: sum.split)

lemma booking_proc_calm: "spot.calm t0 sid (booking_proc did key vt mode sel)"
proof -
  have acquire: "spot.calm t0 sid (or_return_proc (atom (Acquire (spotLockKey (s_SpotID s)) rid PaymentTimeout)) wrap
      (\<lambda>acquired. if \<not> acquired then Ret (Inl e) else store_proc rid did key mode s))" for s rid wrap e
  proof (cases "s_SpotID s = sid")
    case True
    show ?thesis unfolding True [symmetric] by (rule calm_Acquire [OF store_proc_owner])
  next
    case False
    then show ?thesis
      unfolding or_return_proc_def
      by (intro calm_spares [OF other_key_spares(2)])
        (auto simp: spotLockKey_inj intro: spot.calm_Ret store_proc_calm split: sum.split)
  qed
  have single: "spot.calm t0 sid (atom m)" if "reads_only m" for m :: "('k, goerr + Reservation) prog"
    by (rule calm_spares [OF reads_spare [OF that], where g = Ret, OF spot.calm_Ret, unfolded bind_Ret])
  show ?thesis
    unfolding booking_proc_def or_return_proc_def [of "atom (Check _)"] or_return_proc_def [of "atom (find_spot _ _ _)"]
    by (intro calm_spares [OF reads_spare] booking_reads)
      (auto intro!: single booking_reads spot.calm_Ret calm_spares [OF reads_spare] acquire split: sum.split option.split)
qed

definition booking_procs :: "(string \<times> string \<times> VehicleType \<times> AssignmentMode \<times> string) list \<Rightarrow> ('k world, goerr + Reservation) proc list" where
  "booking_procs reqs = map (\<lambda>(did, key, vt, mode, sel). booking_proc did key vt mode sel) reqs"

text \<open>Two requests for one spot, step by step in turn: one is served, the other refused.\<close>

definition rivals :: "(kv world, goerr + Reservation) proc list" where
  "rivals = booking_procs [(''d1'', ''k1'', VehicleTypeCar, AssignmentModeSelected, ''s1''),
     (''d2'', ''k2'', VehicleTypeCar, AssignmentModeSelected, ''s1'')]"

definition in_turn :: "nat list" where
  "in_turn = [0, 1, 0, 1, 0, 1, 1, 0, 1, 1, 1]"

definition proc_result :: "('s, 'a) proc \<Rightarrow> 'a option" where
  "proc_result p = (case p of Ret a \<Rightarrow> Some a | Step _ \<Rightarrow> None)"

lemma rivals_in_turn:
  "map (\<lambda>p. map_option (map_sum (\<lambda>_. ()) r_DriverID) (proc_result p)) (fst (interleave in_turn (rivals, sample_world))) =
     [Some (Inl ()), Some (Inr ''d2'')]"
  "map rr_driver_id (w_reservations (snd (interleave in_turn (rivals, sample_world)))) = [''d2'']"
  by code_simp+

text \<open>
  The assumption on the replies is needed. When the reply of the insertion is lost, the row is there,
  but the request gives the lock back as after a failure, and the spot is booked a second time.
\<close>

definition reply_lost :: "kv world" where
  "reply_lost = sample_world\<lparr>w_fates := [Served, Served, Served, ReplyLost ''timeout'']\<rparr>"

lemma lost_reply_books_twice:
  "map (\<lambda>r. (rr_driver_id r, rr_spot_id r, rr_status r)) (w_reservations
     (after_run (CreateReservation ''d2'' ''k2'' VehicleTypeCar AssignmentModeSelected ''s1'')
       (after_run (CreateReservation ''d1'' ''k1'' VehicleTypeCar AssignmentModeSelected ''s1'') reply_lost))) =
     [(''d1'', ''s1'', StatusPending), (''d2'', ''s1'', StatusPending)]"
  by code_simp

text \<open>
  C4: however many booking requests are served at the same time and however their calls to the
  store and the database interleave, within the five minutes of the lock at most one reservation
  is stored for a spot. Calls may be refused, but no call that took effect may look like a failure.
\<close>

theorem concurrent_bookings:
  assumes "redis_ok (w_ext w)" "answered w" "interleave schedule (booking_procs reqs, w) = (ps, w')"
    and "w_clock w' < w_clock w + PaymentTimeout"
  shows "bookings_of sid w' \<le> Suc (bookings_of sid w)"
proof -
  have "spot.calm (w_clock w) sid p" if "p \<in> set (booking_procs reqs)" for p
    using that by (auto simp: booking_procs_def booking_proc_calm)
  from spot.stored_once [OF _ this, where ps = "booking_procs reqs" and schedule = schedule and s = w] show ?thesis
    using assms by (simp add: from_time_def before_timeout_def)
qed

theorem concurrent_bookings_witness:
  "bookings_of ''s1'' (snd (interleave in_turn (rivals, sample_world))) \<le> 1"
proof -
  obtain ps w' where run: "interleave in_turn (rivals, sample_world) = (ps, w')"
    by (cases "interleave in_turn (rivals, sample_world)")
  have "w_clock (snd (interleave in_turn (rivals, sample_world))) < w_clock sample_world + PaymentTimeout" by code_simp
  then have "bookings_of ''s1'' w' \<le> Suc (bookings_of ''s1'' sample_world)"
    using concurrent_bookings [OF _ _ run [unfolded rivals_def]] by (simp add: run answered_def) (simp add: sample_world_def)
  then show ?thesis by (simp add: run) (simp add: bookings_of_def sample_world_def)
qed

end
