(* ===== verification/GatewayAuth.thy ===== *)
theory GatewayAuth
  imports Auth Sql
begin

text \<open>
  \<open>services/gateway/internal/handler/auth.go\<close>: registration and login. The handlers work on the
  table \<open>drivers\<close>; bcrypt is a parameter, whose salt is the next number of the world's supply of
  random values. The statements of the table are those of the migration that creates it: the
  vehicle type is an enumeration, the texts have a maximal length in characters, the address is
  unique and the identifier is drawn by the database.
\<close>

section \<open>Duplicate keys\<close>

text \<open>
  \<open>containsStr\<close> compares the pattern at every offset; \<open>contains\<close> is the test in front of it.
\<close>

function containsStr_from :: "string \<Rightarrow> string \<Rightarrow> int \<Rightarrow> bool" where
  "containsStr_from s sub i =
     (if i \<le> int (length s) - int (length sub)
      then if take (length sub) (drop (nat i) s) = sub then True else containsStr_from s sub (i + 1)
      else False)"
  by auto
termination by (relation "measure (\<lambda>(s, sub, i). nat (int (length s) + 1 - i))") auto

declare containsStr_from.simps [simp del]

definition containsStr :: "string \<Rightarrow> string \<Rightarrow> bool" where
  "containsStr s sub = containsStr_from s sub 0"

definition contains :: "string \<Rightarrow> string \<Rightarrow> bool" where
  "contains s sub \<longleftrightarrow> length s \<ge> length sub \<and> (s = sub \<or> length s > 0 \<and> containsStr s sub)"

definition isDuplicateEmail :: "goerr \<Rightarrow> bool" where
  "isDuplicateEmail err \<longleftrightarrow> contains (err_msg err) ''duplicate key'' \<or> contains (err_msg err) ''unique constraint''"

section \<open>Requests and replies\<close>

record registerRequest =
  rq_Name :: string
  rq_Email :: string
  rq_Phone :: string
  rq_Password :: string
  rq_VehicleType :: string

record loginRequest =
  lq_Email :: string
  lq_Password :: string

record authResponse =
  au_DriverID :: string
  au_Name :: string
  au_Email :: string
  au_Token :: string
  au_VehicleType :: string

definition decode_register :: "json option \<Rightarrow> registerRequest option" where
  "decode_register body =
     Option.bind body (\<lambda>j. Option.bind (struct_members j) (\<lambda>ms.
     Option.bind (str_field ''name'' ms '''') (\<lambda>name.
     Option.bind (str_field ''email'' ms '''') (\<lambda>email.
     Option.bind (str_field ''phone'' ms '''') (\<lambda>phone.
     Option.bind (str_field ''password'' ms '''') (\<lambda>password.
     Option.bind (str_field ''vehicle_type'' ms '''') (\<lambda>vehicleType.
     Some \<lparr>rq_Name = name, rq_Email = email, rq_Phone = phone, rq_Password = password,
       rq_VehicleType = vehicleType\<rparr>)))))))"

definition decode_login :: "json option \<Rightarrow> loginRequest option" where
  "decode_login body =
     Option.bind body (\<lambda>j. Option.bind (struct_members j) (\<lambda>ms.
     Option.bind (str_field ''email'' ms '''') (\<lambda>email.
     Option.bind (str_field ''password'' ms '''') (\<lambda>password.
     Some \<lparr>lq_Email = email, lq_Password = password\<rparr>))))"

section \<open>The table of drivers\<close>

definition bcrypt_Generate :: "string \<Rightarrow> ('k, string) io" where
  "bcrypt_Generate password = State (\<lambda>w.
     (case x_bcrypt_hash (w_ext w) (w_uuids w) password of Inl m \<Rightarrow> Inl (ErrNew m) | Inr h \<Rightarrow> Inr h,
      w\<lparr>w_uuids := Suc (w_uuids w)\<rparr>))"

text \<open>The input of the enumeration \<open>vehicle_type\<close>, and the length of a text in characters of UTF-8.\<close>

definition vehicle_in :: "string \<Rightarrow> VehicleType option" where
  "vehicle_in s = (if s = ''car'' then Some VehicleTypeCar
     else if s = ''motorcycle'' then Some VehicleTypeMotorcycle else None)"

definition utf8_length :: "string \<Rightarrow> nat" where
  "utf8_length s = length (filter (\<lambda>c. \<not> (128 \<le> (of_char c :: nat) \<and> (of_char c :: nat) < 192)) s)"

definition varchar_error :: "nat \<Rightarrow> string \<Rightarrow> string option" where
  "varchar_error n s =
     (if CHR 0x00 \<in> set s then Some ''ERROR: invalid byte sequence for encoding UTF8 (SQLSTATE 22021)''
      else if utf8_length s > n
      then Some (''ERROR: value too long for type character varying('' @ show_nat n @ '') (SQLSTATE 22001)'')
      else None)"

definition drivers_row_error :: "string \<Rightarrow> string \<Rightarrow> string \<Rightarrow> string \<Rightarrow> string option" where
  "drivers_row_error name email phone hash =
     (case varchar_error 100 name of Some m \<Rightarrow> Some m | None \<Rightarrow>
      case varchar_error 255 email of Some m \<Rightarrow> Some m | None \<Rightarrow>
      case varchar_error 20 phone of Some m \<Rightarrow> Some m | None \<Rightarrow> varchar_error 255 hash)"

definition insert_driver :: "string \<Rightarrow> string \<Rightarrow> string \<Rightarrow> string \<Rightarrow> string \<Rightarrow> ('k, string) io" where
  "insert_driver name email phone hash vehicleType = remote (\<lambda>w.
     case vehicle_in vehicleType of
       None \<Rightarrow> (Inl (ErrNew (x_enum_error (w_ext w) vehicleType)), w)
     | Some v \<Rightarrow> (case drivers_row_error name email phone hash of
         Some m \<Rightarrow> (Inl (ErrNew m), w)
       | None \<Rightarrow>
           let driverID = x_uuid (w_ext w) (w_uuids w); w = w\<lparr>w_uuids := Suc (w_uuids w)\<rparr> in
           if driverID \<in> dr_id ` set (w_drivers w)
           then (Inl (ErrNew (x_unique_violation (w_ext w) ''drivers_pkey'')), w)
           else if email \<in> dr_email ` set (w_drivers w)
           then (Inl (ErrNew (x_unique_violation (w_ext w) ''drivers_email_key'')), w)
           else (Inr driverID, w\<lparr>w_drivers := w_drivers w @ [\<lparr>dr_id = driverID, dr_name = name, dr_email = email,
             dr_phone = phone, dr_password_hash = hash, dr_vehicle_type = v\<rparr>]\<rparr>)))"

definition driver_by_email :: "string \<Rightarrow> ('k, driver_row) io" where
  "driver_by_email email = query (\<lambda>w. first_row (filter (\<lambda>d. dr_email d = email) (w_drivers w)))"

section \<open>The handlers\<close>

definition Register :: "string \<Rightarrow> int \<Rightarrow> ('k, authResponse) http_handler" where
  "Register secret expiryH r = (case decode_register (hq_Body r) of
       None \<Rightarrow> writeError StatusBadRequest ''invalid request body''
     | Some req \<Rightarrow>
         if rq_Name req = '''' \<or> rq_Email req = '''' \<or> rq_Password req = '''' \<or> rq_Phone req = ''''
         then writeError StatusBadRequest ''name, email, phone, and password are required''
         else do {
           let vehicleType = (if rq_VehicleType req = '''' then ''car'' else rq_VehicleType req);
           hashed \<leftarrow> bcrypt_Generate (rq_Password req);
           (case hashed of
              Inl _ \<Rightarrow> writeError StatusInternalServerError ''failed to hash password''
            | Inr hash \<Rightarrow> do {
                inserted \<leftarrow> insert_driver (rq_Name req) (rq_Email req) (rq_Phone req) hash vehicleType;
                (case inserted of
                   Inl err \<Rightarrow> if isDuplicateEmail err then writeError StatusConflict ''email already registered''
                              else writeError StatusInternalServerError ''failed to create driver''
                 | Inr driverID \<Rightarrow> do {
                     token \<leftarrow> GenerateToken secret driverID vehicleType expiryH;
                     (case token of
                        Inl _ \<Rightarrow> writeError StatusInternalServerError ''failed to generate token''
                      | Inr token \<Rightarrow> writeJSON StatusCreated \<lparr>au_DriverID = driverID, au_Name = rq_Name req,
                          au_Email = rq_Email req, au_Token = token, au_VehicleType = vehicleType\<rparr>)
                   })
              })
         })"

definition Login :: "string \<Rightarrow> int \<Rightarrow> ('k, authResponse) http_handler" where
  "Login secret expiryH r = (case decode_login (hq_Body r) of
       None \<Rightarrow> writeError StatusBadRequest ''invalid request body''
     | Some req \<Rightarrow>
         if lq_Email req = '''' \<or> lq_Password req = ''''
         then writeError StatusBadRequest ''email and password are required''
         else do {
           found \<leftarrow> driver_by_email (lq_Email req);
           (case found of
              Inl _ \<Rightarrow> writeError StatusUnauthorized ''invalid email or password''
            | Inr d \<Rightarrow> do {
                compare \<leftarrow> asks (\<lambda>w. x_bcrypt_compare (w_ext w));
                (if \<not> compare (dr_password_hash d) (lq_Password req)
                 then writeError StatusUnauthorized ''invalid email or password''
                 else do {
                   token \<leftarrow> GenerateToken secret (dr_id d) (vehicle_string (dr_vehicle_type d)) expiryH;
                   (case token of
                      Inl _ \<Rightarrow> writeError StatusInternalServerError ''failed to generate token''
                    | Inr token \<Rightarrow> writeJSON StatusOK \<lparr>au_DriverID = dr_id d, au_Name = dr_name d,
                        au_Email = lq_Email req, au_Token = token,
                        au_VehicleType = vehicle_string (dr_vehicle_type d)\<rparr>)
                 })
              })
         })"

section \<open>The search for a text\<close>

lemma containsStr_from_iff:
  "0 \<le> i \<Longrightarrow> containsStr_from s sub i \<longleftrightarrow>
     (\<exists>n \<ge> nat i. n + length sub \<le> length s \<and> take (length sub) (drop n s) = sub)"
proof (induction s sub i rule: containsStr_from.induct)
  case (1 s sub i)
  show ?case
  proof (cases "i \<le> int (length s) - int (length sub) \<and> take (length sub) (drop (nat i) s) \<noteq> sub")
    case True
    with 1 have "containsStr_from s sub i \<longleftrightarrow>
        (\<exists>n \<ge> nat (i + 1). n + length sub \<le> length s \<and> take (length sub) (drop n s) = sub)"
      by (subst containsStr_from.simps) simp
    also have "\<dots> \<longleftrightarrow> (\<exists>n \<ge> nat i. n + length sub \<le> length s \<and> take (length sub) (drop n s) = sub)"
      using True 1(2) by (metis Suc_leI Suc_nat_eq_nat_zadd1 add.commute le_SucI le_eq_less_or_eq le_trans nat_le_iff)
    finally show ?thesis .
  next
    case False
    then show ?thesis using 1(2) by (subst containsStr_from.simps) (auto intro!: exI [of _ "nat i"])
  qed
qed

text \<open>The two helpers compute what \<open>strings.Contains\<close> of the standard library does.\<close>

lemma contains_iff: "contains s sub \<longleftrightarrow> str_contains s sub"
proof
  assume "contains s sub"
  then have "s = sub \<or> (\<exists>n. n + length sub \<le> length s \<and> take (length sub) (drop n s) = sub)"
    by (auto simp: contains_def containsStr_def containsStr_from_iff)
  then show "str_contains s sub"
    unfolding str_contains_iff by (metis append.left_neutral append_Nil2 append_take_drop_id)
next
  assume "str_contains s sub"
  then obtain a b where s: "s = a @ sub @ b" by (auto simp: str_contains_iff)
  then have "containsStr s sub" by (auto simp: containsStr_def containsStr_from_iff intro!: exI [of _ "length a"])
  with s show "contains s sub" by (auto simp: contains_def)
qed

section \<open>The invariant of the drivers\<close>

text \<open>Identifiers and addresses are unique and every text fits its column.\<close>

definition driver_ok :: "driver_row \<Rightarrow> bool" where
  "driver_ok d \<longleftrightarrow> drivers_row_error (dr_name d) (dr_email d) (dr_phone d) (dr_password_hash d) = None
     \<and> dr_name d \<noteq> '''' \<and> dr_email d \<noteq> '''' \<and> dr_phone d \<noteq> ''''"

definition drivers_wf :: "'k world \<Rightarrow> bool" where
  "drivers_wf w \<longleftrightarrow> distinct (map dr_id (w_drivers w)) \<and> distinct (map dr_email (w_drivers w))
     \<and> (\<forall>d \<in> set (w_drivers w). driver_ok d)"

interpretation drivers: db_invariant drivers_wf
  by unfold_locales (simp add: drivers_wf_def db_same_def)

interpretation drivers_by_email: keyed_table dr_email w_drivers drivers_wf
  by unfold_locales (simp add: drivers_wf_def)

lemma leaves_db_bcrypt_Generate [quiet_intros]: "leaves_db (bcrypt_Generate password)"
  by (simp add: leaves_db_def bcrypt_Generate_def wp_def)

lemma leaves_db_driver_by_email [quiet_intros]: "leaves_db (driver_by_email email)"
  unfolding driver_by_email_def by (intro quiet_intros)

lemma insert_driver_preserves:
  assumes "name \<noteq> ''''" "email \<noteq> ''''" "phone \<noteq> ''''"
  shows "preserves drivers_wf (insert_driver name email phone hash vt)"
  unfolding insert_driver_def
  by (rule drivers.preserves_remote)
    (use assms in \<open>auto simp: drivers_wf_def driver_ok_def Let_def split: option.split\<close>)

lemma Register_preserves: "preserves drivers_wf (Register secret expiryH r)"
  unfolding Register_def Let_def
  by (intro drivers.preserves_rules insert_driver_preserves drivers.preserves_quiet [OF leaves_db_GenerateToken]
      drivers.preserves_quiet [OF leaves_db_bcrypt_Generate] drivers.preserves_quiet [OF leaves_db_write(1)]
      drivers.preserves_quiet [OF leaves_db_write(2)]) auto

lemma leaves_db_Login [quiet_intros]: "leaves_db (Login secret expiryH r)"
  unfolding Login_def by (intro quiet_intros)

section \<open>What the handlers answer\<close>

text \<open>
  The documented behaviour the handlers rely on: bcrypt accepts the password a hash was made of,
  and PostgreSQL's message for a violated \<open>UNIQUE\<close> constraint says so.
\<close>

definition bcrypt_ok :: "'k externals \<Rightarrow> bool" where
  "bcrypt_ok x \<longleftrightarrow> (\<forall>n password hash. x_bcrypt_hash x n password = Inr hash \<longrightarrow> x_bcrypt_compare x hash password)"

definition violation_texts :: "'k externals \<Rightarrow> bool" where
  "violation_texts x \<longleftrightarrow> (\<forall>c. str_contains (x_unique_violation x c) ''duplicate key'')"

lemma isDuplicateEmail_violation: "violation_texts x \<Longrightarrow> isDuplicateEmail (ErrNew (x_unique_violation x c))"
  by (simp add: isDuplicateEmail_def contains_iff violation_texts_def)

lemma isDuplicateEmail_length: "\<not> isDuplicateEmail (ErrNew m)" if "varchar_error n s = Some m"
proof -
  have digits: "set (show_nat n) \<subseteq> {c. 48 \<le> (of_char c :: nat) \<and> (of_char c :: nat) \<le> 57}"
  proof (induction n rule: show_nat.induct)
    case (1 n)
    then show ?case by (subst show_nat.simps) (auto simp: digit_char_def)
  qed
  have zero: "\<not> isDuplicateEmail (ErrNew ''ERROR: invalid byte sequence for encoding UTF8 (SQLSTATE 22021)'')"
    by code_simp
  have "\<not> isDuplicateEmail (ErrNew (''ERROR: value too long for type character varying('' @ show_nat n @ '') (SQLSTATE 22001)''))"
    using digits unfolding isDuplicateEmail_def contains_iff str_contains_sublist
    by (auto dest!: set_mono_sublist)
  with zero that show ?thesis
    by (auto simp: varchar_error_def split: if_splits)
qed

text \<open>A request that is accepted, and the world after it.\<close>

definition new_driver :: "registerRequest \<Rightarrow> string \<Rightarrow> string \<Rightarrow> VehicleType \<Rightarrow> driver_row" where
  "new_driver req driverID hash v = \<lparr>dr_id = driverID, dr_name = rq_Name req, dr_email = rq_Email req,
     dr_phone = rq_Phone req, dr_password_hash = hash, dr_vehicle_type = v\<rparr>"

definition registrable :: "'k world \<Rightarrow> registerRequest \<Rightarrow> string \<Rightarrow> VehicleType \<Rightarrow> bool" where
  "registrable w req hash v \<longleftrightarrow> rq_Name req \<noteq> '''' \<and> rq_Email req \<noteq> '''' \<and> rq_Password req \<noteq> '''' \<and> rq_Phone req \<noteq> ''''
     \<and> vehicle_in (if rq_VehicleType req = '''' then ''car'' else rq_VehicleType req) = Some v
     \<and> x_bcrypt_hash (w_ext w) (w_uuids w) (rq_Password req) = Inr hash
     \<and> drivers_row_error (rq_Name req) (rq_Email req) (rq_Phone req) hash = None"

lemma vehicle_in_string: "vehicle_in s = Some v \<Longrightarrow> vehicle_string v = s"
  by (auto simp: vehicle_in_def split: if_splits)

lemma wp_bcrypt_Generate [wp_simps]:
  "wp (bcrypt_Generate password) Q w = Q (case x_bcrypt_hash (w_ext w) (w_uuids w) password of
     Inl m \<Rightarrow> Inl (ErrNew m) | Inr h \<Rightarrow> Inr h) (w\<lparr>w_uuids := Suc (w_uuids w)\<rparr>)"
  by (simp add: bcrypt_Generate_def wp_def)

lemma wp_GenerateToken_case:
  "wp (GenerateToken secret u v hours) Q w =
     Q (case x_jwt_sign (w_ext w) secret (u, v) (Add (w_clock (pass w)) (i64 (hours * Hour))) (w_clock (pass (pass w))) of
          Inl err \<Rightarrow> Inl (ErrNew err) | Inr token \<Rightarrow> Inr token) (pass (pass w))"
  by (simp add: GenerateToken_def wp_simps Let_def split: sum.split)

text \<open>Signing claims with HS256 and a key of bytes does not fail.\<close>

definition signing_ok :: "'k externals \<Rightarrow> bool" where
  "signing_ok x \<longleftrightarrow> (\<forall>secret claims expiresAt issuedAt. \<exists>token. x_jwt_sign x secret claims expiresAt issuedAt = Inr token)"

text \<open>A token that the middleware takes for the driver's until \<open>hours\<close> after a time \<open>t\<close>.\<close>

definition driver_token :: "string \<Rightarrow> 'k externals \<Rightarrow> time \<Rightarrow> int \<Rightarrow> string \<Rightarrow> string \<Rightarrow> string \<Rightarrow> bool" where
  "driver_token secret x t hours driverID vehicleType token \<longleftrightarrow>
     (\<forall>w. w_ext w = x \<longrightarrow> w_clock (pass w) < numeric_date (t + hours * Hour) \<longrightarrow>
        accepts secret w token \<lparr>cl_UserID = driverID, cl_VehicleType = vehicleType\<rparr>)"

lemma GenerateToken_served:
  assumes "jwt_ok (w_ext w)" "signing_ok (w_ext w)" "0 \<le> w_clock w" "0 \<le> hours" "hours * Hour < 2 ^ 63"
  shows "wp (GenerateToken secret u v hours) (\<lambda>res w'. \<exists>token. res = Inr token
     \<and> w' = pass (pass w) \<and> driver_token secret (w_ext w) (w_clock w) hours u v token) w"
proof -
  obtain token where token: "x_jwt_sign (w_ext w) secret (u, v)
      (Add (w_clock (pass w)) (i64 (hours * Hour))) (w_clock (pass (pass w))) = Inr token"
    using assms(2) unfolding signing_ok_def by blast
  have "accepts secret w2 token \<lparr>cl_UserID = u, cl_VehicleType = v\<rparr>"
    if "w_ext w2 = w_ext w" "w_clock (pass w2) < numeric_date (w_clock w + hours * Hour)" for w2 :: "'a world"
  proof -
    have wp: "wp (GenerateToken secret u v hours) Q w = Q (Inr token) (pass (pass w))" for Q
      using token by (simp add: wp_GenerateToken_case)
    obtain issued where "w_clock w \<le> issued" "\<forall>w2. w_ext w2 = w_ext w \<longrightarrow>
        w_clock (pass w2) < numeric_date (issued + hours * Hour) \<longrightarrow>
        accepts secret w2 token \<lparr>cl_UserID = u, cl_VehicleType = v\<rparr>"
      using GenerateToken_accepted [OF assms(1,3,4,5), of secret u v] by (auto simp: wp)
    with that numeric_date_mono [of "w_clock w + hours * Hour" "issued + hours * Hour"] show ?thesis by auto
  qed
  then show ?thesis
    using token by (simp add: wp_GenerateToken_case driver_token_def)
qed

lemma Register_served:
  assumes "reliable w" "jwt_ok (w_ext w)" "signing_ok (w_ext w)" "0 \<le> w_clock w" "0 \<le> hours" "hours * Hour < 2 ^ 63"
    and "decode_register (hq_Body r) = Some req" "registrable w req hash v"
    and "x_uuid (w_ext w) (Suc (w_uuids w)) \<notin> dr_id ` set (w_drivers w)" "rq_Email req \<notin> dr_email ` set (w_drivers w)"
  shows "wp (Register secret hours r) (\<lambda>res w'. \<exists>token.
     let driverID = x_uuid (w_ext w) (Suc (w_uuids w)) in
     res = JSONBody StatusCreated \<lparr>au_DriverID = driverID, au_Name = rq_Name req, au_Email = rq_Email req,
       au_Token = token, au_VehicleType = vehicle_string v\<rparr>
     \<and> driver_token secret (w_ext w) (w_clock w) hours driverID (vehicle_string v) token
     \<and> w_drivers w' = w_drivers w @ [new_driver req driverID hash v]
     \<and> reliable w' \<and> w_ext w' = w_ext w \<and> w_clock w \<le> w_clock w') w"
proof -
  let ?id = "x_uuid (w_ext w) (Suc (w_uuids w))" and ?w1 = "arrive (w\<lparr>w_uuids := Suc (w_uuids w)\<rparr>)"
  let ?w2 = "?w1\<lparr>w_uuids := Suc (Suc (w_uuids w)), w_drivers := w_drivers w @ [new_driver req ?id hash v]\<rparr>"
  have v: "vehicle_string v = (if rq_VehicleType req = '''' then ''car'' else rq_VehicleType req)"
    using assms(8) by (auto simp: registrable_def dest: vehicle_in_string)
  have clock: "w_clock w \<le> w_clock ?w2" using arrive_clock [of "w\<lparr>w_uuids := Suc (w_uuids w)\<rparr>"] by simp
  have wp: "wp (Register secret hours r) Q w = wp (GenerateToken secret ?id (vehicle_string v) hours)
      (\<lambda>token. wp (case token of Inl _ \<Rightarrow> writeError StatusInternalServerError ''failed to generate token''
         | Inr token \<Rightarrow> writeJSON StatusCreated \<lparr>au_DriverID = ?id, au_Name = rq_Name req,
             au_Email = rq_Email req, au_Token = token, au_VehicleType = vehicle_string v\<rparr>) Q) ?w2" for Q
    using assms(1,7,8,9,10) v [symmetric]
    by (simp add: Register_def registrable_def wp_bind wp_bcrypt_Generate insert_driver_def wp_remote Let_def new_driver_def)
  have "driver_token secret (w_ext w) (w_clock w) hours ?id (vehicle_string v) token"
    if "driver_token secret (w_ext ?w2) (w_clock ?w2) hours ?id (vehicle_string v) token" for token
    using that clock numeric_date_mono [of "w_clock w + hours * Hour" "w_clock ?w2 + hours * Hour"]
    unfolding driver_token_def by fastforce
  then show ?thesis
    unfolding wp using assms(1) clock pass_clock [of ?w2] pass_clock [of "pass ?w2"]
    by (intro wp_mono [OF GenerateToken_served])
      (use assms(2-6) clock in \<open>auto simp: Let_def wp_write\<close>)
qed

text \<open>The address of another driver is refused; no row is added.\<close>

lemma Register_taken:
  assumes "reliable w" "violation_texts (w_ext w)" "decode_register (hq_Body r) = Some req" "registrable w req hash v"
    and "rq_Email req \<in> dr_email ` set (w_drivers w)"
  shows "wp (Register secret hours r) (\<lambda>res w'.
     res = ErrorBody StatusConflict ''email already registered'' \<and> db_same w w') w"
  using assms(1,3,4,5) isDuplicateEmail_violation [OF assms(2)]
  by (auto simp: Register_def registrable_def wp_bind wp_bcrypt_Generate insert_driver_def wp_remote Let_def wp_write db_same_def
      intro: order_trans [OF _ arrive_clock])

lemma Login_served:
  assumes "reliable w" "drivers_wf w" "jwt_ok (w_ext w)" "signing_ok (w_ext w)" "0 \<le> w_clock w" "0 \<le> hours" "hours * Hour < 2 ^ 63"
    and "decode_login (hq_Body r) = Some \<lparr>lq_Email = dr_email d, lq_Password = password\<rparr>" "d \<in> set (w_drivers w)"
    and "password \<noteq> ''''" "x_bcrypt_compare (w_ext w) (dr_password_hash d) password"
  shows "wp (Login secret hours r) (\<lambda>res w'. \<exists>token.
     res = JSONBody StatusOK \<lparr>au_DriverID = dr_id d, au_Name = dr_name d, au_Email = dr_email d,
       au_Token = token, au_VehicleType = vehicle_string (dr_vehicle_type d)\<rparr>
     \<and> driver_token secret (w_ext w) (w_clock w) hours (dr_id d) (vehicle_string (dr_vehicle_type d)) token
     \<and> db_same w w') w"
proof -
  have "dr_email d \<noteq> ''''" using assms(2,9) by (simp add: drivers_wf_def driver_ok_def)
  moreover have "driver_token secret (w_ext w) (w_clock w) hours (dr_id d) u token"
    if "driver_token secret (w_ext (arrive w)) (w_clock (arrive w)) hours (dr_id d) u token" for u token
    using that arrive_clock [of w] numeric_date_mono [of "w_clock w + hours * Hour" "w_clock (arrive w) + hours * Hour"]
    unfolding driver_token_def by fastforce
  ultimately show ?thesis
    using assms(1,8,10,11) drivers_by_email.first_present [OF assms(2,9)] arrive_clock [of w]
    by (simp add: Login_def wp_bind driver_by_email_def wp_query wp_asks,
        intro wp_mono [OF GenerateToken_served])
      (use assms(3-7) in \<open>auto simp: wp_write db_same_later\<close>)
qed

text \<open>An unknown address and a wrong password get the same answer.\<close>

lemma Login_refused:
  assumes "reliable w" "drivers_wf w" "decode_login (hq_Body r) = Some req" "lq_Email req \<noteq> ''''" "lq_Password req \<noteq> ''''"
    and "\<And>d. d \<in> set (w_drivers w) \<Longrightarrow> dr_email d = lq_Email req \<Longrightarrow>
       \<not> x_bcrypt_compare (w_ext w) (dr_password_hash d) (lq_Password req)"
  shows "wp (Login secret hours r) (\<lambda>res w'.
     res = ErrorBody StatusUnauthorized ''invalid email or password'' \<and> db_same w w') w"
proof (cases "lq_Email req \<in> dr_email ` set (w_drivers w)")
  case True
  then obtain d where d: "d \<in> set (w_drivers w)" "dr_email d = lq_Email req" by auto
  then show ?thesis
    using assms(1,3,4,5,6) drivers_by_email.first_present [OF assms(2) d(1)]
    by (simp add: Login_def wp_bind driver_by_email_def wp_query wp_asks wp_write)
next
  case False
  then show ?thesis
    using assms(1,3,4,5) drivers_by_email.first_absent [OF False]
    by (simp add: Login_def wp_bind driver_by_email_def wp_query wp_write)
qed

end
