(* ===== verification/Billing.thy ===== *)
theory Billing
  imports RedisStore Sql Mq Pricing Proto
begin

text \<open>
  The billing service, \<open>services/billing/internal\<close>: its repository on the table \<open>invoices\<close>, the
  use cases (an invoice for a parking session or for a booking fee, previews, the cancellation
  fee, marking an invoice paid), the subscriber that bills a completed check-out and the gRPC
  handler.
\<close>

section \<open>Repository\<close>

definition scanInvoice :: "invoice_row \<Rightarrow> Invoice" where
  "scanInvoice r = \<lparr>i_InvoiceID = ir_id r, i_Type = ir_type r,
     i_SessionID = (case ir_session_id r of None \<Rightarrow> '''' | Some s \<Rightarrow> s),
     i_ReservationID = ir_reservation_id r, i_DriverID = ir_driver_id r,
     i_BookingFee = ir_booking_fee r, i_ParkingFee = ir_parking_fee r,
     i_OvernightFee = ir_overnight_fee r, i_TotalAmount = ir_total_amount r,
     i_BilledHours = ir_billed_hours r, i_IsOvernight = ir_is_overnight r,
     i_DurationMins = ir_duration_mins r, i_Status = ir_status r,
     i_GatewayTxID = (case ir_gateway_tx_id r of None \<Rightarrow> '''' | Some s \<Rightarrow> s),
     i_PaymentMethod = (case ir_payment_method r of None \<Rightarrow> '''' | Some s \<Rightarrow> s),
     i_CreatedAt = ir_created_at r, i_PaidAt = ir_paid_at r, i_IdempotencyKey = ir_idempotency_key r\<rparr>"

text \<open>\<open>QueryRow\<close> and \<open>scanInvoice\<close>: a missing row is an error of its own, any other one is wrapped.\<close>

definition query_invoice :: "(invoice_row \<Rightarrow> bool) \<Rightarrow> ('k, Invoice) io" where
  "query_invoice P = do {
     row \<leftarrow> query (\<lambda>w. first_row (filter P (w_invoices w)));
     State_Monad.return (case row of
         Inl err \<Rightarrow> if is_no_rows err then Inl (ErrNew ''invoice not found'')
                    else Inl (ErrWrap ''scan invoice: '' err)
       | Inr r \<Rightarrow> Inr (scanInvoice r))
   }"

definition bill_GetInvoice :: "string \<Rightarrow> ('k, Invoice) io" where
  "bill_GetInvoice invoiceID = query_invoice (\<lambda>r. ir_id r = invoiceID)"

definition bill_GetInvoiceBySession :: "string \<Rightarrow> ('k, Invoice) io" where
  "bill_GetInvoiceBySession sessionID = query_invoice (\<lambda>r. ir_session_id r = Some sessionID)"

definition bill_GetByIdempotencyKey :: "string \<Rightarrow> ('k, Invoice) io" where
  "bill_GetByIdempotencyKey key = query_invoice (\<lambda>r. ir_idempotency_key r = key)"

definition invoice_row_of :: "Invoice \<Rightarrow> time \<Rightarrow> invoice_row" where
  "invoice_row_of invoice now = \<lparr>ir_id = i_InvoiceID invoice, ir_type = i_Type invoice,
     ir_session_id = (if i_SessionID invoice = '''' then None else Some (i_SessionID invoice)),
     ir_reservation_id = i_ReservationID invoice, ir_driver_id = i_DriverID invoice,
     ir_booking_fee = i_BookingFee invoice, ir_parking_fee = i_ParkingFee invoice,
     ir_overnight_fee = i_OvernightFee invoice, ir_total_amount = i_TotalAmount invoice,
     ir_billed_hours = i_BilledHours invoice, ir_is_overnight = i_IsOvernight invoice,
     ir_duration_mins = i_DurationMins invoice, ir_status = i_Status invoice,
     ir_gateway_tx_id = None, ir_payment_method = None,
     ir_idempotency_key = i_IdempotencyKey invoice, ir_created_at = pg_timestamp now, ir_paid_at = None\<rparr>"

text \<open>\<open>INSERT INTO invoices\<close>, with the constraints of the table.\<close>

definition insert_invoice_row :: "(time \<Rightarrow> invoice_row) \<Rightarrow> ('k, unit) io" where
  "insert_invoice_row mk = remote (\<lambda>w.
     let row = mk (w_clock w) in
     if ir_id row \<in> ir_id ` set (w_invoices w)
     then (Inl (ErrNew (x_unique_violation (w_ext w) ''invoices_pkey'')), w)
     else if ir_idempotency_key row \<in> ir_idempotency_key ` set (w_invoices w)
     then (Inl (ErrNew (x_unique_violation (w_ext w) ''invoices_idempotency_key_key'')), w)
     else if ir_reservation_id row \<notin> rr_id ` set (w_reservations w)
     then (Inl (ErrNew (x_foreign_key_violation (w_ext w) ''invoices_reservation_id_fkey'')), w)
     else (Inr (), w\<lparr>w_invoices := w_invoices w @ [row]\<rparr>))"

definition InsertInvoice :: "Invoice \<Rightarrow> ('k, unit) io" where
  "InsertInvoice invoice = do {
     res \<leftarrow> insert_invoice_row (invoice_row_of invoice);
     State_Monad.return (case res of
         Inl err \<Rightarrow> if str_contains (err_msg err) ''duplicate key'' \<or> str_contains (err_msg err) ''23505''
                    then Inl (ErrNew ''request already processed'')
                    else Inl (ErrWrap ''insert invoice: '' err)
       | Inr _ \<Rightarrow> Inr ())
   }"

definition MarkPaid :: "string \<Rightarrow> string \<Rightarrow> string \<Rightarrow> time \<Rightarrow> ('k, unit) io" where
  "MarkPaid invoiceID gatewayTxID paymentMethod paidAt =
     exec (\<lambda>w. w\<lparr>w_invoices := update_where (\<lambda>r. ir_id r = invoiceID)
       (\<lambda>r. r\<lparr>ir_status := InvoiceStatusPaid, ir_gateway_tx_id := Some gatewayTxID,
          ir_payment_method := Some paymentMethod, ir_paid_at := Some (pg_timestamp paidAt)\<rparr>) (w_invoices w)\<rparr>)"

section \<open>Use cases\<close>

definition billing_key :: "string \<Rightarrow> string" where
  "billing_key idempotencyKey = ''idempotency:'' @ idempotencyKey"

text \<open>The two invoices, as the use cases fill the struct in.\<close>

definition parking_invoice ::
  "string \<Rightarrow> string \<Rightarrow> string \<Rightarrow> string \<Rightarrow> time \<Rightarrow> time \<Rightarrow> string \<Rightarrow> time \<Rightarrow> Invoice" where
  "parking_invoice sessionID reservationID driverID idempotencyKey checkIn checkOut invoiceID createdAt =
     (let result = Calculate checkIn checkOut; durationMins = minutes_int (Sub checkOut checkIn) in
      \<lparr>i_InvoiceID = invoiceID, i_Type = InvoiceTypeParkingSession,
       i_SessionID = sessionID, i_ReservationID = reservationID, i_DriverID = driverID,
       i_BookingFee = res_BookingFee result, i_ParkingFee = res_ParkingFee result,
       i_OvernightFee = res_OvernightFee result, i_TotalAmount = res_TotalAmount result,
       i_BilledHours = res_BilledHours result, i_IsOvernight = res_IsOvernight result,
       i_DurationMins = durationMins, i_Status = InvoiceStatusPendingPayment,
       i_GatewayTxID = '''', i_PaymentMethod = '''', i_CreatedAt = createdAt,
       i_PaidAt = None, i_IdempotencyKey = idempotencyKey\<rparr>)"

definition booking_invoice :: "string \<Rightarrow> string \<Rightarrow> string \<Rightarrow> string \<Rightarrow> time \<Rightarrow> Invoice" where
  "booking_invoice reservationID driverID idempotencyKey invoiceID createdAt =
     \<lparr>i_InvoiceID = invoiceID, i_Type = InvoiceTypeBookingFee,
      i_SessionID = '''', i_ReservationID = reservationID, i_DriverID = driverID,
      i_BookingFee = BookingFee, i_ParkingFee = 0, i_OvernightFee = 0,
      i_TotalAmount = BookingFee, i_BilledHours = 0, i_IsOvernight = False,
      i_DurationMins = 0, i_Status = InvoiceStatusPendingPayment,
      i_GatewayTxID = '''', i_PaymentMethod = '''', i_CreatedAt = createdAt,
      i_PaidAt = None, i_IdempotencyKey = idempotencyKey\<rparr>"

definition GenerateInvoice ::
  "string \<Rightarrow> string \<Rightarrow> string \<Rightarrow> string \<Rightarrow> time \<Rightarrow> time \<Rightarrow> ('k, Invoice) io" where
  "GenerateInvoice sessionID reservationID driverID idempotencyKey checkIn checkOut =
     or_return (Check (billing_key idempotencyKey)) (ErrWrap ''idempotency check: '') (\<lambda>(_, hit).
     if hit then bill_GetByIdempotencyKey idempotencyKey
     else do {
       invoiceID \<leftarrow> uuid_New;
       createdAt \<leftarrow> time_Now;
       let invoice = parking_invoice sessionID reservationID driverID idempotencyKey checkIn checkOut invoiceID createdAt;
       or_return (InsertInvoice invoice) (ErrWrap ''insert invoice: '') (\<lambda>_. do {
         _ \<leftarrow> Save (billing_key idempotencyKey) (i_InvoiceID invoice) DefaultTTL;
         ok invoice
       })
     })"

definition GenerateBookingFeeInvoice :: "string \<Rightarrow> string \<Rightarrow> string \<Rightarrow> ('k, Invoice) io" where
  "GenerateBookingFeeInvoice reservationID driverID idempotencyKey =
     or_return (Check (billing_key idempotencyKey)) (ErrWrap ''idempotency check: '') (\<lambda>(_, hit).
     if hit then bill_GetByIdempotencyKey idempotencyKey
     else do {
       invoiceID \<leftarrow> uuid_New;
       createdAt \<leftarrow> time_Now;
       let invoice = booking_invoice reservationID driverID idempotencyKey invoiceID createdAt;
       or_return (InsertInvoice invoice) (ErrWrap ''insert booking fee invoice: '') (\<lambda>_. do {
         _ \<leftarrow> Save (billing_key idempotencyKey) (i_InvoiceID invoice) DefaultTTL;
         ok invoice
       })
     })"

definition GetInvoice :: "string \<Rightarrow> ('k, Invoice) io" where
  "GetInvoice invoiceID = bill_GetInvoice invoiceID"

definition GetInvoiceBySession :: "string \<Rightarrow> ('k, Invoice) io" where
  "GetInvoiceBySession sessionID = bill_GetInvoiceBySession sessionID"

definition PreviewBilling :: "time \<Rightarrow> ('k, Result) prog" where
  "PreviewBilling checkIn = do {
     now \<leftarrow> time_Now;
     State_Monad.return (Calculate checkIn now)
   }"

text \<open>The dash of the texts is the character U+2014 in UTF-8.\<close>

definition em_dash :: string where
  "em_dash = [CHR 0xE2, CHR 0x80, CHR 0x94]"

definition uc_CalculateCancellationFee :: "time \<Rightarrow> time \<Rightarrow> bool \<Rightarrow> int \<times> string" where
  "uc_CalculateCancellationFee confirmedAt cancelledAt isNoShow =
     (let fee = CalculateCancellationFee confirmedAt cancelledAt isNoShow;
          reason = (if fee = 0 then
                      (if isNoShow
                       then ''No-show '' @ em_dash @ '' booking fee already charged at confirmation, no extra charge''
                       else ''Cancelled within 2 minutes of confirmation '' @ em_dash @ '' no fee'')
                    else if fee = 5000
                    then ''Cancelled after 2 minutes before check-in '' @ em_dash @ '' 5.000 IDR''
                    else '''')
      in (fee, reason))"

definition MarkInvoicePaid :: "string \<Rightarrow> string \<Rightarrow> string \<Rightarrow> time \<Rightarrow> ('k, Invoice) io" where
  "MarkInvoicePaid invoiceID gatewayTxID paymentMethod paidAt =
     or_return (MarkPaid invoiceID gatewayTxID paymentMethod paidAt) (ErrWrap ''mark paid: '') (\<lambda>_.
       bill_GetInvoice invoiceID)"

section \<open>Subscriber\<close>

record billing_event =
  be_ReservationID :: string
  be_DriverID :: string
  be_SessionID :: string

definition decode_billing_event :: "json \<Rightarrow> billing_event option" where
  "decode_billing_event j = (case struct_members j of
       None \<Rightarrow> None
     | Some ms \<Rightarrow>
         (case (str_field ''reservation_id'' ms '''', str_field ''driver_id'' ms '''', str_field ''session_id'' ms '''') of
            (Some r, Some d, Some s) \<Rightarrow> Some \<lparr>be_ReservationID = r, be_DriverID = d, be_SessionID = s\<rparr>
          | _ \<Rightarrow> None))"

definition HandleCheckOut :: "message \<Rightarrow> ('k, unit) io" where
  "HandleCheckOut msg = (case decode_billing_event (m_Payload msg) of
       None \<Rightarrow> fail (ErrWrap ''unmarshal checkout event: '' (ErrNew ''json: cannot unmarshal''))
     | Some evt \<Rightarrow>
         if be_SessionID evt = '''' then ok ()
         else do {
           let checkOut = m_Timestamp msg;
           let checkIn = Add checkOut (- (1 * Hour));
           key \<leftarrow> uuid_New;
           or_return (GenerateInvoice (be_SessionID evt) (be_ReservationID evt) (be_DriverID evt) key checkIn checkOut)
             id (\<lambda>_. ok ())
         })"

definition billing_bindings :: "string \<times> string list" where
  "billing_bindings = (''billing.checkout'', [EventCheckOutCompleted])"

section \<open>Handler\<close>

record BillingBreakdown =
  bb_BookingFee :: Money
  bb_ParkingFee :: Money
  bb_OvernightFee :: Money
  bb_BilledHours :: int
  bb_ActualDurationMinutes :: int
  bb_IsOvernight :: bool

record InvoiceProto =
  ip_InvoiceId :: string
  ip_SessionId :: string
  ip_ReservationId :: string
  ip_DriverId :: string
  ip_Breakdown :: BillingBreakdown
  ip_TotalAmount :: Money
  ip_Status :: int
  ip_CreatedAt :: time
  ip_PaidAt :: "time option"

definition invoiceStatusToProto :: "InvoiceStatus \<Rightarrow> int" where
  "invoiceStatusToProto s = (case s of
       InvoiceStatusPendingPayment \<Rightarrow> INVOICE_STATUS_PENDING_PAYMENT
     | InvoiceStatusPaid \<Rightarrow> INVOICE_STATUS_PAID
     | InvoiceStatusVoid \<Rightarrow> INVOICE_STATUS_VOID
     | InvoiceStatusDraft \<Rightarrow> INVOICE_STATUS_DRAFT)"

definition domainInvoiceToProto :: "Invoice \<Rightarrow> InvoiceProto" where
  "domainInvoiceToProto invoice = \<lparr>ip_InvoiceId = i_InvoiceID invoice, ip_SessionId = i_SessionID invoice,
     ip_ReservationId = i_ReservationID invoice, ip_DriverId = i_DriverID invoice,
     ip_Breakdown = \<lparr>bb_BookingFee = idr (i_BookingFee invoice), bb_ParkingFee = idr (i_ParkingFee invoice),
       bb_OvernightFee = idr (i_OvernightFee invoice), bb_BilledHours = i_BilledHours invoice,
       bb_ActualDurationMinutes = i_DurationMins invoice, bb_IsOvernight = i_IsOvernight invoice\<rparr>,
     ip_TotalAmount = idr (i_TotalAmount invoice), ip_Status = invoiceStatusToProto (i_Status invoice),
     ip_CreatedAt = i_CreatedAt invoice, ip_PaidAt = i_PaidAt invoice\<rparr>"

record GenerateInvoiceRequest =
  gi_SessionId :: string
  gi_ReservationId :: string
  gi_DriverId :: string
  gi_CheckInAt :: "time option"
  gi_CheckOutAt :: "time option"
  gi_IdempotencyKey :: string

record GenerateInvoiceResponse =
  gir_InvoiceId :: string
  gir_Invoice :: InvoiceProto
  gir_GeneratedAt :: time

definition rpc_GenerateInvoice :: "GenerateInvoiceRequest \<Rightarrow> ('k, GenerateInvoiceResponse) rpc" where
  "rpc_GenerateInvoice req =
     (if gi_IdempotencyKey req = '''' then State_Monad.return (Status InvalidArgument ''idempotency_key is required'')
      else or_status (GenerateInvoice (gi_SessionId req) (gi_ReservationId req) (gi_DriverId req)
             (gi_IdempotencyKey req) (AsTime (gi_CheckInAt req)) (AsTime (gi_CheckOutAt req)))
           (\<lambda>err. Status Internal (''generate invoice: '' @ err_msg err))
           (\<lambda>invoice. State_Monad.return (Reply \<lparr>gir_InvoiceId = i_InvoiceID invoice,
              gir_Invoice = domainInvoiceToProto invoice, gir_GeneratedAt = i_CreatedAt invoice\<rparr>)))"

definition rpc_GetInvoice :: "string \<Rightarrow> ('k, InvoiceProto) rpc" where
  "rpc_GetInvoice invoiceId = or_status (GetInvoice invoiceId) (\<lambda>err. Status NotFound (err_msg err))
     (\<lambda>invoice. State_Monad.return (Reply (domainInvoiceToProto invoice)))"

definition rpc_GetInvoiceBySession :: "string \<Rightarrow> ('k, InvoiceProto) rpc" where
  "rpc_GetInvoiceBySession sessionId = or_status (GetInvoiceBySession sessionId) (\<lambda>err. Status NotFound (err_msg err))
     (\<lambda>invoice. State_Monad.return (Reply (domainInvoiceToProto invoice)))"

record PreviewBillingResponse =
  pb_Breakdown :: BillingBreakdown
  pb_EstimatedTotal :: Money
  pb_Note :: string

definition rpc_PreviewBilling :: "time option \<Rightarrow> ('k, PreviewBillingResponse) rpc" where
  "rpc_PreviewBilling checkInAt = do {
     result \<leftarrow> PreviewBilling (AsTime checkInAt);
     now \<leftarrow> time_Now;
     State_Monad.return (Reply \<lparr>pb_Breakdown = \<lparr>bb_BookingFee = idr (res_BookingFee result),
         bb_ParkingFee = idr (res_ParkingFee result), bb_OvernightFee = idr (res_OvernightFee result),
         bb_BilledHours = res_BilledHours result,
         bb_ActualDurationMinutes = minutes_int (Sub now (AsTime checkInAt)),
         bb_IsOvernight = res_IsOvernight result\<rparr>,
       pb_EstimatedTotal = idr (res_TotalAmount result),
       pb_Note = ''Estimasi, final amount dihitung saat checkout''\<rparr>)
   }"

definition rpc_CalculateCancellationFee :: "time option \<Rightarrow> time option \<Rightarrow> bool \<Rightarrow> Money \<times> string" where
  "rpc_CalculateCancellationFee confirmedAt cancelledAt isNoShow =
     (let (fee, reason) = uc_CalculateCancellationFee (AsTime confirmedAt) (AsTime cancelledAt) isNoShow
      in (idr fee, reason))"

definition rpc_MarkInvoicePaid ::
  "string \<Rightarrow> string \<Rightarrow> int \<Rightarrow> time option \<Rightarrow> ('k, string \<times> int) rpc" where
  "rpc_MarkInvoicePaid invoiceId gatewayTxId paymentMethod paidAt =
     or_status (MarkInvoicePaid invoiceId gatewayTxId (PaymentMethod_String paymentMethod) (AsTime paidAt))
       (\<lambda>err. Status Internal (err_msg err))
       (\<lambda>invoice. State_Monad.return (Reply (i_InvoiceID invoice, INVOICE_STATUS_PAID)))"

section \<open>The invariant of the invoices\<close>

text \<open>
  The amounts of an invoice fit together as the pricing engine computes them, and it is paid
  exactly when it carries the time of a payment; one that is not paid names no transaction.
\<close>

definition invoice_ok :: "invoice_row \<Rightarrow> bool" where
  "invoice_ok r \<longleftrightarrow> ir_booking_fee r = BookingFee
     \<and> (case ir_type r of
          InvoiceTypeParkingSession \<Rightarrow> 0 \<le> ir_billed_hours r \<and> ir_billed_hours r \<le> 720
            \<and> ir_parking_fee r = HourlyRate * ir_billed_hours r
            \<and> ir_overnight_fee r = (if ir_is_overnight r then OvernightFee else 0)
            \<and> ir_total_amount r = ir_parking_fee r + ir_overnight_fee r
        | InvoiceTypeBookingFee \<Rightarrow> ir_parking_fee r = 0 \<and> ir_overnight_fee r = 0 \<and> ir_billed_hours r = 0
            \<and> ir_session_id r = None \<and> ir_total_amount r = BookingFee)
     \<and> (case ir_status r of
          InvoiceStatusPaid \<Rightarrow> ir_paid_at r \<noteq> None
        | InvoiceStatusPendingPayment \<Rightarrow> ir_paid_at r = None \<and> ir_gateway_tx_id r = None \<and> ir_payment_method r = None
        | _ \<Rightarrow> False)"

definition invoices_wf :: "'k world \<Rightarrow> bool" where
  "invoices_wf w \<longleftrightarrow> distinct (map ir_id (w_invoices w)) \<and> distinct (map ir_idempotency_key (w_invoices w))
     \<and> (\<forall>r \<in> set (w_invoices w). invoice_ok r)"

interpretation invoices: db_invariant invoices_wf
  by unfold_locales (simp add: invoices_wf_def db_same_def)

interpretation invoices_by_id: keyed_table ir_id w_invoices invoices_wf
  by unfold_locales (simp add: invoices_wf_def)

interpretation invoices_by_key: keyed_table ir_idempotency_key w_invoices invoices_wf
  by unfold_locales (simp add: invoices_wf_def)

lemma leaves_db_invoice_reads [quiet_intros]:
  "leaves_db (bill_GetInvoice i)" "leaves_db (bill_GetInvoiceBySession s)" "leaves_db (bill_GetByIdempotencyKey k)"
  "leaves_db (GetInvoice i)" "leaves_db (GetInvoiceBySession s)" "leaves_db (PreviewBilling t)"
  unfolding bill_GetInvoice_def bill_GetInvoiceBySession_def bill_GetByIdempotencyKey_def query_invoice_def
    GetInvoice_def GetInvoiceBySession_def PreviewBilling_def
  by (intro quiet_intros)+

lemma insert_invoice_row_preserves:
  assumes "\<And>now. invoice_ok (mk now)"
  shows "preserves invoices_wf (insert_invoice_row mk)"
  unfolding insert_invoice_row_def
  by (rule invoices.preserves_remote) (use assms in \<open>auto simp: Let_def invoices_wf_def\<close>)

lemma InsertInvoice_preserves:
  assumes "\<And>now. invoice_ok (invoice_row_of invoice now)"
  shows "preserves invoices_wf (InsertInvoice invoice)"
  unfolding InsertInvoice_def
  by (intro invoices.preserves_rules insert_invoice_row_preserves assms)

lemma MarkPaid_preserves: "preserves invoices_wf (MarkPaid iid tx m t)"
  unfolding MarkPaid_def
proof (rule invoices.preserves_exec)
  fix w :: "'a world" assume "invoices_wf w"
  then show "invoices_wf (w\<lparr>w_invoices := update_where (\<lambda>r. ir_id r = iid)
      (\<lambda>r. r\<lparr>ir_status := InvoiceStatusPaid, ir_gateway_tx_id := Some tx, ir_payment_method := Some m,
         ir_paid_at := Some (pg_timestamp t)\<rparr>) (w_invoices w)\<rparr>)"
    by (auto simp: invoices_wf_def set_update_where) (auto simp: invoice_ok_def split: InvoiceType.splits)
qed

lemma parking_invoice_ok: "invoice_ok (invoice_row_of (parking_invoice s r d key cin out iid t) now)"
  using billed_spec_bounds [of cin out]
  by (auto simp: parking_invoice_def Calculate_spec invoice_ok_def invoice_row_of_def fee_defs HourlyRate_def Let_def)

lemma booking_invoice_ok: "invoice_ok (invoice_row_of (booking_invoice r d key iid t) now)"
  by (simp add: invoice_ok_def invoice_row_of_def booking_invoice_def)

lemma GenerateInvoice_preserves: "preserves invoices_wf (GenerateInvoice s r d key cin out)"
  unfolding GenerateInvoice_def Let_def case_prod_beta
  by (intro invoices.preserves_rules InsertInvoice_preserves parking_invoice_ok
      invoices.preserves_quiet quiet_intros)

lemma GenerateBookingFeeInvoice_preserves: "preserves invoices_wf (GenerateBookingFeeInvoice r d key)"
  unfolding GenerateBookingFeeInvoice_def Let_def case_prod_beta
  by (intro invoices.preserves_rules InsertInvoice_preserves booking_invoice_ok invoices.preserves_quiet quiet_intros)

lemma MarkInvoicePaid_preserves: "preserves invoices_wf (MarkInvoicePaid iid tx m t)"
  unfolding MarkInvoicePaid_def
  by (intro invoices.preserves_or_return MarkPaid_preserves invoices.preserves_quiet quiet_intros)

lemma HandleCheckOut_preserves: "preserves invoices_wf (HandleCheckOut msg)"
  unfolding HandleCheckOut_def Let_def
  by (intro invoices.preserves_rules GenerateInvoice_preserves invoices.preserves_quiet quiet_intros)

section \<open>What the operations do\<close>

lemma billing_key_fresh_save: "billing_key a = billing_key b \<longleftrightarrow> a = b"
  by (simp add: billing_key_def)

text \<open>An operation adds at most one row to the invoices; \<open>P\<close> describes it.\<close>

definition invoice_added :: "(invoice_row \<Rightarrow> bool) \<Rightarrow> 'k world \<Rightarrow> 'k world \<Rightarrow> bool" where
  "invoice_added P w w' \<longleftrightarrow> w_invoices w' = w_invoices w \<or> (\<exists>row. P row \<and> w_invoices w' = w_invoices w @ [row])"

lemma invoice_added_same: "invoice_added P w w1 \<Longrightarrow> db_same w1 w2 \<Longrightarrow> invoice_added P w w2"
  by (simp add: invoice_added_def db_same_def)

lemma db_same_invoice_added: "db_same w w1 \<Longrightarrow> invoice_added P w w1"
  by (simp add: invoice_added_def db_same_def)

lemma InsertInvoice_adds:
  assumes "db_same w w1" "\<And>now. P (invoice_row_of invoice now)"
  shows "wp (InsertInvoice invoice) (\<lambda>_. invoice_added P w) w1"
  using assms
  by (auto simp: InsertInvoice_def insert_invoice_row_def wp_simps Let_def invoice_added_def db_same_def split: fate.split)

lemma invoice_adds_then:
  assumes "wp m (\<lambda>_. invoice_added P w) w1" "\<And>a. leaves_db (rest a)"
  shows "wp (or_return m wrap rest) (\<lambda>_. invoice_added P w) w1"
  unfolding wp_or_return
proof (rule wp_mono [OF assms(1)], goal_cases)
  case (1 res w2)
  have "wp (rest a) (\<lambda>_. invoice_added P w) w2" for a
    by (rule wp_mono [OF leaves_dbD [OF assms(2)]]) (rule invoice_added_same [OF 1])
  with 1 show ?case by (simp split: sum.split)
qed

lemma quiet_adds_nothing: "leaves_db m \<Longrightarrow> db_same w w1 \<Longrightarrow> wp m (\<lambda>_. invoice_added P w) w1"
  by (rule wp_mono [OF quiet_end]) (auto intro: db_same_invoice_added)

lemma GenerateInvoice_adds:
  assumes "db_same w w1" "\<And>iid t now. P (invoice_row_of (parking_invoice s r d key cin out iid t) now)"
  shows "wp (GenerateInvoice s r d key cin out) (\<lambda>_. invoice_added P w) w1"
  unfolding GenerateInvoice_def Let_def case_prod_beta
  by (intro or_return_quiet [OF leaves_db_idempotency(1) assms(1)] wp_ifI)
    (rule quiet_adds_nothing, intro quiet_intros, assumption,
     intro bind_quiet [OF leaves_db_uuid_New] bind_quiet [OF leaves_db_time_Now] invoice_adds_then
       InsertInvoice_adds assms(2) quiet_intros, auto intro: db_same_invoice_added)

text \<open>
  The subscriber bills exactly one hour, whatever the stay was: an invoice it adds is of the
  hour before the message.
\<close>

lemma one_hour_billed: "Calculate (Add t (- Hour)) t =
    \<lparr>res_BookingFee = 5000, res_ParkingFee = 5000, res_OvernightFee = (if wib_days (t - Hour) < wib_days t then 20000 else 0),
     res_TotalAmount = 5000 + (if wib_days (t - Hour) < wib_days t then 20000 else 0),
     res_BilledHours = 1, res_IsOvernight = wib_days (t - Hour) < wib_days t\<rparr>"
proof -
  have "billed_spec (t - Hour) t = 1"
    by (simp add: billed_spec_def whole_minutes_def Hour_def Minute_def Second_def)
  then show ?thesis by (simp add: Calculate_spec Add_def)
qed

lemma HandleCheckOut_adds:
  "wp (HandleCheckOut msg) (\<lambda>_. invoice_added (\<lambda>row. ir_billed_hours row = 1 \<and> ir_parking_fee row = 5000
     \<and> ir_duration_mins row = 60) w) w"
proof -
  have mins: "minutes_int (Sub t (Add t (- Hour))) = 60" for t
    by (simp add: Sub_def Add_def Hour_def Minute_def Second_def max_duration_def min_duration_def) code_simp
  show ?thesis
    unfolding HandleCheckOut_def Let_def
    by (auto simp: fail_def ok_def wp_return invoice_added_def split: option.split
        intro!: bind_quiet [OF leaves_db_uuid_New] invoice_adds_then GenerateInvoice_adds quiet_intros)
      (auto simp: invoice_row_of_def parking_invoice_def one_hour_billed mins Let_def)
qed

text \<open>On a network that serves every call, and under a key that was not used before.\<close>

lemma GenerateInvoice_served:
  assumes "reliable w" "redis_ok (w_ext w)" "reservationID \<in> rr_id ` set (w_reservations w)"
    and "x_redis_get (w_ext w) (w_redis w) (w_clock w) (billing_key key) = None"
    and "key \<notin> ir_idempotency_key ` set (w_invoices w)" "x_uuid (w_ext w) (w_uuids w) \<notin> ir_id ` set (w_invoices w)"
  shows "wp (GenerateInvoice s reservationID d key cin out) (\<lambda>res w'. \<exists>t now.
     let invoice = parking_invoice s reservationID d key cin out (x_uuid (w_ext w) (w_uuids w)) t in
     res = Inr invoice \<and> w_clock w \<le> t \<and> t \<le> now \<and> now \<le> w_clock w'
     \<and> w_invoices w' = w_invoices w @ [invoice_row_of invoice now]
     \<and> (\<forall>t. w_clock w' \<le> t \<longrightarrow> t < w_clock w + DefaultTTL \<longrightarrow>
          x_redis_get (w_ext w') (w_redis w') t (billing_key key) = Some (i_InvoiceID invoice))
     \<and> w_reservations w' = w_reservations w) w"
proof -
  let ?w1 = "(arrive w)\<lparr>w_uuids := Suc (w_uuids w)\<rparr>" let ?w2 = "arrive (pass ?w1)"
  let ?i = "parking_invoice s reservationID d key cin out (x_uuid (w_ext w) (w_uuids w)) (w_clock (pass ?w1))"
  let ?w3 = "arrive (?w2\<lparr>w_invoices := w_invoices w @ [invoice_row_of ?i (w_clock ?w2)]\<rparr>)"
  have keys [simp]: "i_InvoiceID ?i = x_uuid (w_ext w) (w_uuids w)" "i_IdempotencyKey ?i = key"
    "i_ReservationID ?i = reservationID"
    by (simp_all add: parking_invoice_def Let_def)
  have wp: "wp (GenerateInvoice s reservationID d key cin out) Q w =
      Q (Inr ?i) (?w3\<lparr>w_redis := x_redis_set (w_ext w) (w_redis w) (w_clock ?w3) (billing_key key) (x_uuid (w_ext w) (w_uuids w)) DefaultTTL\<rparr>)"
    for Q
    using assms
    by (simp add: GenerateInvoice_def wp_or_return Check_miss wp_bind wp_uuid_New wp_time_Now Let_def
        InsertInvoice_def insert_invoice_row_def wp_remote invoice_row_of_def [of ?i] Save_def rdb_Set_def wp_exec wp_return wp_ok)
  have c: "w_clock w \<le> w_clock (pass ?w1)" "w_clock (pass ?w1) \<le> w_clock ?w2" "w_clock ?w2 \<le> w_clock ?w3"
    using pass_clock [of ?w1] arrive_clock [of w] arrive_clock [of "pass ?w1"]
      arrive_clock [of "?w2\<lparr>w_invoices := w_invoices w @ [invoice_row_of ?i (w_clock ?w2)]\<rparr>"] by simp_all
  have "x_redis_get (w_ext w) (x_redis_set (w_ext w) (w_redis w) (w_clock ?w3) (billing_key key)
      (x_uuid (w_ext w) (w_uuids w)) DefaultTTL) t (billing_key key) = Some (x_uuid (w_ext w) (w_uuids w))"
    if "w_clock ?w3 \<le> t" "t < w_clock w + DefaultTTL" for t
    by (rule redis_server.saved_until [OF assms(2) [unfolded redis_ok_def] _ order_trans [OF c(1) order_trans [OF c(2,3)]] that]) simp
  then show ?thesis
    unfolding wp Let_def using c by (intro exI [of _ "w_clock (pass ?w1)"] exI [of _ "w_clock ?w2"]) auto
qed

section \<open>Repeated requests\<close>

text \<open>The two operations that take a key satisfy the contract of idempotent requests.\<close>

definition stored_invoice :: "'k world \<Rightarrow> string \<Rightarrow> goerr + Invoice" where
  "stored_invoice w key = (case first_row (filter (\<lambda>r. ir_idempotency_key r = key) (w_invoices w)) of
     Inl err \<Rightarrow> Inl (ErrNew ''invoice not found'') | Inr r \<Rightarrow> Inr (scanInvoice r))"

lemma first_row_error: "first_row rows = Inl err \<Longrightarrow> is_no_rows err"
  by (auto simp: first_row_def split: list.splits)

lemma read_stored_invoice:
  "reliable w \<Longrightarrow> wp (bill_GetByIdempotencyKey key) Q w = Q (stored_invoice w key) (arrive w)"
  by (auto simp: bill_GetByIdempotencyKey_def query_invoice_def wp_simps stored_invoice_def first_row_error
      split: sum.splits)

lemma stored_invoice_same: "db_same w w' \<Longrightarrow> stored_invoice w' key = stored_invoice w key"
  by (simp add: stored_invoice_def db_same_def)

lemma stored_invoice_arrive [simp]: "stored_invoice (arrive w) key = stored_invoice w key"
  by (rule stored_invoice_same) simp

interpretation invoice_requests: idempotent_request "\<lambda>key. GenerateInvoice s r d key cin out" billing_key stored_invoice
  for s r d cin out
  by unfold_locales
    (auto simp: GenerateInvoice_def Check_def rdb_Get_def wp_simps read_stored_invoice stored_invoice_same)

interpretation booking_requests: idempotent_request "\<lambda>key. GenerateBookingFeeInvoice r d key" billing_key stored_invoice
  for r d
  by unfold_locales
    (auto simp: GenerateBookingFeeInvoice_def Check_def rdb_Get_def wp_simps read_stored_invoice stored_invoice_same)

section \<open>Paying\<close>

lemma MarkInvoicePaid_known:
  assumes "reliable w" "invoices_wf w" "row \<in> set (w_invoices w)"
  shows "wp (MarkInvoicePaid (ir_id row) tx m t) (\<lambda>res w'.
     res = Inr ((scanInvoice row)\<lparr>i_Status := InvoiceStatusPaid, i_GatewayTxID := tx, i_PaymentMethod := m,
       i_PaidAt := Some (pg_timestamp t)\<rparr>)
     \<and> w_invoices w' = update_where (\<lambda>r. ir_id r = ir_id row) (\<lambda>r. r\<lparr>ir_status := InvoiceStatusPaid,
         ir_gateway_tx_id := Some tx, ir_payment_method := Some m, ir_paid_at := Some (pg_timestamp t)\<rparr>) (w_invoices w)) w"
proof -
  have "filter (\<lambda>r. ir_id r = ir_id row) (w_invoices w) = [row]"
    by (rule invoices_by_id.find_present [OF assms(2,3)])
  then show ?thesis
    using assms(1)
    by (simp add: MarkInvoicePaid_def MarkPaid_def bill_GetInvoice_def query_invoice_def wp_simps
        filter_update_where update_where_def [of _ _ "[row]"] first_row_def scanInvoice_def reliable_arrive)
qed

lemma MarkInvoicePaid_unknown:
  assumes "reliable w" "iid \<notin> ir_id ` set (w_invoices w)"
  shows "wp (MarkInvoicePaid iid tx m t) (\<lambda>res w'. res = Inl (ErrNew ''invoice not found'') \<and> db_same w w') w"
proof -
  have "filter (\<lambda>r. ir_id r = iid) (w_invoices w) = []" by (rule invoices_by_id.find_absent [OF assms(2)])
  moreover have "update_where (\<lambda>r. ir_id r = iid) f (w_invoices w) = w_invoices w" for f
    using assms(2) by (intro update_where_none) auto
  ultimately show ?thesis
    using assms(1)
    by (simp add: MarkInvoicePaid_def MarkPaid_def bill_GetInvoice_def query_invoice_def wp_simps first_row_def db_same_reset)
qed

end
