(* ===== verification/Payment.thy ===== *)
theory Payment
  imports RedisStore Sql Proto
begin

text \<open>
  The payment service, \<open>services/payment/internal\<close> and \<open>services/payment/payment.go\<close>: its
  repository on the table \<open>transactions\<close>, the payment gateways, the use cases (creating a
  transaction, the webhook of the gateway) and the gRPC handler. A slice of a string that is
  too short and a nil response of the Midtrans client are panics: an operation that can meet
  one returns \<open>None\<close> then. The client's \<open>ChargeTransaction\<close> is a parameter of the Midtrans gateway.
\<close>

section \<open>Operations that may panic\<close>

type_synonym ('k, 'a) pio = "('k world, (goerr + 'a) option) state"

definition lift_io :: "('k, 'a) io \<Rightarrow> ('k, 'a) pio" where
  "lift_io m = do { res \<leftarrow> m; State_Monad.return (Some res) }"

definition or_return_p :: "('k, 'a) pio \<Rightarrow> (goerr \<Rightarrow> goerr) \<Rightarrow> ('a \<Rightarrow> ('k, 'b) pio) \<Rightarrow> ('k, 'b) pio" where
  "or_return_p m wrap rest = do {
     res \<leftarrow> m;
     (case res of
        None \<Rightarrow> State_Monad.return None
      | Some r \<Rightarrow> (case r of
          Inl err \<Rightarrow> State_Monad.return (Some (Inl (wrap err)))
        | Inr a \<Rightarrow> rest a))
   }"

definition panic :: "('k, 'a) pio" where
  "panic = State_Monad.return None"

definition ok_p :: "'a \<Rightarrow> ('k, 'a) pio" where
  "ok_p a = State_Monad.return (Some (Inr a))"

definition fail_p :: "goerr \<Rightarrow> ('k, 'a) pio" where
  "fail_p err = State_Monad.return (Some (Inl err))"

lemma wp_lift_io [wp_simps]: "wp (lift_io m) Q w = wp m (\<lambda>res. Q (Some res)) w"
  by (simp add: lift_io_def wp_fst_snd split: prod.split)

lemma wp_or_return_p [wp_simps]:
  "wp (or_return_p m wrap rest) Q w = wp m (\<lambda>res w'. case res of None \<Rightarrow> Q None w'
     | Some r \<Rightarrow> (case r of Inl err \<Rightarrow> Q (Some (Inl (wrap err))) w' | Inr a \<Rightarrow> wp (rest a) Q w')) w"
  by (simp add: or_return_p_def wp_fst_snd split: prod.split option.split sum.split)

lemma wp_panic [wp_simps]: "wp panic Q w = Q None w" and wp_ok_p [wp_simps]: "wp (ok_p a) Q w = Q (Some (Inr a)) w"
  and wp_fail_p [wp_simps]: "wp (fail_p err) Q w = Q (Some (Inl err)) w"
  by (simp_all add: panic_def ok_p_def fail_p_def wp_return)

lemma leaves_db_p [quiet_intros]:
  "leaves_db panic" "leaves_db (ok_p a)" "leaves_db (fail_p err)"
  by (simp_all add: panic_def ok_p_def fail_p_def leaves_db_return)

lemma leaves_db_lift [quiet_intros]: "leaves_db m \<Longrightarrow> leaves_db (lift_io m)"
  unfolding lift_io_def by (intro quiet_intros)

lemma leaves_db_or_return_p [quiet_intros]:
  "leaves_db m \<Longrightarrow> (\<And>a. leaves_db (rest a)) \<Longrightarrow> leaves_db (or_return_p m wrap rest)"
  unfolding or_return_p_def by (intro quiet_intros)

text \<open>\<open>s[:8]\<close>\<close>

definition first8 :: "string \<Rightarrow> string option" where
  "first8 s = (if length s < 8 then None else Some (take 8 s))"

section \<open>Repository\<close>

definition scanTransaction :: "transaction_row \<Rightarrow> Transaction" where
  "scanTransaction r = \<lparr>t_TransactionID = tr_id r, t_InvoiceID = tr_invoice_id r, t_DriverID = tr_driver_id r,
     t_GatewayTxID = tr_gateway_tx_id r, t_PaymentMethod = tr_payment_method r, t_Status = tr_status r,
     t_Amount = tr_amount r, t_PaymentURL = tr_payment_url r, t_QRString = tr_qr_string r,
     t_VANumber = tr_va_number r, t_VABank = tr_va_bank r, t_IdempotencyKey = tr_idempotency_key r,
     t_CreatedAt = tr_created_at r, t_PaidAt = tr_paid_at r, t_ExpiredAt = tr_expired_at r\<rparr>"

definition transaction_row_of :: "Transaction \<Rightarrow> time \<Rightarrow> transaction_row" where
  "transaction_row_of tx now = \<lparr>tr_id = t_TransactionID tx, tr_invoice_id = t_InvoiceID tx,
     tr_driver_id = t_DriverID tx, tr_gateway_tx_id = t_GatewayTxID tx, tr_payment_method = t_PaymentMethod tx,
     tr_status = t_Status tx, tr_amount = t_Amount tx, tr_payment_url = t_PaymentURL tx,
     tr_qr_string = t_QRString tx, tr_va_number = t_VANumber tx, tr_va_bank = t_VABank tx,
     tr_idempotency_key = t_IdempotencyKey tx, tr_created_at = pg_timestamp now, tr_paid_at = None,
     tr_expired_at = map_option pg_timestamp (t_ExpiredAt tx)\<rparr>"

definition InsertTransaction :: "Transaction \<Rightarrow> ('k, unit) io" where
  "InsertTransaction tx = remote (\<lambda>w.
     let row = transaction_row_of tx (w_clock w) in
     if tr_id row \<in> tr_id ` set (w_transactions w)
     then (Inl (ErrNew (x_unique_violation (w_ext w) ''transactions_pkey'')), w)
     else if tr_gateway_tx_id row \<in> tr_gateway_tx_id ` set (w_transactions w)
     then (Inl (ErrNew (x_unique_violation (w_ext w) ''transactions_gateway_tx_id_key'')), w)
     else if tr_idempotency_key row \<in> tr_idempotency_key ` set (w_transactions w)
     then (Inl (ErrNew (x_unique_violation (w_ext w) ''transactions_idempotency_key_key'')), w)
     else if tr_invoice_id row \<notin> ir_id ` set (w_invoices w)
     then (Inl (ErrNew (x_foreign_key_violation (w_ext w) ''transactions_invoice_id_fkey'')), w)
     else (Inr (), w\<lparr>w_transactions := w_transactions w @ [row]\<rparr>))"

definition query_transaction :: "(transaction_row \<Rightarrow> bool) \<Rightarrow> ('k, Transaction) io" where
  "query_transaction P = do {
     row \<leftarrow> query (\<lambda>w. first_row (filter P (w_transactions w)));
     State_Monad.return (case row of
         Inl err \<Rightarrow> if is_no_rows err then Inl (ErrNew ''transaction not found'')
                    else Inl (ErrWrap ''scan transaction: '' err)
       | Inr r \<Rightarrow> Inr (scanTransaction r))
   }"

definition pay_GetTransaction :: "string \<Rightarrow> ('k, Transaction) io" where
  "pay_GetTransaction transactionID = query_transaction (\<lambda>r. tr_id r = transactionID)"

definition pay_GetByGatewayTxID :: "string \<Rightarrow> ('k, Transaction) io" where
  "pay_GetByGatewayTxID gatewayTxID = query_transaction (\<lambda>r. tr_gateway_tx_id r = gatewayTxID)"

definition pay_GetByIdempotencyKey :: "string \<Rightarrow> ('k, Transaction) io" where
  "pay_GetByIdempotencyKey key = query_transaction (\<lambda>r. tr_idempotency_key r = key)"

definition pay_UpdateStatus :: "string \<Rightarrow> TransactionStatus \<Rightarrow> time option \<Rightarrow> ('k, unit) io" where
  "pay_UpdateStatus transactionID status paidAt =
     exec (\<lambda>w. w\<lparr>w_transactions := update_where (\<lambda>r. tr_id r = transactionID)
       (\<lambda>r. r\<lparr>tr_status := status, tr_paid_at := map_option pg_timestamp paidAt\<rparr>) (w_transactions w)\<rparr>)"

text \<open>\<open>ORDER BY created_at DESC\<close>\<close>

definition pay_ListByInvoice :: "string \<Rightarrow> ('k, Transaction list) io" where
  "pay_ListByInvoice invoiceID = query (\<lambda>w. Inr (map scanTransaction
     (sort_key (\<lambda>r. - tr_created_at r) (filter (\<lambda>r. tr_invoice_id r = invoiceID) (w_transactions w)))))"

section \<open>Gateways\<close>

record ChargeReq =
  ch_PaymentType :: string
  ch_OrderID :: string
  ch_GrossAmt :: int
  ch_Customer :: CustomerInfo
  ch_Bank :: "string option"

record ChargeResponse =
  rs_Actions :: "(string \<times> string) list"
  rs_QRString :: string
  rs_VaNumbers :: "string list"

text \<open>
  The result of \<open>ChargeTransaction\<close>: a response that may be nil, and an error that may be nil
  with its message.
\<close>

type_synonym charge = "ChargeReq \<Rightarrow> time \<Rightarrow> ChargeResponse option \<times> string option"

text \<open>
  The implementations of \<open>domain.PaymentGateway\<close>: the client of Midtrans, the mock of
  \<open>internal/gateway\<close> and the mock of \<open>payment.go\<close> with the errors it is set up to return.
\<close>

datatype PaymentGateway =
    MidtransGateway charge
  | MockGateway
  | MockGatewayErr "goerr option" "goerr option"

definition charge_transaction :: "charge \<Rightarrow> ChargeReq \<Rightarrow> ('k, ChargeResponse option \<times> string option) prog" where
  "charge_transaction f req = do {
     now \<leftarrow> time_Now;
     State_Monad.return (f req now)
   }"

text \<open>The loop over the actions of a GoPay charge, with the two results it fills in.\<close>

fun scan_actions :: "(string \<times> string) list \<Rightarrow> string \<Rightarrow> string \<Rightarrow> string \<times> string" where
  "scan_actions [] qrString paymentURL = (qrString, paymentURL)"
| "scan_actions ((name, url) # as) qrString paymentURL =
     scan_actions as
       (if name = ''deeplink-redirect'' \<and> qrString = '''' then url else qrString)
       (if name = ''generate-qr-code'' then url else paymentURL)"

definition qris_of_response :: "ChargeResponse \<Rightarrow> string \<times> string" where
  "qris_of_response resp =
     (let (qrString, paymentURL) = scan_actions (rs_Actions resp) '''' '''';
          qrString = (if rs_QRString resp \<noteq> '''' then rs_QRString resp else qrString);
          paymentURL = (if paymentURL = '''' \<and> rs_Actions resp \<noteq> [] then snd (hd (rs_Actions resp)) else paymentURL)
      in (qrString, paymentURL))"

definition midtrans_CreateQRIS ::
  "charge \<Rightarrow> string \<Rightarrow> int \<Rightarrow> CustomerInfo \<Rightarrow> ('k, string \<times> string \<times> time) pio" where
  "midtrans_CreateQRIS f orderID amount customer = do {
     (resp, midErr) \<leftarrow> charge_transaction f \<lparr>ch_PaymentType = ''gopay'', ch_OrderID = orderID,
        ch_GrossAmt = amount, ch_Customer = customer, ch_Bank = None\<rparr>;
     (if midErr \<noteq> None \<and> midErr \<noteq> Some '''' then fail_p (ErrNew (''midtrans charge QRIS: '' @ the midErr))
      else case resp of
          None \<Rightarrow> fail_p (ErrNew ''midtrans charge QRIS: empty response'')
        | Some resp \<Rightarrow> do {
            now \<leftarrow> time_Now;
            let expiredAt = Add now (15 * Minute);
            let (qrString, paymentURL) = qris_of_response resp;
            ok_p (qrString, paymentURL, expiredAt)
          })
   }"

definition bank_code :: "string \<Rightarrow> string" where
  "bank_code bank = (if bank = ''BNI'' then ''bni'' else if bank = ''BRI'' then ''bri''
     else if bank = ''MANDIRI'' then ''mandiri'' else ''bca'')"

definition midtrans_CreateVA ::
  "charge \<Rightarrow> string \<Rightarrow> string \<Rightarrow> int \<Rightarrow> CustomerInfo \<Rightarrow> ('k, string \<times> time) pio" where
  "midtrans_CreateVA f orderID bank amount customer = do {
     (resp, midErr) \<leftarrow> charge_transaction f \<lparr>ch_PaymentType = ''bank_transfer'', ch_OrderID = orderID,
        ch_GrossAmt = amount, ch_Customer = customer, ch_Bank = Some (bank_code bank)\<rparr>;
     (if midErr \<noteq> None \<and> midErr \<noteq> Some '''' then fail_p (ErrNew (''midtrans charge VA: '' @ the midErr))
      else case resp of
          None \<Rightarrow> panic
        | Some resp \<Rightarrow> do {
            let vaNumber = (case rs_VaNumbers resp of [] \<Rightarrow> '''' | va # _ \<Rightarrow> va);
            now \<leftarrow> time_Now;
            ok_p (vaNumber, Add now (24 * Hour))
          })
   }"

definition CreateQRIS ::
  "PaymentGateway \<Rightarrow> string \<Rightarrow> int \<Rightarrow> CustomerInfo \<Rightarrow> ('k, string \<times> string \<times> time) pio" where
  "CreateQRIS g orderID amount customer = (case g of
       MidtransGateway f \<Rightarrow> midtrans_CreateQRIS f orderID amount customer
     | MockGateway \<Rightarrow> do {
         u \<leftarrow> uuid_New;
         (case first8 u of
            None \<Rightarrow> panic
          | Some u8 \<Rightarrow> do {
              now \<leftarrow> time_Now;
              ok_p (''mock-qr-'' @ u8, ''https://pay.mock/qris/'' @ orderID, Add now (15 * Minute))
            })
       }
     | MockGatewayErr qrisErr _ \<Rightarrow> (case qrisErr of
         Some err \<Rightarrow> fail_p err
       | None \<Rightarrow> do {
           now \<leftarrow> time_Now;
           ok_p (''mock-qr-string'', ''https://pay.mock/'' @ orderID, Add now (15 * Minute))
         }))"

definition CreateVA ::
  "PaymentGateway \<Rightarrow> string \<Rightarrow> string \<Rightarrow> int \<Rightarrow> CustomerInfo \<Rightarrow> ('k, string \<times> time) pio" where
  "CreateVA g orderID bank amount customer =
     (let mock = (case first8 orderID of
            None \<Rightarrow> panic
          | Some o8 \<Rightarrow> do {
              now \<leftarrow> time_Now;
              ok_p (''8800'' @ o8, Add now (24 * Hour))
            })
      in case g of
        MidtransGateway f \<Rightarrow> midtrans_CreateVA f orderID bank amount customer
      | MockGateway \<Rightarrow> mock
      | MockGatewayErr _ vaErr \<Rightarrow> (case vaErr of Some err \<Rightarrow> fail_p err | None \<Rightarrow> mock))"

text \<open>All three compute the same digest; only SHA-512 itself is a parameter.\<close>

definition VerifyWebhookSignature :: "(string \<Rightarrow> string) \<Rightarrow> string \<Rightarrow> string \<Rightarrow> string \<Rightarrow> string \<Rightarrow> string" where
  "VerifyWebhookSignature sha512_hex orderID statusCode grossAmount serverKey =
     sha512_hex (orderID @ statusCode @ grossAmount @ serverKey)"

section \<open>Creating a transaction\<close>

definition payment_key :: "string \<Rightarrow> string" where
  "payment_key idempotencyKey = ''idempotency:'' @ idempotencyKey"

text \<open>The part of the transaction the gateway fills in: QR string, URL, account number, bank and expiry.\<close>

type_synonym charge_result = "string \<times> string \<times> string \<times> string \<times> time"

definition charge_for ::
  "PaymentGateway \<Rightarrow> string \<Rightarrow> string \<Rightarrow> int \<Rightarrow> CustomerInfo \<Rightarrow> ('k, charge_result) pio" where
  "charge_for gateway paymentMethod orderID amount customer =
     (if paymentMethod \<in> {''QRIS'', ''GOPAY'', ''OVO'', ''DANA''}
      then or_return_p (CreateQRIS gateway orderID amount customer) (ErrWrap ''create QRIS: '')
        (\<lambda>(qrStr, payURL, expiredAt). ok_p (qrStr, payURL, '''', '''', expiredAt))
      else if paymentMethod \<in> {''VA_BCA'', ''VA_BNI'', ''VA_BRI'', ''VA_MANDIRI''}
      then let bank = drop 3 paymentMethod in
        or_return_p (CreateVA gateway orderID bank amount customer) (ErrWrap ''create VA: '')
        (\<lambda>(vaNumber, expiredAt). ok_p ('''', '''', vaNumber, bank, expiredAt))
      else fail_p (ErrNew (''unsupported payment method: '' @ paymentMethod)))"

definition new_transaction ::
  "string \<Rightarrow> string \<Rightarrow> string \<Rightarrow> string \<Rightarrow> int \<Rightarrow> string \<Rightarrow> string \<Rightarrow> time \<Rightarrow> charge_result \<Rightarrow> Transaction" where
  "new_transaction invoiceID driverID idempotencyKey paymentMethod amount txID orderID createdAt c =
     (case c of (qrStr, payURL, vaNumber, bank, expiredAt) \<Rightarrow>
       \<lparr>t_TransactionID = txID, t_InvoiceID = invoiceID, t_DriverID = driverID, t_GatewayTxID = orderID,
        t_PaymentMethod = paymentMethod, t_Status = TxPending, t_Amount = amount, t_PaymentURL = payURL,
        t_QRString = qrStr, t_VANumber = vaNumber, t_VABank = bank, t_IdempotencyKey = idempotencyKey,
        t_CreatedAt = createdAt, t_PaidAt = None, t_ExpiredAt = Some expiredAt\<rparr>)"

definition CreateTransaction ::
  "PaymentGateway \<Rightarrow> string \<Rightarrow> string \<Rightarrow> string \<Rightarrow> string \<Rightarrow> int \<Rightarrow> CustomerInfo \<Rightarrow> ('k, Transaction) pio" where
  "CreateTransaction gateway invoiceID driverID idempotencyKey paymentMethod amount customer =
     or_return_p (lift_io (Check (payment_key idempotencyKey))) (ErrWrap ''idempotency check: '') (\<lambda>(_, hit).
     if hit then lift_io (pay_GetByIdempotencyKey idempotencyKey)
     else do {
       txID \<leftarrow> uuid_New;
       (case first8 txID of
          None \<Rightarrow> panic
        | Some tx8 \<Rightarrow> do {
            let orderID = ''PP-'' @ tx8;
            createdAt \<leftarrow> time_Now;
            or_return_p (charge_for gateway paymentMethod orderID amount customer) id (\<lambda>c. do {
              let tx = new_transaction invoiceID driverID idempotencyKey paymentMethod amount txID orderID createdAt c;
              or_return_p (lift_io (InsertTransaction tx)) (ErrWrap ''insert transaction: '') (\<lambda>_. do {
                _ \<leftarrow> lift_io (Save (payment_key idempotencyKey) txID DefaultTTL);
                ok_p tx
              })
            })
          })
     })"

definition GetTransactionStatus :: "string \<Rightarrow> ('k, Transaction) io" where
  "GetTransactionStatus transactionID = pay_GetTransaction transactionID"

definition ListByInvoice :: "string \<Rightarrow> ('k, Transaction list) io" where
  "ListByInvoice invoiceID = pay_ListByInvoice invoiceID"

section \<open>The webhook\<close>

record webhookPayload =
  wp_OrderID :: string
  wp_StatusCode :: string
  wp_GrossAmount :: string
  wp_SignatureKey :: string
  wp_TransactionStatus :: string
  wp_FraudStatus :: string

text \<open>Six string fields, decoded one after the other; one of the wrong type fails the whole.\<close>

definition decode_webhook :: "json option \<Rightarrow> webhookPayload option" where
  "decode_webhook body =
     Option.bind body (\<lambda>j. Option.bind (struct_members j) (\<lambda>ms.
     Option.bind (str_field ''order_id'' ms '''') (\<lambda>orderID.
     Option.bind (str_field ''status_code'' ms '''') (\<lambda>statusCode.
     Option.bind (str_field ''gross_amount'' ms '''') (\<lambda>grossAmount.
     Option.bind (str_field ''signature_key'' ms '''') (\<lambda>signatureKey.
     Option.bind (str_field ''transaction_status'' ms '''') (\<lambda>transactionStatus.
     Option.bind (str_field ''fraud_status'' ms '''') (\<lambda>fraudStatus.
     Some \<lparr>wp_OrderID = orderID, wp_StatusCode = statusCode, wp_GrossAmount = grossAmount,
       wp_SignatureKey = signatureKey, wp_TransactionStatus = transactionStatus, wp_FraudStatus = fraudStatus\<rparr>))))))))"

definition mapMidtransStatus :: "string \<Rightarrow> string \<Rightarrow> TransactionStatus" where
  "mapMidtransStatus txStatus fraudStatus =
     (if txStatus = ''capture'' then (if fraudStatus = ''accept'' then TxSettled else TxFailed)
      else if txStatus = ''settlement'' then TxSettled
      else if txStatus \<in> {''deny'', ''cancel'', ''failure''} then TxFailed
      else if txStatus = ''expire'' then TxExpired
      else if txStatus = ''refund'' then TxRefunded
      else TxPending)"

definition webhook_key :: "string \<Rightarrow> string \<Rightarrow> string" where
  "webhook_key orderID transactionStatus = ''webhook:'' @ orderID @ '':'' @ transactionStatus"

text \<open>The results are processed, duplicate, the transaction and its new status; an empty status is \<open>None\<close>.\<close>

type_synonym webhook_result = "bool \<times> bool \<times> string \<times> TransactionStatus option"

definition HandleWebhook :: "string \<Rightarrow> json option \<Rightarrow> string \<Rightarrow> ('k, webhook_result) io" where
  "HandleWebhook serverKey payload signature = (case decode_webhook payload of
       None \<Rightarrow> fail (ErrWrap ''invalid payload: '' (ErrNew ''json: cannot unmarshal''))
     | Some p \<Rightarrow> do {
         sha \<leftarrow> asks (\<lambda>w. x_sha512_hex (w_ext w));
         let expected = VerifyWebhookSignature sha (wp_OrderID p) (wp_StatusCode p) (wp_GrossAmount p) serverKey;
         (if expected \<noteq> wp_SignatureKey p then fail (ErrNew ''invalid signature'')
          else do {
            let key = webhook_key (wp_OrderID p) (wp_TransactionStatus p);
            or_return (Check key) (ErrWrap ''idempotency check: '') (\<lambda>(_, hit).
            if hit then do {
              tx \<leftarrow> pay_GetByGatewayTxID (wp_OrderID p);
              (case tx of
                 Inr tx \<Rightarrow> ok (True, True, t_TransactionID tx, Some (t_Status tx))
               | Inl _ \<Rightarrow> ok (True, True, '''', None))
            }
            else or_return (pay_GetByGatewayTxID (wp_OrderID p)) (ErrWrap ''get transaction: '') (\<lambda>tx. do {
              let status = mapMidtransStatus (wp_TransactionStatus p) (wp_FraudStatus p);
              paidAt \<leftarrow> (if status = TxSettled
                         then do { now \<leftarrow> time_Now; State_Monad.return (Some now) }
                         else State_Monad.return None);
              or_return (pay_UpdateStatus (t_TransactionID tx) status paidAt) (ErrWrap ''update status: '') (\<lambda>_. do {
                _ \<leftarrow> Save key (t_TransactionID tx) DefaultTTL;
                ok (True, False, t_TransactionID tx, Some status)
              })
            }))
          })
       })"

section \<open>Handler\<close>

definition transactionStatusToProto :: "TransactionStatus option \<Rightarrow> int" where
  "transactionStatusToProto s = (case s of
       Some TxSettled \<Rightarrow> TRANSACTION_STATUS_SETTLED
     | Some TxFailed \<Rightarrow> TRANSACTION_STATUS_FAILED
     | Some TxExpired \<Rightarrow> TRANSACTION_STATUS_EXPIRED
     | Some TxRefunded \<Rightarrow> TRANSACTION_STATUS_REFUNDED
     | _ \<Rightarrow> TRANSACTION_STATUS_PENDING)"

definition protoToPaymentMethod :: "int \<Rightarrow> string" where
  "protoToPaymentMethod m =
     (if m = PAYMENT_METHOD_QRIS then ''QRIS''
      else if m = PAYMENT_METHOD_GOPAY then ''GOPAY''
      else if m = PAYMENT_METHOD_OVO then ''OVO''
      else if m = PAYMENT_METHOD_DANA then ''DANA''
      else if m = PAYMENT_METHOD_VA_BCA then ''VA_BCA''
      else if m = PAYMENT_METHOD_VA_BNI then ''VA_BNI''
      else if m = PAYMENT_METHOD_VA_BRI then ''VA_BRI''
      else if m = PAYMENT_METHOD_VA_MANDIRI then ''VA_MANDIRI''
      else PaymentMethod_String m)"

record CreateTransactionRequest =
  ct_InvoiceId :: string
  ct_DriverId :: string
  ct_IdempotencyKey :: string
  ct_PaymentMethod :: int
  ct_Amount :: "Money option"
  ct_CustomerInfo :: "CustomerInfo option"

record CreateTransactionResponse =
  ctr_TransactionId :: string
  ctr_GatewayTxId :: string
  ctr_Status :: int
  ctr_PaymentMethod :: int
  ctr_PaymentUrl :: string
  ctr_QrString :: string
  ctr_VaNumber :: string
  ctr_VaBank :: string
  ctr_ExpiredAt :: "time option"

definition rpc_CreateTransaction :: "PaymentGateway \<Rightarrow> CreateTransactionRequest \<Rightarrow> ('k, CreateTransactionResponse) rpc" where
  "rpc_CreateTransaction gateway req =
     (if ct_IdempotencyKey req = '''' then State_Monad.return (Status InvalidArgument ''idempotency_key is required'')
      else
        let customer = (case ct_CustomerInfo req of
              None \<Rightarrow> \<lparr>cu_Name = '''', cu_Email = '''', cu_Phone = ''''\<rparr> | Some c \<Rightarrow> c)
        in case ct_Amount req of
             None \<Rightarrow> State_Monad.return Panic
           | Some amount \<Rightarrow> do {
               res \<leftarrow> CreateTransaction gateway (ct_InvoiceId req) (ct_DriverId req) (ct_IdempotencyKey req)
                        (protoToPaymentMethod (ct_PaymentMethod req)) (mo_Amount amount) customer;
               State_Monad.return (case res of
                   None \<Rightarrow> Panic
                 | Some (Inl err) \<Rightarrow> Status Internal (err_msg err)
                 | Some (Inr tx) \<Rightarrow> Reply \<lparr>ctr_TransactionId = t_TransactionID tx, ctr_GatewayTxId = t_GatewayTxID tx,
                     ctr_Status = TRANSACTION_STATUS_PENDING, ctr_PaymentMethod = ct_PaymentMethod req,
                     ctr_PaymentUrl = t_PaymentURL tx, ctr_QrString = t_QRString tx, ctr_VaNumber = t_VANumber tx,
                     ctr_VaBank = t_VABank tx, ctr_ExpiredAt = t_ExpiredAt tx\<rparr>)
             })"

record TransactionProto =
  tp_TransactionId :: string
  tp_InvoiceId :: string
  tp_GatewayTxId :: string
  tp_Status :: int
  tp_Amount :: Money
  tp_CreatedAt :: "time option"
  tp_PaidAt :: "time option"

text \<open>\<open>GetTransactionStatusResponse\<close> has neither the gateway's id nor the creation time.\<close>

definition rpc_GetTransactionStatus :: "string \<Rightarrow> ('k, TransactionProto) rpc" where
  "rpc_GetTransactionStatus transactionId =
     or_status (GetTransactionStatus transactionId) (\<lambda>err. Status NotFound (err_msg err)) (\<lambda>tx.
       State_Monad.return (Reply \<lparr>tp_TransactionId = t_TransactionID tx, tp_InvoiceId = t_InvoiceID tx,
         tp_GatewayTxId = '''', tp_Status = transactionStatusToProto (Some (t_Status tx)),
         tp_Amount = idr (t_Amount tx), tp_CreatedAt = None, tp_PaidAt = t_PaidAt tx\<rparr>))"

record HandleWebhookResponse =
  hw_Processed :: bool
  hw_IsDuplicate :: bool
  hw_TransactionId :: string
  hw_NewStatus :: int

definition rpc_HandleWebhook :: "string \<Rightarrow> json option \<Rightarrow> string \<Rightarrow> ('k, HandleWebhookResponse) rpc" where
  "rpc_HandleWebhook serverKey payload signature =
     or_status (HandleWebhook serverKey payload signature) (\<lambda>err. Status InvalidArgument (err_msg err))
       (\<lambda>(processed, isDuplicate, txID, newStatus). State_Monad.return (Reply
         \<lparr>hw_Processed = processed, hw_IsDuplicate = isDuplicate, hw_TransactionId = txID,
          hw_NewStatus = transactionStatusToProto newStatus\<rparr>))"

definition rpc_ListPaymentsByInvoice :: "string \<Rightarrow> ('k, TransactionProto list) rpc" where
  "rpc_ListPaymentsByInvoice invoiceId =
     or_status (ListByInvoice invoiceId) (\<lambda>err. Status Internal (err_msg err)) (\<lambda>txs.
       State_Monad.return (Reply (map (\<lambda>tx. \<lparr>tp_TransactionId = t_TransactionID tx, tp_InvoiceId = t_InvoiceID tx,
         tp_GatewayTxId = t_GatewayTxID tx, tp_Status = transactionStatusToProto (Some (t_Status tx)),
         tp_Amount = idr (t_Amount tx), tp_CreatedAt = Some (t_CreatedAt tx), tp_PaidAt = t_PaidAt tx\<rparr>) txs)))"

section \<open>The invariant of the transactions\<close>

text \<open>A transaction carries the time of its payment exactly when it is settled.\<close>

definition transaction_ok :: "transaction_row \<Rightarrow> bool" where
  "transaction_ok r \<longleftrightarrow> (tr_status r = TxSettled \<longleftrightarrow> tr_paid_at r \<noteq> None) \<and> has_prefix (tr_gateway_tx_id r) ''PP-''
     \<and> tr_expired_at r \<noteq> None"

definition transactions_wf :: "'k world \<Rightarrow> bool" where
  "transactions_wf w \<longleftrightarrow> distinct (map tr_id (w_transactions w)) \<and> distinct (map tr_gateway_tx_id (w_transactions w))
     \<and> distinct (map tr_idempotency_key (w_transactions w)) \<and> (\<forall>r \<in> set (w_transactions w). transaction_ok r)"

interpretation transactions: db_invariant transactions_wf
  by unfold_locales (simp add: transactions_wf_def db_same_def)

interpretation transactions_by_id: keyed_table tr_id w_transactions transactions_wf
  by unfold_locales (simp add: transactions_wf_def)

interpretation transactions_by_order: keyed_table tr_gateway_tx_id w_transactions transactions_wf
  by unfold_locales (simp add: transactions_wf_def)

interpretation transactions_by_key: keyed_table tr_idempotency_key w_transactions transactions_wf
  by unfold_locales (simp add: transactions_wf_def)

lemma leaves_db_transaction_reads [quiet_intros]:
  "leaves_db (pay_GetTransaction i)" "leaves_db (pay_GetByGatewayTxID g)" "leaves_db (pay_GetByIdempotencyKey k)"
  "leaves_db (pay_ListByInvoice i)" "leaves_db (charge_transaction f req)"
  unfolding pay_GetTransaction_def pay_GetByGatewayTxID_def pay_GetByIdempotencyKey_def query_transaction_def
    pay_ListByInvoice_def charge_transaction_def
  by (intro quiet_intros)+

lemma leaves_db_CreateQRIS [quiet_intros]: "leaves_db (CreateQRIS g orderID amount customer)"
  unfolding CreateQRIS_def midtrans_CreateQRIS_def Let_def case_prod_beta
  by (cases g; simp only: PaymentGateway.case; intro quiet_intros)

lemma leaves_db_CreateVA [quiet_intros]: "leaves_db (CreateVA g orderID bank amount customer)"
  unfolding CreateVA_def midtrans_CreateVA_def Let_def case_prod_beta
  by (cases g; simp only: PaymentGateway.case; intro quiet_intros)

lemma leaves_db_charge_for [quiet_intros]: "leaves_db (charge_for g method orderID amount customer)"
  unfolding charge_for_def Let_def case_prod_beta by (intro quiet_intros)

text \<open>What a transaction may become, under any network.\<close>

lemma preserves_or_return_p:
  assumes "preserves I m" "\<And>a. preserves I (rest a)"
  shows "preserves I (or_return_p m wrap rest)"
  using assms unfolding or_return_p_def
  by (auto simp: preserves_def wp_bind wp_return elim!: wp_mono split: option.split sum.split)

lemma preserves_lift: "preserves I m \<Longrightarrow> preserves I (lift_io m)"
  by (simp add: preserves_def wp_lift_io)

lemma new_transaction_ok:
  "transaction_ok (transaction_row_of (new_transaction i d k m a txID (''PP-'' @ o8) t c) now)"
  by (auto simp: transaction_ok_def transaction_row_of_def new_transaction_def has_prefix_def split: prod.split)

lemma InsertTransaction_preserves:
  assumes "\<And>now. transaction_ok (transaction_row_of tx now)"
  shows "preserves transactions_wf (InsertTransaction tx)"
  unfolding InsertTransaction_def
  by (rule transactions.preserves_remote) (use assms in \<open>auto simp: Let_def transactions_wf_def\<close>)

lemma CreateTransaction_preserves: "preserves transactions_wf (CreateTransaction g i d k m a c)"
  unfolding CreateTransaction_def Let_def case_prod_beta
  by (intro preserves_or_return_p transactions.preserves_rules preserves_lift InsertTransaction_preserves
      new_transaction_ok transactions.preserves_quiet quiet_intros)

lemma pay_UpdateStatus_preserves:
  assumes "(status = TxSettled) = (paidAt \<noteq> None)"
  shows "preserves transactions_wf (pay_UpdateStatus txID status paidAt)"
  unfolding pay_UpdateStatus_def
proof (rule transactions.preserves_exec)
  fix w :: "'a world" assume "transactions_wf w"
  then show "transactions_wf (w\<lparr>w_transactions := update_where (\<lambda>r. tr_id r = txID)
      (\<lambda>r. r\<lparr>tr_status := status, tr_paid_at := map_option pg_timestamp paidAt\<rparr>) (w_transactions w)\<rparr>)"
    using assms by (auto simp: transactions_wf_def set_update_where transaction_ok_def)
qed

lemma preserves_paid_at:
  assumes "\<And>paidAt. b = (paidAt \<noteq> None) \<Longrightarrow> preserves transactions_wf (rest paidAt)"
  shows "preserves transactions_wf (State_Monad.bind
    (if b then State_Monad.bind time_Now (\<lambda>now. State_Monad.return (Some now)) else State_Monad.return None) rest)"
  using assms transactions.stable [OF _ db_same_pass]
  by (auto simp: preserves_def wp_bind wp_time_Now wp_return)

lemma HandleWebhook_preserves: "preserves transactions_wf (HandleWebhook serverKey payload sig)"
  unfolding HandleWebhook_def Let_def case_prod_beta
  by (intro preserves_paid_at transactions.preserves_case_option transactions.preserves_if
      transactions.preserves_or_return pay_UpdateStatus_preserves
      transactions.preserves_bind [where m = "asks _"] transactions.preserves_quiet quiet_intros) assumption

section \<open>What the webhook does\<close>

text \<open>A payload that does not decode or is not signed with the server key changes nothing.\<close>

lemma HandleWebhook_rejects:
  assumes "\<And>p. decode_webhook payload = Some p \<Longrightarrow>
     wp_SignatureKey p \<noteq> x_sha512_hex (w_ext w) (wp_OrderID p @ wp_StatusCode p @ wp_GrossAmount p @ serverKey)"
  shows "wp (HandleWebhook serverKey payload sig) (\<lambda>res w'. isl res \<and> w' = w) w"
  using assms
  by (auto simp: HandleWebhook_def wp_simps Let_def VerifyWebhookSignature_def split: option.split)

text \<open>What a signed webhook may do to the table, under any network: nothing, or the one update.\<close>

definition webhook_update :: "webhookPayload \<Rightarrow> time option \<Rightarrow> transaction_row \<Rightarrow> transaction_row" where
  "webhook_update p paidAt r = r\<lparr>tr_status := mapMidtransStatus (wp_TransactionStatus p) (wp_FraudStatus p),
     tr_paid_at := map_option pg_timestamp paidAt\<rparr>"

lemma HandleWebhook_served:
  assumes "reliable w" "redis_ok (w_ext w)" "transactions_wf w" "decode_webhook payload = Some p"
    and "wp_SignatureKey p = x_sha512_hex (w_ext w) (wp_OrderID p @ wp_StatusCode p @ wp_GrossAmount p @ serverKey)"
    and "row \<in> set (w_transactions w)" "tr_gateway_tx_id row = wp_OrderID p"
    and "x_redis_get (w_ext w) (w_redis w) (w_clock w) (webhook_key (wp_OrderID p) (wp_TransactionStatus p)) = None"
  defines "status \<equiv> mapMidtransStatus (wp_TransactionStatus p) (wp_FraudStatus p)"
  shows "wp (HandleWebhook serverKey payload sig) (\<lambda>res w'. \<exists>paidAt.
     res = Inr (True, False, tr_id row, Some status) \<and> (paidAt \<noteq> None) = (status = TxSettled)
     \<and> w_transactions w' = update_where (\<lambda>r. tr_id r = tr_id row) (webhook_update p paidAt) (w_transactions w)
     \<and> (\<forall>t. w_clock w' \<le> t \<longrightarrow> t < w_clock w + DefaultTTL \<longrightarrow>
          x_redis_get (w_ext w') (w_redis w') t (webhook_key (wp_OrderID p) (wp_TransactionStatus p)) = Some (tr_id row))
     \<and> reliable w' \<and> w_ext w' = w_ext w) w"
proof -
  let ?key = "webhook_key (wp_OrderID p) (wp_TransactionStatus p)"
  let ?w2 = "arrive (arrive w)"
  let ?w4 = "\<lambda>paidAt w3. arrive ((arrive w3)\<lparr>w_transactions := update_where (\<lambda>r. tr_id r = tr_id row)
    (webhook_update p paidAt) (w_transactions w)\<rparr>)"
  let ?w5 = "\<lambda>paidAt w3. (?w4 paidAt w3)\<lparr>w_redis :=
    x_redis_set (w_ext w) (w_redis w) (w_clock (?w4 paidAt w3)) ?key (tr_id row) DefaultTTL\<rparr>"
  let ?w3 = "if status = TxSettled then pass ?w2 else ?w2"
  let ?paid = "if status = TxSettled then Some (w_clock (pass ?w2)) else None"
  have found: "filter (\<lambda>r. tr_gateway_tx_id r = wp_OrderID p) (w_transactions w) = [row]"
    using transactions_by_order.find_present [OF assms(3,6)] assms(7) by simp
  have wp: "wp (HandleWebhook serverKey payload sig) Q w = Q (Inr (True, False, tr_id row, Some status)) (?w5 ?paid ?w3)" for Q
    using assms(1,2,4,5,8) found
    by (auto simp: HandleWebhook_def VerifyWebhookSignature_def wp_simps Let_def Check_miss
        pay_GetByGatewayTxID_def query_transaction_def first_row_def scanTransaction_def pay_UpdateStatus_def
        Save_def rdb_Set_def status_def webhook_update_def [abs_def])
  have c: "w_clock w \<le> w_clock (?w4 paidAt ?w3)" for paidAt
    using arrive_clock [of "arrive ?w3\<lparr>w_transactions := update_where (\<lambda>r. tr_id r = tr_id row)
      (webhook_update p paidAt) (w_transactions w)\<rparr>"] arrive_clock [of w] arrive_clock [of "arrive w"]
      pass_clock [of ?w2] arrive_clock [of ?w3] by (auto split: if_splits)
  have "x_redis_get (w_ext w) (w_redis (?w5 paidAt ?w3)) t ?key = Some (tr_id row)"
    if "w_clock (?w4 paidAt ?w3) \<le> t" "t < w_clock w + DefaultTTL" for paidAt t
    using redis_server.saved_until [OF assms(2) [unfolded redis_ok_def] _ c that] by simp
  then show ?thesis
    unfolding wp using assms(1) by (intro exI [of _ ?paid]; cases "status = TxSettled"; simp)
qed

text \<open>The same webhook delivered again is a duplicate and changes nothing.\<close>

lemma HandleWebhook_duplicate:
  assumes "reliable w" "transactions_wf w" "decode_webhook payload = Some p"
    and "wp_SignatureKey p = x_sha512_hex (w_ext w) (wp_OrderID p @ wp_StatusCode p @ wp_GrossAmount p @ serverKey)"
    and "row \<in> set (w_transactions w)" "tr_gateway_tx_id row = wp_OrderID p"
    and "x_redis_get (w_ext w) (w_redis w) (w_clock (arrive w)) (webhook_key (wp_OrderID p) (wp_TransactionStatus p)) \<noteq> None"
  shows "wp (HandleWebhook serverKey payload sig) (\<lambda>res w'.
     res = Inr (True, True, tr_id row, Some (tr_status row)) \<and> db_same w w') w"
proof -
  have "filter (\<lambda>r. tr_gateway_tx_id r = wp_OrderID p) (w_transactions w) = [row]"
    using transactions_by_order.find_present [OF assms(2,5)] assms(6) by simp
  with assms(1,3,4,7) show ?thesis
    by (auto simp: HandleWebhook_def VerifyWebhookSignature_def wp_simps Let_def Check_def rdb_Get_def
        pay_GetByGatewayTxID_def query_transaction_def first_row_def scanTransaction_def)
qed

section \<open>What creating a transaction does\<close>

lemma payment_query_served:
  "reliable w \<Longrightarrow> wp (pay_GetByIdempotencyKey key) Q w =
     Q (case first_row (filter (\<lambda>r. tr_idempotency_key r = key) (w_transactions w)) of
          Inl err \<Rightarrow> Inl (ErrNew ''transaction not found'') | Inr r \<Rightarrow> Inr (scanTransaction r)) (arrive w)"
  by (auto simp: pay_GetByIdempotencyKey_def query_transaction_def wp_simps first_row_def split: sum.splits list.splits)

lemma CreateTransaction_replay:
  assumes "reliable w" "transactions_wf w" "row \<in> set (w_transactions w)" "tr_idempotency_key row = key"
    and "x_redis_get (w_ext w) (w_redis w) (w_clock (arrive w)) (payment_key key) \<noteq> None"
  shows "wp (CreateTransaction g i d key m a c) (\<lambda>res w'. res = Some (Inr (scanTransaction row)) \<and> db_same w w') w"
proof -
  have "filter (\<lambda>r. tr_idempotency_key r = key) (w_transactions w) = [row]"
    using transactions_by_key.find_present [OF assms(2,3)] assms(4) by simp
  with assms(1,5) show ?thesis
    by (auto simp: CreateTransaction_def Check_def rdb_Get_def wp_simps payment_query_served first_row_def)
qed

definition payment_methods :: "string set" where
  "payment_methods = {''QRIS'', ''GOPAY'', ''OVO'', ''DANA'', ''VA_BCA'', ''VA_BNI'', ''VA_BRI'', ''VA_MANDIRI''}"

lemma charge_for_unsupported:
  "m \<notin> payment_methods \<Longrightarrow> charge_for g m orderID a c = fail_p (ErrNew (''unsupported payment method: '' @ m))"
  by (simp add: charge_for_def payment_methods_def)

lemma CreateTransaction_unsupported:
  assumes "reliable w" "redis_ok (w_ext w)" "8 \<le> length (x_uuid (w_ext w) (w_uuids w))"
    and "x_redis_get (w_ext w) (w_redis w) (w_clock w) (payment_key key) = None" "m \<notin> payment_methods"
  shows "wp (CreateTransaction g i d key m a c) (\<lambda>res w'.
     res = Some (Inl (ErrNew (''unsupported payment method: '' @ m))) \<and> db_same w w') w"
  using assms by (simp add: CreateTransaction_def wp_simps Check_miss first8_def Let_def charge_for_unsupported)

text \<open>Every method the handler can name is supported, except the unspecified and the unknown ones.\<close>

lemma protoToPaymentMethod_supported:
  "protoToPaymentMethod m \<in> payment_methods" if "1 \<le> m" "m \<le> 8"
proof -
  have "m \<in> {1..8}" using that by simp
  then have "m \<in> {1, 2, 3, 4, 5, 6, 7, 8}" by auto
  then show ?thesis by (auto simp: protoToPaymentMethod_def proto_enums payment_methods_def)
qed

lemma mapMidtransStatus_settled:
  "mapMidtransStatus s f = TxSettled \<longleftrightarrow> s = ''settlement'' \<or> s = ''capture'' \<and> f = ''accept''"
  by (auto simp: mapMidtransStatus_def)

text \<open>
  The client of Midtrans may return neither a response nor an error with a message. For a QR
  code that is an error, for a virtual account it is a nil pointer dereference.
\<close>

lemma midtrans_nil_response:
  assumes "\<And>req t. f req t = (None, e)" "e = None \<or> e = Some ''''"
  shows "wp (midtrans_CreateQRIS f orderID a c) (\<lambda>res _. res = Some (Inl (ErrNew ''midtrans charge QRIS: empty response''))) w"
    and "wp (midtrans_CreateVA f orderID bank a c) (\<lambda>res _. res = None) w"
  using assms by (auto simp: midtrans_CreateQRIS_def midtrans_CreateVA_def charge_transaction_def wp_simps)

end
