(* ===== verification/GatewayExtra.thy ===== *)
theory GatewayExtra
  imports GatewayAuth Billing Payment ReservationRefinement
begin

text \<open>
  \<open>services/gateway/internal/handler/extra.go\<close>: the HTTP handlers of the gateway that work on the
  tables of the other services directly: the invoice of the booking fee, the confirmation of a
  paid booking, the pending payment, the history of a driver, the free spots and the simulated
  settlement of a payment. Their calls have a background context; a statement whose error the
  code drops (\<open>_, _ = h.db.Exec\<close>) is one whose result is not looked at.
\<close>

section \<open>The booking fee\<close>

text \<open>The statement writes a row like the billing service's own; the columns it leaves out have their defaults.\<close>

definition CreateBookingFeeInvoice :: "string \<Rightarrow> string \<Rightarrow> string \<Rightarrow> ('k, string) io" where
  "CreateBookingFeeInvoice reservationID driverID idempotencyKey = do {
     found \<leftarrow> query (\<lambda>w. first_row (filter (\<lambda>r. ir_idempotency_key r = idempotencyKey) (w_invoices w)));
     (case found of
        Inr r \<Rightarrow> ok (ir_id r)
      | Inl _ \<Rightarrow> do {
          invoiceID \<leftarrow> uuid_New;
          or_return (insert_invoice_row (\<lambda>now.
              \<lparr>ir_id = invoiceID, ir_type = InvoiceTypeBookingFee, ir_session_id = None,
               ir_reservation_id = reservationID, ir_driver_id = driverID, ir_booking_fee = 5000,
               ir_parking_fee = 0, ir_overnight_fee = 0, ir_total_amount = 5000, ir_billed_hours = 0,
               ir_is_overnight = False, ir_duration_mins = 0, ir_status = InvoiceStatusPendingPayment,
               ir_gateway_tx_id = None, ir_payment_method = None, ir_idempotency_key = idempotencyKey,
               ir_created_at = pg_timestamp now, ir_paid_at = None\<rparr>))
            (ErrWrap ''insert booking fee invoice: '') (\<lambda>_. ok invoiceID)
        })
   }"

section \<open>Confirming a paid booking\<close>

definition decode_confirm :: "json option \<Rightarrow> (string \<times> string) option" where
  "decode_confirm body =
     Option.bind body (\<lambda>j. Option.bind (struct_members j) (\<lambda>ms.
     Option.bind (str_field ''transaction_id'' ms '''') (\<lambda>transactionID.
     Option.bind (str_field ''reservation_id'' ms '''') (\<lambda>reservationID.
     Some (transactionID, reservationID)))))"

record confirmation =
  co_ReservationID :: string
  co_Status :: string
  co_ConfirmedAt :: time
  co_ExpiresAt :: time

text \<open>The two updates of the handler.\<close>

definition pay_booking_invoice :: "time \<Rightarrow> string \<Rightarrow> ('k, unit) io" where
  "pay_booking_invoice now reservationID = exec (\<lambda>w. w\<lparr>w_invoices := update_where
     (\<lambda>r. ir_reservation_id r = reservationID \<and> ir_type r = InvoiceTypeBookingFee)
     (\<lambda>r. r\<lparr>ir_status := InvoiceStatusPaid, ir_paid_at := Some (pg_timestamp now)\<rparr>) (w_invoices w)\<rparr>)"

definition confirm_pending :: "time \<Rightarrow> time \<Rightarrow> string \<Rightarrow> ('k, unit) io" where
  "confirm_pending now expiresAt reservationID = exec (\<lambda>w. w\<lparr>w_reservations := update_where
     (\<lambda>r. rr_id r = reservationID \<and> rr_status r = StatusPending)
     (\<lambda>r. r\<lparr>rr_status := StatusConfirmed, rr_confirmed_at := pg_timestamp now,
        rr_expires_at := pg_timestamp expiresAt\<rparr>) (w_reservations w)\<rparr>)"

definition extend_lock :: "string \<Rightarrow> ('k, unit) prog" where
  "extend_lock reservationID = do {
     found \<leftarrow> query (\<lambda>w. first_row (filter (\<lambda>r. rr_id r = reservationID) (w_reservations w)));
     let spotID = (case found of Inl _ \<Rightarrow> '''' | Inr r \<Rightarrow> rr_spot_id r);
     (if spotID \<noteq> '''' then do {
        _ \<leftarrow> rdb_Expire (spotLockKey spotID) (1 * Hour);
        State_Monad.return ()
      }
      else State_Monad.return ())
   }"

definition ConfirmBookingPayment :: "('k, confirmation) http_handler" where
  "ConfirmBookingPayment r = (case UserIDFromContext (hq_UserID r) of
       None \<Rightarrow> writeError StatusUnauthorized ''missing user id''
     | Some userID \<Rightarrow> (case decode_confirm (hq_Body r) of
         None \<Rightarrow> writeError StatusBadRequest ''transaction_id and reservation_id are required''
       | Some (transactionID, reservationID) \<Rightarrow>
           if transactionID = '''' \<or> reservationID = ''''
           then writeError StatusBadRequest ''transaction_id and reservation_id are required''
           else do {
             tx \<leftarrow> query (\<lambda>w. first_row (filter (\<lambda>t. tr_id t = transactionID) (w_transactions w)));
             (if (case tx of Inl _ \<Rightarrow> True | Inr t \<Rightarrow> tr_status t \<noteq> TxSettled)
              then writeError StatusBadRequest ''payment not settled yet''
              else do {
                now \<leftarrow> time_Now;
                _ \<leftarrow> pay_booking_invoice now reservationID;
                let expiresAt = Add now (1 * Hour);
                confirmed \<leftarrow> confirm_pending now expiresAt reservationID;
                (case confirmed of
                   Inl _ \<Rightarrow> writeError StatusInternalServerError ''failed to confirm reservation''
                 | Inr _ \<Rightarrow> do {
                     _ \<leftarrow> extend_lock reservationID;
                     writeJSON StatusOK \<lparr>co_ReservationID = reservationID, co_Status = ''confirmed'',
                       co_ConfirmedAt = now, co_ExpiresAt = expiresAt\<rparr>
                   })
              })
           }))"

section \<open>The pending payment\<close>

record pending_payment =
  pp_ReservationID :: string
  pp_TransactionID :: string
  pp_QRString :: string
  pp_ExpiresAt :: time
  pp_RemainingSeconds :: int
  pp_Floor :: int
  pp_Number :: int

text \<open>The joins of the two queries.\<close>

definition reservation_and_spot :: "string \<Rightarrow> 'k world \<Rightarrow> (reservation_row \<times> spot_row) list" where
  "reservation_and_spot reservationID w =
     [(r, s). r \<leftarrow> w_reservations w, rr_id r = reservationID, s \<leftarrow> w_spots w, sr_id s = rr_spot_id r]"

definition booking_transactions :: "string \<Rightarrow> 'k world \<Rightarrow> transaction_row list" where
  "booking_transactions reservationID w = sort_key (\<lambda>t. - tr_created_at t)
     [t. t \<leftarrow> w_transactions w, i \<leftarrow> w_invoices w, ir_id i = tr_invoice_id t,
         ir_reservation_id i = reservationID \<and> ir_type i = InvoiceTypeBookingFee]"

definition GetPendingPayment :: "('k, pending_payment) http_handler" where
  "GetPendingPayment r = (case UserIDFromContext (hq_UserID r) of
       None \<Rightarrow> writeError StatusUnauthorized ''missing user id''
     | Some _ \<Rightarrow>
         let reservationID = hq_Query r ''reservation_id'' in
         if reservationID = '''' then writeError StatusBadRequest ''reservation_id is required''
         else do {
           found \<leftarrow> query (\<lambda>w. first_row (reservation_and_spot reservationID w));
           (case found of
              Inl _ \<Rightarrow> writeError StatusNotFound ''reservation not found''
            | Inr (res, spot) \<Rightarrow>
                if rr_status res \<noteq> StatusPending
                then writeError StatusBadRequest ''reservation is not pending''
                else do {
                  now \<leftarrow> time_Now;
                  (if After now (rr_expires_at res)
                   then writeError StatusGone ''payment timeout expired''
                   else do {
                     tx \<leftarrow> query (\<lambda>w. first_row (booking_transactions reservationID w));
                     let (txID, qrString) = (case tx of Inl _ \<Rightarrow> ('''', '''') | Inr t \<Rightarrow> (tr_id t, tr_qr_string t));
                     now \<leftarrow> time_Now;
                     let remaining = seconds_int (Sub (rr_expires_at res) now);
                     let remaining = (if remaining < 0 then 0 else remaining);
                     writeJSON StatusOK \<lparr>pp_ReservationID = reservationID, pp_TransactionID = txID,
                       pp_QRString = qrString, pp_ExpiresAt = rr_expires_at res,
                       pp_RemainingSeconds = remaining, pp_Floor = sr_floor spot, pp_Number = sr_number spot\<rparr>
                   })
                })
         })"

section \<open>The history of a driver\<close>

record history_entry =
  he_ReservationID :: string
  he_Status :: string
  he_ConfirmedAt :: time
  he_ExpiresAt :: time
  he_Floor :: int
  he_Number :: int
  he_VehicleType :: string
  he_CheckInAt :: "time option"
  he_CheckOutAt :: "time option"
  he_CancelledAt :: "time option"

definition driver_history :: "string \<Rightarrow> 'k world \<Rightarrow> (reservation_row \<times> spot_row) list" where
  "driver_history driverID w = take 20 (sort_key (\<lambda>(r, s). - rr_confirmed_at r)
     [(r, s). r \<leftarrow> w_reservations w, rr_driver_id r = driverID, s \<leftarrow> w_spots w, sr_id s = rr_spot_id r])"

definition history_entry_of :: "reservation_row \<Rightarrow> spot_row \<Rightarrow> ReservationStatus \<Rightarrow> history_entry" where
  "history_entry_of r s status = \<lparr>he_ReservationID = rr_id r, he_Status = status_string status,
     he_ConfirmedAt = rr_confirmed_at r, he_ExpiresAt = rr_expires_at r, he_Floor = sr_floor s,
     he_Number = sr_number s, he_VehicleType = vehicle_string (sr_vehicle_type s),
     he_CheckInAt = rr_check_in_at r, he_CheckOutAt = rr_check_out_at r, he_CancelledAt = rr_cancelled_at r\<rparr>"

definition expire_pending :: "string \<Rightarrow> ('k, unit) io" where
  "expire_pending reservationID = exec (\<lambda>w. w\<lparr>w_reservations := update_where
     (\<lambda>r. rr_id r = reservationID \<and> rr_status r = StatusPending)
     (\<lambda>r. r\<lparr>rr_status := StatusExpired\<rparr>) (w_reservations w)\<rparr>)"

text \<open>The loop over the rows; a reservation whose payment time has passed is marked on the way.\<close>

fun history_loop :: "time \<Rightarrow> (reservation_row \<times> spot_row) list \<Rightarrow> ('k, history_entry list) prog" where
  "history_loop now [] = State_Monad.return []"
| "history_loop now ((r, s) # rows) =
     (if rr_status r = StatusPending \<and> After now (rr_expires_at r)
      then do {
        _ \<leftarrow> expire_pending (rr_id r);
        history \<leftarrow> history_loop now rows;
        State_Monad.return (history_entry_of r s StatusExpired # history)
      }
      else do {
        history \<leftarrow> history_loop now rows;
        State_Monad.return (history_entry_of r s (rr_status r) # history)
      })"

definition ReservationHistory :: "('k, history_entry list) http_handler" where
  "ReservationHistory r = (case UserIDFromContext (hq_UserID r) of
       None \<Rightarrow> writeError StatusUnauthorized ''missing user id''
     | Some userID \<Rightarrow> do {
         rows \<leftarrow> query (\<lambda>w. Inr (driver_history userID w));
         (case rows of
            Inl _ \<Rightarrow> writeError StatusInternalServerError ''failed to query history''
          | Inr rows \<Rightarrow> do {
              now \<leftarrow> time_Now;
              history \<leftarrow> history_loop now rows;
              writeJSON StatusOK history
            })
       })"

section \<open>Free spots\<close>

record spot_entry =
  se_SpotID :: string
  se_Floor :: int
  se_Number :: int
  se_VehicleType :: string

definition free_spots :: "VehicleType \<Rightarrow> int option \<Rightarrow> 'k world \<Rightarrow> spot_row list" where
  "free_spots v flr w = sort_key (\<lambda>s. (sr_floor s, sr_number s))
     (filter (\<lambda>s. sr_vehicle_type s = v \<and> sr_status s = SpotAvailable
        \<and> (case flr of None \<Rightarrow> True | Some f \<Rightarrow> sr_floor s = f)) (w_spots w))"

definition normal_vehicle :: "string \<Rightarrow> string" where
  "normal_vehicle vt = to_lower (trim_prefix (if vt = '''' then ''car'' else vt) ''VEHICLE_TYPE_'')"

definition ListAvailableSpots_http :: "('k, spot_entry list \<times> int) http_handler" where
  "ListAvailableSpots_http r = do {
     let vt = normal_vehicle (hq_Query r ''vehicle_type'');
     let flr = hq_Query r ''floor'';
     rows \<leftarrow> query (\<lambda>w. case vehicle_in vt of
         None \<Rightarrow> Inl (ErrNew (x_enum_error (w_ext w) vt))
       | Some v \<Rightarrow>
           if flr = '''' then Inr (free_spots v None w)
           else (case x_int2_in (w_ext w) flr of
               Inl m \<Rightarrow> Inl (ErrNew m)
             | Inr f \<Rightarrow> Inr (free_spots v (Some f) w)));
     (case rows of
        Inl _ \<Rightarrow> writeError StatusInternalServerError ''failed to query spots''
      | Inr spots \<Rightarrow> writeJSON StatusOK
          (map (\<lambda>s. \<lparr>se_SpotID = sr_id s, se_Floor = sr_floor s, se_Number = sr_number s,
             se_VehicleType = vehicle_string (sr_vehicle_type s)\<rparr>) spots, int (length spots)))
   }"

section \<open>Simulated settlement\<close>

definition decode_settle :: "json option \<Rightarrow> string option" where
  "decode_settle body =
     Option.bind body (\<lambda>j. Option.bind (struct_members j) (\<lambda>ms. str_field ''transaction_id'' ms ''''))"

definition sha512Sum :: "string \<Rightarrow> ('k, string) prog" where
  "sha512Sum s = asks (\<lambda>w. x_sha512_hex (w_ext w) s)"

text \<open>The payload in the order in which a map of strings is encoded.\<close>

definition settle_payload :: "string \<Rightarrow> string \<Rightarrow> string \<Rightarrow> members" where
  "settle_payload gatewayTxID grossAmount sig =
     [(''fraud_status'', JStr ''accept''), (''gross_amount'', JStr grossAmount), (''order_id'', JStr gatewayTxID),
      (''signature_key'', JStr sig), (''status_code'', JStr ''200''), (''transaction_status'', JStr ''settlement'')]"

record settlement_reply =
  sp_Message :: string
  sp_TransactionID :: string
  sp_InvoiceID :: string
  sp_Status :: string
  sp_WebhookPayload :: members

definition settle_transaction :: "time \<Rightarrow> string \<Rightarrow> ('k, unit) io" where
  "settle_transaction now transactionID = exec (\<lambda>w. w\<lparr>w_transactions := update_where (\<lambda>t. tr_id t = transactionID)
     (\<lambda>t. t\<lparr>tr_status := TxSettled, tr_paid_at := Some (pg_timestamp now)\<rparr>) (w_transactions w)\<rparr>)"

definition settle_invoice :: "string \<Rightarrow> time \<Rightarrow> string \<Rightarrow> ('k, unit) prog" where
  "settle_invoice gatewayTxID now invoiceID =
     (if invoiceID \<noteq> '''' then do {
        _ \<leftarrow> exec (\<lambda>w. w\<lparr>w_invoices := update_where (\<lambda>r. ir_id r = invoiceID)
               (\<lambda>r. r\<lparr>ir_status := InvoiceStatusPaid, ir_gateway_tx_id := Some gatewayTxID,
                  ir_payment_method := Some ''QRIS'', ir_paid_at := Some (pg_timestamp now)\<rparr>) (w_invoices w)\<rparr>);
        State_Monad.return ()
      }
      else State_Monad.return ())"

definition gross_amount :: "int \<Rightarrow> string" where
  "gross_amount amount = show_int amount @ ''.00''"

definition SimulateSettle :: "string \<Rightarrow> ('k, settlement_reply) http_handler" where
  "SimulateSettle serverKey r = (case decode_settle (hq_Body r) of
       None \<Rightarrow> writeError StatusBadRequest ''transaction_id is required''
     | Some transactionID \<Rightarrow>
         if transactionID = '''' then writeError StatusBadRequest ''transaction_id is required''
         else do {
           found \<leftarrow> query (\<lambda>w. first_row (filter (\<lambda>t. tr_id t = transactionID) (w_transactions w)));
           (case found of
              Inl _ \<Rightarrow> writeError StatusNotFound ''transaction not found''
            | Inr t \<Rightarrow> do {
                let gatewayTxID = tr_gateway_tx_id t;
                let statusCode = ''200'';
                let grossAmount = gross_amount (tr_amount t);
                sig \<leftarrow> sha512Sum (gatewayTxID @ statusCode @ grossAmount @ serverKey);
                now \<leftarrow> time_Now;
                updated \<leftarrow> settle_transaction now transactionID;
                (case updated of
                   Inl _ \<Rightarrow> writeError StatusInternalServerError ''failed to update transaction''
                 | Inr _ \<Rightarrow> do {
                     found \<leftarrow> query (\<lambda>w. first_row (filter (\<lambda>t. tr_id t = transactionID) (w_transactions w)));
                     let invoiceID = (case found of Inl _ \<Rightarrow> '''' | Inr t \<Rightarrow> tr_invoice_id t);
                     _ \<leftarrow> settle_invoice gatewayTxID now invoiceID;
                     writeJSON StatusOK \<lparr>sp_Message = ''settlement simulated'', sp_TransactionID = transactionID,
                       sp_InvoiceID = invoiceID, sp_Status = ''settled'',
                       sp_WebhookPayload = settle_payload gatewayTxID grossAmount sig\<rparr>
                   })
              })
         })"

end
