(* ===== verification/ReservationHandler.thy ===== *)
theory ReservationHandler
  imports ReservationBehaviour Proto
begin

text \<open>
  \<open>services/reservation/internal/handler/handler.go\<close>: the gRPC methods of the reservation
  service. An error of the use case becomes a status whose code \<open>toGRPCError\<close> reads off the
  text of the error.
\<close>

section \<open>Errors and enumerations\<close>

definition toGRPCError :: "goerr \<Rightarrow> 'a reply" where
  "toGRPCError err = (let msg = err_msg err in
     if str_contains msg ''no rows in result set'' \<or> str_contains msg ''not found'' then Status NotFound msg
     else if str_contains msg ''cannot be cancelled'' \<or> str_contains msg ''cannot confirm''
       \<or> str_contains msg ''cannot check in'' \<or> str_contains msg ''cannot check out''
     then Status FailedPrecondition msg
     else if msg = ''spot unavailable'' \<or> msg = ''no available spot'' then Status ResourceExhausted msg
     else if msg = ''reservation not owned by driver'' then Status PermissionDenied msg
     else if msg = ''reservation expired'' then Status FailedPrecondition msg
     else Status Internal msg)"

definition protoToVehicleType :: "int \<Rightarrow> VehicleType" where
  "protoToVehicleType v = (if v = VEHICLE_TYPE_MOTORCYCLE then VehicleTypeMotorcycle else VehicleTypeCar)"

definition protoToAssignmentMode :: "int \<Rightarrow> AssignmentMode" where
  "protoToAssignmentMode m =
     (if m = ASSIGNMENT_MODE_USER_SELECTED then AssignmentModeSelected else AssignmentModeSystem)"

definition domainStatusToProto :: "ReservationStatus \<Rightarrow> int" where
  "domainStatusToProto s = (case s of
       StatusConfirmed \<Rightarrow> RESERVATION_STATUS_CONFIRMED
     | StatusActive \<Rightarrow> RESERVATION_STATUS_ACTIVE
     | StatusCompleted \<Rightarrow> RESERVATION_STATUS_COMPLETED
     | StatusCancelled \<Rightarrow> RESERVATION_STATUS_CANCELLED
     | StatusExpired \<Rightarrow> RESERVATION_STATUS_EXPIRED
     | StatusPending \<Rightarrow> RESERVATION_STATUS_UNSPECIFIED)"

definition domainSpotToProto :: "Spot \<Rightarrow> SpotProto" where
  "domainSpotToProto s = \<lparr>ps_SpotId = s_SpotID s, ps_Floor = s_Floor s, ps_Number = s_SpotNumber s,
     ps_VehicleType = (if s_VehicleType s = VehicleTypeMotorcycle then VEHICLE_TYPE_MOTORCYCLE else VEHICLE_TYPE_CAR)\<rparr>"

record ReservationProto =
  pr_ReservationId :: string
  pr_DriverId :: string
  pr_Spot :: SpotProto
  pr_Status :: int
  pr_ConfirmedAt :: time
  pr_ExpiresAt :: time
  pr_SessionId :: string
  pr_CancelledAt :: "time option"

definition domainReservationToProto :: "Reservation \<Rightarrow> ReservationProto" where
  "domainReservationToProto r = \<lparr>pr_ReservationId = r_ReservationID r, pr_DriverId = r_DriverID r,
     pr_Spot = domainSpotToProto (r_Spot r), pr_Status = domainStatusToProto (r_Status r),
     pr_ConfirmedAt = r_ConfirmedAt r, pr_ExpiresAt = r_ExpiresAt r, pr_SessionId = r_SessionID r,
     pr_CancelledAt = r_CancelledAt r\<rparr>"

section \<open>The methods\<close>

record CreateReservationRequest =
  cr_DriverId :: string
  cr_VehicleType :: int
  cr_AssignmentMode :: int
  cr_SpotId :: string
  cr_IdempotencyKey :: string

record CreateReservationResponse =
  crr_ReservationId :: string
  crr_Spot :: SpotProto
  crr_Status :: int
  crr_ConfirmedAt :: time
  crr_ExpiresAt :: time
  crr_BookingFee :: Money

definition rpc_CreateReservation :: "CreateReservationRequest \<Rightarrow> ('k, CreateReservationResponse) rpc" where
  "rpc_CreateReservation req =
     (if cr_IdempotencyKey req = '''' then State_Monad.return (Status InvalidArgument ''idempotency_key is required'')
      else or_status (CreateReservation (cr_DriverId req) (cr_IdempotencyKey req)
             (protoToVehicleType (cr_VehicleType req)) (protoToAssignmentMode (cr_AssignmentMode req)) (cr_SpotId req))
           toGRPCError (\<lambda>r. State_Monad.return (Reply
             \<lparr>crr_ReservationId = r_ReservationID r, crr_Spot = domainSpotToProto (r_Spot r),
              crr_Status = domainStatusToProto (r_Status r), crr_ConfirmedAt = r_ConfirmedAt r,
              crr_ExpiresAt = r_ExpiresAt r, crr_BookingFee = idr 5000\<rparr>)))"

record CancelReservationResponse =
  car_ReservationId :: string
  car_Status :: int
  car_CancellationFee :: Money
  car_CancelledAt :: time
  car_FeeReason :: string

definition rpc_CancelReservation :: "EventPublisher \<Rightarrow> string \<Rightarrow> string \<Rightarrow> ('k, CancelReservationResponse) rpc" where
  "rpc_CancelReservation p reservationId driverId =
     or_status (CancelReservation p reservationId driverId) toGRPCError (\<lambda>(r, fee).
       State_Monad.return (deref (r_CancelledAt r) (\<lambda>cancelledAt. Reply
         \<lparr>car_ReservationId = r_ReservationID r, car_Status = domainStatusToProto (r_Status r),
          car_CancellationFee = idr fee, car_CancelledAt = cancelledAt,
          car_FeeReason = (if fee = 0 then ''cancelled within 2 minutes of confirmation''
                           else ''cancelled after 2 minutes of confirmation'')\<rparr>)))"

definition rpc_GetReservation :: "string \<Rightarrow> ('k, ReservationProto) rpc" where
  "rpc_GetReservation reservationId =
     or_status (GetReservation reservationId) toGRPCError (\<lambda>r.
       State_Monad.return (Reply (domainReservationToProto r)))"

text \<open>\<open>GetActiveReservationResponse\<close>: the reservation, and whether there is one.\<close>

definition rpc_GetActiveReservation :: "string \<Rightarrow> ('k, ReservationProto option \<times> bool) rpc" where
  "rpc_GetActiveReservation driverId =
     or_status (GetActiveReservation driverId) toGRPCError (\<lambda>r.
       State_Monad.return (Reply (case r of
           None \<Rightarrow> (None, False)
         | Some r \<Rightarrow> (Some (domainReservationToProto r), True))))"

record CheckInResponse =
  cir_ReservationId :: string
  cir_SessionId :: string
  cir_Status :: int
  cir_CheckInAt :: time

definition rpc_CheckIn :: "EventPublisher \<Rightarrow> string \<Rightarrow> string \<Rightarrow> ('k, CheckInResponse) rpc" where
  "rpc_CheckIn p reservationId driverId =
     or_status (CheckIn p reservationId driverId) toGRPCError (\<lambda>r.
       State_Monad.return (deref (r_CheckInAt r) (\<lambda>checkInAt. Reply
         \<lparr>cir_ReservationId = r_ReservationID r, cir_SessionId = r_SessionID r,
          cir_Status = domainStatusToProto (r_Status r), cir_CheckInAt = checkInAt\<rparr>)))"

record CheckOutResponse =
  cor_ReservationId :: string
  cor_SessionId :: string
  cor_Status :: int
  cor_CheckOutAt :: time
  cor_DurationMinutes :: int

definition rpc_CheckOut :: "EventPublisher \<Rightarrow> string \<Rightarrow> string \<Rightarrow> string \<Rightarrow> ('k, CheckOutResponse) rpc" where
  "rpc_CheckOut p reservationId driverId idempotencyKey =
     (if idempotencyKey = '''' then State_Monad.return (Status InvalidArgument ''idempotency_key is required'')
      else or_status (CheckOut p reservationId driverId idempotencyKey) toGRPCError (\<lambda>r.
        State_Monad.return (deref (r_CheckOutAt r) (\<lambda>checkOutAt. deref (r_CheckInAt r) (\<lambda>checkInAt.
          let duration = minutes_int (Sub checkOutAt checkInAt) in
          Reply \<lparr>cor_ReservationId = r_ReservationID r, cor_SessionId = r_SessionID r,
            cor_Status = domainStatusToProto (r_Status r), cor_CheckOutAt = checkOutAt,
            cor_DurationMinutes = duration\<rparr>)))))"

record GetAvailabilityResponse =
  av_VehicleType :: int
  av_TotalCapacity :: int
  av_AvailableSpots :: int
  av_OccupiedSpots :: int
  av_ReservedSpots :: int
  av_IsAvailable :: bool

definition rpc_GetAvailability :: "int \<Rightarrow> ('k, GetAvailabilityResponse) rpc" where
  "rpc_GetAvailability vehicleType =
     or_status (GetAvailability (protoToVehicleType vehicleType)) toGRPCError
       (\<lambda>(capacity, available, occupied, reserved). State_Monad.return (Reply
         \<lparr>av_VehicleType = vehicleType, av_TotalCapacity = capacity, av_AvailableSpots = available,
          av_OccupiedSpots = occupied, av_ReservedSpots = reserved, av_IsAvailable = available > 0\<rparr>))"

text \<open>A list of \<open>SpotAvailability\<close>: every spot of the answer is marked as available.\<close>

definition rpc_ListAvailableSpots :: "int \<Rightarrow> int \<Rightarrow> ('k, (SpotProto \<times> bool) list) rpc" where
  "rpc_ListAvailableSpots vehicleType flr =
     or_status (ListAvailableSpots (protoToVehicleType vehicleType) flr) toGRPCError
       (\<lambda>spots. State_Monad.return (Reply (map (\<lambda>s. (domainSpotToProto s, True)) spots)))"

section \<open>What the client sees\<close>

lemma toGRPCError_no_rows: "is_no_rows err \<Longrightarrow> toGRPCError err = Status NotFound (err_msg err)"
  using is_no_rows_msg [of err] by (simp add: toGRPCError_def Let_def)

lemma toGRPCError_texts:
  "toGRPCError (ErrNew ''spot unavailable'') = Status ResourceExhausted ''spot unavailable''"
  "toGRPCError (ErrNew ''no available spot'') = Status ResourceExhausted ''no available spot''"
  "toGRPCError (ErrNew ''reservation not owned by driver'') = Status PermissionDenied ''reservation not owned by driver''"
  "toGRPCError (ErrNew ''reservation expired'') = Status FailedPrecondition ''reservation expired''"
  by (simp_all add: toGRPCError_def Let_def has_prefix_def)

text \<open>The texts that name the status a request met, and how the handler classifies them.\<close>

definition status_texts :: "string list" where
  "status_texts = [''cannot confirm: status is '', ''reservation cannot be cancelled in status '',
     ''cannot check in: status is '', ''cannot check out: status is '']"

definition classified :: "string \<Rightarrow> bool" where
  "classified msg \<longleftrightarrow> \<not> str_contains msg ''no rows in result set'' \<and> \<not> str_contains msg ''not found'' \<and>
     (str_contains msg ''cannot be cancelled'' \<or> str_contains msg ''cannot confirm''
       \<or> str_contains msg ''cannot check in'' \<or> str_contains msg ''cannot check out'')"

lemma status_texts_classified: "list_all (\<lambda>t. list_all (\<lambda>s. classified (t @ status_string s))
    [StatusPending, StatusConfirmed, StatusActive, StatusCompleted, StatusCancelled, StatusExpired]) status_texts"
  by code_simp

lemma toGRPCError_status:
  assumes "t \<in> set status_texts"
  shows "toGRPCError (ErrNew (t @ status_string s)) = Status FailedPrecondition (t @ status_string s)"
proof -
  have "classified (t @ status_string s)"
    using status_texts_classified assms by (cases s) (auto simp: list_all_iff)
  then show ?thesis by (simp add: toGRPCError_def Let_def classified_def)
qed

lemma vehicle_type_roundtrip: "protoToVehicleType (ps_VehicleType (domainSpotToProto s)) = s_VehicleType s"
  by (cases "s_VehicleType s") (simp_all add: domainSpotToProto_def protoToVehicleType_def proto_enums)

lemma domainStatusToProto_inj: "domainStatusToProto a = domainStatusToProto b \<longleftrightarrow> a = b"
  by (cases a; cases b) (simp_all add: domainStatusToProto_def proto_enums)

text \<open>The proto has a value for a pending reservation, and it is never sent.\<close>

lemma pending_is_not_sent: "domainStatusToProto s \<noteq> RESERVATION_STATUS_PENDING"
  by (cases s) (simp_all add: domainStatusToProto_def proto_enums)

text \<open>
  The keys of new reservations and of check-outs share one store. A check-out under a key that
  is in the store reads the reservation and takes it for a finished one: if it is not, the
  handler dereferences nil.
\<close>

lemma rpc_CheckOut_used_key:
  assumes "reliable w" "keys_ok w" "current w row s" "key \<noteq> ''''"
    and "x_redis_get (w_ext w) (w_redis w) (w_clock (arrive w)) (store_key key) \<noteq> None"
  shows "wp (rpc_CheckOut p (rr_id row) did key) (\<lambda>res w'. db_same w w' \<and>
     (res = Panic \<longleftrightarrow> rr_check_out_at row = None \<or> rr_check_in_at row = None)) w"
  using assms
  by (auto simp: rpc_CheckOut_def CheckOut_def Check_def rdb_Get_def wp_simps deref_def Let_def split: option.split)

end
