(* ===== verification/Presence.thy ===== *)
theory Presence
  imports Sql Proto
begin

text \<open>
  The presence service, \<open>services/presence/internal\<close>: the table of location updates and the
  three methods of the handler. Coordinates are rationals that stand for the values of the
  \<open>float64\<close> and \<open>float32\<close> fields, which the service only copies. A stream is the list of the
  messages it receives, each with the error its answer meets when it is sent, if any, and the
  way it ends: the end of the stream, or an error of \<open>Recv\<close>.
\<close>

record LocationUpdate =
  lu_DriverID :: string
  lu_SessionID :: string
  lu_ReservationID :: string
  lu_Latitude :: rat
  lu_Longitude :: rat
  lu_Accuracy :: rat
  lu_RecordedAt :: time

section \<open>Repository\<close>

definition nullStr :: "string \<Rightarrow> string option" where
  "nullStr s = (if s = '''' then None else Some s)"

definition SaveLocation :: "LocationUpdate \<Rightarrow> ('k, unit) io" where
  "SaveLocation u = exec (\<lambda>w. w\<lparr>w_locations := w_locations w @
     [\<lparr>lr_driver_id = lu_DriverID u, lr_session_id = nullStr (lu_SessionID u),
       lr_reservation_id = nullStr (lu_ReservationID u), lr_latitude = lu_Latitude u,
       lr_longitude = lu_Longitude u, lr_accuracy = lu_Accuracy u,
       lr_recorded_at = pg_timestamp (lu_RecordedAt u)\<rparr>]\<rparr>)"

text \<open>\<open>COALESCE(.., '')\<close> and the newest row of the driver.\<close>

definition coalesce :: "string option \<Rightarrow> string" where
  "coalesce s = (case s of None \<Rightarrow> '''' | Some s \<Rightarrow> s)"

definition scan_location :: "location_row \<Rightarrow> LocationUpdate" where
  "scan_location r = \<lparr>lu_DriverID = lr_driver_id r, lu_SessionID = coalesce (lr_session_id r),
     lu_ReservationID = coalesce (lr_reservation_id r), lu_Latitude = lr_latitude r,
     lu_Longitude = lr_longitude r, lu_Accuracy = lr_accuracy r, lu_RecordedAt = lr_recorded_at r\<rparr>"

definition pres_GetLastLocation :: "string \<Rightarrow> ('k, LocationUpdate option) io" where
  "pres_GetLastLocation driverID = do {
     row \<leftarrow> query (\<lambda>w. first_row (sort_key (\<lambda>r. - lr_recorded_at r)
              (filter (\<lambda>r. lr_driver_id r = driverID) (w_locations w))));
     State_Monad.return (case row of
         Inl err \<Rightarrow> if is_no_rows err then Inr None else Inl err
       | Inr r \<Rightarrow> Inr (Some (scan_location r)))
   }"

section \<open>Handler\<close>

record Coordinate =
  co_Latitude :: rat
  co_Longitude :: rat
  co_AccuracyMeters :: rat

record StreamLocationRequest =
  sl_DriverId :: string
  sl_SessionId :: string
  sl_ReservationId :: string
  sl_Coordinate :: "Coordinate option"
  sl_RecordedAt :: "time option"

record StreamLocationResponse =
  slr_Type :: int
  slr_DriverId :: string
  slr_EventAt :: time
  slr_InGeofence :: bool

definition PRESENCE_EVENT_TYPE_ACK :: int where "PRESENCE_EVENT_TYPE_ACK = 1"

definition update_of :: "StreamLocationRequest \<Rightarrow> time \<Rightarrow> LocationUpdate" where
  "update_of req now = \<lparr>lu_DriverID = sl_DriverId req, lu_SessionID = sl_SessionId req,
     lu_ReservationID = sl_ReservationId req,
     lu_Latitude = (case sl_Coordinate req of None \<Rightarrow> 0 | Some c \<Rightarrow> co_Latitude c),
     lu_Longitude = (case sl_Coordinate req of None \<Rightarrow> 0 | Some c \<Rightarrow> co_Longitude c),
     lu_Accuracy = (case sl_Coordinate req of None \<Rightarrow> 0 | Some c \<Rightarrow> co_AccuracyMeters c),
     lu_RecordedAt = (case sl_RecordedAt req of None \<Rightarrow> now | Some t \<Rightarrow> t)\<rparr>"

text \<open>One message: it is stored, an error of the database is only logged, and answered.\<close>

definition ack_location :: "StreamLocationRequest \<Rightarrow> ('k, StreamLocationResponse) prog" where
  "ack_location req = do {
     recordedAt \<leftarrow> time_Now;
     _ \<leftarrow> SaveLocation (update_of req recordedAt);
     eventAt \<leftarrow> time_Now;
     State_Monad.return \<lparr>slr_Type = PRESENCE_EVENT_TYPE_ACK, slr_DriverId = sl_DriverId req,
       slr_EventAt = eventAt, slr_InGeofence = False\<rparr>
   }"

text \<open>The loop returns the answers that were sent and the status it ends with.\<close>

fun StreamLocation ::
  "(StreamLocationRequest \<times> string option) list \<Rightarrow> string option \<Rightarrow>
   ('k, StreamLocationResponse list \<times> unit reply) prog" where
  "StreamLocation [] recv_error = State_Monad.return ([], (case recv_error of
       None \<Rightarrow> Reply () | Some m \<Rightarrow> Status Internal (''recv error: '' @ m)))"
| "StreamLocation ((req, send_error) # rest) recv_error = do {
     resp \<leftarrow> ack_location req;
     (case send_error of
        Some m \<Rightarrow> State_Monad.return ([], Status Internal (''send error: '' @ m))
      | None \<Rightarrow> do {
          (sent, end) \<leftarrow> StreamLocation rest recv_error;
          State_Monad.return (resp # sent, end)
        })
   }"

text \<open>\<open>GetLastLocationResponse\<close> is empty, with \<open>HasLocation\<close> false, when there is no row.\<close>

definition GetLastLocation :: "string \<Rightarrow> ('k, LocationUpdate option) rpc" where
  "GetLastLocation driverId =
     or_status (pres_GetLastLocation driverId) (\<lambda>err. Status Internal (err_msg err))
       (\<lambda>u. State_Monad.return (Reply u))"

definition CheckGeofence :: "'a reply" where
  "CheckGeofence = Status Unimplemented ''spot coordinates not yet available''"

section \<open>What the service does\<close>

text \<open>Every message that was answered has its row, in the order of the stream.\<close>

definition row_from :: "StreamLocationRequest \<Rightarrow> location_row \<Rightarrow> bool" where
  "row_from req row \<longleftrightarrow> lr_driver_id row = sl_DriverId req \<and> coalesce (lr_session_id row) = sl_SessionId req
     \<and> coalesce (lr_reservation_id row) = sl_ReservationId req
     \<and> (\<forall>t. sl_RecordedAt req = Some t \<longrightarrow> lr_recorded_at row = pg_timestamp t)
     \<and> (\<forall>c. sl_Coordinate req = Some c \<longrightarrow> lr_latitude row = co_Latitude c \<and> lr_longitude row = co_Longitude c
          \<and> lr_accuracy row = co_AccuracyMeters c)"

lemma coalesce_nullStr [simp]: "coalesce (nullStr s) = s"
  by (simp add: coalesce_def nullStr_def)

lemma StreamLocation_saves:
  assumes "reliable w" "\<forall>(req, e) \<in> set msgs. e = None"
  shows "wp (StreamLocation msgs None) (\<lambda>(sent, end) w'. end = Reply () \<and> map slr_DriverId sent = map (sl_DriverId \<circ> fst) msgs
     \<and> (\<exists>rows. w_locations w' = w_locations w @ rows \<and> list_all2 row_from (map fst msgs) rows)) w"
  using assms
proof (induction msgs arbitrary: w)
  case Nil
  then show ?case by (simp add: wp_return)
next
  case (Cons m msgs)
  obtain req where m: "m = (req, None)" using Cons.prems by (cases m) auto
  let ?row = "\<lambda>now. \<lparr>lr_driver_id = sl_DriverId req, lr_session_id = nullStr (sl_SessionId req),
       lr_reservation_id = nullStr (sl_ReservationId req), lr_latitude = lu_Latitude (update_of req now),
       lr_longitude = lu_Longitude (update_of req now), lr_accuracy = lu_Accuracy (update_of req now),
       lr_recorded_at = pg_timestamp (lu_RecordedAt (update_of req now))\<rparr>"
  have row: "row_from req (?row now)" for now
    by (auto simp: row_from_def update_of_def)
  let ?w1 = "(arrive (pass w))\<lparr>w_locations := w_locations w @ [?row (w_clock (pass w))]\<rparr>"
  have "wp (StreamLocation msgs None) (\<lambda>(sent, end) w'. end = Reply () \<and> map slr_DriverId sent = map (sl_DriverId \<circ> fst) msgs
     \<and> (\<exists>rows. w_locations w' = w_locations (pass ?w1) @ rows \<and> list_all2 row_from (map fst msgs) rows)) (pass ?w1)"
    using Cons.prems by (intro Cons.IH) auto
  then show ?case
    using Cons.prems row
    by (simp add: m ack_location_def wp_simps Let_def SaveLocation_def)
       (auto simp: update_of_def wp_return elim!: wp_mono intro!: exI [of _ "?row (w_clock (pass w)) # _"])
qed

lemma first_of_sort_key:
  assumes "sort_key f xs = x # ys"
  shows "x \<in> set xs" "y \<in> set xs \<Longrightarrow> f x \<le> f y"
proof -
  have "set xs = insert x (set ys)"
    using assms by (metis list.simps(15) set_sort)
  moreover have "sorted (map f (x # ys))"
    using assms by (metis sorted_sort_key)
  ultimately show "x \<in> set xs" "y \<in> set xs \<Longrightarrow> f x \<le> f y"
    by auto
qed

lemma newest_of_driver:
  assumes "sort_key (\<lambda>r. - lr_recorded_at r) (filter (\<lambda>r. lr_driver_id r = d) rows) = row # rest"
  shows "row \<in> set rows \<and> lr_driver_id row = d
    \<and> (\<forall>row' \<in> set rows. lr_driver_id row' = d \<longrightarrow> lr_recorded_at row' \<le> lr_recorded_at row)"
  using first_of_sort_key [OF assms] by force

text \<open>The location that is returned is the newest one of the driver.\<close>

lemma GetLastLocation_newest:
  "wp (GetLastLocation d) (\<lambda>res w'. w_locations w' = w_locations w \<and> (\<forall>u. res = Reply (Some u) \<longrightarrow>
     (\<exists>row \<in> set (w_locations w). u = scan_location row \<and> lr_driver_id row = d
        \<and> (\<forall>row' \<in> set (w_locations w). lr_driver_id row' = d \<longrightarrow> lr_recorded_at row' \<le> lr_recorded_at row)))) w"
  by (auto simp: GetLastLocation_def pres_GetLastLocation_def wp_simps wp_return first_row_def
      split: fate.split list.splits dest!: newest_of_driver)

end
