(* ===== verification/Gateway.thy ===== *)
theory Gateway
  imports GatewayExtra ReservationHandler Presence
begin

text \<open>
  \<open>services/gateway/internal/handler/handler.go\<close>: the methods of the gateway's service, each a
  composition of calls to the reservation, billing, payment and presence services with the
  driver taken from the context of the request.
\<close>

section \<open>Calls to the services\<close>

text \<open>
  A call over a client connection meets the network on its way. A panic stops the server's
  process, so that the caller sees a broken connection; a broken connection is the status
  \<open>Unavailable\<close>. A call that the open circuit breaker of the connection rejects fails with an error
  of the breaker's library, \<open>ErrOpenState\<close> or \<open>ErrTooManyRequests\<close>, which is no status: handed on,
  it reaches the driver as \<open>Unknown\<close>.
\<close>

definition breaker_errors :: "string list" where
  "breaker_errors = [''circuit breaker is open'', ''too many requests'']"

definition refusal :: "string \<Rightarrow> 'a reply" where
  "refusal m = Status (if m \<in> set breaker_errors then Unknown else Unavailable) m"

definition call :: "('k, 'a) rpc \<Rightarrow> ('k, 'a) rpc" where
  "call m = State (\<lambda>w. case fate_of w of
       Served \<Rightarrow> (case run_state m (arrive w) of (reply, w') \<Rightarrow>
         (case reply of Panic \<Rightarrow> Status Unavailable ''error reading from server: EOF'' | _ \<Rightarrow> reply, w'))
     | Refused m' \<Rightarrow> (refusal m', arrive w)
     | ReplyLost m' \<Rightarrow> (Status Unavailable m', snd (run_state m (arrive w))))"

text \<open>\<open>if err != nil { return nil, err }\<close> after a call.\<close>

definition or_forward :: "('k, 'a) rpc \<Rightarrow> ('a \<Rightarrow> ('k, 'b) rpc) \<Rightarrow> ('k, 'b) rpc" where
  "or_forward m rest = do {
     reply \<leftarrow> m;
     (case reply of
        Reply a \<Rightarrow> rest a
      | Status c msg \<Rightarrow> State_Monad.return (Status c msg)
      | Panic \<Rightarrow> State_Monad.return Panic)
   }"

text \<open>The text of a status error, and the methods \<open>String\<close> of two enumerations in \<open>gen/\<close>.\<close>

definition code_name :: "code \<Rightarrow> string" where
  "code_name c = (case c of InvalidArgument \<Rightarrow> ''InvalidArgument'' | NotFound \<Rightarrow> ''NotFound''
     | FailedPrecondition \<Rightarrow> ''FailedPrecondition'' | ResourceExhausted \<Rightarrow> ''ResourceExhausted''
     | PermissionDenied \<Rightarrow> ''PermissionDenied'' | Internal \<Rightarrow> ''Internal'' | Unimplemented \<Rightarrow> ''Unimplemented''
     | Unauthenticated \<Rightarrow> ''Unauthenticated'' | Unavailable \<Rightarrow> ''Unavailable''
     | AlreadyExists \<Rightarrow> ''AlreadyExists'' | Unknown \<Rightarrow> ''Unknown'')"

definition status_text :: "code \<Rightarrow> string \<Rightarrow> string" where
  "status_text c msg = ''rpc error: code = '' @ code_name c @ '' desc = '' @ msg"

text \<open>The text of what a call failed with: of a status, or of the breaker's error.\<close>

definition call_error :: "code \<Rightarrow> string \<Rightarrow> string" where
  "call_error c msg = (if c = Unknown \<and> msg \<in> set breaker_errors then msg else status_text c msg)"

definition InvoiceStatus_String :: "int \<Rightarrow> string" where
  "InvoiceStatus_String s = (case map_of [(0, ''INVOICE_STATUS_UNSPECIFIED''), (1, ''INVOICE_STATUS_DRAFT''),
       (2, ''INVOICE_STATUS_PENDING_PAYMENT''), (3, ''INVOICE_STATUS_PAID''), (4, ''INVOICE_STATUS_VOID'')] s of
     Some n \<Rightarrow> n | None \<Rightarrow> show_int s)"

definition TransactionStatus_String :: "int \<Rightarrow> string" where
  "TransactionStatus_String s = (case map_of [(0, ''TRANSACTION_STATUS_UNSPECIFIED''), (1, ''TRANSACTION_STATUS_PENDING''),
       (2, ''TRANSACTION_STATUS_SETTLED''), (3, ''TRANSACTION_STATUS_FAILED''), (4, ''TRANSACTION_STATUS_EXPIRED''),
       (5, ''TRANSACTION_STATUS_REFUNDED'')] s of
     Some n \<Rightarrow> n | None \<Rightarrow> show_int s)"

definition missing_user :: "('k, 'a) rpc" where
  "missing_user = State_Monad.return (Status Unauthenticated ''missing user id'')"

section \<open>Reservations\<close>

text \<open>\<open>GetParkingAvailabilityResponse\<close>: the vehicle type, the capacity, the free spots and whether there are any.\<close>

definition gw_GetParkingAvailability :: "int \<Rightarrow> ('k, int \<times> int \<times> int \<times> bool) rpc" where
  "gw_GetParkingAvailability vehicleType =
     or_forward (call (rpc_GetAvailability vehicleType)) (\<lambda>resp. State_Monad.return (Reply
       (av_VehicleType resp, av_TotalCapacity resp, av_AvailableSpots resp, av_IsAvailable resp)))"

record BookingRequest =
  br_VehicleType :: int
  br_AssignmentMode :: int
  br_SpotId :: string
  br_IdempotencyKey :: string

record BookingResponse =
  brr_ReservationId :: string
  brr_Spot :: SpotProto
  brr_Status :: int
  brr_ConfirmedAt :: time
  brr_ExpiresAt :: time
  brr_BookingFee :: Money
  brr_Floor :: int
  brr_SpotNumber :: int
  brr_Direction :: string

text \<open>The compensation: the reservation is cancelled, whatever that call answers.\<close>

definition give_back :: "EventPublisher \<Rightarrow> string \<Rightarrow> string \<Rightarrow> string \<Rightarrow> ('k, 'a) rpc" where
  "give_back p reservationID driverID msg = do {
     _ \<leftarrow> call (rpc_CancelReservation p reservationID driverID);
     State_Monad.return (Status FailedPrecondition msg)
   }"

definition booking_payment :: "string \<Rightarrow> string \<Rightarrow> string \<Rightarrow> CreateTransactionRequest" where
  "booking_payment invoiceID driverID idempotencyKey = \<lparr>ct_InvoiceId = invoiceID, ct_DriverId = driverID,
     ct_IdempotencyKey = ''pay-booking-'' @ idempotencyKey, ct_PaymentMethod = PAYMENT_METHOD_QRIS,
     ct_Amount = Some (idr 5000), ct_CustomerInfo = None\<rparr>"

definition booking_reply :: "CreateReservationResponse \<Rightarrow> CreateTransactionResponse \<Rightarrow> BookingResponse" where
  "booking_reply resp payResp = \<lparr>brr_ReservationId = crr_ReservationId resp, brr_Spot = crr_Spot resp,
     brr_Status = crr_Status resp, brr_ConfirmedAt = crr_ConfirmedAt resp, brr_ExpiresAt = crr_ExpiresAt resp,
     brr_BookingFee = idr 5000, brr_Floor = ps_Floor (crr_Spot resp), brr_SpotNumber = ps_Number (crr_Spot resp),
     brr_Direction = ctr_QrString payResp @ ''|'' @ ctr_TransactionId payResp\<rparr>"

definition gw_CreateReservation ::
  "EventPublisher \<Rightarrow> PaymentGateway \<Rightarrow> string option \<Rightarrow> BookingRequest \<Rightarrow> ('k, BookingResponse) rpc" where
  "gw_CreateReservation p g ctx req = (case UserIDFromContext ctx of
       None \<Rightarrow> missing_user
     | Some driverID \<Rightarrow>
         or_forward (call (rpc_CreateReservation \<lparr>cr_DriverId = driverID, cr_VehicleType = br_VehicleType req,
             cr_AssignmentMode = br_AssignmentMode req, cr_SpotId = br_SpotId req,
             cr_IdempotencyKey = br_IdempotencyKey req\<rparr>)) (\<lambda>resp. do {
           invoice \<leftarrow> CreateBookingFeeInvoice (crr_ReservationId resp) driverID (''booking-'' @ br_IdempotencyKey req);
           (case invoice of
              Inl err \<Rightarrow> give_back p (crr_ReservationId resp) driverID (''booking fee invoice failed: '' @ err_msg err)
            | Inr invoiceID \<Rightarrow> do {
                payment \<leftarrow> call (rpc_CreateTransaction g (booking_payment invoiceID driverID (br_IdempotencyKey req)));
                (case payment of
                   Status c msg \<Rightarrow> give_back p (crr_ReservationId resp) driverID
                     (''booking fee payment failed: '' @ call_error c msg)
                 | Reply payResp \<Rightarrow> State_Monad.return (Reply (booking_reply resp payResp))
                 | Panic \<Rightarrow> State_Monad.return Panic)
              })
         }))"

record MyReservation =
  my_ReservationId :: string
  my_Spot :: SpotProto
  my_Status :: int
  my_ConfirmedAt :: time
  my_ExpiresAt :: time
  my_SessionId :: string
  my_CheckInAt :: "time option"

definition my_reservation :: "ReservationProto \<Rightarrow> MyReservation" where
  "my_reservation r = \<lparr>my_ReservationId = pr_ReservationId r, my_Spot = pr_Spot r, my_Status = pr_Status r,
     my_ConfirmedAt = pr_ConfirmedAt r, my_ExpiresAt = pr_ExpiresAt r, my_SessionId = pr_SessionId r,
     my_CheckInAt = (case pr_CancelledAt r of None \<Rightarrow> None | Some t \<Rightarrow> Some t)\<rparr>"

definition gw_GetMyReservation :: "string option \<Rightarrow> ('k, MyReservation option) rpc" where
  "gw_GetMyReservation ctx = (case UserIDFromContext ctx of
       None \<Rightarrow> missing_user
     | Some driverID \<Rightarrow> or_forward (call (rpc_GetActiveReservation driverID)) (\<lambda>(r, hasActive).
         if \<not> hasActive then State_Monad.return (Reply None)
         else State_Monad.return (deref r (\<lambda>r. Reply (Some (my_reservation r))))))"

text \<open>The reply: the reservation, its status, the fee and the reason.\<close>

definition gw_CancelReservation ::
  "EventPublisher \<Rightarrow> string option \<Rightarrow> string \<Rightarrow> ('k, string \<times> int \<times> Money \<times> string) rpc" where
  "gw_CancelReservation p ctx reservationId = (case UserIDFromContext ctx of
       None \<Rightarrow> missing_user
     | Some driverID \<Rightarrow> or_forward (call (rpc_CancelReservation p reservationId driverID)) (\<lambda>resp.
         State_Monad.return (Reply (car_ReservationId resp, car_Status resp, car_CancellationFee resp, car_FeeReason resp))))"

definition same_spot :: "string \<Rightarrow> string \<Rightarrow> ('k, unit) rpc" where
  "same_spot reservationId actualSpotId =
     (if actualSpotId \<noteq> ''''
      then or_forward (call (rpc_GetReservation reservationId)) (\<lambda>r.
        State_Monad.return
          (if ps_SpotId (pr_Spot r) \<noteq> actualSpotId
           then Status FailedPrecondition ''wrong spot: actual spot does not match booked spot''
           else Reply ()))
      else State_Monad.return (Reply ()))"

definition gw_CheckIn :: "EventPublisher \<Rightarrow> string option \<Rightarrow> string \<Rightarrow> string \<Rightarrow> ('k, CheckInResponse) rpc" where
  "gw_CheckIn p ctx reservationId actualSpotId = (case UserIDFromContext ctx of
       None \<Rightarrow> missing_user
     | Some driverID \<Rightarrow> or_forward (same_spot reservationId actualSpotId) (\<lambda>_.
         or_forward (call (rpc_CheckIn p reservationId driverID)) (\<lambda>resp. State_Monad.return (Reply resp))))"

section \<open>Invoices\<close>

record InvoiceSummary =
  is_InvoiceId :: string
  is_BookingFee :: Money
  is_ParkingFee :: Money
  is_OvernightFee :: Money
  is_TotalAmount :: Money
  is_Status :: string
  is_BilledHours :: int

definition summary_of :: "InvoiceProto \<Rightarrow> InvoiceSummary" where
  "summary_of invoice = \<lparr>is_InvoiceId = ip_InvoiceId invoice, is_BookingFee = bb_BookingFee (ip_Breakdown invoice),
     is_ParkingFee = bb_ParkingFee (ip_Breakdown invoice), is_OvernightFee = bb_OvernightFee (ip_Breakdown invoice),
     is_TotalAmount = ip_TotalAmount invoice, is_Status = InvoiceStatus_String (ip_Status invoice),
     is_BilledHours = bb_BilledHours (ip_Breakdown invoice)\<rparr>"

record LeavingResponse =
  lv_SessionId :: string
  lv_InvoiceId :: string
  lv_CheckOutAt :: time
  lv_DurationMinutes :: int
  lv_InvoiceSummary :: InvoiceSummary

definition gw_CheckOut :: "EventPublisher \<Rightarrow> string option \<Rightarrow> string \<Rightarrow> string \<Rightarrow> ('k, LeavingResponse) rpc" where
  "gw_CheckOut p ctx reservationId idempotencyKey = (case UserIDFromContext ctx of
       None \<Rightarrow> missing_user
     | Some driverID \<Rightarrow>
         or_forward (call (rpc_CheckOut p reservationId driverID idempotencyKey)) (\<lambda>resResp.
         or_forward (call (rpc_GetReservation reservationId)) (\<lambda>resDetail.
         or_forward (call (rpc_GenerateInvoice \<lparr>gi_SessionId = cor_SessionId resResp, gi_ReservationId = reservationId,
             gi_DriverId = driverID, gi_CheckInAt = Some (pr_ConfirmedAt resDetail),
             gi_CheckOutAt = Some (cor_CheckOutAt resResp), gi_IdempotencyKey = ''inv-'' @ idempotencyKey\<rparr>)) (\<lambda>invResp.
           let invoice = gir_Invoice invResp in
           State_Monad.return (Reply \<lparr>lv_SessionId = cor_SessionId resResp, lv_InvoiceId = ip_InvoiceId invoice,
             lv_CheckOutAt = cor_CheckOutAt resResp, lv_DurationMinutes = cor_DurationMinutes resResp,
             lv_InvoiceSummary = summary_of invoice\<rparr>)))))"

definition gw_GetInvoice :: "string \<Rightarrow> ('k, InvoiceSummary) rpc" where
  "gw_GetInvoice invoiceId = or_forward (call (rpc_GetInvoice invoiceId)) (\<lambda>invoice.
     State_Monad.return (Reply (summary_of invoice)))"

text \<open>The estimate has no status.\<close>

definition gw_PreviewBilling :: "string \<Rightarrow> ('k, InvoiceSummary \<times> string) rpc" where
  "gw_PreviewBilling sessionId = or_forward (call (rpc_GetInvoiceBySession sessionId)) (\<lambda>invoice.
     State_Monad.return (Reply ((summary_of invoice)\<lparr>is_Status := ''''\<rparr>, ''Estimasi, final amount dihitung saat checkout'')))"

section \<open>Payments\<close>

record PaymentResponse =
  py_TransactionId :: string
  py_PaymentMethod :: int
  py_PaymentUrl :: string
  py_QrString :: string
  py_VaNumber :: string
  py_VaBank :: string
  py_ExpiredAt :: "time option"

definition gw_CreatePayment ::
  "PaymentGateway \<Rightarrow> string option \<Rightarrow> string \<Rightarrow> int \<Rightarrow> string \<Rightarrow> ('k, PaymentResponse) rpc" where
  "gw_CreatePayment g ctx invoiceId paymentMethod idempotencyKey = (case UserIDFromContext ctx of
       None \<Rightarrow> missing_user
     | Some driverID \<Rightarrow> or_forward (call (rpc_GetInvoice invoiceId)) (\<lambda>invoice.
         or_forward (call (rpc_CreateTransaction g \<lparr>ct_InvoiceId = invoiceId, ct_DriverId = driverID,
             ct_IdempotencyKey = idempotencyKey, ct_PaymentMethod = paymentMethod,
             ct_Amount = Some (ip_TotalAmount invoice), ct_CustomerInfo = None\<rparr>)) (\<lambda>resp.
           State_Monad.return (Reply \<lparr>py_TransactionId = ctr_TransactionId resp, py_PaymentMethod = ctr_PaymentMethod resp,
             py_PaymentUrl = ctr_PaymentUrl resp, py_QrString = ctr_QrString resp, py_VaNumber = ctr_VaNumber resp,
             py_VaBank = ctr_VaBank resp,
             py_ExpiredAt = (case ctr_ExpiredAt resp of None \<Rightarrow> None | Some t \<Rightarrow> Some t)\<rparr>))))"

text \<open>The reply: the transaction, its status, its amount and the time it was paid.\<close>

definition gw_GetPaymentStatus :: "string \<Rightarrow> ('k, string \<times> string \<times> Money \<times> time option) rpc" where
  "gw_GetPaymentStatus transactionId = or_forward (call (rpc_GetTransactionStatus transactionId)) (\<lambda>resp.
     State_Monad.return (Reply (tp_TransactionId resp, TransactionStatus_String (tp_Status resp), tp_Amount resp,
       case tp_PaidAt resp of None \<Rightarrow> None | Some t \<Rightarrow> Some t)))"

section \<open>The location stream\<close>

record StreamMyLocationRequest =
  sm_SessionId :: string
  sm_ReservationId :: string
  sm_Coordinate :: "Coordinate option"
  sm_RecordedAt :: "time option"

record StreamMyLocationResponse =
  sa_EventType :: string
  sa_InGeofence :: bool
  sa_DistanceToSpot :: rat

text \<open>
  The three calls of the loop that can fail for a message: sending it on, receiving the answer,
  and answering. A message that was sent on is handled by the presence service.
\<close>

datatype stream_failure = SendFails code string | RecvFails code string | AckFails code string

definition before_store :: "stream_failure option \<Rightarrow> (code \<times> string) option" where
  "before_store failure = (case failure of Some (SendFails c m) \<Rightarrow> Some (c, m) | _ \<Rightarrow> None)"

definition after_store :: "stream_failure option \<Rightarrow> (code \<times> string) option" where
  "after_store failure = (case failure of
       Some (RecvFails c m) \<Rightarrow> Some (c, m) | Some (AckFails c m) \<Rightarrow> Some (c, m) | _ \<Rightarrow> None)"

fun relay_locations ::
  "string \<Rightarrow> (StreamMyLocationRequest \<times> stream_failure option) list \<Rightarrow> (code \<times> string) option \<Rightarrow>
   ('k, StreamMyLocationResponse list \<times> unit reply) prog" where
  "relay_locations driverID [] recv_error = State_Monad.return ([], (case recv_error of
       None \<Rightarrow> Reply () | Some (c, m) \<Rightarrow> Status c m))"
| "relay_locations driverID ((req, failure) # rest) recv_error = (case before_store failure of
       Some (c, m) \<Rightarrow> State_Monad.return ([], Status c m)
     | None \<Rightarrow> do {
         presResp \<leftarrow> ack_location \<lparr>sl_DriverId = driverID, sl_SessionId = sm_SessionId req,
           sl_ReservationId = sm_ReservationId req, sl_Coordinate = sm_Coordinate req, sl_RecordedAt = sm_RecordedAt req\<rparr>;
         (case after_store failure of
            Some (c, m) \<Rightarrow> State_Monad.return ([], Status c m)
          | None \<Rightarrow> do {
              (acks, end) \<leftarrow> relay_locations driverID rest recv_error;
              State_Monad.return (\<lparr>sa_EventType = ''ack'', sa_InGeofence = slr_InGeofence presResp, sa_DistanceToSpot = 0\<rparr> # acks, end)
            })
       })"

definition StreamMyLocation ::
  "string option \<Rightarrow> (code \<times> string) option \<Rightarrow> (StreamMyLocationRequest \<times> stream_failure option) list \<Rightarrow>
   (code \<times> string) option \<Rightarrow> ('k, StreamMyLocationResponse list \<times> unit reply) prog" where
  "StreamMyLocation ctx open_error msgs recv_error = (case UserIDFromContext ctx of
       None \<Rightarrow> State_Monad.return ([], Status Unauthenticated ''missing user id'')
     | Some driverID \<Rightarrow> (case open_error of
         Some (c, m) \<Rightarrow> State_Monad.return ([], Status c m)
       | None \<Rightarrow> relay_locations driverID msgs recv_error))"

end
