(* ===== verification/System.thy ===== *)
theory System
  imports Gateway
begin

text \<open>
  What every request of the gateway does to the database, under any network: it moves
  reservations only along the abstract machine of \<open>ReservationLifecycle\<close> and keeps the
  invariants of the invoices, the transactions and the drivers. The locale \<open>step_relation\<close> is the
  interface between such a relation and the programs: what is shown of the statements holds of
  everything that is composed of them.
\<close>

section \<open>Programs that respect a relation\<close>

definition keeps :: "('k world \<Rightarrow> bool) \<Rightarrow> ('k world \<Rightarrow> 'k world \<Rightarrow> bool) \<Rightarrow> ('k, 'a) prog \<Rightarrow> bool" where
  "keeps P R m \<longleftrightarrow> (\<forall>w. P w \<longrightarrow> wp m (\<lambda>_. R w) w)"

locale step_relation =
  fixes P :: "'k world \<Rightarrow> bool" and R :: "'k world \<Rightarrow> 'k world \<Rightarrow> bool"
  assumes same: "db_same w w' \<Longrightarrow> R w w'"
    and trans: "R w w' \<Longrightarrow> R w' w'' \<Longrightarrow> R w w''"
    and kept: "P w \<Longrightarrow> R w w' \<Longrightarrow> P w'"
begin

lemma keepsD: "keeps P R m \<Longrightarrow> P w \<Longrightarrow> wp m (\<lambda>_. R w) w"
  by (simp add: keeps_def)

lemma keeps_run: "keeps P R m \<Longrightarrow> P w \<Longrightarrow> R w (snd (run_state m w))"
  by (simp add: keeps_def wp_fst_snd)

lemma keeps_quiet: "leaves_db m \<Longrightarrow> keeps P R m"
  unfolding keeps_def leaves_db_def by (blast intro: wp_mono same)

lemma keeps_bind: "keeps P R m \<Longrightarrow> (\<And>a. keeps P R (f a)) \<Longrightarrow> keeps P R (State_Monad.bind m f)"
  unfolding keeps_def wp_bind by (simp add: wp_fst_snd) (meson trans kept)

lemma keeps_return: "keeps P R (State_Monad.return x)"
  by (rule keeps_quiet) (rule leaves_db_return)

lemma keeps_if: "keeps P R m \<Longrightarrow> keeps P R n \<Longrightarrow> keeps P R (if b then m else n)"
  by simp

lemma keeps_case_sum:
  "(\<And>e. keeps P R (f e)) \<Longrightarrow> (\<And>a. keeps P R (g a)) \<Longrightarrow> keeps P R (case x of Inl e \<Rightarrow> f e | Inr a \<Rightarrow> g a)"
  by (simp split: sum.split)

lemma keeps_case_option:
  "keeps P R m \<Longrightarrow> (\<And>a. keeps P R (g a)) \<Longrightarrow> keeps P R (case x of None \<Rightarrow> m | Some a \<Rightarrow> g a)"
  by (simp split: option.split)

lemma keeps_case_prod: "(\<And>a b. keeps P R (f a b)) \<Longrightarrow> keeps P R (case x of (a, b) \<Rightarrow> f a b)"
  by (simp split: prod.split)

lemma keeps_case_reply:
  "(\<And>a. keeps P R (f a)) \<Longrightarrow> (\<And>c m. keeps P R (g c m)) \<Longrightarrow> keeps P R n \<Longrightarrow>
     keeps P R (case x of Reply a \<Rightarrow> f a | Status c m \<Rightarrow> g c m | Panic \<Rightarrow> n)"
  by (simp split: reply.split)

lemma keeps_or_return: "keeps P R m \<Longrightarrow> (\<And>a. keeps P R (f a)) \<Longrightarrow> keeps P R (or_return m wrap f)"
  unfolding or_return_def by (intro keeps_bind keeps_case_sum keeps_return)

lemma keeps_or_return_p: "keeps P R m \<Longrightarrow> (\<And>a. keeps P R (f a)) \<Longrightarrow> keeps P R (or_return_p m wrap f)"
  unfolding or_return_p_def by (intro keeps_bind keeps_case_option keeps_case_sum keeps_return)

lemma keeps_lift: "keeps P R m \<Longrightarrow> keeps P R (lift_io m)"
  unfolding lift_io_def by (intro keeps_bind keeps_return)

lemma keeps_or_status: "keeps P R m \<Longrightarrow> (\<And>a. keeps P R (f a)) \<Longrightarrow> keeps P R (or_status m st f)"
  unfolding or_status_def by (intro keeps_bind keeps_case_sum keeps_return)

lemma keeps_or_forward: "keeps P R m \<Longrightarrow> (\<And>a. keeps P R (f a)) \<Longrightarrow> keeps P R (or_forward m f)"
  unfolding or_forward_def by (intro keeps_bind keeps_case_reply keeps_return)

lemma keeps_remote:
  assumes "\<And>w. P w \<Longrightarrow> R w (snd (f w))"
  shows "keeps P R (remote f)"
proof -
  have "R w (arrive w) \<and> R w (snd (f (arrive w)))" if "P w" for w
    using same [OF db_same_arrive] kept [OF that] assms trans by blast
  then show ?thesis
    unfolding keeps_def wp_remote by (simp split: fate.split)
qed

lemma keeps_exec: "(\<And>w. P w \<Longrightarrow> R w (f w)) \<Longrightarrow> keeps P R (exec f)"
  unfolding exec_def by (rule keeps_remote) simp

lemma keeps_call:
  assumes "keeps P R m"
  shows "keeps P R (call m)"
proof -
  have arrived: "R w (arrive w)" "P (arrive w)" if "P w" for w
    using same [OF db_same_arrive] kept [OF that] by blast+
  then have run: "R w (snd (run_state m (arrive w)))" if "P w" for w
    using that keeps_run [OF assms] trans by blast
  have "R w w'" if "P w" "run_state m (arrive w) = (reply, w')" for w reply w'
    using run [OF that(1)] that(2) by simp
  with run arrived show ?thesis
    by (auto simp: keeps_def call_def wp_def split: fate.split prod.split)
qed

lemma keeps_write: "keeps P R (writeJSON st v)" "keeps P R (writeError st msg)"
  by (rule keeps_quiet, rule leaves_db_write)+

lemmas keeps_rules = keeps_return keeps_bind keeps_if keeps_case_sum keeps_case_option keeps_case_prod keeps_case_reply
  keeps_or_return keeps_or_return_p keeps_lift keeps_or_status keeps_or_forward keeps_call keeps_write

end

section \<open>The relation of the system\<close>

definition system_step :: "'k world \<Rightarrow> 'k world \<Rightarrow> bool" where
  "system_step w w' \<longleftrightarrow> table_steps (spot_ids w) (table_of w) (table_of w') \<and> w_spots w' = w_spots w
     \<and> w_ext w' = w_ext w \<and> (invoices_wf w \<longrightarrow> invoices_wf w') \<and> (transactions_wf w \<longrightarrow> transactions_wf w')
     \<and> (drivers_wf w \<longrightarrow> drivers_wf w')"

lemma evolves_system_step: "evolves w w' \<Longrightarrow> system_step w w'"
  by (simp add: evolves_def system_step_def invoices_wf_def transactions_wf_def drivers_wf_def)

lemma system_step_refl [simp]: "system_step w w"
  by (simp add: evolves_system_step)

lemma system_step_trans: "system_step w w' \<Longrightarrow> system_step w' w'' \<Longrightarrow> system_step w w''"
  by (auto simp: system_step_def spot_ids_def)

lemma system_step_keys_ok: "keys_ok w \<Longrightarrow> system_step w w' \<Longrightarrow> keys_ok w'"
  using table_steps_distinct [of "spot_ids w" "table_of w" "table_of w'"]
  by (auto simp: system_step_def keys_ok_def table_of_def)

lemma system_step_db_wf: "system_step w w' \<Longrightarrow> db_wf w \<Longrightarrow> db_wf w'"
  using table_steps_wf [of "spot_ids w" "table_of w" "table_of w'"]
  by (auto simp: system_step_def db_wf_def spot_ids_def)

interpretation system: step_relation keys_ok system_step
  by unfold_locales (auto intro: evolves_system_step db_same_evolves system_step_trans system_step_keys_ok)

text \<open>An update of another table.\<close>

lemma system_step_invoices: "(invoices_wf w \<Longrightarrow> invoices_wf (w\<lparr>w_invoices := rows\<rparr>)) \<Longrightarrow> system_step w (w\<lparr>w_invoices := rows\<rparr>)"
  and system_step_transactions:
    "(transactions_wf w \<Longrightarrow> transactions_wf (w\<lparr>w_transactions := ts\<rparr>)) \<Longrightarrow> system_step w (w\<lparr>w_transactions := ts\<rparr>)"
  and system_step_drivers: "(drivers_wf w \<Longrightarrow> drivers_wf (w\<lparr>w_drivers := ds\<rparr>)) \<Longrightarrow> system_step w (w\<lparr>w_drivers := ds\<rparr>)"
  by (auto simp: system_step_def table_of_def invoices_wf_def transactions_wf_def drivers_wf_def)

section \<open>The services\<close>

lemma evolves_keeps: "(\<And>w. keys_ok w \<Longrightarrow> wp m (\<lambda>_. evolves w) w) \<Longrightarrow> keeps keys_ok system_step m"
  unfolding keeps_def by (blast intro: wp_mono evolves_system_step)

lemma reservations_keep:
  "keeps keys_ok system_step (CreateReservation did key vt mode sid)" "keeps keys_ok system_step (ConfirmReservation p rid)"
  "keeps keys_ok system_step (CancelReservation p rid did)" "keeps keys_ok system_step (CheckIn p rid did)"
  "keeps keys_ok system_step (CheckOut p rid did key)" "keeps keys_ok system_step (ExpireReservations p)"
  by (rule evolves_keeps, simp add: CreateReservation_evolves ConfirmReservation_evolves CancelReservation_evolves
      CheckIn_evolves CheckOut_evolves ExpireReservations_evolves)+

lemma insert_invoice_keeps:
  assumes "\<And>now. invoice_ok (mk now)"
  shows "keeps keys_ok system_step (insert_invoice_row mk)"
  unfolding insert_invoice_row_def
proof (rule system.keeps_remote, goal_cases)
  case (1 w)
  have "system_step w (w\<lparr>w_invoices := w_invoices w @ [mk (w_clock w)]\<rparr>)"
    if "ir_id (mk (w_clock w)) \<notin> ir_id ` set (w_invoices w)"
      "ir_idempotency_key (mk (w_clock w)) \<notin> ir_idempotency_key ` set (w_invoices w)"
    by (rule system_step_invoices) (use that assms in \<open>auto simp: invoices_wf_def\<close>)
  then show ?case by (simp add: Let_def)
qed

lemma GenerateInvoice_keeps: "keeps keys_ok system_step (GenerateInvoice s r d key cin out)"
  unfolding GenerateInvoice_def InsertInvoice_def Let_def case_prod_beta
  by (intro system.keeps_rules insert_invoice_keeps parking_invoice_ok system.keeps_quiet quiet_intros)

lemma InsertTransaction_keeps:
  assumes "\<And>now. transaction_ok (transaction_row_of tx now)"
  shows "keeps keys_ok system_step (InsertTransaction tx)"
  unfolding InsertTransaction_def
proof (rule system.keeps_remote, goal_cases)
  case (1 w)
  let ?row = "transaction_row_of tx (w_clock w)"
  have "system_step w (w\<lparr>w_transactions := w_transactions w @ [?row]\<rparr>)"
    if "tr_id ?row \<notin> tr_id ` set (w_transactions w)" "tr_gateway_tx_id ?row \<notin> tr_gateway_tx_id ` set (w_transactions w)"
      "tr_idempotency_key ?row \<notin> tr_idempotency_key ` set (w_transactions w)"
    by (rule system_step_transactions) (use that assms in \<open>auto simp: transactions_wf_def\<close>)
  then show ?case by (simp add: Let_def)
qed

lemma CreateTransaction_keeps: "keeps keys_ok system_step (CreateTransaction g i d k m a c)"
  unfolding CreateTransaction_def Let_def case_prod_beta
  by (intro system.keeps_rules InsertTransaction_keeps new_transaction_ok system.keeps_quiet quiet_intros)

section \<open>Confirming a paid booking\<close>

text \<open>A status update that names a row of the table by its identifier, at a time of the past.\<close>

lemma distinct_update_where_if:
  assumes "distinct (map key rows)" "i < length rows" "key (rows ! i) = k" "P (rows ! i)"
  shows "update_where (\<lambda>r. key r = k \<and> P r) f rows = rows[i := f (rows ! i)]"
proof -
  have "update_where (\<lambda>r. key r = k \<and> P r) f rows = update_where (\<lambda>r. key r = key (rows ! i)) f rows"
    using assms by (auto simp: update_where_def) (metis distinct_map_find option.inject nth_mem)
  also have "\<dots> = rows[i := f (rows ! i)]" by (rule distinct_update_where [OF assms(1,2)])
  finally show ?thesis .
qed

lemma update_some_step:
  assumes "keys_ok w" "w_reservations w1 = w_reservations w" "w_clock w \<le> now" "now \<le> w_clock w1"
    and "\<And>row. row \<in> set (w_reservations w) \<Longrightarrow> rr_id row = rid \<Longrightarrow> P row \<Longrightarrow> row_step now row (f row)"
  shows "table_steps (spot_ids w) (table_of w)
    (table_of (w1\<lparr>w_reservations := update_where (\<lambda>r. rr_id r = rid \<and> P r) f (w_reservations w1)\<rparr>))"
proof -
  let ?rows = "w_reservations w" and ?spots = "spot_ids w"
  have ticks: "table_step ?spots (w_clock w, rows) (now, rows)" "table_step ?spots (now, rows) (w_clock w1, rows)" for rows
    using assms(3,4) by (auto intro: table_step.tick)
  show ?thesis
  proof (cases "\<exists>row \<in> set ?rows. rr_id row = rid \<and> P row")
    case True
    then obtain i where i: "i < length ?rows" "rr_id (?rows ! i) = rid" "P (?rows ! i)"
      by (metis in_set_conv_nth)
    have "update_where (\<lambda>r. rr_id r = rid \<and> P r) f ?rows = ?rows[i := f (?rows ! i)]"
      using assms(1) i by (intro distinct_update_where_if) (auto simp: keys_ok_def)
    moreover have "table_step ?spots (now, ?rows) (now, ?rows[i := f (?rows ! i)])"
      using i assms(5) by (intro table_step.change) auto
    ultimately show ?thesis
      using ticks [of ?rows] ticks [of "?rows[i := f (?rows ! i)]"] assms(2)
      by (auto simp: table_of_def intro: rtranclp.rtrancl_into_rtrancl)
  next
    case False
    then have "update_where (\<lambda>r. rr_id r = rid \<and> P r) f ?rows = ?rows" by (auto intro: update_where_none)
    then show ?thesis
      using ticks [of ?rows] assms(2) by (auto simp: table_of_def intro: rtranclp.rtrancl_into_rtrancl)
  qed
qed

text \<open>Between reading the clock and the update the reservations are what they were.\<close>

definition clock_read :: "time \<Rightarrow> 'k world \<Rightarrow> 'k world \<Rightarrow> bool" where
  "clock_read now w w1 \<longleftrightarrow> system_step w w1 \<and> w_reservations w1 = w_reservations w \<and> w_clock w \<le> now \<and> now \<le> w_clock w1"

lemma clock_read_same: "clock_read now w w1 \<Longrightarrow> db_same w1 w2 \<Longrightarrow> clock_read now w w2"
  using system_step_trans [OF _ system.same [of w1 w2], of w]
  by (auto simp: clock_read_def) (auto simp: db_same_def)

lemma pay_booking_invoice_ok:
  assumes "invoices_wf w"
  shows "invoices_wf (w\<lparr>w_invoices := update_where P
    (\<lambda>r. r\<lparr>ir_status := InvoiceStatusPaid, ir_paid_at := Some t\<rparr>) (w_invoices w)\<rparr>)"
  using assms by (auto simp: invoices_wf_def set_update_where) (auto simp: invoice_ok_def split: InvoiceType.splits)

lemma pay_booking_invoice_clock:
  assumes "clock_read now w w1"
  shows "wp (pay_booking_invoice t rid) (\<lambda>_. clock_read now w) w1"
proof -
  have arrived: "clock_read now w (arrive w1)" by (rule clock_read_same [OF assms]) simp
  have "clock_read now w (w2\<lparr>w_invoices := update_where Q
      (\<lambda>r. r\<lparr>ir_status := InvoiceStatusPaid, ir_paid_at := Some (pg_timestamp t)\<rparr>) (w_invoices w2)\<rparr>)"
    if "clock_read now w w2" for Q w2
    using that system_step_trans [OF _ system_step_invoices [OF pay_booking_invoice_ok]]
    by (auto simp: clock_read_def)
  from this [of "arrive w1"] arrived show ?thesis
    by (simp add: pay_booking_invoice_def wp_exec split: fate.split)
qed

lemma confirm_pending_clock:
  assumes "clock_read now w w1" "keys_ok w"
  shows "wp (confirm_pending now (Add now (1 * Hour)) rid) (\<lambda>_. system_step w) w1"
proof -
  have arrived: "clock_read now w (arrive w1)" by (rule clock_read_same [OF assms(1)]) simp
  have "system_step w (w2\<lparr>w_reservations := update_where (\<lambda>r. rr_id r = rid \<and> rr_status r = StatusPending)
      (\<lambda>r. r\<lparr>rr_status := StatusConfirmed, rr_confirmed_at := pg_timestamp now,
        rr_expires_at := pg_timestamp (Add now (1 * Hour))\<rparr>) (w_reservations w2)\<rparr>)"
    if "clock_read now w w2" for w2
    using that update_some_step [OF assms(2), of w2 now rid "\<lambda>r. rr_status r = StatusPending"]
      row_step.confirm [of _ now]
    by (auto simp: clock_read_def system_step_def HoldDuration_def invoices_wf_def transactions_wf_def drivers_wf_def)
  then show ?thesis
    using arrived by (auto simp: confirm_pending_def wp_exec clock_read_def split: fate.split)
qed

lemma confirm_booking_keeps:
  assumes "\<And>now res. keeps keys_ok system_step (rest now res)"
  shows "keeps keys_ok system_step (do {
    now \<leftarrow> time_Now; _ \<leftarrow> pay_booking_invoice now rid;
    res \<leftarrow> confirm_pending now (Add now (1 * Hour)) rid; rest now res })"
  unfolding keeps_def
proof (intro allI impI)
  fix w :: "'a world" assume w: "keys_ok w"
  let ?now = "w_clock (pass w)"
  have "clock_read ?now w (pass w)"
    using pass_clock [of w] by (simp add: clock_read_def system.same)
  then show "wp (do { now \<leftarrow> time_Now; _ \<leftarrow> pay_booking_invoice now rid;
      res \<leftarrow> confirm_pending now (Add now (1 * Hour)) rid; rest now res }) (\<lambda>_. system_step w) w"
    unfolding wp_bind wp_time_Now
  proof (rule wp_mono [OF pay_booking_invoice_clock])
    fix w2 assume "clock_read ?now w w2"
    then show "wp (confirm_pending ?now (Add ?now (1 * Hour)) rid) (\<lambda>res. wp (rest ?now res) (\<lambda>_. system_step w)) w2"
    proof (rule wp_mono [OF confirm_pending_clock [OF _ w]])
      fix res w3 assume step: "system_step w w3"
      show "wp (rest ?now res) (\<lambda>_. system_step w) w3"
        by (rule wp_mono [OF system.keepsD [OF assms system_step_keys_ok [OF w step]]])
          (rule system_step_trans [OF step])
    qed
  qed
qed

section \<open>The history\<close>

text \<open>
  The loop marks what it read as pending and lapsed. It relies on a pending row still having the
  expiry that was read, which the updates of the loop keep.
\<close>

definition as_read :: "(reservation_row \<times> spot_row) list \<Rightarrow> 'k world \<Rightarrow> bool" where
  "as_read rows w \<longleftrightarrow> (\<forall>(r, s) \<in> set rows. \<forall>row \<in> set (w_reservations w).
     rr_id row = rr_id r \<and> rr_status row = StatusPending \<longrightarrow> rr_expires_at row = rr_expires_at r)"

lemma as_read_same: "as_read rows w \<Longrightarrow> db_same w w' \<Longrightarrow> as_read rows w'"
  by (simp add: as_read_def db_same_def)

lemma as_read_expire:
  assumes "as_read rows w"
  shows "as_read rows (w\<lparr>w_reservations := update_where Q (\<lambda>r. r\<lparr>rr_status := StatusExpired\<rparr>) (w_reservations w)\<rparr>)"
  using assms by (fastforce simp: as_read_def set_update_where)

lemma expire_pending_step:
  assumes "keys_ok w" "as_read ((r, s) # rows) w" "rr_expires_at r < now" "now \<le> w_clock w"
  shows "wp (expire_pending (rr_id r)) (\<lambda>_ w'. system_step w w' \<and> as_read rows w' \<and> now \<le> w_clock w') w"
proof -
  let ?upd = "\<lambda>w. w\<lparr>w_reservations := update_where (\<lambda>x. rr_id x = rr_id r \<and> rr_status x = StatusPending)
    (\<lambda>x. x\<lparr>rr_status := StatusExpired\<rparr>) (w_reservations w)\<rparr>"
  have rest: "as_read rows w" using assms(2) by (simp add: as_read_def)
  have arrived: "system_step w (arrive w)" "as_read rows (arrive w)" "now \<le> w_clock (arrive w)"
    using as_read_same [OF rest db_same_arrive] assms(4) arrive_clock [of w] by (simp_all add: system.same)
  have "row_step (w_clock (arrive w)) row (row\<lparr>rr_status := StatusExpired\<rparr>)"
    if "row \<in> set (w_reservations w)" "rr_id row = rr_id r" "rr_status row = StatusPending" for row
    using that assms(2,3) arrived(3) by (intro row_step.expire) (auto simp: as_read_def)
  then have "system_step w (?upd (arrive w))"
    using update_some_step [OF assms(1), of "arrive w" "w_clock (arrive w)" "rr_id r" "\<lambda>x. rr_status x = StatusPending"
        "\<lambda>x. x\<lparr>rr_status := StatusExpired\<rparr>"] arrive_clock [of w]
    by (auto simp: system_step_def invoices_wf_def transactions_wf_def drivers_wf_def)
  with arrived as_read_expire [OF arrived(2)] show ?thesis
    by (auto simp: expire_pending_def wp_exec split: fate.split)
qed

lemma history_loop_step:
  assumes "keys_ok w" "as_read rows w" "now \<le> w_clock w"
  shows "wp (history_loop now rows) (\<lambda>_. system_step w) w"
  using assms
proof (induction rows arbitrary: w)
  case Nil
  then show ?case by (simp add: wp_return)
next
  case (Cons x rows)
  obtain r s where x: "x = (r, s)" by (cases x)
  have rest: "wp (State_Monad.bind (history_loop now rows) (\<lambda>h. State_Monad.return (f h))) (\<lambda>_. system_step w) w2"
    if "system_step w w2" "as_read rows w2" "now \<le> w_clock w2" for w2 f
    using Cons.IH [OF system_step_keys_ok [OF Cons.prems(1) that(1)] that(2,3)] system_step_trans [OF that(1)]
    by (auto simp: wp_bind wp_return elim!: wp_mono)
  show ?case
  proof (cases "rr_status r = StatusPending \<and> After now (rr_expires_at r)")
    case True
    then have "rr_expires_at r < now" by (simp add: After_def)
    with True Cons.prems show ?thesis
      using expire_pending_step [OF Cons.prems(1), of r s rows now]
      by (simp add: x wp_bind [of "expire_pending _"]) (auto elim!: wp_mono intro: rest)
  next
    case False
    then show ?thesis
      unfolding x history_loop.simps if_not_P [OF False]
      by (intro rest) (use Cons.prems in \<open>auto simp: as_read_def\<close>)
  qed
qed

lemma driver_history_rows: "(r, s) \<in> set (driver_history driverID w) \<Longrightarrow> r \<in> set (w_reservations w)"
  unfolding driver_history_def by (drule in_set_takeD) (auto split: if_splits)

lemma driver_history_read:
  assumes "keys_ok w"
  shows "as_read (driver_history driverID w) w"
proof -
  have "row = r" if "r \<in> set (w_reservations w)" "row \<in> set (w_reservations w)" "rr_id row = rr_id r" for r row
    using that assms reservations.find_present [of w r] reservations.find_present [of w row] by simp
  then show ?thesis
    unfolding as_read_def by (auto dest!: driver_history_rows)
qed

lemma ReservationHistory_keeps: "keeps keys_ok system_step (ReservationHistory r)"
proof -
  have "wp (query (\<lambda>w. Inr (driver_history uid w))) (\<lambda>res w'. wp (case res of
      Inl _ \<Rightarrow> writeError StatusInternalServerError ''failed to query history''
    | Inr rows \<Rightarrow> do { now \<leftarrow> time_Now; history \<leftarrow> history_loop now rows; writeJSON StatusOK history })
      (\<lambda>_. system_step w) w') w" if "keys_ok w" for uid and w :: "'a world"
  proof (rule wp_mono [OF query_db_same], elim conjE)
    fix res w1 assume w1: "db_same w w1" and res: "\<forall>rows. res = Inr rows \<longrightarrow> Inr (driver_history uid w1) = (Inr rows :: goerr + _)"
    have k: "system_step w w1" "keys_ok w1" by (use w1 that system.same system.kept in blast)+
    show "wp (case res of
        Inl _ \<Rightarrow> writeError StatusInternalServerError ''failed to query history''
      | Inr rows \<Rightarrow> do { now \<leftarrow> time_Now; history \<leftarrow> history_loop now rows; writeJSON StatusOK history })
      (\<lambda>_. system_step w) w1"
    proof (cases res)
      case (Inr rows)
      have s: "system_step w (pass w1)" "keys_ok (pass w1)" "as_read rows (pass w1)"
        using k system_step_trans [OF k(1) system.same [OF db_same_pass]] Inr res
          as_read_same [OF driver_history_read [OF k(2)] db_same_pass]
        by (auto intro: system.kept [OF _ system.same [OF db_same_pass]])
      have "wp (history_loop (w_clock (pass w1)) rows) (\<lambda>_. system_step w) (pass w1)"
        by (rule wp_mono [OF history_loop_step [OF s(2,3) order_refl]]) (rule system_step_trans [OF s(1)])
      then show ?thesis using Inr by (auto simp: wp_bind wp_time_Now wp_write elim!: wp_mono)
    qed (use k in \<open>simp add: wp_write\<close>)
  qed
  then show ?thesis
    unfolding ReservationHistory_def
    by (intro system.keeps_case_option system.keeps_write) (simp add: keeps_def wp_bind)
qed

section \<open>The other handlers\<close>

lemma leaves_db_extend_lock [quiet_intros]: "leaves_db (extend_lock rid)"
  unfolding extend_lock_def Let_def by (intro quiet_intros)

lemma ConfirmBookingPayment_keeps: "keeps keys_ok system_step (ConfirmBookingPayment r)"
  unfolding ConfirmBookingPayment_def Let_def
  by (intro system.keeps_case_option system.keeps_case_prod system.keeps_if system.keeps_write
      system.keeps_bind [where m = "query _"] confirm_booking_keeps system.keeps_case_sum
      system.keeps_bind [where m = "extend_lock _"] system.keeps_quiet [OF leaves_db_query]
      system.keeps_quiet [OF leaves_db_extend_lock])

lemma leaves_db_GetPendingPayment: "leaves_db (GetPendingPayment r)"
  unfolding GetPendingPayment_def Let_def case_prod_beta by (intro quiet_intros)

lemma leaves_db_ListAvailableSpots_http: "leaves_db (ListAvailableSpots_http r)"
  unfolding ListAvailableSpots_http_def Let_def by (intro quiet_intros)

lemma settle_transaction_keeps: "keeps keys_ok system_step (settle_transaction now txID)"
  unfolding settle_transaction_def
  by (intro system.keeps_exec system_step_transactions) (auto simp: transactions_wf_def set_update_where transaction_ok_def)

lemma settle_invoice_keeps: "keeps keys_ok system_step (settle_invoice g now iid)"
  unfolding settle_invoice_def
proof (intro system.keeps_rules system.keeps_exec system_step_invoices)
  fix w :: "'a world" assume "invoices_wf w"
  then show "invoices_wf (w\<lparr>w_invoices := update_where (\<lambda>r. ir_id r = iid)
      (\<lambda>r. r\<lparr>ir_status := InvoiceStatusPaid, ir_gateway_tx_id := Some g, ir_payment_method := Some ''QRIS'',
         ir_paid_at := Some (pg_timestamp now)\<rparr>) (w_invoices w)\<rparr>)"
    by (auto simp: invoices_wf_def set_update_where) (auto simp: invoice_ok_def split: InvoiceType.splits)
qed

lemma leaves_db_sha512Sum [quiet_intros]: "leaves_db (sha512Sum s)"
  unfolding sha512Sum_def by (intro quiet_intros)

lemma SimulateSettle_keeps: "keeps keys_ok system_step (SimulateSettle serverKey r)"
  unfolding SimulateSettle_def Let_def
  by (intro system.keeps_rules settle_transaction_keeps settle_invoice_keeps
      system.keeps_quiet [OF leaves_db_query] system.keeps_quiet [OF leaves_db_sha512Sum]
      system.keeps_quiet [OF leaves_db_time_Now])

lemma insert_driver_keeps:
  assumes "name \<noteq> ''''" "email \<noteq> ''''" "phone \<noteq> ''''"
  shows "keeps keys_ok system_step (insert_driver name email phone hash vt)"
  unfolding insert_driver_def
proof (rule system.keeps_remote, goal_cases)
  case (1 w)
  have "system_step w (w\<lparr>w_uuids := n, w_drivers := w_drivers w @ [d]\<rparr>)"
    if "dr_id d \<notin> dr_id ` set (w_drivers w)" "dr_email d \<notin> dr_email ` set (w_drivers w)" "driver_ok d" for d n
    using that by (auto simp: system_step_def table_of_def invoices_wf_def transactions_wf_def drivers_wf_def)
  moreover have "system_step w (w\<lparr>w_uuids := n\<rparr>)" for n
    by (rule system.same) simp
  ultimately show ?case
    using assms by (auto simp: Let_def driver_ok_def split: option.split)
qed

lemma Register_keeps: "keeps keys_ok system_step (Register secret expiryH r)"
  unfolding Register_def Let_def
proof (cases "decode_register (hq_Body r)", goal_cases)
  case (2 req)
  then show ?case
    unfolding 2 option.case
    by (cases "rq_Name req = '''' \<or> rq_Email req = '''' \<or> rq_Password req = '''' \<or> rq_Phone req = ''''")
      (simp_all only: if_True if_False, intro system.keeps_write,
       intro system.keeps_rules insert_driver_keeps system.keeps_quiet [OF leaves_db_bcrypt_Generate]
         system.keeps_quiet [OF leaves_db_GenerateToken], auto)
qed (simp add: system.keeps_write)

lemma SaveLocation_keeps: "keeps keys_ok system_step (SaveLocation u)"
  unfolding SaveLocation_def
  by (rule system.keeps_exec) (simp add: system_step_def table_of_def invoices_wf_def transactions_wf_def drivers_wf_def)

lemma relay_locations_keeps: "keeps keys_ok system_step (relay_locations d msgs e)"
proof (induction d msgs e rule: relay_locations.induct)
  case (1 d e)
  show ?case by (simp add: system.keeps_return)
next
  case (2 d req failure rest e)
  then show ?case
    unfolding relay_locations.simps ack_location_def case_prod_beta
    by (cases "before_store failure"; cases "after_store failure")
      (auto intro!: system.keeps_rules SaveLocation_keeps system.keeps_quiet [OF leaves_db_time_Now] simp: case_prod_beta)
qed

section \<open>Any request of the gateway\<close>

text \<open>
  The requests: a method of the gateway's service with the context of the request, or one of the
  HTTP handlers. \<open>serve\<close> is the world after one of them.
\<close>

datatype gateway_request =
    AvailabilityRequest int
  | BookRequest "string option" BookingRequest
  | MyReservationRequest "string option"
  | CancelRequest "string option" string
  | CheckInRequest "string option" string string
  | CheckOutRequest "string option" string string
  | InvoiceRequest string
  | PreviewRequest string
  | PayRequest "string option" string int string
  | PaymentStatusRequest string
  | StreamRequest "string option" "(code \<times> string) option"
      "(StreamMyLocationRequest \<times> stream_failure option) list" "(code \<times> string) option"
  | RegisterHttp http_request
  | LoginHttp http_request
  | ConfirmHttp http_request
  | PendingHttp http_request
  | HistoryHttp http_request
  | SpotsHttp http_request
  | SettleHttp http_request

record gateway_config =
  gc_Publisher :: EventPublisher
  gc_Gateway :: PaymentGateway
  gc_Secret :: string
  gc_ExpiryHours :: int
  gc_ServerKey :: string

fun serve :: "gateway_config \<Rightarrow> gateway_request \<Rightarrow> 'k world \<Rightarrow> 'k world" where
  "serve c (AvailabilityRequest vt) w = snd (run_state (gw_GetParkingAvailability vt) w)"
| "serve c (BookRequest ctx req) w = snd (run_state (gw_CreateReservation (gc_Publisher c) (gc_Gateway c) ctx req) w)"
| "serve c (MyReservationRequest ctx) w = snd (run_state (gw_GetMyReservation ctx) w)"
| "serve c (CancelRequest ctx rid) w = snd (run_state (gw_CancelReservation (gc_Publisher c) ctx rid) w)"
| "serve c (CheckInRequest ctx rid spot) w = snd (run_state (gw_CheckIn (gc_Publisher c) ctx rid spot) w)"
| "serve c (CheckOutRequest ctx rid key) w = snd (run_state (gw_CheckOut (gc_Publisher c) ctx rid key) w)"
| "serve c (InvoiceRequest iid) w = snd (run_state (gw_GetInvoice iid) w)"
| "serve c (PreviewRequest sid) w = snd (run_state (gw_PreviewBilling sid) w)"
| "serve c (PayRequest ctx iid m key) w = snd (run_state (gw_CreatePayment (gc_Gateway c) ctx iid m key) w)"
| "serve c (PaymentStatusRequest tid) w = snd (run_state (gw_GetPaymentStatus tid) w)"
| "serve c (StreamRequest ctx oe msgs e) w = snd (run_state (StreamMyLocation ctx oe msgs e) w)"
| "serve c (RegisterHttp r) w = snd (run_state (Register (gc_Secret c) (gc_ExpiryHours c) r) w)"
| "serve c (LoginHttp r) w = snd (run_state (Login (gc_Secret c) (gc_ExpiryHours c) r) w)"
| "serve c (ConfirmHttp r) w = snd (run_state (ConfirmBookingPayment r) w)"
| "serve c (PendingHttp r) w = snd (run_state (GetPendingPayment r) w)"
| "serve c (HistoryHttp r) w = snd (run_state (ReservationHistory r) w)"
| "serve c (SpotsHttp r) w = snd (run_state (ListAvailableSpots_http r) w)"
| "serve c (SettleHttp r) w = snd (run_state (SimulateSettle (gc_ServerKey c) r) w)"

lemma leaves_db_rpc_reads [quiet_intros]:
  "leaves_db (rpc_GetReservation rid)" "leaves_db (rpc_GetActiveReservation did)" "leaves_db (rpc_GetAvailability vt)"
  "leaves_db (rpc_GetInvoice iid)" "leaves_db (rpc_GetInvoiceBySession sid)" "leaves_db (rpc_GetTransactionStatus tid)"
  unfolding rpc_GetReservation_def rpc_GetActiveReservation_def rpc_GetAvailability_def rpc_GetInvoice_def
    rpc_GetInvoiceBySession_def rpc_GetTransactionStatus_def GetTransactionStatus_def case_prod_beta
  by (intro quiet_intros)+

lemmas reads_keep = leaves_db_rpc_reads [THEN system.keeps_quiet]

lemma rpc_reservations_keep:
  "keeps keys_ok system_step (rpc_CreateReservation creq)" "keeps keys_ok system_step (rpc_CancelReservation p rid did)"
  "keeps keys_ok system_step (rpc_CheckIn p rid did)" "keeps keys_ok system_step (rpc_CheckOut p rid did key)"
  unfolding rpc_CreateReservation_def rpc_CancelReservation_def rpc_CheckIn_def rpc_CheckOut_def case_prod_beta
  by (intro system.keeps_rules reservations_keep)+

lemma rpc_money_keep:
  "keeps keys_ok system_step (rpc_GenerateInvoice ireq)" "keeps keys_ok system_step (rpc_CreateTransaction g treq)"
  unfolding rpc_GenerateInvoice_def rpc_CreateTransaction_def Let_def
  by (intro system.keeps_rules GenerateInvoice_keeps CreateTransaction_keeps)+

lemma CreateBookingFeeInvoice_keeps: "keeps keys_ok system_step (CreateBookingFeeInvoice rid did key)"
  unfolding CreateBookingFeeInvoice_def ok_def
  by (intro system.keeps_rules insert_invoice_keeps system.keeps_quiet [OF leaves_db_query]
      system.keeps_quiet [OF leaves_db_uuid_New]) (simp add: invoice_ok_def BookingFee_def)

lemma give_back_keeps: "keeps keys_ok system_step (give_back p rid did msg)"
  unfolding give_back_def by (intro system.keeps_rules rpc_reservations_keep)

lemma missing_user_keeps: "keeps keys_ok system_step missing_user"
  unfolding missing_user_def by (rule system.keeps_return)

lemma gateway_methods_keep:
  "keeps keys_ok system_step (gw_GetParkingAvailability vt)" "keeps keys_ok system_step (gw_CreateReservation p g ctx req)"
  "keeps keys_ok system_step (gw_GetMyReservation ctx)" "keeps keys_ok system_step (gw_CancelReservation p ctx rid)"
  "keeps keys_ok system_step (gw_CheckIn p ctx rid spot)" "keeps keys_ok system_step (gw_CheckOut p ctx rid key)"
  "keeps keys_ok system_step (gw_GetInvoice iid)" "keeps keys_ok system_step (gw_PreviewBilling sid)"
  "keeps keys_ok system_step (gw_CreatePayment g ctx iid m key)" "keeps keys_ok system_step (gw_GetPaymentStatus tid)"
  "keeps keys_ok system_step (StreamMyLocation ctx oe msgs e)"
  unfolding gw_GetParkingAvailability_def gw_CreateReservation_def gw_GetMyReservation_def gw_CancelReservation_def
    gw_CheckIn_def same_spot_def gw_CheckOut_def gw_GetInvoice_def gw_PreviewBilling_def gw_CreatePayment_def
    gw_GetPaymentStatus_def StreamMyLocation_def Let_def case_prod_beta
  by (intro system.keeps_rules reads_keep rpc_reservations_keep rpc_money_keep CreateBookingFeeInvoice_keeps
      give_back_keeps missing_user_keeps relay_locations_keeps)+

lemmas handlers_keep = Register_keeps system.keeps_quiet [OF leaves_db_Login] ConfirmBookingPayment_keeps
  system.keeps_quiet [OF leaves_db_GetPendingPayment] ReservationHistory_keeps
  system.keeps_quiet [OF leaves_db_ListAvailableSpots_http] SimulateSettle_keeps

lemma serve_system_step: "keys_ok w \<Longrightarrow> system_step w (serve c req w)"
  by (cases req) (auto intro!: system.keeps_run gateway_methods_keep handlers_keep)

definition serve_all :: "gateway_config \<Rightarrow> gateway_request list \<Rightarrow> 'k world \<Rightarrow> 'k world" where
  "serve_all c reqs w = fold (serve c) reqs w"

lemma serve_all_system_step: "keys_ok w \<Longrightarrow> system_step w (serve_all c reqs w)"
proof (induction reqs arbitrary: w)
  case (Cons req reqs)
  then have "system_step w (serve c req w)" "keys_ok (serve c req w)"
    using serve_system_step system_step_keys_ok by blast+
  with Cons.IH [of "serve c req w"] show ?case
    using system_step_trans by (simp add: serve_all_def) blast
qed (simp add: serve_all_def)

end
