(* ===== verification/RateLimit.thy ===== *)
theory RateLimit
  imports Http
begin

text \<open>
  The rate limiter of the gateway, \<open>services/gateway/internal/handler/ratelimit.go\<close>: a map from
  client keys to the times of their admitted requests, read and rewritten under one mutex, so
  that an operation is one step. Every minute \<open>cleanup\<close> forgets what has left the window. The
  limiter implements a sliding window over the log of the admitted requests.
\<close>

section \<open>The limiter\<close>

record rateLimiter =
  rl_requests :: "string \<Rightarrow> time list option"
  rl_limit :: int
  rl_window :: duration

definition NewRateLimiter :: "int \<Rightarrow> duration \<Rightarrow> rateLimiter" where
  "NewRateLimiter limit window = \<lparr>rl_requests = (\<lambda>_. None), rl_limit = limit, rl_window = window\<rparr>"

text \<open>Reading a key that is not in the map gives the nil slice.\<close>

definition reqs_of :: "rateLimiter \<Rightarrow> string \<Rightarrow> time list" where
  "reqs_of rl key = (case rl_requests rl key of None \<Rightarrow> [] | Some ts \<Rightarrow> ts)"

definition allow_at :: "time \<Rightarrow> string \<Rightarrow> rateLimiter \<Rightarrow> bool \<times> rateLimiter" where
  "allow_at now key rl =
     (let cutoff = Add now (- rl_window rl);
          valid = filter (\<lambda>t. After t cutoff) (reqs_of rl key)
      in if int (length valid) \<ge> rl_limit rl
         then (False, rl\<lparr>rl_requests := (rl_requests rl)(key \<mapsto> valid)\<rparr>)
         else (True, rl\<lparr>rl_requests := (rl_requests rl)(key \<mapsto> valid @ [now])\<rparr>))"

definition Allow :: "string \<Rightarrow> rateLimiter \<Rightarrow> ('k, bool \<times> rateLimiter) prog" where
  "Allow key rl = do { now \<leftarrow> time_Now; State_Monad.return (allow_at now key rl) }"

text \<open>One tick of \<open>cleanup\<close>.\<close>

definition cleanup_at :: "time \<Rightarrow> rateLimiter \<Rightarrow> rateLimiter" where
  "cleanup_at now rl =
     (let cutoff = Add now (- rl_window rl) in
      rl\<lparr>rl_requests := (\<lambda>key. case rl_requests rl key of
           None \<Rightarrow> None
         | Some reqs \<Rightarrow> (let valid = filter (\<lambda>t. After t cutoff) reqs in if valid = [] then None else Some valid))\<rparr>)"

definition client_key :: "http_request \<Rightarrow> string" where
  "client_key r = (if hq_Header r ''X-Forwarded-For'' \<noteq> '''' then hq_Header r ''X-Forwarded-For'' else hq_RemoteAddr r)"

definition Middleware ::
  "rateLimiter \<Rightarrow> ('k, 'a) http_handler \<Rightarrow> http_request \<Rightarrow> ('k, 'a http_reply \<times> rateLimiter) prog" where
  "Middleware rl next r = do {
     (allowed, rl') \<leftarrow> Allow (client_key r) rl;
     (if \<not> allowed
      then State_Monad.return (ErrorBody StatusTooManyRequests ''rate limit exceeded, try again later'', rl')
      else do { reply \<leftarrow> next r; State_Monad.return (reply, rl') })
   }"

section \<open>The window it promises\<close>

text \<open>
  The abstract limiter is the log of the admitted requests with their times, the newest last. A
  request is admitted when fewer than \<open>limit\<close> of its key's are younger than the window.
\<close>

datatype limiter_event = Request string time | Sweep time

primrec event_time :: "limiter_event \<Rightarrow> time" where
  "event_time (Request key t) = t"
| "event_time (Sweep t) = t"

type_synonym admissions = "(string \<times> time) list"

definition since :: "admissions \<Rightarrow> string \<Rightarrow> time \<Rightarrow> time list" where
  "since adm key cutoff = map snd (filter (\<lambda>(k, t). k = key \<and> cutoff < t) adm)"

fun window_spec :: "int \<Rightarrow> duration \<Rightarrow> limiter_event list \<Rightarrow> admissions \<Rightarrow> bool list \<times> admissions" where
  "window_spec limit window [] adm = ([], adm)"
| "window_spec limit window (Sweep now # evs) adm = window_spec limit window evs adm"
| "window_spec limit window (Request key now # evs) adm =
     (let admitted = int (length (since adm key (now - window))) < limit;
          (bs, adm') = window_spec limit window evs (if admitted then adm @ [(key, now)] else adm)
      in (admitted # bs, adm'))"

text \<open>The code on the same events: the answers, and the limiter afterwards.\<close>

fun run_limiter :: "limiter_event list \<Rightarrow> rateLimiter \<Rightarrow> bool list \<times> rateLimiter" where
  "run_limiter [] rl = ([], rl)"
| "run_limiter (Sweep now # evs) rl = run_limiter evs (cleanup_at now rl)"
| "run_limiter (Request key now # evs) rl =
     (let (b, rl1) = allow_at now key rl; (bs, rl2) = run_limiter evs rl1 in (b # bs, rl2))"

text \<open>
  The simulation relation at time \<open>T\<close>: for every cutoff the code can still use, the limiter
  holds the same times as the log.
\<close>

definition tracks :: "time \<Rightarrow> rateLimiter \<Rightarrow> admissions \<Rightarrow> bool" where
  "tracks T rl adm \<longleftrightarrow> (\<forall>key c. T - rl_window rl \<le> c \<longrightarrow> filter ((<) c) (reqs_of rl key) = since adm key c)"

lemma since_append [simp]:
  "since (adm @ [(k, t)]) key c = since adm key c @ (if k = key \<and> c < t then [t] else [])"
  by (simp add: since_def)

lemma since_younger: "c \<le> c' \<Longrightarrow> filter ((<) c') (since adm key c) = since adm key c'"
  by (induction adm) (auto simp: since_def)

lemma tracks_later: "tracks T rl adm \<Longrightarrow> T \<le> T' \<Longrightarrow> tracks T' rl adm"
  unfolding tracks_def by (meson diff_right_mono order_trans)

lemma reqs_of_update [simp]:
  "reqs_of (rl\<lparr>rl_requests := m(key \<mapsto> ts)\<rparr>) key' = (if key' = key then ts else reqs_of (rl\<lparr>rl_requests := m\<rparr>) key')"
  by (simp add: reqs_of_def)

lemma allow_at_decision:
  assumes "tracks T rl adm" "T \<le> now"
  shows "fst (allow_at now key rl) \<longleftrightarrow> int (length (since adm key (now - rl_window rl))) < rl_limit rl"
  using assms by (auto simp: allow_at_def Let_def tracks_def Add_def After_def)

lemma allow_at_tracks:
  assumes "tracks T rl adm" "T \<le> now"
  shows "tracks now (snd (allow_at now key rl)) (if fst (allow_at now key rl) then adm @ [(key, now)] else adm)"
  using tracks_later [OF assms] since_younger
  by (auto simp: allow_at_def Let_def tracks_def Add_def After_def)

lemma allow_at_frame [simp]:
  "rl_limit (snd (allow_at now key rl)) = rl_limit rl" "rl_window (snd (allow_at now key rl)) = rl_window rl"
  by (simp_all add: allow_at_def Let_def)

lemma cleanup_frame [simp]: "rl_limit (cleanup_at now rl) = rl_limit rl" "rl_window (cleanup_at now rl) = rl_window rl"
  by (simp_all add: cleanup_at_def Let_def)

lemma reqs_of_cleanup: "reqs_of (cleanup_at now rl) key = filter ((<) (now - rl_window rl)) (reqs_of rl key)"
  by (auto simp: cleanup_at_def Let_def reqs_of_def Add_def After_def split: option.split)

lemma cleanup_tracks:
  assumes "tracks T rl adm" "T \<le> now"
  shows "tracks now (cleanup_at now rl) adm"
  using tracks_later [OF assms] since_younger by (auto simp: tracks_def reqs_of_cleanup)

lemma run_limiter_refines:
  assumes "tracks T rl adm" "sorted (T # map event_time evs)"
  shows "fst (run_limiter evs rl) = fst (window_spec (rl_limit rl) (rl_window rl) evs adm)"
  using assms
proof (induction evs arbitrary: T rl adm)
  case (Cons ev evs)
  show ?case
  proof (cases ev)
    case (Request key now)
    have "T \<le> now" "sorted (now # map event_time evs)" using Cons.prems(2) Request by auto
    then show ?thesis
      using Cons.IH [OF allow_at_tracks [OF Cons.prems(1)]] allow_at_decision [OF Cons.prems(1)]
      by (simp add: Request case_prod_beta Let_def)
  next
    case (Sweep now)
    have "T \<le> now" "sorted (now # map event_time evs)" using Cons.prems(2) Sweep by auto
    then show ?thesis
      using Cons.IH [OF cleanup_tracks [OF Cons.prems(1)]] by (simp add: Sweep)
  qed
qed simp

lemma new_tracks: "tracks T (NewRateLimiter limit window) []"
  by (simp add: tracks_def NewRateLimiter_def reqs_of_def since_def)

section \<open>At most \<open>limit\<close> in any window\<close>

definition bounded :: "int \<Rightarrow> duration \<Rightarrow> admissions \<Rightarrow> bool" where
  "bounded limit window adm \<longleftrightarrow>
     (\<forall>key t. int (length (filter (\<lambda>(k, s). k = key \<and> t - window < s \<and> s \<le> t) adm)) \<le> limit)"

lemma filter_weaker: "(\<And>x. x \<in> set xs \<Longrightarrow> P x \<Longrightarrow> Q x) \<Longrightarrow> length (filter P xs) \<le> length (filter Q xs)"
  by (induction xs) auto

lemma bounded_admit:
  assumes "bounded limit window adm" "\<forall>(k, s) \<in> set adm. s \<le> now"
    and "int (length (since adm key (now - window))) < limit"
  shows "bounded limit window (adm @ [(key, now)])"
  unfolding bounded_def
proof (intro allI)
  fix key' t
  let ?in = "\<lambda>(k :: string, s). k = key' \<and> t - window < s \<and> s \<le> t"
  show "int (length (filter ?in (adm @ [(key, now)]))) \<le> limit"
  proof (cases "key' = key \<and> now \<le> t")
    case True
    have "length (filter ?in adm) \<le> length (filter (\<lambda>(k, s). k = key \<and> now - window < s) adm)"
      using True by (intro filter_weaker) auto
    then show ?thesis using assms(3) by (auto simp: since_def)
  next
    case False
    then have "filter ?in (adm @ [(key, now)]) = filter ?in adm" by auto
    then show ?thesis using assms(1) by (simp add: bounded_def)
  qed
qed

lemma window_spec_bounded:
  assumes "bounded limit window adm" "\<forall>(k, s) \<in> set adm. s \<le> T" "sorted (T # map event_time evs)"
  shows "bounded limit window (snd (window_spec limit window evs adm))"
  using assms
proof (induction evs arbitrary: T adm)
  case (Cons ev evs)
  show ?case
  proof (cases ev)
    case (Request key now)
    let ?adm = "if int (length (since adm key (now - window))) < limit then adm @ [(key, now)] else adm"
    have now: "T \<le> now" "sorted (now # map event_time evs)" using Cons.prems(3) Request by auto
    have "\<forall>(k, s) \<in> set adm. s \<le> now" using Cons.prems(2) now(1) by auto
    then have "bounded limit window ?adm" "\<forall>(k, s) \<in> set ?adm. s \<le> now"
      using bounded_admit [OF Cons.prems(1)] Cons.prems(1) by auto
    from Cons.IH [OF this now(2)] show ?thesis by (simp add: Request case_prod_beta Let_def)
  next
    case (Sweep now)
    then have "sorted (T # map event_time evs)" using Cons.prems(3) by auto
    from Cons.IH [OF Cons.prems(1,2) this] show ?thesis by (simp add: Sweep)
  qed
qed simp

text \<open>The log of what the code admitted.\<close>

fun admitted_log :: "limiter_event list \<Rightarrow> bool list \<Rightarrow> admissions" where
  "admitted_log (Request key t # evs) (b # bs) = (if b then [(key, t)] else []) @ admitted_log evs bs"
| "admitted_log (Sweep t # evs) bs = admitted_log evs bs"
| "admitted_log _ _ = []"

lemma window_spec_log:
  "snd (window_spec limit window evs adm) = adm @ admitted_log evs (fst (window_spec limit window evs adm))"
  by (induction limit window evs adm rule: window_spec.induct) (simp_all add: case_prod_beta Let_def)

lemma limiter_refines:
  assumes "sorted (map event_time evs)"
  shows "fst (run_limiter evs (NewRateLimiter limit window)) = fst (window_spec limit window evs [])"
proof (cases evs)
  case (Cons ev evs')
  have "sorted (event_time ev # map event_time evs)" using assms by (auto simp: Cons)
  from run_limiter_refines [OF new_tracks this, of limit window] show ?thesis by (simp add: NewRateLimiter_def)
qed simp

lemma limiter_window:
  assumes "0 \<le> limit" "sorted (map event_time evs)"
  shows "bounded limit window (admitted_log evs (fst (run_limiter evs (NewRateLimiter limit window))))"
proof (cases evs)
  case Nil
  then show ?thesis using assms(1) by (simp add: bounded_def)
next
  case (Cons ev evs')
  let ?T = "event_time ev"
  have s: "sorted (?T # map event_time evs)" using assms(2) by (auto simp: Cons)
  have "bounded limit window (snd (window_spec limit window evs []))"
    by (rule window_spec_bounded [OF _ _ s]) (use assms(1) in \<open>simp_all add: bounded_def\<close>)
  then show ?thesis by (simp add: window_spec_log limiter_refines [OF assms(2)])
qed

text \<open>Clients with different keys do not share a budget; every new remote port is a new client.\<close>

lemma allow_at_other: "key' \<noteq> key \<Longrightarrow> reqs_of (snd (allow_at now key rl)) key' = reqs_of rl key'"
  by (simp add: allow_at_def Let_def reqs_of_def)

lemma Middleware_limited:
  assumes "int (length (filter (\<lambda>t. w_clock (pass w) - rl_window rl < t) (reqs_of rl (client_key r)))) \<ge> rl_limit rl"
  shows "wp (Middleware rl next r) (\<lambda>(reply, _) w'.
     reply = ErrorBody StatusTooManyRequests ''rate limit exceeded, try again later'' \<and> w' = pass w) w"
  using assms by (simp add: Middleware_def Allow_def wp_simps allow_at_def Let_def Add_def After_def)

end
