(* ===== verification/Server.thy ===== *)
theory Server
  imports System RateLimit
begin

text \<open>
  The HTTP server of \<open>services/gateway/cmd/main.go\<close>: the routes and the middlewares around them,
  limiter first, then CORS, then authentication. The routes of the service itself go through the
  generated \<open>gen/gateway/v1/gateway.pb.gw.go\<close>, which is an argument here and defined in theory
  \<open>Routes\<close>. A path is taken as it stands: \<open>http.ServeMux\<close> redirects one that is not in canonical form.
\<close>

text \<open>The body of a reply: of the authentication, of an extra handler, or of the generated routes.\<close>

datatype 'b server_body =
    AuthBody authResponse
  | ConfirmationBody confirmation
  | PendingBody pending_payment
  | HistoryBody "history_entry list"
  | SpotsBody "spot_entry list \<times> int"
  | SettlementBody settlement_reply
  | RpcBody 'b

definition encode :: "('a \<Rightarrow> 'b server_body) \<Rightarrow> ('k, 'a) http_handler \<Rightarrow> ('k, 'b server_body) http_handler" where
  "encode f handler r = do {
     reply \<leftarrow> handler r;
     State_Monad.return (map_http_reply f reply)
   }"

definition swagger_page :: string where
  "swagger_page = ''<html><body><a href='' @ [CHR 0x22] @ ''https://petstore.swagger.io/?url=http://localhost:8080/swagger.json''
     @ [CHR 0x22] @ ''>Open Swagger UI</a></body></html>''"

definition not_found_page :: string where
  "not_found_page = ''404 page not found'' @ [CHR 0x0A]"

definition httpMux ::
  "gateway_config \<Rightarrow> string \<Rightarrow> ('k, 'b) http_handler \<Rightarrow> ('k, 'b server_body) http_handler" where
  "httpMux c swaggerJSON mux r = (let path = hq_Path r in
     if path = ''/v1/auth/register'' then encode AuthBody (Register (gc_Secret c) (gc_ExpiryHours c)) r
     else if path = ''/v1/auth/login'' then encode AuthBody (Login (gc_Secret c) (gc_ExpiryHours c)) r
     else if path = ''/v1/reservations/history'' then encode HistoryBody ReservationHistory r
     else if path = ''/v1/reservations/confirm-payment'' then encode ConfirmationBody ConfirmBookingPayment r
     else if path = ''/v1/reservations/pending-payment'' then encode PendingBody GetPendingPayment r
     else if path = ''/v1/parking/spots'' then encode SpotsBody ListAvailableSpots_http r
     else if path = ''/v1/payments/simulate-settle'' then encode SettlementBody (SimulateSettle (gc_ServerKey c)) r
     else if path = ''/healthz'' then State_Monad.return (TextBody StatusOK ''ok'')
     else if path = ''/swagger.json'' then State_Monad.return (TextBody StatusOK swaggerJSON)
     else if has_prefix path ''/swagger/'' then State_Monad.return (TextBody StatusOK swagger_page)
     else if has_prefix path ''/v1/'' then encode RpcBody mux r
     else State_Monad.return (TextBody StatusNotFound not_found_page))"

text \<open>The headers \<open>corsMiddleware\<close> adds to every reply, and what it does with the request.\<close>

definition cors_headers :: "string \<Rightarrow> (string \<times> string) list" where
  "cors_headers CORS_ORIGIN =
     [(''Access-Control-Allow-Origin'', if CORS_ORIGIN = '''' then ''*'' else CORS_ORIGIN),
      (''Access-Control-Allow-Methods'', ''GET, POST, PUT, DELETE, OPTIONS''),
      (''Access-Control-Allow-Headers'', ''Content-Type, Authorization, Idempotency-Key'')]"

definition corsMiddleware :: "('k, 'a) http_handler \<Rightarrow> ('k, 'a) http_handler" where
  "corsMiddleware next r =
     (if hq_Method r = ''OPTIONS'' then State_Monad.return (EmptyBody StatusNoContent) else next r)"

definition http_server ::
  "gateway_config \<Rightarrow> string \<Rightarrow> ('k, 'b) http_handler \<Rightarrow> rateLimiter \<Rightarrow> http_request \<Rightarrow>
   ('k, 'b server_body http_reply \<times> rateLimiter) prog" where
  "http_server c swaggerJSON mux rl r =
     Middleware rl (corsMiddleware (HTTPMiddleware (gc_Secret c) (httpMux c swaggerJSON mux))) r"

section \<open>Nothing without a token\<close>

lemma Middleware_cases:
  assumes "\<And>m rl'. Q (ErrorBody StatusTooManyRequests m, rl') (pass w)"
    and "\<And>rl'. wp (next r) (\<lambda>reply. Q (reply, rl')) (pass w)"
  shows "wp (Middleware rl next r) Q w"
proof -
  have eta: "wp (State_Monad.return x) Q = Q x" for x by (rule ext) (rule wp_return)
  have "wp (Middleware rl next r) Q w \<longleftrightarrow>
      (case allow_at (w_clock (pass w)) (client_key r) rl of (allowed, rl') \<Rightarrow>
        if \<not> allowed then Q (ErrorBody StatusTooManyRequests ''rate limit exceeded, try again later'', rl') (pass w)
        else wp (next r) (\<lambda>reply. Q (reply, rl')) (pass w))"
    by (auto simp: Middleware_def Allow_def wp_bind wp_time_Now wp_return eta split: prod.split)
  then show ?thesis using assms by (simp split: prod.split)
qed

text \<open>
  A request that is not for a public path and carries no token that is valid now is answered
  with 429, 401 or, for a preflight, 204, and does not reach a handler.
\<close>

lemma http_server_guard:
  assumes "\<not> is_public_path (hq_Path r)"
    and "\<And>c. \<not> accepts (gc_Secret cfg) (pass w) (trim_prefix (hq_Header r ''Authorization'') ''Bearer '') c"
  shows "wp (http_server cfg swaggerJSON mux rl r) (\<lambda>(reply, rl') w'. db_same w w' \<and> w_redis w' = w_redis w \<and>
     ((\<exists>m. reply = ErrorBody StatusTooManyRequests m) \<or> (\<exists>m. reply = TextBody StatusUnauthorized m)
      \<or> hq_Method r = ''OPTIONS'' \<and> reply = EmptyBody StatusNoContent)) w"
  unfolding http_server_def
proof (rule Middleware_cases)
  have same: "db_same w (pass (pass w))" by (rule db_same_trans [OF db_same_pass db_same_pass])
  fix rl'
  show "wp (corsMiddleware (HTTPMiddleware (gc_Secret cfg) (httpMux cfg swaggerJSON mux)) r)
      (\<lambda>reply. (\<lambda>(reply, rl') w'. db_same w w' \<and> w_redis w' = w_redis w \<and>
        ((\<exists>m. reply = ErrorBody StatusTooManyRequests m) \<or> (\<exists>m. reply = TextBody StatusUnauthorized m)
         \<or> hq_Method r = ''OPTIONS'' \<and> reply = EmptyBody StatusNoContent)) (reply, rl')) (pass w)"
  proof (cases "hq_Method r = ''OPTIONS''")
    case True
    then show ?thesis by (simp add: corsMiddleware_def wp_return)
  next
    case False
    then show ?thesis
      using assms same unfolding corsMiddleware_def if_not_P [OF False]
      by (intro HTTPMiddleware_guard) auto
  qed
qed simp

end
