(* ===== verification/Logger.thy ===== *)
theory Logger
  imports Gateway
begin

text \<open>
  \<open>pkg/logger\<close>: the values a context carries for the log, masking, the fields of a log line, and the
  two wrappers that write a line for each request. A context value is found under the key of this
  package only, so the contexts here are separate from the user id that \<open>pkg/auth\<close> puts into the
  context. A line is the level, the fields in the order in which they are added, and the message;
  writing it out is the library's (zerolog).
\<close>

section \<open>Contexts\<close>

record log_context =
  lx_TraceID :: "string option"
  lx_RequestID :: "string option"
  lx_UserID :: "string option"

definition Background :: log_context where
  "Background = \<lparr>lx_TraceID = None, lx_RequestID = None, lx_UserID = None\<rparr>"

definition GenerateRequestID :: "('k, string) prog" where
  "GenerateRequestID = uuid_New"

definition WithRequestID :: "log_context \<Rightarrow> string \<Rightarrow> log_context" where
  "WithRequestID ctx requestID = ctx\<lparr>lx_RequestID := Some requestID\<rparr>"

definition RequestIDFromContext :: "log_context \<Rightarrow> string" where
  "RequestIDFromContext ctx = (case lx_RequestID ctx of Some rid \<Rightarrow> rid | None \<Rightarrow> '''')"

definition WithUserID :: "log_context \<Rightarrow> string \<Rightarrow> log_context" where
  "WithUserID ctx userID = ctx\<lparr>lx_UserID := Some userID\<rparr>"

definition log_UserIDFromContext :: "log_context \<Rightarrow> string" where
  "log_UserIDFromContext ctx = (case lx_UserID ctx of Some u \<Rightarrow> u | None \<Rightarrow> '''')"

definition WithTraceID :: "log_context \<Rightarrow> string \<Rightarrow> log_context" where
  "WithTraceID ctx traceID = ctx\<lparr>lx_TraceID := Some traceID\<rparr>"

section \<open>Masking\<close>

datatype log_value = LStr string | LInt int | LDur duration | LErr string

definition sensitiveFields :: "string list" where
  "sensitiveFields = [''password'', ''password_hash'', ''token'', ''secret'', ''authorization'']"

definition IsSensitiveField :: "string \<Rightarrow> bool" where
  "IsSensitiveField field = (field \<in> set sensitiveFields)"

definition MaskSensitive :: "(string \<rightharpoonup> log_value) \<Rightarrow> (string \<rightharpoonup> log_value)" where
  "MaskSensitive fm = (\<lambda>k. case fm k of
       None \<Rightarrow> None
     | Some v \<Rightarrow> Some (if k \<in> set sensitiveFields then LStr ''[REDACTED]'' else v))"

section \<open>Log lines\<close>

datatype log_level = DebugLevel | InfoLevel | WarnLevel | ErrorLevel | FatalLevel

record log_line =
  lg_Level :: log_level
  lg_Fields :: "(string \<times> log_value) list"
  lg_Msg :: string

text \<open>A logger has the fields that every one of its lines starts with.\<close>

record logger =
  lo_Level :: log_level
  lo_Fields :: "(string \<times> log_value) list"

definition logger_New :: "(string \<Rightarrow> log_level option) \<Rightarrow> string \<Rightarrow> string \<Rightarrow> logger" where
  "logger_New ParseLevel service level = \<lparr>lo_Level = (case ParseLevel level of Some l \<Rightarrow> l | None \<Rightarrow> InfoLevel),
     lo_Fields = [(''service'', LStr service)]\<rparr>"

definition logger_With :: "logger \<Rightarrow> string \<Rightarrow> string \<Rightarrow> logger" where
  "logger_With lg key v = lg\<lparr>lo_Fields := lo_Fields lg @ [(key, LStr v)]\<rparr>"

definition context_field :: "string \<Rightarrow> string option \<Rightarrow> (string \<times> log_value) list" where
  "context_field key v = (case v of Some s \<Rightarrow> if s \<noteq> '''' then [(key, LStr s)] else [] | None \<Rightarrow> [])"

definition log_event :: "logger \<Rightarrow> log_context \<Rightarrow> log_level \<Rightarrow> log_line" where
  "log_event lg ctx level = \<lparr>lg_Level = level, lg_Fields = lo_Fields lg @ context_field ''trace_id'' (lx_TraceID ctx)
     @ context_field ''request_id'' (lx_RequestID ctx) @ context_field ''user_id'' (lx_UserID ctx), lg_Msg = ''''\<rparr>"

definition add_fields :: "(string \<times> log_value) list \<Rightarrow> log_line \<Rightarrow> log_line" where
  "add_fields fs l = l\<lparr>lg_Fields := lg_Fields l @ fs\<rparr>"

definition with_msg :: "string \<Rightarrow> log_line \<Rightarrow> log_line" where
  "with_msg m l = l\<lparr>lg_Msg := m\<rparr>"

section \<open>The wrapper of the HTTP server\<close>

definition clientIP :: "http_request \<Rightarrow> string" where
  "clientIP r = (if hq_Header r ''X-Forwarded-For'' \<noteq> '''' then hq_Header r ''X-Forwarded-For''
     else if hq_Header r ''X-Real-IP'' \<noteq> '''' then hq_Header r ''X-Real-IP''
     else hq_RemoteAddr r)"

text \<open>The status the \<open>responseWriter\<close> has recorded; it starts with 200.\<close>

fun reply_status :: "'a http_reply \<Rightarrow> int" where
  "reply_status (JSONBody s _) = s"
| "reply_status (ErrorBody s _) = s"
| "reply_status (TextBody s _) = s"
| "reply_status (EmptyBody s) = s"
| "reply_status Aborted = StatusOK"

text \<open>
  The result is that of the wrapped handler, with the value of the header \<open>X-Request-ID\<close> and the
  line. The handler gets the context with the request id, and can be one that keeps a state. A panic
  goes through, and no line is written.
\<close>

definition HTTPRequestLogger ::
  "logger \<Rightarrow> (log_context \<Rightarrow> http_request \<Rightarrow> ('k, 'a http_reply \<times> 's) prog) \<Rightarrow> log_context \<Rightarrow> http_request \<Rightarrow>
   ('k, ('a http_reply \<times> 's) \<times> string \<times> log_line option) prog" where
  "HTTPRequestLogger lg next ctx r = do {
     start \<leftarrow> time_Now;
     requestID \<leftarrow> (if hq_Header r ''X-Request-ID'' = '''' then GenerateRequestID
                   else State_Monad.return (hq_Header r ''X-Request-ID''));
     let ctx = WithRequestID ctx requestID;
     (reply, s) \<leftarrow> next ctx r;
     if is_Aborted reply then State_Monad.return ((reply, s), requestID, None)
     else do {
       now \<leftarrow> time_Now;
       let latency = Sub now start;
       let userID = log_UserIDFromContext ctx;
       let status = reply_status reply;
       let event = (if 500 \<le> status then log_event lg ctx ErrorLevel
                    else if 400 \<le> status then log_event lg ctx WarnLevel
                    else log_event lg ctx InfoLevel);
       let event = add_fields [(''method'', LStr (hq_Method r)), (''path'', LStr (hq_Path r)), (''status'', LInt status),
         (''latency'', LDur latency), (''ip'', LStr (clientIP r)), (''user_agent'', LStr (hq_Header r ''User-Agent''))] event;
       let event = (if userID \<noteq> '''' then add_fields [(''user_id'', LStr userID)] event else event);
       State_Monad.return ((reply, s), requestID, Some (with_msg ''http request'' event))
     }
   }"

section \<open>The interceptor of the gRPC servers\<close>

text \<open>The values of the metadata \<open>x-request-id\<close>, if there is incoming metadata.\<close>

definition requestIDFromMetadata :: "string list option \<Rightarrow> string" where
  "requestIDFromMetadata md = (case md of None \<Rightarrow> '''' | Some [] \<Rightarrow> '''' | Some (v # _) \<Rightarrow> v)"

definition status_name :: "'a reply \<Rightarrow> string" where
  "status_name reply = (case reply of Status c _ \<Rightarrow> code_name c | _ \<Rightarrow> ''OK'')"

text \<open>A panic of the handler goes through the interceptor, which then writes no line.\<close>

definition UnaryServerLogger ::
  "logger \<Rightarrow> string list option \<Rightarrow> string \<Rightarrow> (log_context \<Rightarrow> ('k, 'a) rpc) \<Rightarrow> log_context \<Rightarrow>
   ('k, 'a reply \<times> log_line option) prog" where
  "UnaryServerLogger lg md fullMethod handler ctx = do {
     start \<leftarrow> time_Now;
     requestID \<leftarrow> (if requestIDFromMetadata md = '''' then GenerateRequestID
                   else State_Monad.return (requestIDFromMetadata md));
     let ctx = WithRequestID ctx requestID;
     reply \<leftarrow> handler ctx;
     (case reply of
        Panic \<Rightarrow> State_Monad.return (Panic, None)
      | _ \<Rightarrow> do {
          now \<leftarrow> time_Now;
          let latency = Sub now start;
          let event = (case reply of
              Status c m \<Rightarrow> add_fields [(''error'', LErr (status_text c m))] (log_event lg ctx ErrorLevel)
            | _ \<Rightarrow> log_event lg ctx InfoLevel);
          let event = add_fields [(''method'', LStr fullMethod), (''status'', LStr (status_name reply)),
            (''latency'', LDur latency)] event;
          State_Monad.return (reply, Some (with_msg ''grpc request'' event))
        })
   }"

section \<open>What is line_for\<close>

text \<open>No value of a sensitive field passes the mask, and every other field does.\<close>

lemma MaskSensitive_hides: "IsSensitiveField k \<Longrightarrow> MaskSensitive fm k \<in> {None, Some (LStr ''[REDACTED]'')}"
  by (simp add: MaskSensitive_def IsSensitiveField_def split: option.split)

lemma MaskSensitive_dom: "dom (MaskSensitive fm) = dom fm"
  by (auto simp: MaskSensitive_def split: option.splits)

lemma MaskSensitive_other: "\<not> IsSensitiveField k \<Longrightarrow> MaskSensitive fm k = fm k"
  by (simp add: MaskSensitive_def IsSensitiveField_def split: option.split)

lemma MaskSensitive_noninterference:
  assumes "\<And>k. \<not> IsSensitiveField k \<Longrightarrow> fm k = fm' k" "dom fm = dom fm'"
  shows "MaskSensitive fm = MaskSensitive fm'"
proof
  fix k
  show "MaskSensitive fm k = MaskSensitive fm' k"
    using assms(1) [of k] arg_cong [OF assms(2), of "\<lambda>S. k \<in> S"]
    by (cases "fm k"; cases "fm' k") (auto simp: MaskSensitive_def IsSensitiveField_def dom_def split: if_splits)
qed

definition level_of_status :: "int \<Rightarrow> log_level" where
  "level_of_status s = (if 500 \<le> s then ErrorLevel else if 400 \<le> s then WarnLevel else InfoLevel)"

text \<open>
  The wrapper changes nothing about the reply, and writes one line whose level is that of the
  status, with the request's id; the client's own id is kept, and the line names no driver unless
  the context of the package already does.
\<close>

definition line_for :: "logger \<Rightarrow> http_request \<Rightarrow> 'a http_reply \<Rightarrow> string \<Rightarrow> log_line \<Rightarrow> bool" where
  "line_for lg r reply requestID l \<longleftrightarrow> lg_Level l = level_of_status (reply_status reply)
     \<and> (\<exists>latency. lg_Fields l = lo_Fields lg @ context_field ''request_id'' (Some requestID)
       @ [(''method'', LStr (hq_Method r)), (''path'', LStr (hq_Path r)), (''status'', LInt (reply_status reply)),
          (''latency'', LDur latency), (''ip'', LStr (clientIP r)), (''user_agent'', LStr (hq_Header r ''User-Agent''))])"

lemma HTTPRequestLogger_logs:
  assumes "\<And>ctx w1. db_same w w1 \<Longrightarrow> w_redis w1 = w_redis w \<Longrightarrow> w_clock w1 = w_clock (pass w) \<Longrightarrow> wp (next ctx r) Q w1"
  shows "wp (HTTPRequestLogger lg next Background r) (\<lambda>((reply, s), requestID, line) w'.
     (hq_Header r ''X-Request-ID'' \<noteq> '''' \<longrightarrow> requestID = hq_Header r ''X-Request-ID'')
     \<and> (case line of None \<Rightarrow> reply = Aborted \<and> Q (reply, s) w'
       | Some l \<Rightarrow> line_for lg r reply requestID l \<and> (\<exists>w2. Q (reply, s) w2 \<and> w' = pass w2))) w"
proof -
  have *: "wp (next c r) Q (pass w)" "wp (next c r) Q ((pass w)\<lparr>w_uuids := Suc (w_uuids w)\<rparr>)" for c
    by (auto intro!: assms simp: db_same_def)
  note facts = wp_simps Let_def line_for_def level_of_status_def log_event_def add_fields_def with_msg_def
    Background_def WithRequestID_def log_UserIDFromContext_def context_field_def
  show ?thesis
  proof (cases "hq_Header r ''X-Request-ID'' = ''''")
    case True
    then show ?thesis
      unfolding HTTPRequestLogger_def GenerateRequestID_def
      by (simp add: facts) (rule wp_mono [OF *(2)], auto simp: facts)
  next
    case False
    then show ?thesis
      unfolding HTTPRequestLogger_def GenerateRequestID_def
      by (simp add: facts) (rule wp_mono [OF *(1)], auto simp: facts)
  qed
qed

end
