(* ===== verification/Routes.thy ===== *)
theory Routes
  imports Server Logger
begin

text \<open>
  The HTTP routes of the gateway's methods, \<open>gen/gateway/v1/gateway.pb.gw.go\<close>: for each method the
  decoding of its request and the call, and the table of routes that is registered with the mux of
  the library. What the library does is the parameter \<open>runtime\<close>: which of the registered routes a
  request takes and with which path parameters, the decoding of a body and of query parameters, the
  encoding of a reply, and the HTTP status of a code. The handlers of this mux run inside the
  gateway, so that a panic of one ends the request only.
\<close>

section \<open>The library\<close>

text \<open>A decoder returns a message, \<open>io.EOF\<close> for an empty body, or another error.\<close>

datatype 'a decoding = Decoded 'a | AtEOF | DecodeError string

text \<open>The operations and the pool of a compiled path template, as \<open>runtime.NewPattern\<close> takes them.\<close>

record route_pattern =
  pt_Ops :: "int list"
  pt_Pool :: "string list"

record GetParkingAvailabilityRequest =
  pa_VehicleType :: int

record CheckInMessage =
  cm_ReservationId :: string
  cm_Coordinate :: "Coordinate option"
  cm_ActualSpotId :: string

record CheckOutMessage =
  om_ReservationId :: string
  om_IdempotencyKey :: string

record PreviewBillingMessage =
  pb_SessionId :: string

record CreatePaymentMessage =
  yp_InvoiceId :: string
  yp_PaymentMethod :: int
  yp_IdempotencyKey :: string

datatype rpc_body =
    RpcAvailability "int \<times> int \<times> int \<times> bool"
  | RpcBooking BookingResponse
  | RpcMyReservation "MyReservation option"
  | RpcCancelled "string \<times> int \<times> Money \<times> string"
  | RpcCheckIn CheckInResponse
  | RpcCheckOut LeavingResponse
  | RpcInvoice InvoiceSummary
  | RpcPreview "InvoiceSummary \<times> string"
  | RpcPayment PaymentResponse
  | RpcPaymentStatus "string \<times> string \<times> Money \<times> time option"
  | RpcError code string

record runtime =
  rt_Route :: "(string \<times> route_pattern) list \<Rightarrow> http_request \<Rightarrow> (nat \<times> (string \<rightharpoonup> string)) option"
  rt_NoRoute :: "http_request \<Rightarrow> rpc_body http_reply"
  rt_AnnotateIncomingContext :: "http_request \<Rightarrow> (code \<times> string) option"
  rt_ParseForm :: "http_request \<Rightarrow> string option"
  rt_QueryAvailability :: "http_request \<Rightarrow> string + GetParkingAvailabilityRequest"
  rt_QueryPreview :: "http_request \<Rightarrow> string + PreviewBillingMessage"
  rt_DecodeBooking :: "http_request \<Rightarrow> BookingRequest decoding"
  rt_DecodeCheckIn :: "http_request \<Rightarrow> CheckInMessage decoding"
  rt_DecodeCheckOut :: "http_request \<Rightarrow> CheckOutMessage decoding"
  rt_DecodePayment :: "http_request \<Rightarrow> CreatePaymentMessage decoding"
  rt_String :: "string \<Rightarrow> string + string"
  rt_Marshal :: "rpc_body \<Rightarrow> (code \<times> string) option"
  rt_HTTPStatusFromCode :: "code \<Rightarrow> int"

section \<open>Decoding a request\<close>

definition invalid_argument :: "string \<Rightarrow> ('k, 'a) rpc" where
  "invalid_argument msg = State_Monad.return (Status InvalidArgument msg)"

text \<open>An empty body leaves the zero message.\<close>

definition or_decode :: "'m decoding \<Rightarrow> 'm \<Rightarrow> ('m \<Rightarrow> ('k, 'a) rpc) \<Rightarrow> ('k, 'a) rpc" where
  "or_decode d zero rest = (case d of Decoded m \<Rightarrow> rest m | AtEOF \<Rightarrow> rest zero | DecodeError e \<Rightarrow> invalid_argument e)"

definition or_path :: "runtime \<Rightarrow> (string \<rightharpoonup> string) \<Rightarrow> string \<Rightarrow> (string \<Rightarrow> ('k, 'a) rpc) \<Rightarrow> ('k, 'a) rpc" where
  "or_path rt pathParams name rest = (case pathParams name of
       None \<Rightarrow> invalid_argument (''missing parameter '' @ name)
     | Some val \<Rightarrow> (case rt_String rt val of
         Inl err \<Rightarrow> invalid_argument (''type mismatch, parameter: '' @ name @ '', error: '' @ err)
       | Inr s \<Rightarrow> rest s))"

definition or_query :: "runtime \<Rightarrow> http_request \<Rightarrow> string + 'm \<Rightarrow> ('m \<Rightarrow> ('k, 'a) rpc) \<Rightarrow> ('k, 'a) rpc" where
  "or_query rt req q rest = (case rt_ParseForm rt req of
       Some err \<Rightarrow> invalid_argument err
     | None \<Rightarrow> (case q of Inl err \<Rightarrow> invalid_argument err | Inr m \<Rightarrow> rest m))"

definition and_body :: "('k, 'a) rpc \<Rightarrow> ('a \<Rightarrow> rpc_body) \<Rightarrow> ('k, rpc_body) rpc" where
  "and_body m f = or_forward m (\<lambda>a. State_Monad.return (Reply (f a)))"

type_synonym 'k local_request = "http_request \<Rightarrow> (string \<rightharpoonup> string) \<Rightarrow> ('k, rpc_body) rpc"

definition local_request_GetParkingAvailability :: "runtime \<Rightarrow> 'k local_request" where
  "local_request_GetParkingAvailability rt req pathParams =
     or_query rt req (rt_QueryAvailability rt req) (\<lambda>protoReq.
       and_body (gw_GetParkingAvailability (pa_VehicleType protoReq)) RpcAvailability)"

definition local_request_CreateReservation :: "runtime \<Rightarrow> gateway_config \<Rightarrow> 'k local_request" where
  "local_request_CreateReservation rt c req pathParams =
     or_decode (rt_DecodeBooking rt req)
       \<lparr>br_VehicleType = 0, br_AssignmentMode = 0, br_SpotId = '''', br_IdempotencyKey = ''''\<rparr> (\<lambda>protoReq.
       and_body (gw_CreateReservation (gc_Publisher c) (gc_Gateway c) (hq_UserID req) protoReq) RpcBooking)"

definition local_request_GetMyReservation :: "'k local_request" where
  "local_request_GetMyReservation req pathParams = and_body (gw_GetMyReservation (hq_UserID req)) RpcMyReservation"

definition local_request_CancelReservation :: "runtime \<Rightarrow> gateway_config \<Rightarrow> 'k local_request" where
  "local_request_CancelReservation rt c req pathParams =
     or_path rt pathParams ''reservation_id'' (\<lambda>reservationId.
       and_body (gw_CancelReservation (gc_Publisher c) (hq_UserID req) reservationId) RpcCancelled)"

definition local_request_CheckIn :: "runtime \<Rightarrow> gateway_config \<Rightarrow> 'k local_request" where
  "local_request_CheckIn rt c req pathParams =
     or_decode (rt_DecodeCheckIn rt req)
       \<lparr>cm_ReservationId = '''', cm_Coordinate = None, cm_ActualSpotId = ''''\<rparr> (\<lambda>protoReq.
     or_path rt pathParams ''reservation_id'' (\<lambda>reservationId.
       let protoReq = protoReq\<lparr>cm_ReservationId := reservationId\<rparr> in
       and_body (gw_CheckIn (gc_Publisher c) (hq_UserID req) (cm_ReservationId protoReq) (cm_ActualSpotId protoReq)) RpcCheckIn))"

definition local_request_CheckOut :: "runtime \<Rightarrow> gateway_config \<Rightarrow> 'k local_request" where
  "local_request_CheckOut rt c req pathParams =
     or_decode (rt_DecodeCheckOut rt req) \<lparr>om_ReservationId = '''', om_IdempotencyKey = ''''\<rparr> (\<lambda>protoReq.
     or_path rt pathParams ''reservation_id'' (\<lambda>reservationId.
       let protoReq = protoReq\<lparr>om_ReservationId := reservationId\<rparr> in
       and_body (gw_CheckOut (gc_Publisher c) (hq_UserID req) (om_ReservationId protoReq) (om_IdempotencyKey protoReq)) RpcCheckOut))"

definition local_request_GetInvoice :: "runtime \<Rightarrow> 'k local_request" where
  "local_request_GetInvoice rt req pathParams =
     or_path rt pathParams ''invoice_id'' (\<lambda>invoiceId. and_body (gw_GetInvoice invoiceId) RpcInvoice)"

definition local_request_PreviewBilling :: "runtime \<Rightarrow> 'k local_request" where
  "local_request_PreviewBilling rt req pathParams =
     or_query rt req (rt_QueryPreview rt req) (\<lambda>protoReq.
       and_body (gw_PreviewBilling (pb_SessionId protoReq)) RpcPreview)"

definition local_request_CreatePayment :: "runtime \<Rightarrow> gateway_config \<Rightarrow> 'k local_request" where
  "local_request_CreatePayment rt c req pathParams =
     or_decode (rt_DecodePayment rt req) \<lparr>yp_InvoiceId = '''', yp_PaymentMethod = 0, yp_IdempotencyKey = ''''\<rparr> (\<lambda>protoReq.
       and_body (gw_CreatePayment (gc_Gateway c) (hq_UserID req) (yp_InvoiceId protoReq) (yp_PaymentMethod protoReq)
         (yp_IdempotencyKey protoReq)) RpcPayment)"

definition local_request_GetPaymentStatus :: "runtime \<Rightarrow> 'k local_request" where
  "local_request_GetPaymentStatus rt req pathParams =
     or_path rt pathParams ''transaction_id'' (\<lambda>transactionId. and_body (gw_GetPaymentStatus transactionId) RpcPaymentStatus)"

section \<open>The table of routes\<close>

definition pattern_GetParkingAvailability :: route_pattern where
  "pattern_GetParkingAvailability = \<lparr>pt_Ops = [2, 0, 2, 1, 2, 2], pt_Pool = [''v1'', ''parking'', ''availability'']\<rparr>"

definition pattern_CreateReservation :: route_pattern where
  "pattern_CreateReservation = \<lparr>pt_Ops = [2, 0, 2, 1], pt_Pool = [''v1'', ''reservations'']\<rparr>"

definition pattern_GetMyReservation :: route_pattern where
  "pattern_GetMyReservation = \<lparr>pt_Ops = [2, 0, 2, 1, 2, 2], pt_Pool = [''v1'', ''reservations'', ''me'']\<rparr>"

definition pattern_CancelReservation :: route_pattern where
  "pattern_CancelReservation = \<lparr>pt_Ops = [2, 0, 2, 1, 1, 0, 4, 1, 5, 2], pt_Pool = [''v1'', ''reservations'', ''reservation_id'']\<rparr>"

definition pattern_CheckIn :: route_pattern where
  "pattern_CheckIn = \<lparr>pt_Ops = [2, 0, 2, 1, 1, 0, 4, 1, 5, 2, 2, 3],
     pt_Pool = [''v1'', ''reservations'', ''reservation_id'', ''check-in'']\<rparr>"

definition pattern_CheckOut :: route_pattern where
  "pattern_CheckOut = \<lparr>pt_Ops = [2, 0, 2, 1, 1, 0, 4, 1, 5, 2, 2, 3],
     pt_Pool = [''v1'', ''reservations'', ''reservation_id'', ''check-out'']\<rparr>"

definition pattern_GetInvoice :: route_pattern where
  "pattern_GetInvoice = \<lparr>pt_Ops = [2, 0, 2, 1, 1, 0, 4, 1, 5, 2], pt_Pool = [''v1'', ''invoices'', ''invoice_id'']\<rparr>"

definition pattern_PreviewBilling :: route_pattern where
  "pattern_PreviewBilling = \<lparr>pt_Ops = [2, 0, 2, 1, 2, 2], pt_Pool = [''v1'', ''billing'', ''preview'']\<rparr>"

definition pattern_CreatePayment :: route_pattern where
  "pattern_CreatePayment = \<lparr>pt_Ops = [2, 0, 2, 1], pt_Pool = [''v1'', ''payments'']\<rparr>"

definition pattern_GetPaymentStatus :: route_pattern where
  "pattern_GetPaymentStatus = \<lparr>pt_Ops = [2, 0, 2, 1, 1, 0, 4, 1, 5, 2], pt_Pool = [''v1'', ''payments'', ''transaction_id'']\<rparr>"

lemmas pattern_defs = pattern_GetParkingAvailability_def pattern_CreateReservation_def pattern_GetMyReservation_def
  pattern_CancelReservation_def pattern_CheckIn_def pattern_CheckOut_def pattern_GetInvoice_def
  pattern_PreviewBilling_def pattern_CreatePayment_def pattern_GetPaymentStatus_def

definition HTTPError :: "runtime \<Rightarrow> code \<Rightarrow> string \<Rightarrow> rpc_body http_reply" where
  "HTTPError rt code msg = JSONBody (rt_HTTPStatusFromCode rt code) (RpcError code msg)"

text \<open>\<open>runtime.ForwardResponseMessage\<close>, which all of the \<open>forward_\<close> variables are.\<close>

definition forward :: "runtime \<Rightarrow> rpc_body \<Rightarrow> rpc_body http_reply" where
  "forward rt resp = (case rt_Marshal rt resp of Some (code, msg) \<Rightarrow> HTTPError rt code msg | None \<Rightarrow> JSONBody StatusOK resp)"

text \<open>The function that is registered for a route, which is the same but for the method.\<close>

definition route_handler :: "runtime \<Rightarrow> 'k local_request \<Rightarrow> http_request \<Rightarrow> (string \<rightharpoonup> string) \<Rightarrow> ('k, rpc_body http_reply) prog" where
  "route_handler rt local_request req pathParams = (case rt_AnnotateIncomingContext rt req of
       Some (code, msg) \<Rightarrow> State_Monad.return (HTTPError rt code msg)
     | None \<Rightarrow> do {
         resp \<leftarrow> local_request req pathParams;
         State_Monad.return (case resp of
            Status code msg \<Rightarrow> HTTPError rt code msg
          | Reply body \<Rightarrow> forward rt body
          | Panic \<Rightarrow> Aborted)
       })"

definition RegisterGatewayServiceHandlerServer ::
  "runtime \<Rightarrow> gateway_config \<Rightarrow> ((string \<times> route_pattern) \<times> 'k local_request) list" where
  "RegisterGatewayServiceHandlerServer rt c =
     [((''GET'', pattern_GetParkingAvailability), local_request_GetParkingAvailability rt),
      ((''POST'', pattern_CreateReservation), local_request_CreateReservation rt c),
      ((''GET'', pattern_GetMyReservation), local_request_GetMyReservation),
      ((''DELETE'', pattern_CancelReservation), local_request_CancelReservation rt c),
      ((''POST'', pattern_CheckIn), local_request_CheckIn rt c),
      ((''POST'', pattern_CheckOut), local_request_CheckOut rt c),
      ((''GET'', pattern_GetInvoice), local_request_GetInvoice rt),
      ((''GET'', pattern_PreviewBilling), local_request_PreviewBilling rt),
      ((''POST'', pattern_CreatePayment), local_request_CreatePayment rt c),
      ((''GET'', pattern_GetPaymentStatus), local_request_GetPaymentStatus rt)]"

text \<open>The routes the mux chooses from, without their handlers.\<close>

definition gateway_routes :: "(string \<times> route_pattern) list" where
  "gateway_routes =
     [(''GET'', pattern_GetParkingAvailability), (''POST'', pattern_CreateReservation), (''GET'', pattern_GetMyReservation),
      (''DELETE'', pattern_CancelReservation), (''POST'', pattern_CheckIn), (''POST'', pattern_CheckOut),
      (''GET'', pattern_GetInvoice), (''GET'', pattern_PreviewBilling), (''POST'', pattern_CreatePayment),
      (''GET'', pattern_GetPaymentStatus)]"

lemma handlers_routes [simp]: "map fst (RegisterGatewayServiceHandlerServer rt c) = gateway_routes"
  by (simp add: RegisterGatewayServiceHandlerServer_def gateway_routes_def)

lemma handlers_length [simp]: "length (RegisterGatewayServiceHandlerServer rt c) = 10"
  by (simp add: RegisterGatewayServiceHandlerServer_def)

definition rpc_mux :: "runtime \<Rightarrow> gateway_config \<Rightarrow> ('k, rpc_body) http_handler" where
  "rpc_mux rt c req = (let handlers = RegisterGatewayServiceHandlerServer rt c in
     case rt_Route rt (map fst handlers) req of
       None \<Rightarrow> State_Monad.return (rt_NoRoute rt req)
     | Some (i, pathParams) \<Rightarrow>
         if i < length handlers then route_handler rt (snd (handlers ! i)) req pathParams
         else State_Monad.return (rt_NoRoute rt req))"

text \<open>The handler of the HTTP server, with all of its wrappers.\<close>

definition gateway_http ::
  "logger \<Rightarrow> gateway_config \<Rightarrow> string \<Rightarrow> runtime \<Rightarrow> rateLimiter \<Rightarrow> http_request \<Rightarrow>
   ('k, (rpc_body server_body http_reply \<times> rateLimiter) \<times> string \<times> log_line option) prog" where
  "gateway_http lg c swaggerJSON rt rl r =
     HTTPRequestLogger lg (\<lambda>_. http_server c swaggerJSON (rpc_mux rt c) rl) Background r"

section \<open>What the wrappers respect\<close>

text \<open>A relation that the handlers respect is respected by everything that is put around them.\<close>

context step_relation
begin

lemma keeps_invalid_argument: "keeps P R (invalid_argument msg)"
  unfolding invalid_argument_def by (rule keeps_return)

lemma keeps_or_decode: "(\<And>m. keeps P R (f m)) \<Longrightarrow> keeps P R (or_decode d zero f)"
  unfolding or_decode_def by (cases d) (simp_all add: keeps_invalid_argument)

lemma keeps_or_path: "(\<And>s. keeps P R (f s)) \<Longrightarrow> keeps P R (or_path rt ps name f)"
  unfolding or_path_def by (intro keeps_case_option keeps_case_sum keeps_invalid_argument)

lemma keeps_or_query: "(\<And>m. keeps P R (f m)) \<Longrightarrow> keeps P R (or_query rt req q f)"
  unfolding or_query_def by (intro keeps_case_option keeps_case_sum keeps_invalid_argument)

lemma keeps_and_body: "keeps P R m \<Longrightarrow> keeps P R (and_body m f)"
  unfolding and_body_def by (intro keeps_or_forward keeps_return)

lemma keeps_route_handler:
  assumes "keeps P R (local_request req ps)"
  shows "keeps P R (route_handler rt local_request req ps)"
  unfolding route_handler_def
  by (cases "rt_AnnotateIncomingContext rt req") (auto intro!: keeps_return keeps_bind assms)

lemmas keeps_decoding = keeps_or_decode keeps_or_path keeps_or_query keeps_and_body

lemma keeps_encode: "keeps P R (h r) \<Longrightarrow> keeps P R (encode f h r)"
  unfolding encode_def by (intro keeps_bind keeps_return)

text \<open>The table of routes: it is enough to look at the methods, with the user of the request.\<close>

lemma keeps_rpc_mux:
  assumes "\<And>vt. keeps P R (gw_GetParkingAvailability vt)"
    "\<And>m. keeps P R (gw_CreateReservation (gc_Publisher c) (gc_Gateway c) (hq_UserID req) m)"
    "keeps P R (gw_GetMyReservation (hq_UserID req))"
    "\<And>rid. keeps P R (gw_CancelReservation (gc_Publisher c) (hq_UserID req) rid)"
    "\<And>rid spot. keeps P R (gw_CheckIn (gc_Publisher c) (hq_UserID req) rid spot)"
    "\<And>rid key. keeps P R (gw_CheckOut (gc_Publisher c) (hq_UserID req) rid key)"
    "\<And>iid. keeps P R (gw_GetInvoice iid)" "\<And>sid. keeps P R (gw_PreviewBilling sid)"
    "\<And>iid m key. keeps P R (gw_CreatePayment (gc_Gateway c) (hq_UserID req) iid m key)"
    "\<And>tid. keeps P R (gw_GetPaymentStatus tid)"
  shows "keeps P R (rpc_mux rt c req)"
proof -
  have "keeps P R (h req ps)" if "h \<in> snd ` set (RegisterGatewayServiceHandlerServer rt c)" for h ps
    using that unfolding RegisterGatewayServiceHandlerServer_def
    by (auto simp: local_request_GetParkingAvailability_def local_request_CreateReservation_def
        local_request_GetMyReservation_def local_request_CancelReservation_def local_request_CheckIn_def
        local_request_CheckOut_def local_request_GetInvoice_def local_request_PreviewBilling_def
        local_request_CreatePayment_def local_request_GetPaymentStatus_def Let_def intro!: keeps_decoding assms)
  then have "keeps P R (route_handler rt (snd (RegisterGatewayServiceHandlerServer rt c ! i)) req ps)" if "i < 10" for i ps
    by (rule keeps_route_handler) (use that in auto)
  then show ?thesis
    unfolding rpc_mux_def Let_def by (auto intro: keeps_return split: option.split)
qed

lemma keeps_httpMux:
  assumes "keeps P R (Register (gc_Secret c) (gc_ExpiryHours c) r)" "keeps P R (Login (gc_Secret c) (gc_ExpiryHours c) r)"
    "keeps P R (ReservationHistory r)" "keeps P R (GetPendingPayment r)" "keeps P R (ListAvailableSpots_http r)"
    "hq_Path r = ''/v1/reservations/confirm-payment'' \<Longrightarrow> keeps P R (ConfirmBookingPayment r)"
    "hq_Path r = ''/v1/payments/simulate-settle'' \<Longrightarrow> keeps P R (SimulateSettle (gc_ServerKey c) r)"
    "keeps P R (mux r)"
  shows "keeps P R (httpMux c swaggerJSON mux r)"
  unfolding httpMux_def Let_def using assms by (auto intro!: keeps_encode keeps_return)

lemma http_server_keeps:
  assumes "P w"
    and "\<And>u. is_public_path (hq_Path r) \<and> u = hq_UserID r \<or>
       (\<exists>c. accepts (gc_Secret cfg) (pass w) (trim_prefix (hq_Header r ''Authorization'') ''Bearer '') c \<and> u = Some (cl_UserID c)) \<Longrightarrow>
       keeps P R (httpMux cfg swaggerJSON mux (r\<lparr>hq_UserID := u\<rparr>))"
  shows "wp (http_server cfg swaggerJSON mux rl r) (\<lambda>_. R w) w"
  unfolding http_server_def
proof (rule Middleware_cases)
  have step: "R w (pass w)" "R w (pass (pass w))" "P (pass w)" "P (pass (pass w))"
    using assms(1) same [OF db_same_pass] same [OF db_same_trans [OF db_same_pass db_same_pass]] kept by blast+
  show "R w (pass w)" by (rule step)
  have run: "wp (httpMux cfg swaggerJSON mux (r\<lparr>hq_UserID := u\<rparr>)) (\<lambda>_. R w) w1"
    if "keeps P R (httpMux cfg swaggerJSON mux (r\<lparr>hq_UserID := u\<rparr>))" "R w w1" "P w1" for u w1
    by (rule wp_mono [OF keepsD [OF that(1,3)]]) (rule trans [OF that(2)])
  show "wp (corsMiddleware (HTTPMiddleware (gc_Secret cfg) (httpMux cfg swaggerJSON mux)) r) (\<lambda>_. R w) (pass w)"
  proof (cases "hq_Method r = ''OPTIONS''")
    case True
    then show ?thesis using step by (simp add: corsMiddleware_def wp_return)
  next
    case False
    have "wp (HTTPMiddleware (gc_Secret cfg) (httpMux cfg swaggerJSON mux) r) (\<lambda>_. R w) (pass w)"
    proof (cases "is_public_path (hq_Path r)")
      case True
      then show ?thesis
        using run [OF assms(2) [of "hq_UserID r"] step(1,3)] by (simp add: HTTPMiddleware_def)
    next
      case False
      then show ?thesis
        using step by (intro HTTPMiddleware_guard) (auto intro!: run assms(2))
    qed
    then show ?thesis unfolding corsMiddleware_def if_not_P [OF False] .
  qed
qed

lemma gateway_http_keeps:
  assumes "P w"
    and "\<And>u w1. w_ext w1 = w_ext w \<Longrightarrow> is_public_path (hq_Path r) \<and> u = hq_UserID r \<or>
       (\<exists>c. accepts (gc_Secret cfg) w1 (trim_prefix (hq_Header r ''Authorization'') ''Bearer '') c \<and> u = Some (cl_UserID c)) \<Longrightarrow>
       keeps P R (httpMux cfg swaggerJSON (rpc_mux rt cfg) (r\<lparr>hq_UserID := u\<rparr>))"
  shows "wp (gateway_http lg cfg swaggerJSON rt rl r) (\<lambda>_. R w) w"
proof -
  have "wp (http_server cfg swaggerJSON (rpc_mux rt cfg) rl r) (\<lambda>_. R w) w1" if w1: "db_same w w1" for w1
  proof -
    have "P w1" "R w w1" using assms(1) same [OF w1] kept by blast+
    moreover have "wp (http_server cfg swaggerJSON (rpc_mux rt cfg) rl r) (\<lambda>_. R w1) w1"
    proof (rule http_server_keeps [OF \<open>P w1\<close>])
      fix u assume "is_public_path (hq_Path r) \<and> u = hq_UserID r \<or>
        (\<exists>c. accepts (gc_Secret cfg) (pass w1) (trim_prefix (hq_Header r ''Authorization'') ''Bearer '') c \<and> u = Some (cl_UserID c))"
      then show "keeps P R (httpMux cfg swaggerJSON (rpc_mux rt cfg) (r\<lparr>hq_UserID := u\<rparr>))"
        by (intro assms(2) [of "pass w1"]) (use w1 in \<open>simp_all add: db_same_def\<close>)
    qed
    ultimately show ?thesis by (auto elim!: wp_mono intro: trans)
  qed
  then have "wp (HTTPRequestLogger lg (\<lambda>_. http_server cfg swaggerJSON (rpc_mux rt cfg) rl) Background r)
      (\<lambda>((reply, s), requestID, line) w'. case line of None \<Rightarrow> R w w' | Some l \<Rightarrow> \<exists>w2. R w w2 \<and> w' = pass w2) w"
    by (intro wp_mono [OF HTTPRequestLogger_logs [where Q = "\<lambda>_. R w"]]) (auto split: option.splits prod.splits)
  then show ?thesis
    unfolding gateway_http_def
    by (rule wp_mono) (auto intro: trans [OF _ same [OF db_same_pass]] split: option.splits prod.splits)
qed

end

end
