(* ===== verification/Ownership.thy ===== *)
theory Ownership
  imports Routes
begin

text \<open>
  Whose rows a request of the gateway may touch: whatever a driver asks for, the reservations,
  invoices and transactions of the other drivers stay as they are, on any network. The two handlers
  that take the identifier of a row from the body and do not look at its owner,
  \<open>ConfirmBookingPayment\<close> and \<open>SimulateSettle\<close>, are not among these.
\<close>

section \<open>The rows of the others\<close>

definition others_kept :: "string \<Rightarrow> 'k world \<Rightarrow> 'k world \<Rightarrow> bool" where
  "others_kept driverID w w' \<longleftrightarrow>
     filter (\<lambda>r. rr_driver_id r \<noteq> driverID) (w_reservations w') = filter (\<lambda>r. rr_driver_id r \<noteq> driverID) (w_reservations w)
     \<and> filter (\<lambda>r. ir_driver_id r \<noteq> driverID) (w_invoices w') = filter (\<lambda>r. ir_driver_id r \<noteq> driverID) (w_invoices w)
     \<and> filter (\<lambda>r. tr_driver_id r \<noteq> driverID) (w_transactions w') = filter (\<lambda>r. tr_driver_id r \<noteq> driverID) (w_transactions w)"

lemma others_kept_same: "db_same w w' \<Longrightarrow> others_kept D w w'"
  by (simp add: others_kept_def db_same_def)

lemma others_kept_trans: "others_kept D w w' \<Longrightarrow> others_kept D w' w'' \<Longrightarrow> others_kept D w w''"
  by (simp add: others_kept_def)

interpretation own: quiet_post w "others_kept D w" for w :: "'k world" and D
  by unfold_locales (auto intro: others_kept_same others_kept_trans)

definition acts_for :: "string \<Rightarrow> 'k world \<Rightarrow> 'k world \<Rightarrow> bool" where
  "acts_for driverID w w' \<longleftrightarrow> system_step w w' \<and> others_kept driverID w w'"

interpretation acting: step_relation keys_ok "acts_for D" for D
  by unfold_locales (auto simp: acts_for_def intro: system.same others_kept_same system_step_trans others_kept_trans
      system_step_keys_ok)

lemma acts_forI:
  assumes "keeps keys_ok system_step m" "\<And>w. keys_ok w \<Longrightarrow> wp m (\<lambda>_. others_kept D w) w"
  shows "keeps keys_ok (acts_for D) m"
  using assms by (simp add: keeps_def acts_for_def wp_fst_snd)

section \<open>The reservation service\<close>

lemma filter_kept_by_update:
  assumes "\<And>r. r \<in> set rows \<Longrightarrow> P r \<Longrightarrow> \<not> keep r \<and> \<not> keep (f r)"
  shows "filter keep (update_where P f rows) = filter keep rows"
  using assms by (induction rows) (auto simp: update_where_def)

lemma same_key_same_driver:
  assumes "keys_ok w" "row \<in> set (w_reservations w)" "r \<in> set (w_reservations w)" "rr_id r = rr_id row"
  shows "r = row"
  using reservations.find_present [OF assms(1,2)] reservations.find_present [OF assms(1,3)] assms(4) by simp

lemma update_others_kept:
  assumes "keys_ok w" "row \<in> set (w_reservations w)" "rr_id row = rid" "rr_driver_id row = D"
    and "\<And>r. rr_driver_id (f r) = rr_driver_id r"
  shows "others_kept D w (update_reservations rid f w)"
proof -
  have "rr_driver_id r = D" if "r \<in> set (w_reservations w)" "rr_id r = rid" for r
    using same_key_same_driver [OF assms(1,2) that(1)] that(2) assms(3,4) by simp
  then have "filter (\<lambda>r. rr_driver_id r \<noteq> D) (update_where (\<lambda>r. rr_id r = rid) f (w_reservations w))
      = filter (\<lambda>r. rr_driver_id r \<noteq> D) (w_reservations w)"
    using assms(5) by (intro filter_kept_by_update) simp
  then show ?thesis by (simp add: others_kept_def update_reservations_def)
qed

lemma exec_others_kept:
  assumes "db_same w w1" "keys_ok w"
    and "row \<in> set (w_reservations w)" "rr_id row = rid" "rr_driver_id row = D"
    and "\<And>r. rr_driver_id (f r) = rr_driver_id r"
  shows "wp (exec (update_reservations rid f)) (\<lambda>_. others_kept D w) w1"
proof -
  have same: "db_same w (arrive w1)" using assms(1) by simp
  then have "keys_ok (arrive w1)" "row \<in> set (w_reservations (arrive w1))"
    using assms(2,3) by (simp_all add: keys_ok_def db_same_def)
  from update_others_kept [OF this assms(4-6)] same
  have "others_kept D w (update_reservations rid f (arrive w1))" "others_kept D w (arrive w1)"
    by (auto intro: others_kept_trans others_kept_same)
  then show ?thesis by (simp add: wp_exec split: fate.split)
qed

lemma CancelReservation_others:
  assumes "keys_ok w"
  shows "wp (CancelReservation p rid D) (\<lambda>_. others_kept D w) w"
  unfolding CancelReservation_def PublishReservationCancelled_def UpdateCancelled_def Let_def
  by (intro own.read_then [OF db_same_refl] wp_ifI own.failed after_now own.done_then exec_others_kept [OF _ assms] quiet_intros) auto

lemma CheckIn_others:
  assumes "keys_ok w"
  shows "wp (CheckIn p rid D) (\<lambda>_. others_kept D w) w"
  unfolding CheckIn_def PublishCheckInDetected_def UpdateCheckIn_def Let_def
  by (intro own.read_then [OF db_same_refl] wp_ifI own.failed after_now after_uuid own.done_then exec_others_kept [OF _ assms] quiet_intros) auto

lemma CheckOut_others:
  assumes "keys_ok w"
  shows "wp (CheckOut p rid D key) (\<lambda>_. others_kept D w) w"
  unfolding CheckOut_def PublishCheckOutCompleted_def UpdateCheckOut_def Let_def case_prod_beta
  by (rule own.quiet_then [OF leaves_db_idempotency(1) db_same_refl], rule wp_ifI,
      erule own.quiet_same [rotated], (intro quiet_intros)[1],
      intro own.read_then wp_ifI own.failed after_now own.done_then exec_others_kept [OF _ assms] quiet_intros) auto

text \<open>What is inserted is the driver's own. These programs need nothing of the world.\<close>

interpretation others: step_relation "\<lambda>_. True" "others_kept D" for D
  by unfold_locales (auto intro: others_kept_same others_kept_trans)

lemma InsertReservation_others: "r_DriverID r = D \<Longrightarrow> keeps (\<lambda>_. True) (others_kept D) (InsertReservation r)"
  unfolding InsertReservation_def by (rule others.keeps_remote) (auto simp: Let_def others_kept_def)

lemma insert_invoice_others:
  "(\<And>now. ir_driver_id (mk now) = D) \<Longrightarrow> keeps (\<lambda>_. True) (others_kept D) (insert_invoice_row mk)"
  unfolding insert_invoice_row_def by (rule others.keeps_remote) (auto simp: Let_def others_kept_def)

lemma InsertTransaction_others: "t_DriverID tx = D \<Longrightarrow> keeps (\<lambda>_. True) (others_kept D) (InsertTransaction tx)"
  unfolding InsertTransaction_def
  by (rule others.keeps_remote) (auto simp: Let_def others_kept_def transaction_row_of_def)

lemma find_spot_quiet [quiet_intros]: "leaves_db (find_spot vt mode sid)"
  unfolding find_spot_def by (intro quiet_intros)

lemma CreateReservation_others: "keeps (\<lambda>_. True) (others_kept D) (CreateReservation D key vt mode sid)"
  unfolding CreateReservation_def store_reservation_def Let_def case_prod_beta
  by (intro others.keeps_rules InsertReservation_others others.keeps_quiet quiet_intros) simp_all

lemma GenerateInvoice_others: "keeps (\<lambda>_. True) (others_kept D) (GenerateInvoice s r D key cin out)"
  unfolding GenerateInvoice_def InsertInvoice_def Let_def case_prod_beta
  by (intro others.keeps_rules insert_invoice_others others.keeps_quiet quiet_intros)
    (simp add: parking_invoice_def invoice_row_of_def Let_def)

lemma CreateTransaction_others: "keeps (\<lambda>_. True) (others_kept D) (CreateTransaction g i D k m a c)"
  unfolding CreateTransaction_def Let_def case_prod_beta
  by (intro others.keeps_rules InsertTransaction_others others.keeps_quiet quiet_intros)
    (simp add: new_transaction_def split: prod.split)

lemma acts_for_own:
  "keeps keys_ok (acts_for D) (CreateReservation D key vt mode sid)"
  "keeps keys_ok (acts_for D) (CancelReservation p rid D)"
  "keeps keys_ok (acts_for D) (CheckIn p rid D)"
  "keeps keys_ok (acts_for D) (CheckOut p rid D key)"
  "keeps keys_ok (acts_for D) (GenerateInvoice s r D key cin out)"
  "keeps keys_ok (acts_for D) (CreateTransaction g i D k m a c)"
  by (rule acts_forI, rule reservations_keep GenerateInvoice_keeps CreateTransaction_keeps,
      simp add: CancelReservation_others CheckIn_others CheckOut_others
        others.keepsD [OF CreateReservation_others] others.keepsD [OF GenerateInvoice_others]
        others.keepsD [OF CreateTransaction_others])+

section \<open>The methods of the gateway\<close>

lemma reads_act_for:
  "keeps keys_ok (acts_for D) (rpc_GetReservation rid)" "keeps keys_ok (acts_for D) (rpc_GetActiveReservation did)"
  "keeps keys_ok (acts_for D) (rpc_GetAvailability vt)" "keeps keys_ok (acts_for D) (rpc_GetInvoice iid)"
  "keeps keys_ok (acts_for D) (rpc_GetInvoiceBySession sid)" "keeps keys_ok (acts_for D) (rpc_GetTransactionStatus tid)"
  by (rule acting.keeps_quiet, rule leaves_db_rpc_reads)+

lemma rpcs_act_for:
  "keeps keys_ok (acts_for (cr_DriverId creq)) (rpc_CreateReservation creq)"
  "keeps keys_ok (acts_for D) (rpc_CancelReservation p rid D)"
  "keeps keys_ok (acts_for D) (rpc_CheckIn p rid D)" "keeps keys_ok (acts_for D) (rpc_CheckOut p rid D key)"
  "keeps keys_ok (acts_for (gi_DriverId ireq)) (rpc_GenerateInvoice ireq)"
  "keeps keys_ok (acts_for (ct_DriverId treq)) (rpc_CreateTransaction g treq)"
  unfolding rpc_CreateReservation_def rpc_CancelReservation_def rpc_CheckIn_def rpc_CheckOut_def
    rpc_GenerateInvoice_def rpc_CreateTransaction_def Let_def case_prod_beta
  by (intro acting.keeps_rules acts_for_own)+

lemma rpcs_act_for_driver:
  "cr_DriverId creq = D \<Longrightarrow> keeps keys_ok (acts_for D) (rpc_CreateReservation creq)"
  "gi_DriverId ireq = D \<Longrightarrow> keeps keys_ok (acts_for D) (rpc_GenerateInvoice ireq)"
  "ct_DriverId treq = D \<Longrightarrow> keeps keys_ok (acts_for D) (rpc_CreateTransaction g treq)"
  using rpcs_act_for by metis+

lemma CreateBookingFeeInvoice_others: "keeps (\<lambda>_. True) (others_kept D) (CreateBookingFeeInvoice rid D key)"
  unfolding CreateBookingFeeInvoice_def ok_def
  by (intro others.keeps_rules insert_invoice_others others.keeps_quiet [OF leaves_db_query]
      others.keeps_quiet [OF leaves_db_uuid_New]) simp

lemma CreateBookingFeeInvoice_acts_for: "keeps keys_ok (acts_for D) (CreateBookingFeeInvoice rid D key)"
  by (rule acts_forI [OF CreateBookingFeeInvoice_keeps]) (simp add: others.keepsD [OF CreateBookingFeeInvoice_others])

lemma give_back_acts_for: "keeps keys_ok (acts_for D) (give_back p rid D msg)"
  unfolding give_back_def by (intro acting.keeps_rules rpcs_act_for)

lemma missing_user_acts_for: "keeps keys_ok (acts_for D) missing_user"
  unfolding missing_user_def by (rule acting.keeps_return)

lemma as_user:
  assumes "UserIDFromContext ctx = None \<or> UserIDFromContext ctx = Some D"
    and "keeps keys_ok (acts_for D) m" "keeps keys_ok (acts_for D) (f D)"
  shows "keeps keys_ok (acts_for D) (case UserIDFromContext ctx of None \<Rightarrow> m | Some u \<Rightarrow> f u)"
  using assms by auto

lemma methods_act_for:
  assumes "\<And>u. UserIDFromContext ctx = Some u \<Longrightarrow> u = D"
  shows "keeps keys_ok (acts_for D) (gw_GetParkingAvailability vt)"
    "keeps keys_ok (acts_for D) (gw_CreateReservation p g ctx req)"
    "keeps keys_ok (acts_for D) (gw_GetMyReservation ctx)" "keeps keys_ok (acts_for D) (gw_CancelReservation p ctx rid)"
    "keeps keys_ok (acts_for D) (gw_CheckIn p ctx rid spot)" "keeps keys_ok (acts_for D) (gw_CheckOut p ctx rid key)"
    "keeps keys_ok (acts_for D) (gw_GetInvoice iid)" "keeps keys_ok (acts_for D) (gw_PreviewBilling sid)"
    "keeps keys_ok (acts_for D) (gw_CreatePayment g ctx iid m key)" "keeps keys_ok (acts_for D) (gw_GetPaymentStatus tid)"
proof -
  note defs = gw_GetParkingAvailability_def gw_CreateReservation_def gw_GetMyReservation_def gw_CancelReservation_def
    gw_CheckIn_def same_spot_def gw_CheckOut_def gw_GetInvoice_def gw_PreviewBilling_def gw_CreatePayment_def
    gw_GetPaymentStatus_def Let_def case_prod_beta
  note rules = acting.keeps_rules reads_act_for rpcs_act_for(2-4) rpcs_act_for_driver CreateBookingFeeInvoice_acts_for
    give_back_acts_for missing_user_acts_for
  show "keeps keys_ok (acts_for D) (gw_GetParkingAvailability vt)"
    "keeps keys_ok (acts_for D) (gw_GetInvoice iid)" "keeps keys_ok (acts_for D) (gw_PreviewBilling sid)"
    "keeps keys_ok (acts_for D) (gw_GetPaymentStatus tid)"
    unfolding defs by (intro rules)+
  have D: "UserIDFromContext ctx = None \<or> UserIDFromContext ctx = Some D"
    using assms by (cases "UserIDFromContext ctx") auto
  note user = as_user [OF D]
  show "keeps keys_ok (acts_for D) (gw_GetMyReservation ctx)"
    unfolding defs by (rule user; intro rules)
  show "keeps keys_ok (acts_for D) (gw_CancelReservation p ctx rid)"
    unfolding defs by (rule user; intro rules)
  show "keeps keys_ok (acts_for D) (gw_CheckIn p ctx rid spot)"
    unfolding defs by (rule user; intro rules)
  show "keeps keys_ok (acts_for D) (gw_CreateReservation p g ctx req)"
    unfolding defs by (rule user; intro rules; simp add: booking_payment_def)
  show "keeps keys_ok (acts_for D) (gw_CheckOut p ctx rid key)"
    unfolding defs by (rule user; intro rules; simp)
  show "keeps keys_ok (acts_for D) (gw_CreatePayment g ctx iid m key)"
    unfolding defs by (rule user; intro rules; simp)
qed

section \<open>The other handlers\<close>

text \<open>The history marks rows it has read as the driver's; that a row is theirs does not change on the way.\<close>

definition belong_to :: "string \<Rightarrow> (reservation_row \<times> spot_row) list \<Rightarrow> 'k world \<Rightarrow> bool" where
  "belong_to D rows w \<longleftrightarrow> (\<forall>(r, s) \<in> set rows. \<forall>row \<in> set (w_reservations w). rr_id row = rr_id r \<longrightarrow> rr_driver_id row = D)"

lemma belong_to_same: "belong_to D rows w \<Longrightarrow> db_same w w' \<Longrightarrow> belong_to D rows w'"
  by (simp add: belong_to_def db_same_def)

lemma belong_to_expire:
  assumes "belong_to D rows w"
  shows "belong_to D rows (w\<lparr>w_reservations := update_where Q (\<lambda>r. r\<lparr>rr_status := StatusExpired\<rparr>) (w_reservations w)\<rparr>)"
  using assms by (fastforce simp: belong_to_def set_update_where)

lemma expire_pending_others:
  assumes "belong_to D ((r, s) # rows) w"
  shows "wp (expire_pending (rr_id r)) (\<lambda>_ w'. others_kept D w w' \<and> belong_to D rows w') w"
proof -
  have rest: "belong_to D rows w" using assms by (simp add: belong_to_def)
  have arrived: "others_kept D w (arrive w)" "belong_to D rows (arrive w)"
    using belong_to_same [OF rest db_same_arrive] by (simp_all add: others_kept_same)
  have "others_kept D w ((arrive w)\<lparr>w_reservations := update_where (\<lambda>x. rr_id x = rr_id r \<and> rr_status x = StatusPending)
      (\<lambda>x. x\<lparr>rr_status := StatusExpired\<rparr>) (w_reservations (arrive w))\<rparr>)"
    using assms by (auto simp: others_kept_def belong_to_def intro!: filter_kept_by_update)
  with arrived belong_to_expire [OF arrived(2)] show ?thesis
    by (auto simp: expire_pending_def wp_exec split: fate.split)
qed

lemma history_loop_others: "belong_to D rows w \<Longrightarrow> wp (history_loop now rows) (\<lambda>_. others_kept D w) w"
proof (induction rows arbitrary: w)
  case Nil
  then show ?case by (simp add: wp_return others_kept_same)
next
  case (Cons x rows)
  obtain r s where x: "x = (r, s)" by (cases x)
  have rest: "wp (State_Monad.bind (history_loop now rows) (\<lambda>h. State_Monad.return (f h))) (\<lambda>_. others_kept D w) w2"
    if "others_kept D w w2" "belong_to D rows w2" for w2 f
    using Cons.IH [OF that(2)] others_kept_trans [OF that(1)] by (auto simp: wp_bind wp_return elim!: wp_mono)
  have tl: "belong_to D rows w" using Cons.prems by (simp add: belong_to_def)
  show ?case
    using expire_pending_others [OF Cons.prems [unfolded x]] rest [OF others_kept_same [OF db_same_refl] tl]
    by (simp add: x wp_bind [of "expire_pending _"]) (auto elim!: wp_mono intro: rest)
qed

lemma driver_history_belong:
  assumes "keys_ok w"
  shows "belong_to D (driver_history D w) w"
proof -
  have "rr_driver_id r = D" if "(r, s) \<in> set (driver_history D w)" for r s
    using that unfolding driver_history_def by - (drule in_set_takeD, auto split: if_splits)
  then have "rr_driver_id row = D"
    if "(r, s) \<in> set (driver_history D w)" "row \<in> set (w_reservations w)" "rr_id row = rr_id r" for r s row
    using same_key_same_driver [OF assms driver_history_rows [OF that(1)] that(2,3)] that(1) by simp
  then show ?thesis unfolding belong_to_def by blast
qed

lemma ReservationHistory_others:
  assumes "keys_ok w" "UserIDFromContext (hq_UserID r) = None \<or> UserIDFromContext (hq_UserID r) = Some D"
  shows "wp (ReservationHistory r) (\<lambda>_. others_kept D w) w"
proof (cases "UserIDFromContext (hq_UserID r)")
  case None
  then show ?thesis by (simp add: ReservationHistory_def wp_write others_kept_same)
next
  case (Some u)
  with assms(2) have u: "UserIDFromContext (hq_UserID r) = Some D" by simp
  have "wp (query (\<lambda>w. Inr (driver_history D w))) (\<lambda>res w'. wp (case res of
      Inl _ \<Rightarrow> writeError StatusInternalServerError ''failed to query history''
    | Inr rows \<Rightarrow> do { now \<leftarrow> time_Now; history \<leftarrow> history_loop now rows; writeJSON StatusOK history })
      (\<lambda>_. others_kept D w) w') w"
  proof (rule wp_mono [OF query_db_same], elim conjE, goal_cases)
    case (1 res w1)
    show ?case
    proof (cases res)
      case (Inr rows)
      have "keys_ok w1" using assms(1) 1(1) by (simp add: keys_ok_def db_same_def)
      then have "belong_to D rows (pass w1)"
        using 1(2) Inr belong_to_same [OF driver_history_belong db_same_pass] by auto
      then have "wp (history_loop (w_clock (pass w1)) rows) (\<lambda>_. others_kept D (pass w1)) (pass w1)"
        by (rule history_loop_others)
      moreover have "others_kept D w (pass w1)" using 1(1) by (auto intro: others_kept_same)
      ultimately show ?thesis
        using Inr by (auto simp: wp_bind wp_time_Now wp_write elim!: wp_mono intro: others_kept_trans)
    qed (use 1(1) in \<open>simp add: wp_write others_kept_same\<close>)
  qed
  then show ?thesis unfolding ReservationHistory_def u by (simp add: wp_bind)
qed

lemma insert_driver_others: "keeps (\<lambda>_. True) (others_kept D) (insert_driver name email phone hash vt)"
  unfolding insert_driver_def
  by (rule others.keeps_remote) (auto simp: Let_def others_kept_def split: option.split)

lemma Register_others: "keeps (\<lambda>_. True) (others_kept D) (Register secret expiryH r)"
  unfolding Register_def Let_def
  by (intro others.keeps_rules insert_driver_others others.keeps_quiet [OF leaves_db_bcrypt_Generate]
      others.keeps_quiet [OF leaves_db_GenerateToken])

lemma handlers_act_for:
  assumes "UserIDFromContext (hq_UserID r) = None \<or> UserIDFromContext (hq_UserID r) = Some D"
  shows "keeps keys_ok (acts_for D) (Register secret expiryH r)" "keeps keys_ok (acts_for D) (Login secret expiryH r)"
    "keeps keys_ok (acts_for D) (ReservationHistory r)" "keeps keys_ok (acts_for D) (GetPendingPayment r)"
    "keeps keys_ok (acts_for D) (ListAvailableSpots_http r)"
proof -
  show "keeps keys_ok (acts_for D) (Register secret expiryH r)"
    by (rule acts_forI [OF Register_keeps]) (simp add: others.keepsD [OF Register_others])
  show "keeps keys_ok (acts_for D) (ReservationHistory r)"
    by (rule acts_forI [OF ReservationHistory_keeps]) (rule ReservationHistory_others [OF _ assms])
  show "keeps keys_ok (acts_for D) (Login secret expiryH r)" "keeps keys_ok (acts_for D) (GetPendingPayment r)"
    "keeps keys_ok (acts_for D) (ListAvailableSpots_http r)"
    by (rule acting.keeps_quiet, rule leaves_db_Login leaves_db_GetPendingPayment leaves_db_ListAvailableSpots_http)+
qed

section \<open>Any HTTP request\<close>

lemma httpMux_acts_for:
  assumes "UserIDFromContext (hq_UserID r) = None \<or> UserIDFromContext (hq_UserID r) = Some D"
    and "hq_Path r \<notin> {''/v1/reservations/confirm-payment'', ''/v1/payments/simulate-settle''}"
  shows "keeps keys_ok (acts_for D) (httpMux cfg swaggerJSON (rpc_mux rt cfg) r)"
proof (rule acting.keeps_httpMux)
  have user: "u = D" if "UserIDFromContext (hq_UserID r) = Some u" for u using assms(1) that by auto
  show "keeps keys_ok (acts_for D) (rpc_mux rt cfg r)"
    by (rule acting.keeps_rpc_mux) (rule methods_act_for [OF user]; assumption)+
qed (use assms(2) handlers_act_for [OF assms(1)] in auto)

lemma gateway_http_acts_for:
  assumes "keys_ok w" "hq_UserID r = None"
    and "hq_Path r \<notin> {''/v1/reservations/confirm-payment'', ''/v1/payments/simulate-settle''}"
    and "\<And>w1 c. w_ext w1 = w_ext w \<Longrightarrow>
       accepts (gc_Secret cfg) w1 (trim_prefix (hq_Header r ''Authorization'') ''Bearer '') c \<Longrightarrow> cl_UserID c = D"
  shows "wp (gateway_http lg cfg swaggerJSON rt rl r) (\<lambda>_. acts_for D w) w"
proof (rule acting.gateway_http_keeps [OF assms(1)])
  fix u w1
  assume "w_ext w1 = w_ext w" and u: "is_public_path (hq_Path r) \<and> u = hq_UserID r \<or>
    (\<exists>c. accepts (gc_Secret cfg) w1 (trim_prefix (hq_Header r ''Authorization'') ''Bearer '') c \<and> u = Some (cl_UserID c))"
  then have "u = None \<or> u = Some D" using assms(2,4) by auto
  then show "keeps keys_ok (acts_for D) (httpMux cfg swaggerJSON (rpc_mux rt cfg) (r\<lparr>hq_UserID := u\<rparr>))"
    using assms(3) by (intro httpMux_acts_for) (auto simp: UserIDFromContext_def split: if_splits)
qed

lemma gateway_http_system_step: "keys_ok w \<Longrightarrow> wp (gateway_http lg cfg swaggerJSON rt rl r) (\<lambda>_. system_step w) w"
  by (rule system.gateway_http_keeps) (auto intro!: system.keeps_httpMux system.keeps_rpc_mux handlers_keep gateway_methods_keep)

end
