(* ===== verification/Concurrency.thy ===== *)
theory Concurrency
  imports Interleaving Ownership
begin

text \<open>
  Every operation of the reservation service call by call, so that requests of all kinds and the
  expiry job can be mixed. The updates of \<open>repository.go\<close> name a row by its identifier only and do not
  look at its status again, so a request may write over what another has done since it read the row:
  the status does not move forward any more. The theory shows what no interleaving can break, with
  the locale \<open>guarantee\<close>, and an interleaving that cancels a reservation whose driver is inside.
\<close>

section \<open>The operations, call by call\<close>

definition confirm_proc :: "EventPublisher \<Rightarrow> string \<Rightarrow> ('k world, goerr + Reservation) proc" where
  "confirm_proc p reservationID =
     or_return_proc (atom (repo_GetReservation reservationID)) (ErrWrap ''get reservation: '') (\<lambda>r.
     if r_Status r \<noteq> StatusPending
     then Ret (Inl (ErrNew (''cannot confirm: status is '' @ status_string (r_Status r))))
     else bind_proc (atom time_Now) (\<lambda>now. let expiresAt = Add now HoldDuration in
       or_return_proc (atom (UpdateConfirmed reservationID now expiresAt)) (ErrWrap ''update confirmed: '') (\<lambda>_.
       bind_proc (atom (Acquire (spotLockKey (s_SpotID (r_Spot r))) reservationID HoldDuration)) (\<lambda>_.
       let r = r\<lparr>r_Status := StatusConfirmed, r_ConfirmedAt := now, r_ExpiresAt := expiresAt\<rparr> in
       bind_proc (atom (PublishReservationConfirmed p r)) (\<lambda>_. Ret (Inr r))))))"

definition cancel_proc :: "EventPublisher \<Rightarrow> string \<Rightarrow> string \<Rightarrow> ('k world, goerr + Reservation \<times> int) proc" where
  "cancel_proc p reservationID driverID =
     or_return_proc (atom (repo_GetReservation reservationID)) (ErrWrap ''get reservation: '') (\<lambda>r.
     if r_DriverID r \<noteq> driverID then Ret (Inl (ErrNew ''reservation not owned by driver''))
     else if r_Status r \<noteq> StatusConfirmed \<and> r_Status r \<noteq> StatusPending
     then Ret (Inl (ErrNew (''reservation cannot be cancelled in status '' @ status_string (r_Status r))))
     else bind_proc (atom time_Now) (\<lambda>now.
       let fee = (if Sub now (r_ConfirmedAt r) \<le> 2 * Minute then 0 else 5000) in
       or_return_proc (atom (UpdateCancelled reservationID now)) (ErrWrap ''update cancelled: '') (\<lambda>_.
       bind_proc (atom (Release (spotLockKey (s_SpotID (r_Spot r))) reservationID)) (\<lambda>_.
       let r = r\<lparr>r_Status := StatusCancelled, r_CancelledAt := Some now\<rparr> in
       bind_proc (atom (PublishReservationCancelled p r)) (\<lambda>_. Ret (Inr (r, fee)))))))"

definition check_in_proc :: "EventPublisher \<Rightarrow> string \<Rightarrow> string \<Rightarrow> ('k world, goerr + Reservation) proc" where
  "check_in_proc p reservationID driverID =
     or_return_proc (atom (repo_GetReservation reservationID)) (ErrWrap ''get reservation: '') (\<lambda>r.
     if r_DriverID r \<noteq> driverID then Ret (Inl (ErrNew ''reservation not owned by driver''))
     else if r_Status r \<noteq> StatusConfirmed
     then Ret (Inl (ErrNew (''cannot check in: status is '' @ status_string (r_Status r))))
     else bind_proc (atom time_Now) (\<lambda>t.
       if After t (r_ExpiresAt r) then Ret (Inl (ErrNew ''reservation expired''))
       else bind_proc (atom uuid_New) (\<lambda>sessionID. bind_proc (atom time_Now) (\<lambda>now.
         or_return_proc (atom (UpdateCheckIn reservationID sessionID now)) (ErrWrap ''update check-in: '') (\<lambda>_.
         let r = r\<lparr>r_Status := StatusActive, r_SessionID := sessionID, r_CheckInAt := Some now\<rparr> in
         bind_proc (atom (PublishCheckInDetected p r)) (\<lambda>_. Ret (Inr r)))))))"

definition check_out_proc ::
  "EventPublisher \<Rightarrow> string \<Rightarrow> string \<Rightarrow> string \<Rightarrow> ('k world, goerr + Reservation) proc" where
  "check_out_proc p reservationID driverID idempotencyKey =
     or_return_proc (atom (Check (store_key idempotencyKey))) (ErrWrap ''idempotency check: '') (\<lambda>(_, hit).
     if hit then atom (repo_GetReservation reservationID)
     else or_return_proc (atom (repo_GetReservation reservationID)) (ErrWrap ''get reservation: '') (\<lambda>r.
     if r_DriverID r \<noteq> driverID then Ret (Inl (ErrNew ''reservation not owned by driver''))
     else if r_Status r \<noteq> StatusActive
     then Ret (Inl (ErrNew (''cannot check out: status is '' @ status_string (r_Status r))))
     else bind_proc (atom time_Now) (\<lambda>now.
       or_return_proc (atom (UpdateCheckOut reservationID now)) (ErrWrap ''update check-out: '') (\<lambda>_.
       bind_proc (atom (Release (spotLockKey (s_SpotID (r_Spot r))) reservationID)) (\<lambda>_.
       bind_proc (atom (Save (store_key idempotencyKey) reservationID DefaultTTL)) (\<lambda>_.
       let r = r\<lparr>r_Status := StatusCompleted, r_CheckOutAt := Some now\<rparr> in
       bind_proc (atom (PublishCheckOutCompleted p r)) (\<lambda>_. Ret (Inr r))))))))"

fun expire_loop_proc :: "EventPublisher \<Rightarrow> Reservation list \<Rightarrow> ('k world, goerr + unit) proc" where
  "expire_loop_proc p [] = Ret (Inr ())"
| "expire_loop_proc p (r # rs) =
     bind_proc (atom (UpdateStatus (r_ReservationID r) StatusExpired)) (\<lambda>updated. case updated of
         Inl err \<Rightarrow> expire_loop_proc p rs
       | Inr _ \<Rightarrow> bind_proc (atom (Release (spotLockKey (s_SpotID (r_Spot r))) (r_ReservationID r))) (\<lambda>_.
           bind_proc (atom (PublishReservationExpired p r)) (\<lambda>_. expire_loop_proc p rs)))"

definition expire_proc :: "EventPublisher \<Rightarrow> ('k world, goerr + unit) proc" where
  "expire_proc p = bind_proc (atom time_Now) (\<lambda>now.
     or_return_proc (atom (repo_ListExpiredReservations now)) (ErrWrap ''list expired: '') (\<lambda>expired.
       expire_loop_proc p expired))"

text \<open>The requests of \<open>ReservationRefinement\<close> in this form; the three that only read are one call each.\<close>

definition call_proc :: "EventPublisher \<Rightarrow> res_call \<Rightarrow> ('k world, unit) proc" where
  "call_proc p c = (case c of
       CreateCall did key vt mode sid \<Rightarrow> bind_proc (booking_proc did key vt mode sid) (\<lambda>_. Ret ())
     | ConfirmCall rid \<Rightarrow> bind_proc (confirm_proc p rid) (\<lambda>_. Ret ())
     | CancelCall rid did \<Rightarrow> bind_proc (cancel_proc p rid did) (\<lambda>_. Ret ())
     | CheckInCall rid did \<Rightarrow> bind_proc (check_in_proc p rid did) (\<lambda>_. Ret ())
     | CheckOutCall rid did key \<Rightarrow> bind_proc (check_out_proc p rid did key) (\<lambda>_. Ret ())
     | GetCall rid \<Rightarrow> bind_proc (atom (GetReservation rid)) (\<lambda>_. Ret ())
     | GetActiveCall did \<Rightarrow> bind_proc (atom (GetActiveReservation did)) (\<lambda>_. Ret ())
     | AvailabilityCall vt \<Rightarrow> bind_proc (atom (GetAvailability vt)) (\<lambda>_. Ret ())
     | ListSpotsCall vt flr \<Rightarrow> bind_proc (atom (ListAvailableSpots vt flr)) (\<lambda>_. Ret ())
     | ExpireTick \<Rightarrow> bind_proc (expire_proc p) (\<lambda>_. Ret ()))"

text \<open>Alone, each is the operation.\<close>

lemmas procs = or_return_proc_def or_return_def ok_def fail_def Let_def

lemma confirm_proc_alone: "run_proc (confirm_proc p rid) w = run_state (ConfirmReservation p rid) w"
  by (auto simp: confirm_proc_def ConfirmReservation_def procs split: prod.split sum.split)

lemma cancel_proc_alone: "run_proc (cancel_proc p rid did) w = run_state (CancelReservation p rid did) w"
  by (auto simp: cancel_proc_def CancelReservation_def procs split: prod.split sum.split)

lemma check_in_proc_alone: "run_proc (check_in_proc p rid did) w = run_state (CheckIn p rid did) w"
  by (auto simp: check_in_proc_def CheckIn_def procs split: prod.split sum.split)

lemma check_out_proc_alone: "run_proc (check_out_proc p rid did key) w = run_state (CheckOut p rid did key) w"
  by (auto simp: check_out_proc_def CheckOut_def procs split: prod.split sum.split)

lemma expire_loop_proc_alone: "run_proc (expire_loop_proc p rs) w = run_state (expire_loop p rs) w"
  by (induction rs arbitrary: w) (auto simp: procs split: prod.split sum.split)

lemma expire_proc_alone: "run_proc (expire_proc p) w = run_state (ExpireReservations p) w"
  by (auto simp: expire_proc_def ExpireReservations_def procs expire_loop_proc_alone split: prod.split sum.split)

lemma call_proc_alone: "run_proc (call_proc p c) w = ((), run_call p c w)"
  by (cases c) (auto simp: call_proc_def booking_proc_alone confirm_proc_alone cancel_proc_alone check_in_proc_alone
      check_out_proc_alone expire_proc_alone split: prod.split)

section \<open>What every step guarantees\<close>

text \<open>
  A relation that is reflexive and transitive and that each single step of some processes respects
  is respected by any schedule of them.
\<close>

locale guarantee =
  fixes G :: "'s \<Rightarrow> 's \<Rightarrow> bool"
  assumes G_refl: "G s s" and G_trans: "G s s' \<Longrightarrow> G s' s'' \<Longrightarrow> G s s''"
begin

inductive obeys :: "('s, 'a) proc \<Rightarrow> bool" where
  obeys_Ret: "obeys (Ret a)"
| obeys_Step: "(\<And>s. G s (snd (f s)) \<and> obeys (fst (f s))) \<Longrightarrow> obeys (Step f)"

inductive_cases obeys_StepE: "obeys (Step f)"

lemma obeys_bind: "obeys p \<Longrightarrow> (\<And>a. obeys (g a)) \<Longrightarrow> obeys (bind_proc p g)"
  by (induction p rule: obeys.induct) (auto intro!: obeys_Step simp: map_prod_def case_prod_beta)

lemma obeys_atom: "(\<And>s. wp m (\<lambda>_. G s) s) \<Longrightarrow> obeys (atom m)"
  unfolding atom_def by (auto intro!: obeys_Step obeys_Ret simp: case_prod_beta wp_fst_snd)

lemma obeys_or_return: "obeys p \<Longrightarrow> (\<And>a. obeys (g a)) \<Longrightarrow> obeys (or_return_proc p wrap g)"
  unfolding or_return_proc_def by (rule obeys_bind) (auto intro: obeys_Ret split: sum.split)

lemma obeys_turn:
  assumes "\<forall>p \<in> set (fst c). obeys p"
  shows "G (snd c) (snd (turn i c)) \<and> (\<forall>p \<in> set (fst (turn i c)). obeys p)"
proof (cases "i < length (fst c) \<and> (\<exists>f. fst c ! i = Step f)")
  case True
  then obtain f where f: "i < length (fst c)" "fst c ! i = Step f" by blast
  then have "obeys (Step f)" using assms nth_mem [OF f(1)] by auto
  then have "G (snd c) (snd (f (snd c)))" "obeys (fst (f (snd c)))" by (auto elim: obeys_StepE)
  then show ?thesis
    using f assms by (auto simp: turn_def case_prod_beta dest: subsetD [OF set_update_subset_insert])
next
  case False
  then have "turn i c = c" by (auto simp: turn_def split: proc.split prod.split)
  then show ?thesis using assms G_refl by simp
qed

lemma interleave_guarantees:
  assumes "\<And>p. p \<in> set ps \<Longrightarrow> obeys p"
  shows "G s (snd (interleave schedule (ps, s)))"
proof -
  have "G (snd c) (snd (interleave schedule c))" if "\<forall>p \<in> set (fst c). obeys p" for c
    using that
  proof (induction schedule arbitrary: c)
    case (Cons i schedule)
    have "G (snd (turn i c)) (snd (interleave schedule (turn i c)))"
      using Cons obeys_turn [OF Cons.prems] by blast
    then show ?case using G_trans obeys_turn [OF Cons.prems, of i] by (simp add: interleave_def) blast
  qed (simp add: interleave_def G_refl)
  from this [of "(ps, s)"] show ?thesis using assms by simp
qed

end

section \<open>The identity of the reservations\<close>

text \<open>
  What a row is, and what is never taken back: whose it is and for which spot, that it once left
  pending, and that a check-in, a check-out or a cancellation was recorded.
\<close>

definition row_kept :: "reservation_row \<Rightarrow> reservation_row \<Rightarrow> bool" where
  "row_kept r r' \<longleftrightarrow> rr_id r' = rr_id r \<and> rr_driver_id r' = rr_driver_id r \<and> rr_spot_id r' = rr_spot_id r
     \<and> rr_assignment_mode r' = rr_assignment_mode r \<and> rr_idempotency_key r' = rr_idempotency_key r
     \<and> (rr_status r' = StatusPending \<longrightarrow> rr_status r = StatusPending)
     \<and> (rr_check_in_at r' = None \<longrightarrow> rr_check_in_at r = None) \<and> (rr_check_out_at r' = None \<longrightarrow> rr_check_out_at r = None)
     \<and> (rr_cancelled_at r' = None \<longrightarrow> rr_cancelled_at r = None)"

definition recorded :: "reservation_row \<Rightarrow> bool" where
  "recorded r \<longleftrightarrow> (rr_status r = StatusActive \<longrightarrow> rr_check_in_at r \<noteq> None \<and> rr_session_id r \<noteq> None)
     \<and> (rr_status r = StatusCompleted \<longrightarrow> rr_check_out_at r \<noteq> None)
     \<and> (rr_status r = StatusCancelled \<longrightarrow> rr_cancelled_at r \<noteq> None)"

definition identities_ok :: "'k world \<Rightarrow> bool" where
  "identities_ok w \<longleftrightarrow> distinct (map rr_id (w_reservations w)) \<and> distinct (map rr_idempotency_key (w_reservations w))
     \<and> rr_spot_id ` set (w_reservations w) \<subseteq> sr_id ` set (w_spots w) \<and> (\<forall>r \<in> set (w_reservations w). recorded r)"

definition identities_kept :: "'k world \<Rightarrow> 'k world \<Rightarrow> bool" where
  "identities_kept w w' \<longleftrightarrow> w_spots w' = w_spots w \<and> length (w_reservations w) \<le> length (w_reservations w')
     \<and> (\<forall>i < length (w_reservations w). row_kept (w_reservations w ! i) (w_reservations w' ! i))
     \<and> (identities_ok w \<longrightarrow> identities_ok w')"

lemma row_kept_refl [simp]: "row_kept r r"
  by (simp add: row_kept_def)

lemma row_kept_trans: "row_kept r r' \<Longrightarrow> row_kept r' r'' \<Longrightarrow> row_kept r r''"
  by (auto simp: row_kept_def)

lemma identities_kept_trans:
  assumes "identities_kept w w'" "identities_kept w' w''"
  shows "identities_kept w w''"
  unfolding identities_kept_def
proof (intro conjI allI impI)
  fix i assume i: "i < length (w_reservations w)"
  then have "row_kept (w_reservations w ! i) (w_reservations w' ! i)" "row_kept (w_reservations w' ! i) (w_reservations w'' ! i)"
    using assms by (simp_all add: identities_kept_def)
  then show "row_kept (w_reservations w ! i) (w_reservations w'' ! i)" by (rule row_kept_trans)
qed (use assms in \<open>simp_all add: identities_kept_def\<close>)

lemma identities_kept_same: "db_same w w' \<Longrightarrow> identities_kept w w'"
  by (simp add: identities_kept_def identities_ok_def db_same_def)

interpretation rows: guarantee "identities_kept :: 'k world \<Rightarrow> 'k world \<Rightarrow> bool"
  by unfold_locales (auto intro: identities_kept_same identities_kept_trans)

lemma obeys_quiet: "leaves_db m \<Longrightarrow> rows.obeys (atom m)"
  by (rule rows.obeys_atom) (auto simp: leaves_db_def intro: wp_mono identities_kept_same)

lemma update_identities:
  assumes "\<And>r. row_kept r (f r)" "\<And>r. recorded r \<Longrightarrow> recorded (f r)"
  shows "identities_kept w (update_reservations rid f w)"
proof -
  let ?rows = "w_reservations w" and ?w = "update_reservations rid f w"
  have columns: "map rr_id (w_reservations ?w) = map rr_id ?rows"
    "map rr_idempotency_key (w_reservations ?w) = map rr_idempotency_key ?rows"
    "set (map rr_spot_id (w_reservations ?w)) = set (map rr_spot_id ?rows)"
    using assms(1) by (simp_all add: row_kept_def del: set_map)
  have "\<forall>r \<in> set ?rows. recorded r \<Longrightarrow> \<forall>r \<in> set (w_reservations ?w). recorded r"
    using assms(2) by (auto simp: set_update_where)
  then have "identities_ok w \<Longrightarrow> identities_ok ?w"
    using columns by (simp add: identities_ok_def update_reservations_def)
  then show ?thesis using assms(1) by (simp add: identities_kept_def update_where_def update_reservations_def)
qed

lemma obeys_update:
  assumes "\<And>r. row_kept r (f r)" "\<And>r. recorded r \<Longrightarrow> recorded (f r)"
  shows "rows.obeys (atom (exec (update_reservations rid f)))"
proof (rule rows.obeys_atom)
  fix w :: "'a world"
  have "identities_kept w (update_reservations rid f (arrive w))"
    using identities_kept_trans [OF identities_kept_same [OF db_same_arrive] update_identities [of f, OF assms]] .
  then show "wp (exec (update_reservations rid f)) (\<lambda>_. identities_kept w) w"
    by (simp add: wp_exec identities_kept_same split: fate.split)
qed

lemma obeys_updates:
  "rows.obeys (atom (UpdateConfirmed rid t e))" "rows.obeys (atom (UpdateCancelled rid t))"
  "rows.obeys (atom (UpdateCheckIn rid sid t))" "rows.obeys (atom (UpdateCheckOut rid t))"
  "rows.obeys (atom (UpdateStatus rid StatusExpired))"
  unfolding UpdateConfirmed_def UpdateCancelled_def UpdateCheckIn_def UpdateCheckOut_def UpdateStatus_def
  by (rule obeys_update; simp add: row_kept_def recorded_def)+

lemma obeys_insert: "r_Status r = StatusPending \<Longrightarrow> rows.obeys (atom (InsertReservation r))"
  by (rule rows.obeys_atom)
    (auto simp: InsertReservation_def wp_remote Let_def identities_kept_same identities_kept_def identities_ok_def recorded_def
      nth_append split: fate.split)

lemma leaves_db_events: "leaves_db (PublishReservationConfirmed p r)" "leaves_db (PublishReservationCancelled p r)"
  "leaves_db (PublishReservationExpired p r)" "leaves_db (PublishCheckInDetected p r)" "leaves_db (PublishCheckOutCompleted p r)"
  by (simp_all add: Publish_defs leaves_db_publish)

lemmas obeys_intros = rows.obeys_bind rows.obeys_or_return rows.obeys_Ret obeys_updates obeys_quiet quiet_intros
  leaves_db_events


text \<open>Every request of the service is such a process.\<close>

lemma obeys_booking: "rows.obeys (booking_proc did key vt mode sid)"
  unfolding booking_proc_def store_proc_def Let_def
  by (intro obeys_intros) (auto intro!: obeys_intros obeys_insert split: sum.split option.split)

lemma obeys_requests:
  "rows.obeys (confirm_proc p rid)" "rows.obeys (cancel_proc p rid did)" "rows.obeys (check_in_proc p rid did)"
  "rows.obeys (check_out_proc p rid did key)"
  unfolding confirm_proc_def cancel_proc_def check_in_proc_def check_out_proc_def Let_def
  by (auto intro!: obeys_intros)

lemma obeys_expire: "rows.obeys (expire_proc p)"
proof -
  have "rows.obeys (expire_loop_proc p rs)" for rs :: "Reservation list"
    by (induction rs) (auto intro!: obeys_intros split: sum.split)
  then show ?thesis unfolding expire_proc_def by (intro obeys_intros)
qed

lemma obeys_call: "rows.obeys (call_proc p c)"
  by (cases c) (auto simp: call_proc_def intro!: obeys_intros obeys_booking obeys_requests obeys_expire)

section \<open>Two races\<close>

text \<open>
  A driver cancels and checks in at the same time. Both requests read the confirmed reservation; the
  check-in is written, then the cancellation: the reservation is cancelled, the lock of the spot is
  given back, and the car is inside, with no check-out possible.
\<close>

definition at_the_gate :: "kv world" where
  "at_the_gate = Samples.forward (10 * Minute) paid"

definition mixed :: "res_call list \<Rightarrow> nat list \<Rightarrow> kv world \<Rightarrow> kv world" where
  "mixed calls schedule w = snd (interleave schedule (map (call_proc MQPublisher) calls, w))"

lemma cancelled_inside:
  "map (\<lambda>r. (rr_status r, rr_check_in_at r \<noteq> None, rr_cancelled_at r \<noteq> None)) (w_reservations
     (mixed [CancelCall ''id-0-sample'' ''d1'', CheckInCall ''id-0-sample'' ''d1''] [0, 0, 1, 1, 1, 1, 1, 0, 0, 0, 1] at_the_gate)) =
     [(StatusCancelled, True, True)]"
  by code_simp

text \<open>
  The payment arrives while the expiry job runs. The job has expired the reservation and given the
  spot back, then the confirmation is written: an expired reservation is confirmed again.
\<close>

lemma expired_is_confirmed:
  "map rr_status (w_reservations (mixed [ConfirmCall ''id-0-sample'', ExpireTick] [0, 1, 1, 1, 1, 1]
     (Samples.forward (6 * Minute) booked))) = [StatusExpired]"
  "map rr_status (w_reservations (mixed [ConfirmCall ''id-0-sample'', ExpireTick] [0, 1, 1, 1, 1, 1, 0, 0, 0, 0]
     (Samples.forward (6 * Minute) booked))) = [StatusConfirmed]"
  by code_simp+

text \<open>
  C5: whatever requests are served at the same time, the expiry job among them, however their calls
  interleave and whatever the network does to them, no reservation is lost and none changes its
  driver, its spot, its key or its way of assignment; none becomes pending again, and a recorded
  check-in, check-out or cancellation stays recorded; the spots are untouched, and the identifiers
  and the keys stay unique, the spots known, and every status backed by the time it was reached.
\<close>

theorem concurrent_requests_keep_identities:
  "identities_kept w (snd (interleave schedule (map (call_proc p) calls, w)))"
  by (rule rows.interleave_guarantees) (auto simp: obeys_call)

end
