(* ===== verification/Seed.thy ===== *)
theory Seed
  imports ReservationBehaviour
begin

text \<open>
  The script that fills the car park, \<open>scripts/seed/main.go\<close>: for each of five floors thirty spots
  for cars and fifty for motorcycles, each with a statement that does nothing when the spot is
  there already. The totals that \<open>GetAvailability\<close> reports are constants; they are right for a car
  park that was filled by this script.
\<close>

section \<open>The script\<close>

definition seed_getenv :: "(string \<Rightarrow> string) \<Rightarrow> string \<Rightarrow> string \<Rightarrow> string" where
  "seed_getenv env key fallback = (let v = env key in if v \<noteq> '''' then v else fallback)"

definition seed_connStr :: "(string \<Rightarrow> string) \<Rightarrow> string" where
  "seed_connStr env = ''postgres://'' @ seed_getenv env ''DB_USER'' ''postgres'' @ '':''
     @ seed_getenv env ''DB_PASSWORD'' ''secret'' @ ''@'' @ seed_getenv env ''DB_HOST'' ''localhost'' @ '':''
     @ seed_getenv env ''DB_PORT'' ''5432'' @ ''/'' @ seed_getenv env ''DB_NAME'' ''parkirpintar'' @ ''?sslmode=''
     @ seed_getenv env ''DB_SSL_MODE'' ''disable''"

text \<open>
  \<open>INSERT INTO spots .. ON CONFLICT DO NOTHING\<close>. The identifier is drawn by the database, the status
  is the default; the conflicts are those of the primary key and of the unique key. The numbers of
  the script are within \<open>SMALLINT\<close> and its floors within the check of the table.
\<close>

definition spot_key :: "spot_row \<Rightarrow> int \<times> int \<times> VehicleType" where
  "spot_key s = (sr_floor s, sr_number s, sr_vehicle_type s)"

definition insert_spot :: "int \<Rightarrow> int \<Rightarrow> VehicleType \<Rightarrow> ('k, unit) io" where
  "insert_spot flr num vt = exec (\<lambda>w.
     let row = \<lparr>sr_id = x_uuid (w_ext w) (w_uuids w), sr_floor = flr, sr_number = num, sr_vehicle_type = vt,
           sr_status = SpotAvailable\<rparr>;
         w = w\<lparr>w_uuids := Suc (w_uuids w)\<rparr> in
     if sr_id row \<in> sr_id ` set (w_spots w) \<or> spot_key row \<in> spot_key ` set (w_spots w) then w
     else w\<lparr>w_spots := w_spots w @ [row]\<rparr>)"

text \<open>A failure ends the process; the connection is closed by the server then.\<close>

fun seed_numbers :: "string \<Rightarrow> VehicleType \<Rightarrow> int \<Rightarrow> int list \<Rightarrow> int \<Rightarrow> ('k, int) io" where
  "seed_numbers msg vt flr [] n = ok n"
| "seed_numbers msg vt flr (num # nums) n =
     or_return (insert_spot flr num vt) (ErrWrap msg) (\<lambda>_. seed_numbers msg vt flr nums (n + 1))"

fun seed_floors :: "int list \<Rightarrow> int \<Rightarrow> ('k, int) io" where
  "seed_floors [] n = ok n"
| "seed_floors (flr # flrs) n =
     or_return (seed_numbers ''seed car error: '' VehicleTypeCar flr [1..30] n) id (\<lambda>n.
     or_return (seed_numbers ''seed motorcycle error: '' VehicleTypeMotorcycle flr [1..50] n) id (\<lambda>n.
     seed_floors flrs n))"

definition seed_main :: "(string \<Rightarrow> string) \<Rightarrow> (string \<Rightarrow> string option) \<Rightarrow> ('k, int) io" where
  "seed_main env pgx_Connect = (case pgx_Connect (seed_connStr env) of
       Some m \<Rightarrow> fail (ErrWrap ''failed to connect: '' (ErrNew m))
     | None \<Rightarrow> seed_floors [1..5] 0)"

section \<open>What it leaves behind\<close>

definition floor_keys :: "int \<Rightarrow> (int \<times> int \<times> VehicleType) list" where
  "floor_keys flr = map (\<lambda>n. (flr, n, VehicleTypeCar)) [1..30] @ map (\<lambda>n. (flr, n, VehicleTypeMotorcycle)) [1..50]"

definition car_park :: "(int \<times> int \<times> VehicleType) list" where
  "car_park = concat (map floor_keys [1..5])"

text \<open>The identifiers the database will draw are not in use.\<close>

definition fresh_spot_ids :: "'k world \<Rightarrow> bool" where
  "fresh_spot_ids w \<longleftrightarrow> inj (x_uuid (w_ext w)) \<and> (\<forall>n \<ge> w_uuids w. x_uuid (w_ext w) n \<notin> sr_id ` set (w_spots w))"

text \<open>The spots of some keys are inserted, as far as they are not there.\<close>

definition seeded :: "(int \<times> int \<times> VehicleType) list \<Rightarrow> 'k world \<Rightarrow> 'k world \<Rightarrow> bool" where
  "seeded ks w w' \<longleftrightarrow> reliable w' \<and> fresh_spot_ids w' \<and> (\<exists>new. w_spots w' = w_spots w @ new
     \<and> map spot_key new = filter (\<lambda>k. k \<notin> spot_key ` set (w_spots w)) ks \<and> (\<forall>s \<in> set new. sr_status s = SpotAvailable))"

lemma insert_spot_seeded:
  assumes "reliable w" "fresh_spot_ids w"
  shows "wp (insert_spot flr num vt) (\<lambda>res w'. res = Inr () \<and> seeded [(flr, num, vt)] w w') w"
proof -
  have "n \<noteq> w_uuids w \<Longrightarrow> x_uuid (w_ext w) n \<noteq> x_uuid (w_ext w) (w_uuids w)" for n
    using assms(2) by (auto simp: fresh_spot_ids_def dest: injD)
  then show ?thesis
    using assms by (auto simp: insert_spot_def wp_exec Let_def seeded_def fresh_spot_ids_def spot_key_def)
qed

lemma seeded_Nil: "reliable w \<Longrightarrow> fresh_spot_ids w \<Longrightarrow> seeded [] w w"
  by (simp add: seeded_def)

lemma seeded_ok: "seeded ks w w' \<Longrightarrow> reliable w'" "seeded ks w w' \<Longrightarrow> fresh_spot_ids w'"
  by (simp_all add: seeded_def)

lemma seeded_append:
  assumes "seeded ks w w1" "seeded ls w1 w2" "set ks \<inter> set ls = {}"
  shows "seeded (ks @ ls) w w2"
proof -
  obtain new1 where new1: "w_spots w1 = w_spots w @ new1" "map spot_key new1 = filter (\<lambda>k. k \<notin> spot_key ` set (w_spots w)) ks"
      "\<forall>s \<in> set new1. sr_status s = SpotAvailable"
    using assms(1) unfolding seeded_def by blast
  obtain new2 where new2: "w_spots w2 = w_spots w1 @ new2" "map spot_key new2 = filter (\<lambda>k. k \<notin> spot_key ` set (w_spots w1)) ls"
      "\<forall>s \<in> set new2. sr_status s = SpotAvailable"
    using assms(2) unfolding seeded_def by blast
  have "spot_key ` set new1 \<subseteq> set ks" using arg_cong [OF new1(2), of set] by auto
  then have "filter (\<lambda>k. k \<notin> spot_key ` set (w_spots w1)) ls = filter (\<lambda>k. k \<notin> spot_key ` set (w_spots w)) ls"
    using assms(3) by (intro filter_cong) (auto simp: new1(1))
  then have "map spot_key (new1 @ new2) = filter (\<lambda>k. k \<notin> spot_key ` set (w_spots w)) (ks @ ls)"
    using new1(2) new2(2) by simp
  moreover have "w_spots w2 = w_spots w @ new1 @ new2" using new1(1) new2(1) by simp
  moreover have "\<forall>s \<in> set (new1 @ new2). sr_status s = SpotAvailable" using new1(3) new2(3) by auto
  ultimately show ?thesis using seeded_ok [OF assms(2)] unfolding seeded_def by blast
qed

lemma seeded_then:
  assumes "seeded ks w w1" "set ks \<inter> set ls = {}" "wp m (\<lambda>res w'. res = r \<and> seeded ls w1 w') w1"
  shows "wp m (\<lambda>res w'. res = r \<and> seeded (ks @ ls) w w') w1"
  by (rule wp_mono [OF assms(3)]) (use seeded_append [OF assms(1) _ assms(2)] in blast)

lemma seed_numbers_seeded:
  assumes "reliable w" "fresh_spot_ids w" "distinct nums"
  shows "wp (seed_numbers msg vt flr nums n) (\<lambda>res w'. res = Inr (n + int (length nums)) \<and>
     seeded (map (\<lambda>num. (flr, num, vt)) nums) w w') w"
  using assms
proof (induction nums arbitrary: n w)
  case Nil
  then show ?case by (simp add: wp_ok seeded_Nil)
next
  case (Cons num nums)
  have "wp (seed_numbers msg vt flr nums (n + 1)) (\<lambda>res w'. res = Inr (n + 1 + int (length nums)) \<and>
      seeded ([(flr, num, vt)] @ map (\<lambda>num. (flr, num, vt)) nums) w w') w1" if "seeded [(flr, num, vt)] w w1" for w1
    by (rule seeded_then [OF that _ Cons.IH [OF seeded_ok [OF that]]]) (use Cons.prems(3) in auto)
  then have rest: "wp (seed_numbers msg vt flr nums (n + 1)) (\<lambda>res w'. res = Inr (n + int (length (num # nums))) \<and>
      seeded (map (\<lambda>num. (flr, num, vt)) (num # nums)) w w') w1" if "seeded [(flr, num, vt)] w w1" for w1
    using that by (simp add: ac_simps)
  show ?case
    unfolding seed_numbers.simps wp_or_return
    by (rule wp_mono [OF insert_spot_seeded [OF Cons.prems(1,2)]]) (use rest in auto)
qed

lemma seed_floor:
  assumes "reliable w" "fresh_spot_ids w"
  shows "wp (seed_numbers msg VehicleTypeCar flr [1..30] n) (\<lambda>res w1. res = Inr (n + 30) \<and>
     wp (seed_numbers msg' VehicleTypeMotorcycle flr [1..50] (n + 30)) (\<lambda>res w'. res = Inr (n + 80) \<and> seeded (floor_keys flr) w w') w1) w"
proof -
  have e: "n + 30 + int (length [1..50::int]) = n + 80" by simp
  have motos: "wp (seed_numbers msg' VehicleTypeMotorcycle flr [1..50] (n + 30)) (\<lambda>res w'. res = Inr (n + 80) \<and>
      seeded (floor_keys flr) w w') w1" if "seeded (map (\<lambda>num. (flr, num, VehicleTypeCar)) [1..30]) w w1" for w1
    unfolding floor_keys_def e [symmetric] by (rule seeded_then [OF that _ seed_numbers_seeded [OF seeded_ok [OF that]]]) auto
  show ?thesis
    by (rule wp_mono [OF seed_numbers_seeded [OF assms]]) (simp_all add: motos)
qed

lemma floor_keys_floor: "k \<in> set (floor_keys flr) \<Longrightarrow> fst k = flr"
  by (auto simp: floor_keys_def)

lemma seed_floors_seeded:
  assumes "reliable w" "fresh_spot_ids w" "distinct flrs"
  shows "wp (seed_floors flrs n) (\<lambda>res w'. res = Inr (n + 80 * int (length flrs)) \<and>
     seeded (concat (map floor_keys flrs)) w w') w"
  using assms
proof (induction flrs arbitrary: n w)
  case Nil
  then show ?case by (simp add: wp_ok seeded_Nil)
next
  case (Cons flr flrs)
  have apart: "set (floor_keys flr) \<inter> set (concat (map floor_keys flrs)) = {}"
    using Cons.prems(3) by (auto dest!: floor_keys_floor)
  have "wp (seed_floors flrs (n + 80)) (\<lambda>res w'. res = Inr (n + 80 + 80 * int (length flrs)) \<and>
      seeded (floor_keys flr @ concat (map floor_keys flrs)) w w') w2" if "seeded (floor_keys flr) w w2" for w2
    by (rule seeded_then [OF that apart Cons.IH [OF seeded_ok [OF that]]]) (use Cons.prems(3) in simp)
  then have rest: "wp (seed_floors flrs (n + 80)) (\<lambda>res w'. res = Inr (n + 80 * int (length (flr # flrs))) \<and>
      seeded (concat (map floor_keys (flr # flrs))) w w') w2" if "seeded (floor_keys flr) w w2" for w2
    using that by (simp add: ac_simps)
  show ?case
    unfolding seed_floors.simps wp_or_return
    by (rule wp_mono [OF seed_floor [OF Cons.prems(1,2), of _ flr n "''seed motorcycle error: ''"]])
      (auto elim!: wp_mono intro!: rest [simplified])
qed

text \<open>
  On an empty table the script makes the car park whose totals the availability report assumes; a
  second run changes nothing.
\<close>

lemma car_park_size:
  "length (filter (\<lambda>k. snd (snd k) = VehicleTypeCar) car_park) = 150"
  "length (filter (\<lambda>k. snd (snd k) = VehicleTypeMotorcycle) car_park) = 250"
  by (simp_all add: car_park_def floor_keys_def filter_concat length_concat filter_map comp_def sum_list_triv)

lemma car_park_bounds: "(flr, num, vt) \<in> set car_park \<Longrightarrow> 1 \<le> flr \<and> flr \<le> 5 \<and> 1 \<le> num \<and> num \<le> 50"
  by (auto simp: car_park_def floor_keys_def)

lemma seed_main_seeded:
  assumes "reliable w" "fresh_spot_ids w" "pgx_Connect (seed_connStr env) = None"
  shows "wp (seed_main env pgx_Connect) (\<lambda>res w'. res = Inr 400 \<and> seeded car_park w w') w"
  unfolding seed_main_def car_park_def using assms(3) seed_floors_seeded [OF assms(1,2), of "[1..5]" 0] by simp

lemma free_after_seeding:
  assumes "seeded car_park w w'" "w_spots w = []"
  shows "length (filter (\<lambda>s. sr_vehicle_type s = vt \<and> sr_status s = SpotAvailable) (w_spots w')) =
     length (filter (\<lambda>k. snd (snd k) = vt) car_park)"
proof -
  have new: "map spot_key (w_spots w') = car_park" "\<forall>s \<in> set (w_spots w'). sr_status s = SpotAvailable"
    using assms by (auto simp: seeded_def)
  have "filter (\<lambda>s. sr_vehicle_type s = vt \<and> sr_status s = SpotAvailable) (w_spots w') =
      filter (\<lambda>s. snd (snd (spot_key s)) = vt) (w_spots w')"
    using new(2) by (intro filter_cong) (auto simp: spot_key_def)
  then show ?thesis unfolding new(1) [symmetric] filter_map comp_def length_map by simp
qed

theorem seeded_car_park:
  assumes "reliable w" "fresh_spot_ids w" "pgx_Connect (seed_connStr env) = None" "w_spots w = []"
  shows "wp (seed_main env pgx_Connect) (\<lambda>res w'. res = Inr 400 \<and> map spot_key (w_spots w') = car_park
     \<and> wp (GetAvailability VehicleTypeCar) (\<lambda>report _. report = Inr (150, 150, 0, 0)) w'
     \<and> wp (GetAvailability VehicleTypeMotorcycle) (\<lambda>report _. report = Inr (250, 250, 0, 0)) w'
     \<and> wp (seed_main env pgx_Connect) (\<lambda>res w''. res = Inr 400 \<and> w_spots w'' = w_spots w') w') w"
proof (rule wp_mono, rule seed_main_seeded, (rule assms)+, elim conjE, intro conjI)
  fix res w' assume w': "seeded car_park w w'"
  note free = free_after_seeding [OF w' assms(4)] car_park_size
  have ok: "reliable w'" "fresh_spot_ids w'" using w' by (simp_all add: seeded_def)
  show keys: "map spot_key (w_spots w') = car_park" using w' assms(4) by (auto simp: seeded_def)
  have count: "free_count w' VehicleTypeCar = 150" "free_count w' VehicleTypeMotorcycle = 250"
    using free by (simp_all add: free_count_def)
  show "wp (GetAvailability VehicleTypeCar) (\<lambda>report _. report = Inr (150, 150, 0, 0)) w'"
    by (rule wp_mono [OF GetAvailability_counts [OF ok(1)]]) (simp_all add: count capacity_def)
  show "wp (GetAvailability VehicleTypeMotorcycle) (\<lambda>report _. report = Inr (250, 250, 0, 0)) w'"
    by (rule wp_mono [OF GetAvailability_counts [OF ok(1)]]) (simp_all add: count capacity_def)
  have "spot_key ` set (w_spots w') = set car_park" using arg_cong [OF keys, of set] by simp
  then have "filter (\<lambda>k. k \<notin> spot_key ` set (w_spots w')) car_park = []" by (simp add: filter_empty_conv)
  then show "wp (seed_main env pgx_Connect) (\<lambda>res w''. res = Inr 400 \<and> w_spots w'' = w_spots w') w'"
    using wp_mono [OF seed_main_seeded [where env = env and pgx_Connect = pgx_Connect, OF ok]] assms(3) by (auto simp: seeded_def)
qed

end
