(* ===== verification/ReservationProps.thy ===== *)
theory ReservationProps
  imports Samples
begin

text \<open>
  The properties of the reservation service's table as a whole and of making a reservation.
\<close>

section \<open>Refinement and invariants\<close>

text \<open>
  C1: whatever requests drivers send and ticks the expiry job makes, in whatever order and with
  whatever the network does to the calls inside them, the reservations service performs steps of
  the abstract machine on its table: time passes, a fresh pending row is inserted, or one row
  moves along the life of a reservation.
\<close>

theorem reservations_refine_machine:
  assumes "keys_ok w"
  shows "table_steps (spot_ids w) (table_of w) (table_of (run_calls p cs w))"
  using run_calls_evolves [OF assms] by (simp add: evolves_def)

theorem reservations_refine_machine_witness:
  "keys_ok sample_world \<and> table_steps (spot_ids sample_world) (table_of sample_world)
     (table_of (run_calls MQPublisher [CreateCall ''d1'' ''k1'' VehicleTypeCar AssignmentModeSystem '''', ConfirmCall ''id-0-sample'', ExpireTick] sample_world))"
  using reservations_refine_machine [OF db_wf_keys_ok [OF sample_wf]] db_wf_keys_ok [OF sample_wf] by blast

text \<open>
  The invariant of the table holds after any sequence of calls: ids and idempotency keys
  are unique, every row refers to a spot, and its timestamps fit its status (a pending row expires
  five minutes, a confirmed one an hour after \<open>confirmed_at\<close>, an active one was checked in within
  that hour, and so on).
\<close>

theorem reservations_keep_invariant:
  assumes "db_wf w"
  shows "db_wf (run_calls p cs w)"
  by (rule evolves_db_wf [OF run_calls_evolves [OF db_wf_keys_ok [OF assms]] assms])

theorem reservations_keep_invariant_witness:
  "db_wf booked \<and> db_wf (run_calls MQPublisher [CancelCall ''id-0-sample'' ''d1'', ExpireTick] booked)"
  using reservations_keep_invariant [OF booked_wf] booked_wf by blast

text \<open>
  C2: no call removes a reservation or changes whose it is and for which spot, and its status
  only moves forward along the life of a reservation; completed, cancelled and expired are final.
\<close>

theorem reservations_move_forward:
  fixes p :: EventPublisher and cs :: "res_call list"
  assumes "keys_ok w" "i < length (w_reservations w)"
  defines "r \<equiv> w_reservations w ! i" and "r' \<equiv> w_reservations (run_calls p cs w) ! i"
  shows "i < length (w_reservations (run_calls p cs w)) \<and> rr_id r' = rr_id r \<and> rr_driver_id r' = rr_driver_id r
     \<and> rr_spot_id r' = rr_spot_id r \<and> moves\<^sup>*\<^sup>* (rr_status r) (rr_status r')
     \<and> (rr_status r \<in> {StatusCompleted, StatusCancelled, StatusExpired} \<longrightarrow> r' = r)"
proof -
  have "later r r'" "i < length (w_reservations (run_calls p cs w))"
    using evolves_later [OF run_calls_evolves [OF assms(1)] assms(2), of p cs] by (simp_all add: r_def r'_def)
  moreover have "b = a" if "moves\<^sup>*\<^sup>* a b" "a \<in> {StatusCompleted, StatusCancelled, StatusExpired}" for a b
    using that by (induction rule: converse_rtranclp_induct) (auto simp: moves_from)
  ultimately show ?thesis by (auto simp: later_def)
qed

theorem reservations_move_forward_witness:
  "rr_driver_id (w_reservations (run_calls MQPublisher [CheckOutCall ''id-0-sample'' ''d1'' ''k2''] parked) ! 0) = ''d1''"
proof -
  have "keys_ok parked" "0 < length (w_reservations parked)"
    using db_wf_keys_ok [OF parked_wf] by (simp_all add: sample_single)
  from reservations_move_forward [OF this] show ?thesis by (simp add: sample_single)
qed

section \<open>Reserving a spot\<close>

text \<open>
  C3: a spot is not reserved twice. After a reservation was made, a request for the same spot
  under another idempotency key is refused and adds no row, as long as it ends within five minutes
  of the start of the first one.
\<close>

theorem no_double_reservation:
  assumes "reliable w" "chosen w vt mode sid = Some s" "creatable w key s"
    and "chosen w vt' mode' sid' = Some s'" "s_SpotID s' = s_SpotID s" "key' \<noteq> key"
    and "x_redis_get (w_ext w) (w_redis w) (w_clock w) (store_key key') = None"
  shows "wp (CreateReservation did key vt mode sid) (\<lambda>_ w1.
     wp (CreateReservation did' key' vt' mode' sid') (\<lambda>res w2. w_clock w2 < w_clock w + PaymentTimeout \<longrightarrow>
       res = Inl (ErrNew ''spot unavailable'') \<and> w_reservations w2 = w_reservations w1) w1) w"
  by (rule spot_not_reserved_twice [OF assms])

theorem no_double_reservation_witness:
  "wp (CreateReservation ''d1'' ''k1'' VehicleTypeCar AssignmentModeSystem '''') (\<lambda>_ w1.
     wp (CreateReservation ''d2'' ''k9'' VehicleTypeCar AssignmentModeSelected ''s1'')
       (\<lambda>res w2. w_clock w2 < w_clock sample_world + PaymentTimeout \<longrightarrow> isl res \<and> w_reservations w2 = w_reservations w1) w1) sample_world"
  by (rule wp_mono [OF no_double_reservation [OF sample_reliable(1) sample_chosen(1) sample_creatable sample_chosen(2)
      refl _ sample_unused [of "store_key ''k9''"]]], simp) (erule wp_mono, simp)

text \<open>
  C6: a request for a spot that is free, under a new key, stores a pending reservation of that
  spot in the driver's name, whatever reservations the driver has already; it expires five minutes after
  it was made, and only its confirmation gives it the hour. The request is answered with it, and leaves
  the lock of the spot held in its name until five minutes after the request, and the key remembered
  for a day.
\<close>

theorem create_reservation:
  assumes "reliable w" "chosen w vt mode sid = Some s" "creatable w key s"
  defines "rid \<equiv> x_uuid (w_ext w) (w_uuids w)"
  shows "wp (CreateReservation did key vt mode sid) (\<lambda>res w'. \<exists>now.
     res = Inr (new_reservation rid did key mode s now) \<and> w_clock w \<le> now \<and> now \<le> w_clock w' \<and>
     w_reservations w' = w_reservations w @ [row_of (new_reservation rid did key mode s now)] \<and>
     (\<forall>t \<ge> w_clock w'. t < w_clock w + PaymentTimeout \<longrightarrow>
        x_redis_get (w_ext w') (w_redis w') t (spotLockKey (s_SpotID s)) = Some rid) \<and>
     (\<forall>t \<ge> w_clock w'. t < w_clock w + DefaultTTL \<longrightarrow>
        x_redis_get (w_ext w') (w_redis w') t (store_key key) = Some rid)) w"
  by (rule wp_mono [OF CreateReservation_creates [OF assms(1-3)]]) (auto simp: Let_def rid_def)

theorem create_reservation_witness:
  "wp (CreateReservation ''d1'' ''k1'' VehicleTypeCar AssignmentModeSystem '''')
     (\<lambda>res w'. map rr_status (w_reservations w') = [StatusPending]) sample_world"
  by (rule wp_mono [OF create_reservation [OF sample_reliable(1) sample_chosen(1) sample_creatable]])
    (auto simp: sample_world_def)

text \<open>
  C7: a driver may repeat a request whose answer was lost: the repetition under the same key
  answers with the same reservation, spot and expiry, and stores nothing.
\<close>

theorem repeated_request:
  assumes "reliable w" "db_wf w" "chosen w vt mode sid = Some s" "creatable w key s"
  shows "wp (CreateReservation did key vt mode sid) (\<lambda>res w1. w_clock (arrive w1) < w_clock w + DefaultTTL \<longrightarrow>
     (\<exists>r. res = Inr r \<and>
       wp (CreateReservation did' key vt' mode' sid') (\<lambda>res' w2. \<exists>r'. res' = Inr r'
         \<and> r_ReservationID r' = r_ReservationID r \<and> r_DriverID r' = r_DriverID r
         \<and> s_SpotID (r_Spot r') = s_SpotID (r_Spot r) \<and> r_Status r' = StatusPending
         \<and> r_ExpiresAt r' = pg_timestamp (r_ExpiresAt r) \<and> db_same w1 w2) w1)) w"
  by (rule retried_request_is_replayed [OF assms])

theorem repeated_request_witness:
  "wp (CreateReservation ''d1'' ''k1'' VehicleTypeCar AssignmentModeSystem '''')
     (\<lambda>res w1. w_clock (arrive w1) < w_clock sample_world + DefaultTTL \<longrightarrow> \<not> isl res) sample_world"
  by (rule wp_mono [OF repeated_request [OF sample_reliable(1) sample_wf sample_chosen(1) sample_creatable]]) auto

end
