(* ===== verification/ReservationLifeProps.thy ===== *)
theory ReservationLifeProps
  imports Samples ReservationHandler
begin

text \<open>
  The properties of the single operations of the reservation service: what each of them writes,
  returns and announces when it succeeds, when it is refused, and what the gRPC client sees.
\<close>

section \<open>The life of a reservation\<close>

text \<open>
  C8: confirming a pending reservation moves it to confirmed and holds it for one hour from the
  time that is written, answers with what was written and announces it on the event bus.
\<close>

theorem confirm_reservation:
  assumes "reliable w" "keys_ok w" "current w row s" "rr_status row = StatusPending"
  shows "wp (ConfirmReservation p (rr_id row)) (\<lambda>res w'. \<exists>now.
     let r = (scanReservation row s)\<lparr>r_Status := StatusConfirmed, r_ConfirmedAt := now, r_ExpiresAt := Add now HoldDuration\<rparr> in
     res = Inr r \<and> w_clock w \<le> now \<and> now \<le> w_clock w' \<and>
     w_reservations w' = update_where (\<lambda>x. rr_id x = rr_id row)
       (\<lambda>x. x\<lparr>rr_status := StatusConfirmed, rr_confirmed_at := pg_timestamp now,
          rr_expires_at := pg_timestamp (Add now HoldDuration)\<rparr>) (w_reservations w) \<and>
     announced p EventReservationConfirmed r w w') w"
  by (rule ConfirmReservation_pending [OF assms])

theorem confirm_reservation_witness:
  "wp (ConfirmReservation MQPublisher ''id-0-sample'') (\<lambda>res w'. map rr_status (w_reservations w') = [StatusConfirmed])
     (forward (1 * Minute) booked)"
  using confirm_reservation [OF sample_reliable(2) sample_keys(1) sample_current(1), of MQPublisher "1 * Minute"]
  by (auto simp: Let_def sample_single update_where_def elim!: wp_mono)

text \<open>
  C9: the driver of a pending or confirmed reservation may cancel it; the fee is the one of the
  pricing engine, nothing up to two minutes after the confirmation time and 5000 IDR later.
\<close>

theorem cancel_reservation:
  assumes "reliable w" "keys_ok w" "current w row s" "rr_status row \<in> {StatusPending, StatusConfirmed}"
  shows "wp (CancelReservation p (rr_id row) (rr_driver_id row)) (\<lambda>res w'. \<exists>now.
     let r = (scanReservation row s)\<lparr>r_Status := StatusCancelled, r_CancelledAt := Some now\<rparr> in
     res = Inr (r, if now \<le> rr_confirmed_at row + 2 * Minute then 0 else 5000) \<and>
     w_clock w \<le> now \<and> now \<le> w_clock w' \<and>
     w_reservations w' = update_where (\<lambda>x. rr_id x = rr_id row)
       (\<lambda>x. x\<lparr>rr_status := StatusCancelled, rr_cancelled_at := Some (pg_timestamp now)\<rparr>) (w_reservations w) \<and>
     announced p EventReservationCancelled r w w') w"
  by (rule wp_mono [OF CancelReservation_open [OF assms]]) (auto simp: Let_def CalculateCancellationFee_spec)

theorem cancel_reservation_witness:
  "wp (CancelReservation MQPublisher ''id-0-sample'' ''d1'') (\<lambda>res w'. map rr_status (w_reservations w') = [StatusCancelled])
     (forward (10 * Minute) paid)"
  using cancel_reservation [OF sample_reliable(3) sample_keys(2) sample_current(2), of MQPublisher "10 * Minute"]
  by (auto simp: Let_def sample_single update_where_def elim!: wp_mono)

text \<open>
  C10: checking in to a confirmed reservation succeeds exactly when the hold has not passed at the
  time the clock is read; it then starts a session under a fresh id, otherwise nothing is written.
\<close>

theorem check_in:
  assumes "reliable w" "keys_ok w" "current w row s" "rr_status row = StatusConfirmed"
  shows "wp (CheckIn p (rr_id row) (rr_driver_id row)) (\<lambda>res w'. \<exists>seen now.
     let sid = x_uuid (w_ext w) (w_uuids w);
         r = (scanReservation row s)\<lparr>r_Status := StatusActive, r_SessionID := sid, r_CheckInAt := Some now\<rparr> in
     w_clock w \<le> seen \<and> seen \<le> now \<and> now \<le> w_clock w' \<and>
     (if rr_expires_at row < seen
      then res = Inl (ErrNew ''reservation expired'') \<and> w_reservations w' = w_reservations w
      else res = Inr r \<and>
        w_reservations w' = update_where (\<lambda>x. rr_id x = rr_id row)
          (\<lambda>x. x\<lparr>rr_status := StatusActive, rr_session_id := Some sid,
             rr_check_in_at := Some (pg_timestamp now)\<rparr>) (w_reservations w) \<and>
        announced p EventCheckInDetected r w w')) w"
  by (rule CheckIn_confirmed [OF assms])

theorem check_in_witness:
  "wp (CheckIn MQPublisher ''id-0-sample'' ''d1'') (\<lambda>res w'.
     map rr_status (w_reservations w') \<in> {[StatusConfirmed], [StatusActive]}) (forward (10 * Minute) paid)"
  using check_in [OF sample_reliable(3) sample_keys(2) sample_current(2), of MQPublisher "10 * Minute"]
  by (auto simp: Let_def sample_single update_where_def elim!: wp_mono split: if_splits)

text \<open>
  C11: checking out of an active reservation under a new key completes it and announces the
  end of the session.
\<close>

theorem check_out:
  assumes "reliable w" "redis_ok (w_ext w)" "keys_ok w" "current w row s" "rr_status row = StatusActive"
    and "x_redis_get (w_ext w) (w_redis w) (w_clock w) (store_key key) = None"
  shows "wp (CheckOut p (rr_id row) (rr_driver_id row) key) (\<lambda>res w'. \<exists>now.
     let r = (scanReservation row s)\<lparr>r_Status := StatusCompleted, r_CheckOutAt := Some now\<rparr> in
     res = Inr r \<and> w_clock w \<le> now \<and> now \<le> w_clock w' \<and>
     w_reservations w' = update_where (\<lambda>x. rr_id x = rr_id row)
       (\<lambda>x. x\<lparr>rr_status := StatusCompleted, rr_check_out_at := Some (pg_timestamp now)\<rparr>) (w_reservations w) \<and>
     announced p EventCheckOutCompleted r w w') w"
  by (rule wp_mono [OF CheckOut_active [OF assms(1,3,4,5) redis_None_later [OF assms(2,6)]]]) (auto simp: Let_def)

lemma parked_unused: "x_redis_get (w_ext (forward (90 * Minute) parked)) (w_redis (forward (90 * Minute) parked))
    (w_clock (forward (90 * Minute) parked)) (store_key ''k2'') = None"
  by code_simp

theorem check_out_witness:
  "wp (CheckOut MQPublisher ''id-0-sample'' ''d1'' ''k2'') (\<lambda>res w'. map rr_status (w_reservations w') = [StatusCompleted])
     (forward (90 * Minute) parked)"
  using check_out [OF sample_reliable(4) _ sample_keys(3) sample_current(3) _ parked_unused, of MQPublisher]
  by (auto simp: Let_def sample_single update_where_def elim!: wp_mono)



text \<open>
  C13: on a network that serves every call the expiry job marks exactly those pending and
  confirmed reservations as expired whose time had passed when it read the clock.
\<close>

theorem expiry_job:
  assumes "reliable w" "db_wf w"
  shows "wp (ExpireReservations p) (\<lambda>res w'. \<exists>now. res = Inr () \<and> w_clock w \<le> now \<and> now \<le> w_clock w' \<and>
     w_reservations w' = map (\<lambda>row. if rr_status row \<in> {StatusPending, StatusConfirmed} \<and>
         rr_expires_at row < pg_timestamp now then row\<lparr>rr_status := StatusExpired\<rparr> else row) (w_reservations w)) w"
  by (rule ExpireReservations_expires [OF assms])

theorem expiry_job_witness:
  "wp (ExpireReservations MQPublisher) (\<lambda>res w'. length (w_reservations w') = 1) booked"
  by (rule wp_mono [OF expiry_job [OF sample_reliable(5) booked_wf]]) (auto simp: sample_single)

section \<open>Availability and the handler\<close>

text \<open>
  C14: the availability that is reported counts the spots whose status column says available,
  against the fixed capacity of five floors, and no operation of the service ever changes that
  column: the report is the same before and after any sequence of calls.
\<close>

theorem availability_report:
  assumes "reliable w" "keys_ok w" "free_count w vt < 2 ^ 31" "reliable (run_calls p cs w)"
  shows "wp (GetAvailability vt) (\<lambda>res _. res = Inr (capacity vt, free_count w vt, capacity vt - free_count w vt, 0)
     \<and> wp (GetAvailability vt) (\<lambda>res' _. res' = res) (run_calls p cs w)) w"
  using GetAvailability_counts [OF assms(1,3)] availability_ignores_reservations [OF assms(2,1,4), of vt]
  by (simp add: wp_fst_snd)

lemma one_call_reliable: "reliable (run_calls MQPublisher [ExpireTick] sample_world)"
proof -
  have "w_fates (run_calls MQPublisher [ExpireTick] sample_world) = []" by code_simp
  then show ?thesis by (simp add: reliable_def)
qed

theorem availability_report_witness:
  "wp (GetAvailability VehicleTypeCar) (\<lambda>res _. res = Inr (150, 2, 148, 0)) sample_world"
proof -
  have "free_count sample_world VehicleTypeCar = 2" by code_simp
  then show ?thesis
    using availability_report [OF sample_reliable(1) db_wf_keys_ok [OF sample_wf] _ one_call_reliable, of VehicleTypeCar]
    by (simp add: wp_conj capacity_def)
qed

text \<open>
  What a client of the service sees of an error: a reservation that does not exist is
  NOT_FOUND, a spot that is taken RESOURCE_EXHAUSTED, another driver's reservation
  PERMISSION_DENIED, and a status that does not allow the operation or a passed hold
  FAILED_PRECONDITION.
\<close>

theorem error_codes:
  "(is_no_rows err \<longrightarrow> toGRPCError err = (Status NotFound (err_msg err) :: 'a reply))
   \<and> toGRPCError (ErrNew ''spot unavailable'') = (Status ResourceExhausted ''spot unavailable'' :: 'a reply)
   \<and> toGRPCError (ErrNew ''reservation not owned by driver'') =
        (Status PermissionDenied ''reservation not owned by driver'' :: 'a reply)
   \<and> toGRPCError (ErrNew ''reservation expired'') = (Status FailedPrecondition ''reservation expired'' :: 'a reply)
   \<and> (t \<in> set status_texts \<longrightarrow>
        toGRPCError (ErrNew (t @ status_string s)) = (Status FailedPrecondition (t @ status_string s) :: 'a reply))"
  by (intro conjI impI toGRPCError_no_rows toGRPCError_texts toGRPCError_status)

theorem error_codes_witness:
  "toGRPCError (ErrWrap ''get reservation: '' ErrNoRows) = (Status NotFound ''get reservation: no rows in result set'' :: unit reply)
   \<and> toGRPCError (ErrNew (status_texts ! 0 @ ''expired'')) = (Status FailedPrecondition (status_texts ! 0 @ ''expired'') :: unit reply)"
proof -
  have "status_texts ! 0 \<in> set status_texts" by (rule nth_mem) (simp add: status_texts_def)
  then show ?thesis
    using error_codes [of "ErrWrap ''get reservation: '' ErrNoRows" "status_texts ! 0" StatusExpired, where 'a = unit] by simp
qed

text \<open>
  C15: new reservations and check-outs share one store of idempotency keys. A check-out under a
  key that is in the store, by whoever asks, changes nothing and answers with the reservation as it
  is stored; if that reservation was not checked out before, the handler dereferences nil.
\<close>

theorem check_out_with_used_key:
  assumes "reliable w" "keys_ok w" "current w row s" "key \<noteq> ''''"
    and "x_redis_get (w_ext w) (w_redis w) (w_clock (arrive w)) (store_key key) \<noteq> None"
  shows "wp (rpc_CheckOut p (rr_id row) did key) (\<lambda>res w'. db_same w w' \<and>
     (res = Panic \<longleftrightarrow> rr_check_out_at row = None \<or> rr_check_in_at row = None)) w"
  by (rule rpc_CheckOut_used_key [OF assms])

lemma parked_used: "x_redis_get (w_ext (forward 0 parked)) (w_redis (forward 0 parked)) (w_clock (arrive (forward 0 parked)))
    (store_key ''k1'') \<noteq> None" "rr_check_out_at (first_row_of parked) = None"
  by code_simp+

theorem check_out_with_used_key_witness:
  "wp (rpc_CheckOut MQPublisher ''id-0-sample'' ''d1'' ''k1'') (\<lambda>res w'. res = Panic) (forward 0 parked)"
  using check_out_with_used_key [OF sample_reliable(4) sample_keys(3) sample_current(3) _ parked_used(1), of MQPublisher "''d1''"] parked_used(2)
  by (auto elim!: wp_mono)

end
