(* ===== verification/MoneyProps.thy ===== *)
theory MoneyProps
  imports Samples Billing Payment
begin

text \<open>
  The properties of what a stay costs and how it is paid: the pricing engine, the invoices of
  the billing service, and the transactions and the webhook of the payment service.
\<close>

section \<open>The pricing engine\<close>

text \<open>
  C16: the number of billed hours, which the code computes through binary64 minutes and 32-bit
  integers, is the number of whole minutes rounded up to hours, at most 720; it is 0 for an empty
  or negative stay and does not fall when the stay gets longer.
\<close>

theorem billed_hours:
  "BilledHours cin out = (if out \<le> cin then 0 else min 720 (((out - cin) div Minute + 59) div 60))
   \<and> 0 \<le> BilledHours cin out \<and> BilledHours cin out \<le> 720
   \<and> (out \<le> out' \<longrightarrow> BilledHours cin out \<le> BilledHours cin out')"
  using billed_spec_bounds [of cin out] billed_spec_mono [of out out' cin]
  by (simp add: BilledHours_spec billed_spec_def whole_minutes_def)

theorem billed_hours_witness:
  "BilledHours 0 (61 * Minute) = 2 \<and> BilledHours 0 (61 * Minute) \<le> BilledHours 0 (121 * Minute)"
  using billed_hours [of 0 "61 * Minute" "121 * Minute"] by (simp add: Minute_def Second_def)

text \<open>
  C17: a stay is overnight, which the code finds out by converting both ends to civil dates in
  WIB and back, exactly when it contains a midnight of WIB after its start.
\<close>

theorem overnight_stays:
  "IsOvernight cin out \<longleftrightarrow> (\<exists>m. is_midnight_wib m \<and> cin < m \<and> m \<le> out)"
  by (rule IsOvernight_midnight)

text \<open>
  C18: the breakdown of a stay: 5000 IDR per billed hour, 20000 IDR once if it is overnight, and
  a total of both; no amount overflows its 64 bits. The booking fee is named and not added.
\<close>

theorem breakdown:
  "Calculate cin out = \<lparr>res_BookingFee = 5000, res_ParkingFee = 5000 * BilledHours cin out,
     res_OvernightFee = (if IsOvernight cin out then 20000 else 0),
     res_TotalAmount = 5000 * BilledHours cin out + (if IsOvernight cin out then 20000 else 0),
     res_BilledHours = BilledHours cin out, res_IsOvernight = IsOvernight cin out\<rparr>"
  by (simp add: Calculate_spec BilledHours_spec IsOvernight_days)

section \<open>Invoices\<close>

text \<open>
  Every operation of the billing service, the subscriber's included, keeps the invariant of
  the invoices whatever the network does: unique ids and keys, amounts that fit together, paid
  exactly when a payment time is recorded.
\<close>

theorem invoices_keep_invariant:
  "preserves invoices_wf (GenerateInvoice s r d key cin out)
   \<and> preserves invoices_wf (GenerateBookingFeeInvoice r d key)
   \<and> preserves invoices_wf (MarkInvoicePaid iid tx m t)
   \<and> preserves invoices_wf (HandleCheckOut msg)"
  by (intro conjI GenerateInvoice_preserves GenerateBookingFeeInvoice_preserves MarkInvoicePaid_preserves
      HandleCheckOut_preserves)

text \<open>
  C19: the invoice of a stay, for a reservation that exists and under a new key, is stored and
  returned with the amounts of the pricing engine, waiting for its payment, and the key is remembered
  for a day.
\<close>

theorem invoice_of_a_stay:
  assumes "reliable w" "redis_ok (w_ext w)" "reservationID \<in> rr_id ` set (w_reservations w)"
    and "x_redis_get (w_ext w) (w_redis w) (w_clock w) (billing_key key) = None"
    and "key \<notin> ir_idempotency_key ` set (w_invoices w)" "x_uuid (w_ext w) (w_uuids w) \<notin> ir_id ` set (w_invoices w)"
  shows "wp (GenerateInvoice s reservationID d key cin out) (\<lambda>res w'. \<exists>invoice now.
     res = Inr invoice \<and> w_invoices w' = w_invoices w @ [invoice_row_of invoice now]
     \<and> i_ReservationID invoice = reservationID \<and> i_DriverID invoice = d \<and> i_IdempotencyKey invoice = key
     \<and> i_TotalAmount invoice = 5000 * BilledHours cin out + (if IsOvernight cin out then 20000 else 0)
     \<and> i_DurationMins invoice = minutes_int (Sub out cin) \<and> i_Status invoice = InvoiceStatusPendingPayment
     \<and> (\<forall>t. w_clock w' \<le> t \<longrightarrow> t < w_clock w + DefaultTTL \<longrightarrow>
          x_redis_get (w_ext w') (w_redis w') t (billing_key key) = Some (i_InvoiceID invoice))) w"
  by (rule wp_mono [OF GenerateInvoice_served [OF assms]])
    (auto simp: Let_def parking_invoice_def Calculate_spec BilledHours_spec IsOvernight_days)

definition invoiced :: "kv world" where
  "invoiced = after_run (GenerateInvoice ''session'' ''id-0-sample'' ''d1'' ''inv-1'' 0 (90 * Minute)) paid"

lemma paid_ready: "reliable paid" "''id-0-sample'' \<in> rr_id ` set (w_reservations paid)"
    "x_redis_get sample_ext (w_redis paid) (w_clock paid) (billing_key ''inv-1'') = None"
    "w_invoices paid = []"
  using sample_reliable(3) [of 0] by (simp add: reliable_def, code_simp+)

theorem invoice_of_a_stay_witness:
  "wp (GenerateInvoice ''session'' ''id-0-sample'' ''d1'' ''inv-1'' 0 (90 * Minute)) (\<lambda>res w'. map ir_total_amount (w_invoices w') = [10000]) paid"
proof -
  have "BilledHours 0 (90 * Minute) = 2" "\<not> IsOvernight 0 (90 * Minute)" by code_simp+
  then show ?thesis
    using paid_ready by (intro wp_mono [OF invoice_of_a_stay]) (auto simp: invoice_row_of_def)
qed

text \<open>
  Repeating a request for an invoice under a key that is in the store answers twice with
  the invoice stored under the key, and changes nothing.
\<close>

theorem repeated_invoice:
  assumes "reliable w" "invoice_requests.remembered w key T" "w_clock (arrive w) < T"
  shows "wp (GenerateInvoice s r d key cin out) (\<lambda>res w1. res = stored_invoice w key \<and> db_same w w1 \<and>
     (w_clock (arrive w1) < T \<longrightarrow>
        wp (GenerateInvoice s r d key cin out) (\<lambda>res' w2. res' = res \<and> db_same w w2) w1)) w"
  using invoice_requests.replay [OF assms, of s r d cin out] invoice_requests.replay_twice [OF assms, of s r d cin out]
  by (simp add: wp_conj)

theorem repeated_invoice_witness:
  "wp (GenerateInvoice ''session'' ''id-0-sample'' ''d1'' ''inv-1'' 0 (90 * Minute))
     (\<lambda>res w1. res = stored_invoice invoiced ''inv-1'') invoiced"
proof -
  have "x_redis_get (w_ext invoiced) (w_redis invoiced) t (billing_key ''inv-1'') \<noteq> None"
    if "w_clock invoiced \<le> t" "t < w_clock invoiced + 1" for t
  proof -
    have "t = w_clock invoiced" using that by linarith
    moreover have "x_redis_get (w_ext invoiced) (w_redis invoiced) (w_clock invoiced) (billing_key ''inv-1'') \<noteq> None"
      by code_simp
    ultimately show ?thesis by simp
  qed
  moreover have "w_fates invoiced = []" "w_clock (arrive invoiced) < w_clock invoiced + 1" by code_simp+
  ultimately show ?thesis
    by (intro wp_mono [OF repeated_invoice [where T = "w_clock invoiced + 1"]])
      (auto simp: invoice_requests.remembered_def reliable_def)
qed

text \<open>
  C20: the subscriber that bills a completed check-out, whatever the stay was, adds no invoice
  or one of exactly one hour.
\<close>

theorem subscriber_bills_one_hour:
  "wp (HandleCheckOut msg) (\<lambda>_ w'. w_invoices w' = w_invoices w \<or>
     (\<exists>row. w_invoices w' = w_invoices w @ [row] \<and> ir_billed_hours row = 1 \<and> ir_parking_fee row = 5000
        \<and> ir_duration_mins row = 60)) w"
  by (rule wp_mono [OF HandleCheckOut_adds]) (auto simp: invoice_added_def)

text \<open>Marking an invoice paid records the payment on that invoice and on no other.\<close>

theorem pay_invoice:
  assumes "reliable w" "invoices_wf w" "row \<in> set (w_invoices w)"
  shows "wp (MarkInvoicePaid (ir_id row) tx m t) (\<lambda>res w'.
     res = Inr ((scanInvoice row)\<lparr>i_Status := InvoiceStatusPaid, i_GatewayTxID := tx, i_PaymentMethod := m,
       i_PaidAt := Some (pg_timestamp t)\<rparr>)
     \<and> (\<forall>other \<in> set (w_invoices w). ir_id other \<noteq> ir_id row \<longrightarrow> other \<in> set (w_invoices w'))) w"
  by (rule wp_mono [OF MarkInvoicePaid_known [OF assms]]) (auto simp: set_update_where)

lemma invoiced_wf: "invoices_wf invoiced"
proof -
  have "invoices_wf paid" by (simp add: invoices_wf_def paid_ready)
  then show ?thesis
    unfolding invoiced_def after_run_def by (rule invoices.preserves_run [OF GenerateInvoice_preserves])
qed

theorem pay_invoice_witness:
  "wp (MarkInvoicePaid (ir_id (hd (w_invoices invoiced))) ''tx'' ''QRIS'' 7) (\<lambda>res w'. \<not> isl res) invoiced"
proof -
  have "w_fates invoiced = []" "hd (w_invoices invoiced) \<in> set (w_invoices invoiced)" by code_simp+
  then show ?thesis
    by (intro wp_mono [OF pay_invoice [OF _ invoiced_wf]]) (auto simp: reliable_def)
qed

end
