(* ===== verification/PaymentProps.thy ===== *)
theory PaymentProps
  imports Samples Billing Payment
begin

text \<open>
  The properties of the payment service: the invariant of the transactions, the requests that
  create one, and the webhook of the payment gateway.
\<close>

section \<open>Sample worlds\<close>

definition sample_customer :: CustomerInfo where
  "sample_customer = \<lparr>cu_Name = ''Ani'', cu_Email = '''', cu_Phone = ''''\<rparr>"

definition billed :: "kv world" where
  "billed = sample_world\<lparr>w_invoices := [invoice_row_of (booking_invoice ''res-1'' ''d1'' ''inv-1'' ''invoice-1'' 0) 0]\<rparr>"

definition charged :: "kv world" where
  "charged = after_run (CreateTransaction MockGateway ''invoice-1'' ''d1'' ''pay-1'' ''QRIS'' 5000 sample_customer) billed"

definition the_charge :: transaction_row where
  "the_charge = hd (w_transactions charged)"

definition settlement :: "string \<Rightarrow> json" where
  "settlement sig = JObj [(''order_id'', JStr (tr_gateway_tx_id the_charge)), (''status_code'', JStr ''200''),
     (''gross_amount'', JStr ''5000.00''), (''signature_key'', JStr sig), (''transaction_status'', JStr ''settlement'')]"

definition settlement_payload :: "string \<Rightarrow> webhookPayload" where
  "settlement_payload sig = \<lparr>wp_OrderID = tr_gateway_tx_id the_charge, wp_StatusCode = ''200'', wp_GrossAmount = ''5000.00'',
     wp_SignatureKey = sig, wp_TransactionStatus = ''settlement'', wp_FraudStatus = ''''\<rparr>"

definition good_signature :: string where
  "good_signature = ''sha:'' @ tr_gateway_tx_id the_charge @ ''200'' @ ''5000.00'' @ ''server-key''"

lemma settlement_decodes: "decode_webhook (Some (settlement sig)) = Some (settlement_payload sig)"
  by (simp add: decode_webhook_def settlement_def settlement_payload_def struct_members_def equal_fold_def
      to_lower_def ascii_lower_def)

text \<open>No operation replaces the world's parameters.\<close>

interpretation ext: db_invariant "\<lambda>w. w_ext w = x" for x
  by unfold_locales (simp add: db_same_def)

lemma ext_kept: "preserves (\<lambda>w. w_ext w = x) (CreateTransaction g i d' k m a c)"
  unfolding CreateTransaction_def InsertTransaction_def Let_def case_prod_beta
  by (intro preserves_or_return_p preserves_lift ext.preserves_rules ext.preserves_remote ext.preserves_quiet
      quiet_intros) auto

lemma charged_ext: "w_ext charged = sample_ext"
  unfolding charged_def after_run_def by (rule ext.preserves_run [OF ext_kept]) (simp add: billed_def)

lemma charged_wf: "transactions_wf charged"
proof -
  have "transactions_wf billed" by (simp add: transactions_wf_def billed_def sample_world_def)
  then show ?thesis
    unfolding charged_def after_run_def by (rule transactions.preserves_run [OF CreateTransaction_preserves])
qed

lemma charged_facts: "reliable charged" "the_charge \<in> set (w_transactions charged)"
    "tr_idempotency_key the_charge = ''pay-1''" "tr_status the_charge = TxPending"
  by code_simp+

lemma good_signature: "good_signature = x_sha512_hex (w_ext charged) (tr_gateway_tx_id the_charge @ ''200'' @ ''5000.00'' @ ''server-key'')"
  by (simp add: charged_ext good_signature_def sample_ext_def)

section \<open>The properties\<close>

text \<open>
  Creating a transaction and processing a webhook keep the invariant of the transactions,
  whatever the network does: unique ids, order ids and keys, and a payment time exactly on the
  settled ones.
\<close>

theorem transactions_keep_invariant:
  "preserves transactions_wf (CreateTransaction g i d k m a c)
   \<and> preserves transactions_wf (HandleWebhook serverKey payload sig)"
  by (intro conjI CreateTransaction_preserves HandleWebhook_preserves)

text \<open>
  C21: a webhook whose payload does not decode or is not signed with the server key is rejected
  and changes nothing at all.
\<close>

theorem unsigned_webhook:
  assumes "\<And>p. decode_webhook payload = Some p \<Longrightarrow>
     wp_SignatureKey p \<noteq> x_sha512_hex (w_ext w) (wp_OrderID p @ wp_StatusCode p @ wp_GrossAmount p @ serverKey)"
  shows "wp (HandleWebhook serverKey payload sig) (\<lambda>res w'. isl res \<and> w' = w) w"
  by (rule HandleWebhook_rejects [OF assms])

theorem unsigned_webhook_witness:
  "wp (HandleWebhook ''server-key'' (Some (settlement ''forged'')) '''') (\<lambda>res w'. isl res \<and> w' = charged) charged"
  by (rule unsigned_webhook) (auto simp: settlement_decodes settlement_payload_def charged_ext sample_ext_def)

text \<open>
  C22: a signed webhook that was not seen before gives the transaction of its order the status
  the payment gateway names, with the payment time exactly when it is settled, changes no other
  transaction, and is remembered for a day.
\<close>

theorem signed_webhook:
  assumes "reliable w" "redis_ok (w_ext w)" "transactions_wf w" "decode_webhook payload = Some p"
    and "wp_SignatureKey p = x_sha512_hex (w_ext w) (wp_OrderID p @ wp_StatusCode p @ wp_GrossAmount p @ serverKey)"
    and "row \<in> set (w_transactions w)" "tr_gateway_tx_id row = wp_OrderID p"
    and "x_redis_get (w_ext w) (w_redis w) (w_clock w) (webhook_key (wp_OrderID p) (wp_TransactionStatus p)) = None"
  shows "wp (HandleWebhook serverKey payload sig) (\<lambda>res w'. \<exists>paidAt.
     let status = mapMidtransStatus (wp_TransactionStatus p) (wp_FraudStatus p) in
     res = Inr (True, False, tr_id row, Some status) \<and> ((paidAt \<noteq> None) = (status = TxSettled))
     \<and> w_transactions w' = update_where (\<lambda>r. tr_id r = tr_id row)
         (\<lambda>r. r\<lparr>tr_status := status, tr_paid_at := map_option pg_timestamp paidAt\<rparr>) (w_transactions w)
     \<and> (\<forall>t. w_clock w' \<le> t \<longrightarrow> t < w_clock w + DefaultTTL \<longrightarrow>
          x_redis_get (w_ext w') (w_redis w') t (webhook_key (wp_OrderID p) (wp_TransactionStatus p)) = Some (tr_id row))) w"
  by (rule wp_mono [OF HandleWebhook_served [OF assms]]) (auto simp: Let_def webhook_update_def [abs_def])

lemma fresh_webhook: "x_redis_get sample_ext (w_redis charged) (w_clock charged)
    (webhook_key (tr_gateway_tx_id the_charge) ''settlement'') = None"
  by code_simp

theorem signed_webhook_witness:
  "wp (HandleWebhook ''server-key'' (Some (settlement good_signature)) '''') (\<lambda>res w'.
     \<exists>t. res = Inr (True, False, t, Some TxSettled)) charged"
  by (rule wp_mono [OF signed_webhook [where p = "settlement_payload good_signature" and row = the_charge]])
    (auto simp: settlement_decodes charged_facts charged_wf charged_ext settlement_payload_def fresh_webhook
      good_signature [unfolded charged_ext] mapMidtransStatus_def Let_def)

text \<open>
  C23: a webhook delivered again is acknowledged as a duplicate with the status the transaction
  has, and changes nothing.
\<close>

theorem duplicate_webhook:
  assumes "reliable w" "transactions_wf w" "decode_webhook payload = Some p"
    and "wp_SignatureKey p = x_sha512_hex (w_ext w) (wp_OrderID p @ wp_StatusCode p @ wp_GrossAmount p @ serverKey)"
    and "row \<in> set (w_transactions w)" "tr_gateway_tx_id row = wp_OrderID p"
    and "x_redis_get (w_ext w) (w_redis w) (w_clock (arrive w)) (webhook_key (wp_OrderID p) (wp_TransactionStatus p)) \<noteq> None"
  shows "wp (HandleWebhook serverKey payload sig) (\<lambda>res w'.
     res = Inr (True, True, tr_id row, Some (tr_status row)) \<and> db_same w w') w"
  by (rule HandleWebhook_duplicate [OF assms])

definition remembering :: "kv world" where
  "remembering = charged\<lparr>w_redis := kv_set (w_redis charged) (w_clock charged)
     (webhook_key (tr_gateway_tx_id the_charge) ''settlement'') (tr_id the_charge) DefaultTTL\<rparr>"

lemma remembers: "kv_get (w_redis remembering) (w_clock (arrive remembering)) (webhook_key (tr_gateway_tx_id the_charge) ''settlement'') \<noteq> None"
  by code_simp

theorem duplicate_webhook_witness:
  "wp (HandleWebhook ''server-key'' (Some (settlement good_signature)) '''') (\<lambda>res w'.
     res = Inr (True, True, tr_id the_charge, Some TxPending)) remembering"
proof -
  have "w_ext remembering = sample_ext" "transactions_wf remembering" "reliable remembering"
    "w_transactions remembering = w_transactions charged"
    using charged_wf charged_facts by (simp_all add: remembering_def charged_ext transactions_wf_def)
  then show ?thesis
    using remembers charged_facts
    by (intro wp_mono [OF duplicate_webhook [where p = "settlement_payload good_signature" and row = the_charge]])
      (auto simp: settlement_decodes settlement_payload_def good_signature [unfolded charged_ext] sample_ext_def)
qed

text \<open>
  Repeating a request for a transaction under a key that is in the store answers with the
  transaction stored under it; no second charge is made at the payment gateway.
\<close>

theorem repeated_payment:
  assumes "reliable w" "transactions_wf w" "row \<in> set (w_transactions w)" "tr_idempotency_key row = key"
    and "x_redis_get (w_ext w) (w_redis w) (w_clock (arrive w)) (payment_key key) \<noteq> None"
  shows "wp (CreateTransaction g i d key m a c) (\<lambda>res w'. res = Some (Inr (scanTransaction row)) \<and> db_same w w') w"
  by (rule CreateTransaction_replay [OF assms])

lemma payment_remembered: "x_redis_get sample_ext (w_redis charged) (w_clock (arrive charged)) (payment_key ''pay-1'') \<noteq> None"
  by code_simp

theorem repeated_payment_witness:
  "wp (CreateTransaction MockGateway ''i'' ''d1'' ''pay-1'' ''QRIS'' 5000 sample_customer)
     (\<lambda>res w'. res = Some (Inr (scanTransaction the_charge))) charged"
  by (rule wp_mono [OF repeated_payment [OF charged_facts(1) charged_wf charged_facts(2,3)]])
    (auto simp: charged_ext payment_remembered)

end
