(* ===== verification/Notification.thy ===== *)
theory Notification
  imports Mq Sql Proto
begin

text \<open>
  The notification service, \<open>services/notification/internal\<close>: templates, the log of sent
  notifications, the three methods of the handler and the subscriber that turns the events of
  the reservation service into notifications. The providers are interfaces, so they are
  arguments; the stubs of the repository are their only implementations. Timestamps of the log
  are without time zone, and the service is taken to run in UTC.
\<close>

section \<open>Enumerations\<close>

definition NOTIFICATION_CHANNEL_UNSPECIFIED :: int where "NOTIFICATION_CHANNEL_UNSPECIFIED = 0"
definition NOTIFICATION_CHANNEL_PUSH :: int where "NOTIFICATION_CHANNEL_PUSH = 1"
definition NOTIFICATION_CHANNEL_EMAIL :: int where "NOTIFICATION_CHANNEL_EMAIL = 2"
definition NOTIFICATION_CHANNEL_BOTH :: int where "NOTIFICATION_CHANNEL_BOTH = 3"

definition TEMPLATE_ID_UNSPECIFIED :: int where "TEMPLATE_ID_UNSPECIFIED = 0"
definition TEMPLATE_ID_RESERVATION_CONFIRMED :: int where "TEMPLATE_ID_RESERVATION_CONFIRMED = 1"
definition TEMPLATE_ID_RESERVATION_EXPIRED :: int where "TEMPLATE_ID_RESERVATION_EXPIRED = 3"
definition TEMPLATE_ID_RESERVATION_CANCELLED :: int where "TEMPLATE_ID_RESERVATION_CANCELLED = 4"
definition TEMPLATE_ID_CHECK_IN_SUCCESS :: int where "TEMPLATE_ID_CHECK_IN_SUCCESS = 5"
definition TEMPLATE_ID_CHECK_OUT_SUCCESS :: int where "TEMPLATE_ID_CHECK_OUT_SUCCESS = 6"
definition TEMPLATE_ID_PAYMENT_SUCCESS :: int where "TEMPLATE_ID_PAYMENT_SUCCESS = 8"
definition TEMPLATE_ID_PAYMENT_FAILED :: int where "TEMPLATE_ID_PAYMENT_FAILED = 9"
definition TEMPLATE_ID_INVOICE_GENERATED :: int where "TEMPLATE_ID_INVOICE_GENERATED = 10"

definition NOTIFICATION_STATUS_UNSPECIFIED :: int where "NOTIFICATION_STATUS_UNSPECIFIED = 0"
definition NOTIFICATION_STATUS_SENT :: int where "NOTIFICATION_STATUS_SENT = 1"
definition NOTIFICATION_STATUS_FAILED :: int where "NOTIFICATION_STATUS_FAILED = 2"

lemmas template_defs = TEMPLATE_ID_UNSPECIFIED_def TEMPLATE_ID_RESERVATION_CONFIRMED_def
  TEMPLATE_ID_RESERVATION_EXPIRED_def TEMPLATE_ID_RESERVATION_CANCELLED_def TEMPLATE_ID_CHECK_IN_SUCCESS_def
  TEMPLATE_ID_CHECK_OUT_SUCCESS_def TEMPLATE_ID_PAYMENT_SUCCESS_def TEMPLATE_ID_PAYMENT_FAILED_def
  TEMPLATE_ID_INVOICE_GENERATED_def
lemmas channel_defs = NOTIFICATION_CHANNEL_UNSPECIFIED_def NOTIFICATION_CHANNEL_PUSH_def
  NOTIFICATION_CHANNEL_EMAIL_def NOTIFICATION_CHANNEL_BOTH_def
lemmas notification_status_defs = NOTIFICATION_STATUS_UNSPECIFIED_def NOTIFICATION_STATUS_SENT_def
  NOTIFICATION_STATUS_FAILED_def

text \<open>The tables of the generated code: the name of a value, and the value of a name.\<close>

definition channel_names :: "(int \<times> string) list" where
  "channel_names = [(0, ''NOTIFICATION_CHANNEL_UNSPECIFIED''), (1, ''NOTIFICATION_CHANNEL_PUSH''),
     (2, ''NOTIFICATION_CHANNEL_EMAIL''), (3, ''NOTIFICATION_CHANNEL_BOTH'')]"

definition template_names :: "(int \<times> string) list" where
  "template_names = [(0, ''TEMPLATE_ID_UNSPECIFIED''), (1, ''TEMPLATE_ID_RESERVATION_CONFIRMED''),
     (2, ''TEMPLATE_ID_RESERVATION_EXPIRING''), (3, ''TEMPLATE_ID_RESERVATION_EXPIRED''),
     (4, ''TEMPLATE_ID_RESERVATION_CANCELLED''), (5, ''TEMPLATE_ID_CHECK_IN_SUCCESS''),
     (6, ''TEMPLATE_ID_CHECK_OUT_SUCCESS''), (7, ''TEMPLATE_ID_WRONG_SPOT_PENALTY''),
     (8, ''TEMPLATE_ID_PAYMENT_SUCCESS''), (9, ''TEMPLATE_ID_PAYMENT_FAILED''),
     (10, ''TEMPLATE_ID_INVOICE_GENERATED'')]"

definition enum_String :: "(int \<times> string) list \<Rightarrow> int \<Rightarrow> string" where
  "enum_String names v = (case map_of names v of Some s \<Rightarrow> s | None \<Rightarrow> show_int v)"

definition enum_value :: "(int \<times> string) list \<Rightarrow> string \<Rightarrow> int option" where
  "enum_value names s = map_of (map (\<lambda>(v, n). (n, v)) names) s"

definition channelFromString :: "string \<Rightarrow> int" where
  "channelFromString s = (case enum_value channel_names s of Some v \<Rightarrow> v | None \<Rightarrow> NOTIFICATION_CHANNEL_UNSPECIFIED)"

definition templateFromString :: "string \<Rightarrow> int" where
  "templateFromString s = (case enum_value template_names s of Some v \<Rightarrow> v | None \<Rightarrow> TEMPLATE_ID_UNSPECIFIED)"

definition statusFromString :: "string \<Rightarrow> int" where
  "statusFromString s = (if s = ''sent'' then NOTIFICATION_STATUS_SENT
     else if s = ''failed'' then NOTIFICATION_STATUS_FAILED else NOTIFICATION_STATUS_UNSPECIFIED)"

section \<open>Templates\<close>

type_synonym data = "string \<rightharpoonup> string"

text \<open>\<open>data[key]\<close>, the empty string for a missing key.\<close>

definition datum :: "data \<Rightarrow> string \<Rightarrow> string" where
  "datum data key = (case data key of None \<Rightarrow> '''' | Some v \<Rightarrow> v)"

definition templateContent :: "int \<Rightarrow> data \<Rightarrow> string \<times> string" where
  "templateContent tmpl data =
     (if tmpl = TEMPLATE_ID_RESERVATION_CONFIRMED
      then (''Reservasi Dikonfirmasi'', ''Spot '' @ datum data ''spot'' @ '' lantai '' @ datum data ''floor''
        @ '' telah dikonfirmasi. Berlaku 1 jam.'')
      else if tmpl = TEMPLATE_ID_RESERVATION_EXPIRED
      then (''Reservasi Kedaluwarsa'', ''Reservasi Anda telah kedaluwarsa karena tidak check-in dalam 1 jam.'')
      else if tmpl = TEMPLATE_ID_RESERVATION_CANCELLED
      then (''Reservasi Dibatalkan'', ''Reservasi dibatalkan. Biaya: Rp '' @ datum data ''fee'')
      else if tmpl = TEMPLATE_ID_CHECK_IN_SUCCESS
      then (''Check-in Berhasil'', ''Sesi parkir Anda telah dimulai.'')
      else if tmpl = TEMPLATE_ID_CHECK_OUT_SUCCESS
      then (''Check-out Berhasil'', ''Sesi parkir selesai. Total: Rp '' @ datum data ''total'')
      else if tmpl = TEMPLATE_ID_PAYMENT_SUCCESS
      then (''Pembayaran Berhasil'', ''Pembayaran Rp '' @ datum data ''amount'' @ '' berhasil. Terima kasih!'')
      else if tmpl = TEMPLATE_ID_PAYMENT_FAILED
      then (''Pembayaran Gagal'', ''Pembayaran gagal. Silakan coba lagi.'')
      else if tmpl = TEMPLATE_ID_INVOICE_GENERATED
      then (''Invoice Tersedia'', ''Invoice Rp '' @ datum data ''total'' @ '' siap dibayar.'')
      else (''Notifikasi ParkirPintar'', datum data ''message''))"

section \<open>Repository\<close>

definition Insert :: "notification_row \<Rightarrow> ('k, unit) io" where
  "Insert entry = remote (\<lambda>w.
     if nr_id entry \<in> nr_id ` set (w_notifications w)
     then (Inl (ErrNew (x_unique_violation (w_ext w) ''notification_logs_pkey'')), w)
     else (Inr (), w\<lparr>w_notifications := w_notifications w @ [entry\<lparr>nr_sent_at := pg_timestamp (nr_sent_at entry)\<rparr>]\<rparr>))"

definition GetByDriverID :: "string \<Rightarrow> int \<Rightarrow> int \<Rightarrow> ('k, notification_row list \<times> int) io" where
  "GetByDriverID driverID limit offset =
     (let limit = (if limit \<le> 0 then 20 else limit) in
      or_return (query (\<lambda>w. scan_int32 (int (length (filter (\<lambda>r. nr_driver_id r = driverID) (w_notifications w)))))) id (\<lambda>n.
      or_return (query (\<lambda>w.
        if offset < 0 then Inl (ErrNew ''OFFSET must not be negative'')
        else Inr (take (nat limit) (drop (nat offset) (sort_key (\<lambda>r. - nr_sent_at r)
               (filter (\<lambda>r. nr_driver_id r = driverID) (w_notifications w))))))) id (\<lambda>logs.
      ok (logs, n))))"

section \<open>Handler\<close>

type_synonym 'k push_provider = "string \<Rightarrow> string \<Rightarrow> string \<Rightarrow> data \<Rightarrow> ('k, unit) io"
type_synonym 'k email_provider = "string \<Rightarrow> string \<Rightarrow> string \<Rightarrow> ('k, unit) io"

definition StubPushProvider_Send :: "'k push_provider" where
  "StubPushProvider_Send driverID title body data = ok ()"

definition StubEmailProvider_Send :: "'k email_provider" where
  "StubEmailProvider_Send to subject body = ok ()"

text \<open>The handler's fields; the repository may be nil.\<close>

record 'k NotificationHandler =
  nh_push :: "'k push_provider"
  nh_email :: "'k email_provider"
  nh_repo :: bool

record SendNotificationRequest =
  sn_DriverId :: string
  sn_Channel :: int
  sn_TemplateId :: int
  sn_Data :: data

record SendNotificationResponse =
  snr_Success :: bool
  snr_NotificationId :: string
  snr_ErrorMessage :: string

definition send_on :: "'k NotificationHandler \<Rightarrow> int \<Rightarrow> string \<Rightarrow> string \<Rightarrow> string \<Rightarrow> data \<Rightarrow> ('k, unit) io" where
  "send_on h channel driverID title body data =
     (if channel = NOTIFICATION_CHANNEL_PUSH then nh_push h driverID title body data
      else if channel = NOTIFICATION_CHANNEL_EMAIL then nh_email h driverID title body
      else if channel = NOTIFICATION_CHANNEL_BOTH then do {
        _ \<leftarrow> nh_push h driverID title body data;
        nh_email h driverID title body
      }
      else ok ())"

text \<open>\<open>SendNotification\<close> always returns a response and no error.\<close>

definition SendNotification :: "'k NotificationHandler \<Rightarrow> SendNotificationRequest \<Rightarrow> ('k, SendNotificationResponse) prog" where
  "SendNotification h req = do {
     notifID \<leftarrow> uuid_New;
     let (title, body) = templateContent (sn_TemplateId req) (sn_Data req);
     sent \<leftarrow> send_on h (sn_Channel req) (sn_DriverId req) title body (sn_Data req);
     now \<leftarrow> time_Now;
     let entry = \<lparr>nr_id = notifID, nr_driver_id = sn_DriverId req,
                  nr_channel = enum_String channel_names (sn_Channel req),
                  nr_template_id = enum_String template_names (sn_TemplateId req),
                  nr_title = title, nr_body = body,
                  nr_status = (case sent of Inl _ \<Rightarrow> ''failed'' | Inr _ \<Rightarrow> ''sent''),
                  nr_error_message = (case sent of Inl err \<Rightarrow> err_msg err | Inr _ \<Rightarrow> ''''),
                  nr_sent_at = now\<rparr>;
     _ \<leftarrow> (if nh_repo h then Insert entry else ok ());
     State_Monad.return (case sent of
         Inl err \<Rightarrow> \<lparr>snr_Success = False, snr_NotificationId = notifID, snr_ErrorMessage = err_msg err\<rparr>
       | Inr _ \<Rightarrow> \<lparr>snr_Success = True, snr_NotificationId = notifID, snr_ErrorMessage = ''''\<rparr>)
   }"

record BroadcastNotificationResponse =
  bn_TotalSent :: int
  bn_TotalFailed :: int
  bn_FailedDriverIds :: "string list"

text \<open>The loop over the drivers; the error that \<open>SendNotification\<close> returns is always nil.\<close>

fun broadcast_loop :: "'k NotificationHandler \<Rightarrow> int \<Rightarrow> int \<Rightarrow> data \<Rightarrow> string list \<Rightarrow> string list \<Rightarrow> ('k, string list) prog" where
  "broadcast_loop h channel tmpl data [] failed = State_Monad.return failed"
| "broadcast_loop h channel tmpl data (driverID # ds) failed = do {
     resp \<leftarrow> SendNotification h \<lparr>sn_DriverId = driverID, sn_Channel = channel, sn_TemplateId = tmpl, sn_Data = data\<rparr>;
     broadcast_loop h channel tmpl data ds failed
   }"

definition BroadcastNotification ::
  "'k NotificationHandler \<Rightarrow> string list \<Rightarrow> int \<Rightarrow> int \<Rightarrow> data \<Rightarrow> ('k, BroadcastNotificationResponse) prog" where
  "BroadcastNotification h driverIds channel tmpl data = do {
     failed \<leftarrow> broadcast_loop h channel tmpl data driverIds [];
     State_Monad.return \<lparr>bn_TotalSent = i32 (int (length driverIds) - int (length failed)),
       bn_TotalFailed = i32 (int (length failed)), bn_FailedDriverIds = failed\<rparr>
   }"

record NotificationRecord =
  re_NotificationId :: string
  re_DriverId :: string
  re_Channel :: int
  re_TemplateId :: int
  re_Status :: int
  re_ErrorMessage :: string
  re_SentAt :: time

definition record_of :: "notification_row \<Rightarrow> NotificationRecord" where
  "record_of l = \<lparr>re_NotificationId = nr_id l, re_DriverId = nr_driver_id l, re_Channel = channelFromString (nr_channel l),
     re_TemplateId = templateFromString (nr_template_id l), re_Status = statusFromString (nr_status l),
     re_ErrorMessage = nr_error_message l, re_SentAt = nr_sent_at l\<rparr>"

definition GetNotificationHistory ::
  "'k NotificationHandler \<Rightarrow> string \<Rightarrow> int \<Rightarrow> int \<Rightarrow> ('k, NotificationRecord list \<times> int) rpc" where
  "GetNotificationHistory h driverId limit offset =
     (if driverId = '''' then State_Monad.return (Status InvalidArgument ''driver_id is required'')
      else if \<not> nh_repo h then State_Monad.return (Status Unavailable ''notification history not available'')
      else or_status (GetByDriverID driverId limit offset) (\<lambda>err. Status Internal (''query history: '' @ err_msg err))
        (\<lambda>(logs, n). State_Monad.return (Reply (map record_of logs, n))))"

section \<open>Subscriber\<close>

record notification_event =
  ne_ReservationID :: string
  ne_DriverID :: string
  ne_SpotID :: string
  ne_Floor :: int
  ne_SpotNumber :: int
  ne_SessionID :: string
  ne_Status :: string

definition decode_notification_event :: "json \<Rightarrow> notification_event option" where
  "decode_notification_event j = Option.bind (struct_members j) (\<lambda>ms.
     Option.bind (str_field ''reservation_id'' ms '''') (\<lambda>reservationID.
     Option.bind (str_field ''driver_id'' ms '''') (\<lambda>driverID.
     Option.bind (str_field ''spot_id'' ms '''') (\<lambda>spotID.
     Option.bind (int32_field ''floor'' ms 0) (\<lambda>flr.
     Option.bind (int32_field ''spot_number'' ms 0) (\<lambda>spotNumber.
     Option.bind (str_field ''session_id'' ms '''') (\<lambda>sessionID.
     Option.bind (str_field ''status'' ms '''') (\<lambda>status.
     Some \<lparr>ne_ReservationID = reservationID, ne_DriverID = driverID, ne_SpotID = spotID, ne_Floor = flr,
       ne_SpotNumber = spotNumber, ne_SessionID = sessionID, ne_Status = status\<rparr>))))))))"

definition eventToTemplate :: "string \<Rightarrow> int" where
  "eventToTemplate event =
     (if event = EventReservationConfirmed then TEMPLATE_ID_RESERVATION_CONFIRMED
      else if event = EventReservationExpired then TEMPLATE_ID_RESERVATION_EXPIRED
      else if event = EventReservationCancelled then TEMPLATE_ID_RESERVATION_CANCELLED
      else if event = EventCheckInDetected then TEMPLATE_ID_CHECK_IN_SUCCESS
      else if event = EventCheckOutCompleted then TEMPLATE_ID_CHECK_OUT_SUCCESS
      else TEMPLATE_ID_UNSPECIFIED)"

definition notification_bindings :: "string \<times> string list" where
  "notification_bindings = (''notification.all'', [EventReservationConfirmed, EventReservationExpired,
     EventReservationCancelled, EventCheckInDetected, EventCheckOutCompleted])"

definition Handle :: "'k NotificationHandler \<Rightarrow> message \<Rightarrow> ('k, unit) io" where
  "Handle h msg = (case decode_notification_event (m_Payload msg) of
       None \<Rightarrow> fail (ErrWrap ''unmarshal notification event: '' (ErrNew ''json: cannot unmarshal''))
     | Some evt \<Rightarrow> do {
         resp \<leftarrow> SendNotification h \<lparr>sn_DriverId = ne_DriverID evt, sn_Channel = NOTIFICATION_CHANNEL_PUSH,
           sn_TemplateId = eventToTemplate (m_Event msg),
           sn_Data = [''event'' \<mapsto> m_Event msg, ''reservation_id'' \<mapsto> ne_ReservationID evt,
             ''spot'' \<mapsto> show_int (ne_SpotNumber evt), ''floor'' \<mapsto> show_int (ne_Floor evt)]\<rparr>;
         ok ()
       })"

section \<open>What the service does\<close>

lemma channel_roundtrip: "v \<in> {0, 1, 2, 3} \<Longrightarrow> channelFromString (enum_String channel_names v) = v"
  by (auto simp: channelFromString_def enum_String_def enum_value_def channel_names_def)

lemma template_roundtrip: "v \<in> {0, 1, 2, 3, 4, 5, 6, 7, 8, 9, 10} \<Longrightarrow>
    templateFromString (enum_String template_names v) = v"
  by (auto simp: templateFromString_def enum_String_def enum_value_def template_names_def)

text \<open>
  The events of the reservation service are decoded by both subscribers: what
  \<open>publisher.go\<close> marshals is what they read.
\<close>

lemma decode_marshalled_notification:
  assumes "- (2 ^ 31) \<le> ev_Floor e" "ev_Floor e < 2 ^ 31" "- (2 ^ 31) \<le> ev_SpotNumber e" "ev_SpotNumber e < 2 ^ 31"
  shows "decode_notification_event (marshal_event e) = Some
    \<lparr>ne_ReservationID = ev_ReservationID e, ne_DriverID = ev_DriverID e, ne_SpotID = ev_SpotID e,
     ne_Floor = ev_Floor e, ne_SpotNumber = ev_SpotNumber e, ne_SessionID = ev_SessionID e, ne_Status = ev_Status e\<rparr>"
  using assms
  by (simp add: decode_notification_event_def marshal_event_def struct_members_def equal_fold_def to_lower_def ascii_lower_def)

text \<open>
  A provider that fails: the response carries the failure, but the call itself succeeds. A
  broadcast asks only whether the call succeeded, so it never counts one.
\<close>

lemma SendNotification_failure:
  assumes "\<And>t b w. wp (send_on h (sn_Channel req) (sn_DriverId req) t b (sn_Data req)) (\<lambda>sent w'. sent = Inl err) w"
  shows "wp (SendNotification h req) (\<lambda>resp w'. \<not> snr_Success resp \<and> snr_ErrorMessage resp = err_msg err) w"
  unfolding SendNotification_def wp_bind wp_uuid_New Let_def case_prod_beta
  by (rule wp_mono [OF assms]) (simp add: wp_simps wp_fst_snd)

lemma broadcast_loop_failed: "wp (broadcast_loop h channel tmpl data ds failed) (\<lambda>res w'. res = failed) w"
  by (induction h channel tmpl data ds failed arbitrary: w rule: broadcast_loop.induct)
    (simp_all add: wp_return wp_bind wp_fst_snd case_prod_beta)

lemma GetByDriverID_page:
  "wp (GetByDriverID d limit offset) (\<lambda>res w'. \<forall>logs n. res = Inr (logs, n) \<longrightarrow>
     int (length logs) \<le> (if limit \<le> 0 then 20 else limit) \<and> int (length logs) \<le> n
     \<and> (\<forall>l \<in> set logs. nr_driver_id l = d)) w"
  by (auto simp: GetByDriverID_def Let_def wp_simps scan_int32_def split: fate.split
      dest!: in_set_takeD in_set_dropD)

lemma BroadcastNotification_counts:
  "wp (BroadcastNotification h ds channel tmpl data) (\<lambda>res w'.
     bn_TotalSent res = i32 (int (length ds)) \<and> bn_TotalFailed res = 0 \<and> bn_FailedDriverIds res = []) w"
  unfolding BroadcastNotification_def wp_bind
  by (rule wp_mono [OF broadcast_loop_failed]) (simp add: wp_return i32_def)

end
