(* ===== verification/Deliveries.thy ===== *)
theory Deliveries
  imports Notification
begin

text \<open>
  A queue of the broker and the service behind it: the loop of \<open>Subscribe\<close> in \<open>pkg/mq/mq.go\<close> with any
  handler, delivery by delivery, and with the handler of the notification service. The email
  provider is arbitrary throughout: no delivery reaches it.
\<close>

section \<open>The loop\<close>

lemma consume_append:
  "run_state (consume handler (ds @ es)) w =
     (case run_state (consume handler ds) w of (vs, w1) \<Rightarrow>
        (case run_state (consume handler es) w1 of (us, w2) \<Rightarrow> (vs @ us, w2)))"
  by (induction handler ds arbitrary: w rule: consume.induct) (simp_all add: case_prod_beta)

text \<open>
  What becomes of one delivery: the handler runs on it in the world that the deliveries before it
  have left, and the broker is told whether it succeeded; it does not run on what does not decode.
\<close>

definition deliver_one :: "(message \<Rightarrow> ('k, unit) io) \<Rightarrow> message option \<Rightarrow> 'k world \<Rightarrow> verdict \<times> 'k world" where
  "deliver_one handler d w = (case d of
       None \<Rightarrow> (Nack, w)
     | Some msg \<Rightarrow> (case run_state (handler msg) w of (err, w') \<Rightarrow> (if isl err then Nack else Ack, w')))"

lemma consume_one: "run_state (consume handler [d]) w = (case deliver_one handler d w of (v, w') \<Rightarrow> ([v], w'))"
  by (cases d) (auto simp: deliver_one_def case_prod_beta split: sum.split)

lemma consume_nth:
  assumes "i < length ds"
  shows "(fst (run_state (consume handler ds) w) ! i, snd (run_state (consume handler (take (Suc i) ds)) w)) =
     deliver_one handler (ds ! i) (snd (run_state (consume handler (take i ds)) w))"
proof -
  let ?before = "run_state (consume handler (take i ds)) w"
  obtain v w' where one: "deliver_one handler (ds ! i) (snd ?before) = (v, w')" by (cases "deliver_one handler (ds ! i) (snd ?before)")
  have next_one: "run_state (consume handler (take (Suc i) ds)) w = (fst ?before @ [v], w')"
    using assms one by (simp add: take_Suc_conv_app_nth consume_append consume_one case_prod_beta)
  have "run_state (consume handler (take (Suc i) ds @ drop (Suc i) ds)) w =
      (fst ?before @ v # fst (run_state (consume handler (drop (Suc i) ds)) w'),
       snd (run_state (consume handler (drop (Suc i) ds)) w'))"
    by (simp only: consume_append next_one) (simp add: case_prod_beta)
  then have all: "run_state (consume handler ds) w =
      (fst ?before @ v # fst (run_state (consume handler (drop (Suc i) ds)) w'),
       snd (run_state (consume handler (drop (Suc i) ds)) w'))"
    by simp
  have "length (fst ?before) = i" using assms by (simp add: consume_length)
  then have "fst (run_state (consume handler ds) w) ! i = v"
    unfolding all fst_conv by (metis nth_append_length)
  then show ?thesis by (simp add: next_one one)
qed

section \<open>The handler of the notification service\<close>

definition push_handler :: "'k email_provider \<Rightarrow> 'k NotificationHandler" where
  "push_handler email = \<lparr>nh_push = StubPushProvider_Send, nh_email = email, nh_repo = True\<rparr>"

definition event_data :: "string \<Rightarrow> notification_event \<Rightarrow> data" where
  "event_data event evt = [''event'' \<mapsto> event, ''reservation_id'' \<mapsto> ne_ReservationID evt,
     ''spot'' \<mapsto> show_int (ne_SpotNumber evt), ''floor'' \<mapsto> show_int (ne_Floor evt)]"

text \<open>The row of the log that an event becomes.\<close>

definition pushed :: "string \<Rightarrow> notification_event \<Rightarrow> notification_row \<Rightarrow> bool" where
  "pushed event evt row \<longleftrightarrow> nr_driver_id row = ne_DriverID evt \<and> nr_status row = ''sent''
     \<and> templateFromString (nr_template_id row) = eventToTemplate event
     \<and> channelFromString (nr_channel row) = NOTIFICATION_CHANNEL_PUSH
     \<and> (nr_title row, nr_body row) = templateContent (eventToTemplate event) (event_data event evt)"

lemma event_template: "templateFromString (enum_String template_names (eventToTemplate e)) = eventToTemplate e"
  by (rule template_roundtrip) (simp add: eventToTemplate_def template_defs)

lemma push_channel: "channelFromString (enum_String channel_names NOTIFICATION_CHANNEL_PUSH) = NOTIFICATION_CHANNEL_PUSH"
  by (rule channel_roundtrip) (simp add: channel_defs)

lemma Handle_pushes:
  assumes "reliable w" "x_uuid (w_ext w) (w_uuids w) \<notin> nr_id ` set (w_notifications w)"
    and "decode_notification_event (m_Payload msg) = Some evt"
  shows "wp (Handle (push_handler email) msg) (\<lambda>res w'. res = Inr () \<and> reliable w' \<and> w_ext w' = w_ext w
     \<and> w_uuids w' = Suc (w_uuids w)
     \<and> (\<exists>row. w_notifications w' = w_notifications w @ [row] \<and> nr_id row = x_uuid (w_ext w) (w_uuids w)
          \<and> pushed (m_Event msg) evt row)) w"
  using assms
  by (simp add: Handle_def SendNotification_def send_on_def push_handler_def StubPushProvider_Send_def Insert_def wp_simps
      Let_def case_prod_beta pushed_def event_template push_channel event_data_def)

text \<open>The texts. What the templates ask for as \<open>fee\<close> and \<open>total\<close> is not in the data.\<close>

lemma event_templates:
  "eventToTemplate EventReservationConfirmed = TEMPLATE_ID_RESERVATION_CONFIRMED"
  "eventToTemplate EventReservationCancelled = TEMPLATE_ID_RESERVATION_CANCELLED"
  "eventToTemplate EventCheckOutCompleted = TEMPLATE_ID_CHECK_OUT_SUCCESS"
  by code_simp+

lemma event_data_keys: "event_data e evt ''spot'' = Some (show_int (ne_SpotNumber evt))"
  "event_data e evt ''floor'' = Some (show_int (ne_Floor evt))" "event_data e evt ''fee'' = None" "event_data e evt ''total'' = None"
  by (simp_all add: event_data_def)

lemma event_texts:
  "snd (templateContent (eventToTemplate EventReservationConfirmed) (event_data e evt)) =
     ''Spot '' @ show_int (ne_SpotNumber evt) @ '' lantai '' @ show_int (ne_Floor evt) @ '' telah dikonfirmasi. Berlaku 1 jam.''"
  "snd (templateContent (eventToTemplate EventReservationCancelled) (event_data e evt)) = ''Reservasi dibatalkan. Biaya: Rp ''"
  "snd (templateContent (eventToTemplate EventCheckOutCompleted) (event_data e evt)) = ''Sesi parkir selesai. Total: Rp ''"
  unfolding event_templates templateContent_def datum_def event_data_keys by (simp_all add: template_defs)

lemma pushed_body: "pushed event evt row \<Longrightarrow> nr_body row = snd (templateContent (eventToTemplate event) (event_data event evt))"
  unfolding pushed_def by (metis snd_conv)

lemma Handle_undecodable:
  "decode_notification_event (m_Payload msg) = None \<Longrightarrow> wp (Handle h msg) (\<lambda>res w'. isl res \<and> w' = w) w"
  by (simp add: Handle_def fail_def wp_return)

section \<open>The queue of the notification service\<close>

text \<open>A delivery that is an event, with the event.\<close>

definition event_of :: "message option \<Rightarrow> (string \<times> notification_event) option" where
  "event_of d = Option.bind d (\<lambda>msg. map_option (Pair (m_Event msg)) (decode_notification_event (m_Payload msg)))"

definition fresh_log :: "'k world \<Rightarrow> bool" where
  "fresh_log w \<longleftrightarrow> inj (x_uuid (w_ext w)) \<and> (\<forall>n \<ge> w_uuids w. x_uuid (w_ext w) n \<notin> nr_id ` set (w_notifications w))"

lemma notifications_consumed:
  assumes "reliable w" "fresh_log w"
  shows "wp (consume (Handle (push_handler email)) ds) (\<lambda>vs w'. vs = map (\<lambda>d. if event_of d = None then Nack else Ack) ds
     \<and> (\<exists>rows. w_notifications w' = w_notifications w @ rows
          \<and> list_all2 (\<lambda>(event, evt). pushed event evt) (List.map_filter event_of ds) rows)) w"
  using assms
proof (induction ds arbitrary: w)
  case Nil
  then show ?case by (simp add: wp_return map_filter_simps)
next
  case (Cons d ds)
  let ?post = "\<lambda>vs w'. vs = map (\<lambda>d. if event_of d = None then Nack else Ack) (d # ds)
     \<and> (\<exists>rows. w_notifications w' = w_notifications w @ rows
          \<and> list_all2 (\<lambda>(event, evt). pushed event evt) (List.map_filter event_of (d # ds)) rows)"
  let ?rest = "\<lambda>v. consume (Handle (push_handler email)) ds \<bind> (\<lambda>vs. State_Monad.return (v # vs))"
  have onward: "wp (?rest v) ?post w1" if "wp (consume (Handle (push_handler email)) ds) (\<lambda>vs. ?post (v # vs)) w1" for v w1
    unfolding wp_bind by (rule wp_mono [OF that]) (simp add: wp_return)
  consider (undecodable) "d = None" | (unknown) msg where "d = Some msg" "decode_notification_event (m_Payload msg) = None"
    | (event) msg evt where "d = Some msg" "decode_notification_event (m_Payload msg) = Some evt"
    by (cases d) auto
  then show ?case
  proof cases
    case undecodable
    have none: "event_of d = None" by (simp add: undecodable event_of_def)
    have "wp (?rest Nack) ?post w"
      by (rule onward, rule wp_mono [OF Cons.IH [OF Cons.prems]]) (simp add: none map_filter_simps)
    then show ?thesis unfolding undecodable consume.simps .
  next
    case unknown
    have none: "event_of d = None" using unknown by (simp add: event_of_def)
    have "wp (?rest Nack) ?post w"
      by (rule onward, rule wp_mono [OF Cons.IH [OF Cons.prems]]) (simp add: none map_filter_simps)
    then show ?thesis
      unfolding unknown(1) consume.simps wp_bind [of "Handle _ _"]
      by (intro wp_mono [OF Handle_undecodable [OF unknown(2)]]) (auto split: sum.split)
  next
    case event
    have some: "event_of d = Some (m_Event msg, evt)" using event by (simp add: event_of_def)
    have fresh: "x_uuid (w_ext w) (w_uuids w) \<notin> nr_id ` set (w_notifications w)" using Cons.prems(2) by (simp add: fresh_log_def)
    have "wp (?rest Ack) ?post w1" if "reliable w1" "w_ext w1 = w_ext w" "w_uuids w1 = Suc (w_uuids w)"
      "w_notifications w1 = w_notifications w @ [row]" "nr_id row = x_uuid (w_ext w) (w_uuids w)" "pushed (m_Event msg) evt row" for w1 row
    proof -
      have "fresh_log w1"
        using Cons.prems(2) that(2-5) by (auto simp: fresh_log_def dest: injD)
      from Cons.IH [OF that(1) this] show ?thesis
        by (intro onward, rule wp_mono) (use that(4,6) in \<open>auto simp: some map_filter_simps\<close>)
    qed
    then show ?thesis
      unfolding event(1) consume.simps wp_bind [of "Handle _ _"]
      by (intro wp_mono [OF Handle_pushes [OF Cons.prems(1) fresh event(2)]]) auto
  qed
qed

end
