(* ===== verification/EdgeProps.thy ===== *)
theory EdgeProps
  imports Samples Deliveries Presence RateLimit
begin

text \<open>
  The properties of the parts at the edge: the event bus and the notification service behind
  it, the presence service, the rate limiter and the tokens.
\<close>

section \<open>Events and notifications\<close>


definition sample_reservation :: Reservation where
  "sample_reservation = new_reservation ''res-1'' ''d1'' ''k1'' AssignmentModeSystem sample_spot 0"


text \<open>
  C25: a consumer answers every delivery exactly once and in order. What does not decode is
  answered with \<open>Nack\<close> and reaches no handler; on any other the handler runs, in the world the
  deliveries before it have left, and the answer is \<open>Ack\<close> when it succeeds and \<open>Nack\<close> when it fails; so
  a failure stops none of those that follow. On the queue of the notification service, with a
  network that serves every call, exactly the deliveries that carry an event are answered with
  \<open>Ack\<close>, and each of them has become one push notification of the log, in the order of the queue.
\<close>

theorem deliveries_are_answered:
  assumes "reliable w" "fresh_log w"
  shows "length (fst (run_state (consume handler ds) v)) = length ds
   \<and> (\<forall>i < length ds. (fst (run_state (consume handler ds) v) ! i, snd (run_state (consume handler (take (Suc i) ds)) v)) =
        deliver_one handler (ds ! i) (snd (run_state (consume handler (take i ds)) v)))
   \<and> wp (consume (Handle (push_handler email)) ds) (\<lambda>vs w'. vs = map (\<lambda>d. if event_of d = None then Nack else Ack) ds
        \<and> (\<exists>rows. w_notifications w' = w_notifications w @ rows
             \<and> list_all2 (\<lambda>(event, evt). pushed event evt) (List.map_filter event_of ds) rows)) w"
  using consume_length consume_nth notifications_consumed [OF assms] by blast

theorem deliveries_are_answered_witness:
  "wp (consume (Handle (push_handler StubEmailProvider_Send))
       [None, Some \<lparr>m_Event = EventCheckInDetected, m_Timestamp = 0, m_Payload = marshal_event (fromDomain sample_reservation)\<rparr>])
     (\<lambda>vs w'. vs = [Nack, Ack] \<and> length (w_notifications w') = 1) sample_world"
proof -
  let ?m = "\<lparr>m_Event = EventCheckInDetected, m_Timestamp = 0, m_Payload = marshal_event (fromDomain sample_reservation)\<rparr>"
  have fresh: "fresh_log sample_world" by (auto simp: fresh_log_def sample_world_def sample_ext_def inj_def dest: show_nat_inj)
  have "event_of None = None" "event_of (Some ?m) \<noteq> None" by (simp add: event_of_def, code_simp)
  then show ?thesis
    by (intro wp_mono [OF conjunct2 [OF conjunct2 [OF deliveries_are_answered [OF sample_reliable(1) fresh]]]])
      (auto simp: map_filter_simps sample_world_def dest: list_all2_lengthD)
qed

section \<open>Presence\<close>

text \<open>
  Every location a driver streams is stored, in order and with what the driver sent, and
  answered to the driver.
\<close>

theorem streamed_locations_are_stored:
  assumes "reliable w" "\<forall>(req, e) \<in> set msgs. e = None"
  shows "wp (StreamLocation msgs None) (\<lambda>(sent, end) w'. end = Reply () \<and> map slr_DriverId sent = map (sl_DriverId \<circ> fst) msgs
     \<and> (\<exists>rows. w_locations w' = w_locations w @ rows \<and> list_all2 row_from (map fst msgs) rows)) w"
  by (rule StreamLocation_saves [OF assms])

definition sample_location :: StreamLocationRequest where
  "sample_location = \<lparr>sl_DriverId = ''d1'', sl_SessionId = '''', sl_ReservationId = ''res-1'',
     sl_Coordinate = Some \<lparr>co_Latitude = -6, co_Longitude = 106, co_AccuracyMeters = 5\<rparr>, sl_RecordedAt = None\<rparr>"

theorem streamed_locations_are_stored_witness:
  "wp (StreamLocation [(sample_location, None)] None) (\<lambda>(sent, end) w'. length (w_locations w') = 1) sample_world"
  by (rule wp_mono [OF streamed_locations_are_stored [OF sample_reliable(1)]])
    (auto simp: sample_world_def dest!: list_all2_lengthD)

section \<open>The rate limiter\<close>

text \<open>
  C26: over any sequence of requests and cleanups in the order of time, the limiter answers as a
  sliding window over the log of the requests it admitted; so in no window of its length more
  than \<open>limit\<close> requests of one client were admitted.
\<close>

theorem rate_limit:
  fixes window :: duration
  assumes "0 \<le> limit" "sorted (map event_time evs)"
  defines "answers \<equiv> fst (run_limiter evs (NewRateLimiter limit window))"
  shows "answers = fst (window_spec limit window evs []) \<and>
    (\<forall>key t. int (length (filter (\<lambda>(k, s). k = key \<and> t - window < s \<and> s \<le> t) (admitted_log evs answers))) \<le> limit)"
  using limiter_window [OF assms(1,2), of window] limiter_refines [OF assms(2), of limit window]
  by (simp add: bounded_def answers_def)

theorem rate_limit_witness:
  "fst (run_limiter [Request ''ip'' 0, Request ''ip'' 1, Sweep 2, Request ''ip'' 3, Request ''ip'' 10] (NewRateLimiter 2 10)) =
     fst (window_spec 2 10 [Request ''ip'' 0, Request ''ip'' 1, Sweep 2, Request ''ip'' 3, Request ''ip'' 10] [])"
  by (rule rate_limit [THEN conjunct1]) simp_all

section \<open>Tokens\<close>

text \<open>
  A token issued to a driver opens the door until it expires: a request that carries it is
  handled with that driver's id in its context.
\<close>

theorem issued_token_is_accepted:
  fixes w :: "'k world"
  assumes "jwt_ok (w_ext w)" "0 \<le> w_clock w" "0 \<le> hours" "hours * Hour < 2 ^ 63"
  shows "wp (GenerateToken secret u v hours) (\<lambda>res w1. \<forall>token. res = Inr token \<longrightarrow>
     (\<forall>r (next :: ('k, 'r) http_handler) Q w2. w_ext w2 = w_ext w \<longrightarrow> w_clock (pass w2) < numeric_date (w_clock w + hours * Hour) \<longrightarrow>
        \<not> is_public_path (hq_Path r) \<longrightarrow> hq_Header r ''Authorization'' = ''Bearer '' @ token \<longrightarrow>
        wp (HTTPMiddleware secret next r) Q w2 = wp (next (r\<lparr>hq_UserID := Some u\<rparr>)) Q (pass w2))) w"
proof (rule wp_mono [OF GenerateToken_accepted [OF assms]], intro allI impI, goal_cases)
  case (1 res w1 token r "next" Q w2)
  then obtain issued where issued: "w_clock w \<le> issued"
    "w_clock (pass w2) < numeric_date (issued + hours * Hour) \<Longrightarrow> accepts secret w2 token \<lparr>cl_UserID = u, cl_VehicleType = v\<rparr>"
    by blast
  have "numeric_date (w_clock w + hours * Hour) \<le> numeric_date (issued + hours * Hour)"
    using issued(1) by (intro numeric_date_mono) simp
  then have "accepts secret w2 token \<lparr>cl_UserID = u, cl_VehicleType = v\<rparr>" using issued(2) 1(4) by simp
  from HTTPMiddleware_accepted [OF this 1(5,6)] show ?case by simp
qed

definition sample_request :: "string \<Rightarrow> http_request" where
  "sample_request token = \<lparr>hq_Method = ''GET'', hq_Path = ''/v1/reservations/me'', hq_RemoteAddr = ''ip'',
     hq_Header = (\<lambda>h. if h = ''Authorization'' then ''Bearer '' @ token else ''''),
     hq_Query = (\<lambda>_. ''''), hq_Body = None, hq_UserID = None\<rparr>"

definition who_am_i :: "(kv, string option) http_handler" where
  "who_am_i r = State_Monad.return (JSONBody 200 (hq_UserID r))"

theorem issued_token_is_accepted_witness:
  "wp (GenerateToken ''secret'' ''d1'' ''car'' 24) (\<lambda>res w1. \<forall>token. res = Inr token \<longrightarrow>
     wp (HTTPMiddleware ''secret'' who_am_i (sample_request token)) (\<lambda>reply _. reply = JSONBody 200 (Some ''d1'')) sample_world) sample_world"
proof -
  have t: "0 \<le> w_clock sample_world" "(24::int) * Hour < 2 ^ 63"
    "w_clock (pass sample_world) < numeric_date (w_clock sample_world + 24 * Hour)" by code_simp+
  have p: "\<not> is_public_path (hq_Path (sample_request token))" for token
  proof -
    have "\<not> is_public_path ''/v1/reservations/me''" by code_simp
    then show ?thesis by (simp add: sample_request_def)
  qed
  have h: "hq_Header (sample_request token) ''Authorization'' = ''Bearer '' @ token" for token
    by (simp add: sample_request_def)
  have j: "jwt_ok (w_ext sample_world)" by simp
  show ?thesis
  proof (rule wp_mono [OF issued_token_is_accepted [OF j t(1) _ t(2), where secret = "''secret''" and u = "''d1''" and v = "''car''" and 'r = "string option"]], simp, intro allI impI, goal_cases)
    case (1 res w1 token)
    note 1(1) [rule_format, OF 1(2) refl t(3) p h]
    then show ?case by (simp add: who_am_i_def wp_return)
  qed
qed

end
