(* ===== verification/GatewayBehaviour.thy ===== *)
theory GatewayBehaviour
  imports Server ReservationBehaviour
begin

text \<open>
  What the methods and handlers of the gateway do on a network that serves every call: a booking
  whose payment fails is given back, a check-out is billed, a settled payment confirms its
  reservation, and a simulated settlement.
\<close>

section \<open>Calls that are served\<close>

definition received :: "'a reply \<Rightarrow> 'a reply" where
  "received r = (case r of Panic \<Rightarrow> Status Unavailable ''error reading from server: EOF'' | _ \<Rightarrow> r)"

lemma received_simps [simp]: "received (Reply a) = Reply a" "received (Status c m) = Status c m"
  "received Panic = Status Unavailable ''error reading from server: EOF''"
  by (simp_all add: received_def)

lemma received_not_panic [simp]: "received r \<noteq> Panic"
  by (simp add: received_def split: reply.split)

lemma wp_call: "reliable w \<Longrightarrow> wp (call m) Q w = wp m (\<lambda>r. Q (received r)) (arrive w)"
  by (simp add: call_def wp_def received_def split: prod.split reply.split)

lemma wp_or_forward: "wp (or_forward m rest) Q w = wp m (\<lambda>r w'. case r of
     Reply a \<Rightarrow> wp (rest a) Q w' | Status c msg \<Rightarrow> Q (Status c msg) w' | Panic \<Rightarrow> Q Panic w') w"
  by (simp add: or_forward_def wp_fst_snd State_Monad.return_def split: prod.split reply.split)

lemma creatable_later:
  assumes "creatable w key s"
  shows "creatable (arrive w) key s"
  using assms redis_None_later [of w "w_redis w" "w_clock w" _ "w_clock (arrive w)"]
  by (auto simp: creatable_def)

section \<open>A booking whose payment fails\<close>

text \<open>A payment gateway that refuses to issue a QR code.\<close>

definition refusing :: "PaymentGateway \<Rightarrow> bool" where
  "refusing g = (case g of
       MidtransGateway f \<Rightarrow> (\<forall>req t. \<exists>m. snd (f req t) = Some m \<and> m \<noteq> '''')
     | MockGateway \<Rightarrow> False
     | MockGatewayErr e _ \<Rightarrow> e \<noteq> None)"

lemma refusing_CreateQRIS:
  assumes "refusing g"
  shows "wp (CreateQRIS g orderID a c) (\<lambda>res w'. (\<exists>e. res = Some (Inl e)) \<and> quiet w w' \<and> w_fates w' = w_fates w) w"
proof (cases g)
  case (MidtransGateway f)
  let ?req = "\<lparr>ch_PaymentType = ''gopay'', ch_OrderID = orderID, ch_GrossAmt = a, ch_Customer = c, ch_Bank = None\<rparr>"
  obtain resp e where f: "f ?req (w_clock (pass w)) = (resp, e)" by (cases "f ?req (w_clock (pass w))")
  then obtain m where "e = Some m" "m \<noteq> ''''"
    using assms unfolding MidtransGateway refusing_def by (auto dest!: spec [where x = ?req] spec [where x = "w_clock (pass w)"])
  with f show ?thesis
    by (simp add: MidtransGateway CreateQRIS_def midtrans_CreateQRIS_def charge_transaction_def wp_simps quiet_def pass_clock)
next
  case MockGateway
  with assms show ?thesis by (simp add: refusing_def)
next
  case (MockGatewayErr q v)
  with assms show ?thesis by (auto simp: refusing_def CreateQRIS_def wp_simps quiet_def)
qed

lemma refused_payment:
  assumes "reliable w" "refusing g" "key \<noteq> ''''"
    and "\<And>t. w_clock w \<le> t \<Longrightarrow> x_redis_get (w_ext w) (w_redis w) t (payment_key key) = None"
  shows "wp (CreateTransaction g iid did key ''QRIS'' a c) (\<lambda>res w'. (res = None \<or> (\<exists>e. res = Some (Inl e)))
     \<and> db_same w w' \<and> reliable w' \<and> w_redis w' = w_redis w) w"
proof -
  let ?w1 = "(arrive w)\<lparr>w_uuids := Suc (w_uuids w)\<rparr>"
  have w2: "db_same w (pass ?w1)" "reliable (pass ?w1)" "w_redis (pass ?w1) = w_redis w"
    using assms(1) by (simp_all add: db_same_later)
  show ?thesis
  proof (cases "first8 (x_uuid (w_ext w) (w_uuids w))")
    case None
    then show ?thesis
      using assms w2 by (simp add: CreateTransaction_def Check_def rdb_Get_def wp_simps)
  next
    case (Some tx8)
    have q: "db_same w w' \<and> w_redis w' = w_redis w" if "quiet (pass ?w1) w'" for w'
      using db_same_trans [OF w2(1) quiet_db_same [OF that]] that w2(3) by (simp add: quiet_def)
    have "wp (CreateQRIS g (''PP-'' @ tx8) a c) (\<lambda>res w'. (\<exists>e. res = Some (Inl e)) \<and> db_same w w' \<and> reliable w'
        \<and> w_redis w' = w_redis w) (pass ?w1)"
      by (rule wp_mono [OF refusing_CreateQRIS [OF assms(2)]])
        (use q w2(2) in \<open>auto simp: reliable_def\<close>)
    then show ?thesis
      using assms Some
      by (simp add: CreateTransaction_def Check_def rdb_Get_def wp_simps Let_def charge_for_def)
        (auto elim!: wp_mono)
  qed
qed

lemma refused_payment_call:
  assumes "reliable w" "refusing g" "ct_PaymentMethod req = PAYMENT_METHOD_QRIS" "ct_IdempotencyKey req = key" "key \<noteq> ''''"
    and "ct_Amount req = Some amount"
    and "\<And>t. w_clock w \<le> t \<Longrightarrow> x_redis_get (w_ext w) (w_redis w) t (payment_key key) = None"
  shows "wp (call (rpc_CreateTransaction g req)) (\<lambda>r w'. (\<exists>c m. r = Status c m)
     \<and> db_same w w' \<and> reliable w' \<and> w_redis w' = w_redis w) w"
proof -
  have qris: "protoToPaymentMethod PAYMENT_METHOD_QRIS = ''QRIS''"
    by (simp add: protoToPaymentMethod_def)
  have arrived: "x_redis_get (w_ext (arrive w)) (w_redis (arrive w)) t (payment_key key) = None" if "w_clock (arrive w) \<le> t" for t
    using assms(7) [of t] that arrive_clock [of w] by simp
  have m: "wp (CreateTransaction g (ct_InvoiceId req) (ct_DriverId req) key ''QRIS'' (mo_Amount amount) c)
      (\<lambda>res w'. (res = None \<or> (\<exists>e. res = Some (Inl e))) \<and> db_same w w' \<and> reliable w' \<and> w_redis w' = w_redis w) (arrive w)" for c
    by (rule wp_mono [OF refused_payment [OF _ assms(2,5) arrived]])
      (use assms(1) in \<open>auto intro: db_same_trans [OF db_same_arrive]\<close>)
  show ?thesis
    unfolding wp_call [OF assms(1)]
    by (simp add: rpc_CreateTransaction_def assms(3-6) qris wp_bind Let_def)
      (rule wp_mono [OF m], auto simp: wp_return)
qed

text \<open>Giving a new reservation back: it is cancelled and the lock of its spot released.\<close>

lemma give_back_new:
  assumes "reliable w" "redis_ok (w_ext w)" "keys_ok w" "current w row s" "rr_status row \<in> {StatusPending, StatusConfirmed}"
    and "\<And>t. w_clock w \<le> t \<Longrightarrow> x_redis_get (w_ext w) (w_redis w) t (spotLockKey (sr_id s)) \<in> {None, Some (rr_id row)}"
  shows "wp (give_back p (rr_id row) (rr_driver_id row) msg) (\<lambda>r w'. r = Status FailedPrecondition msg
     \<and> (\<exists>now. w_clock w \<le> now \<and> now \<le> w_clock w' \<and> w_reservations w' = update_where (\<lambda>x. rr_id x = rr_id row)
       (\<lambda>x. x\<lparr>rr_status := StatusCancelled, rr_cancelled_at := Some (pg_timestamp now)\<rparr>) (w_reservations w))
     \<and> (\<forall>t \<ge> w_clock w'. x_redis_get (w_ext w) (w_redis w') t (spotLockKey (sr_id s)) = None)
     \<and> w_invoices w' = w_invoices w \<and> w_transactions w' = w_transactions w) w"
proof -
  let ?lock = "spotLockKey (sr_id s)"
  note server = assms(2) [unfolded redis_ok_def]
  have released: "x_redis_get (w_ext w) (releaseScript (w_ext w) (w_redis w) t0 ?lock (rr_id row)) t ?lock = None"
    if "w_clock w \<le> t0" "t0 \<le> t" for t0 t
    using assms(6) [OF that(1)] redis_None_later [OF assms(2) _ that(2)] redis_server.get_del [OF server that(2)]
    by (auto simp: releaseScript_def)
  have arrived: "reliable (arrive w)" "keys_ok (arrive w)" "current (arrive w) row s" using assms by simp_all
  show ?thesis
    unfolding give_back_def wp_bind wp_call [OF assms(1)] rpc_CancelReservation_def wp_or_status
  proof (rule wp_mono [OF wp_conj [THEN iffD2, OF conjI [OF CancelReservation_open [OF arrived assms(5)]
      CancelReservation_evolves [OF arrived(2)]]]], elim conjE, goal_cases)
    case (1 res w')
    have other: "w_invoices w' = w_invoices w" "w_transactions w' = w_transactions w" using 1(2) by (simp_all add: evolves_def)
    from 1(1) obtain now t0 where res: "res = Inr ((scanReservation row s)\<lparr>r_Status := StatusCancelled, r_CancelledAt := Some now\<rparr>,
        CalculateCancellationFee (rr_confirmed_at row) now False)"
      and clock: "w_clock w \<le> now" "now \<le> w_clock w'" "w_clock w \<le> t0" "t0 \<le> w_clock w'"
      and rows: "w_reservations w' = update_where (\<lambda>x. rr_id x = rr_id row)
        (\<lambda>x. x\<lparr>rr_status := StatusCancelled, rr_cancelled_at := Some (pg_timestamp now)\<rparr>) (w_reservations w)"
      and redis: "w_redis w' = releaseScript (w_ext w) (w_redis w) t0 ?lock (rr_id row)"
      using order_trans [OF arrive_clock [of w]] by (auto simp: Let_def)
    have "x_redis_get (w_ext w) (w_redis w') t ?lock = None" if "w_clock w' \<le> t" for t
      unfolding redis by (rule released [OF clock(3) order_trans [OF clock(4) that]])
    with clock(1,2) rows other show ?case unfolding res by (auto simp: wp_return)
  qed
qed

text \<open>The booking fee's invoice touches neither the reservations nor the store, and time goes on.\<close>

definition only_invoices :: "'k world \<Rightarrow> 'k world \<Rightarrow> bool" where
  "only_invoices w w' \<longleftrightarrow> w_ext w' = w_ext w \<and> w_clock w \<le> w_clock w' \<and> w_spots w' = w_spots w
     \<and> w_reservations w' = w_reservations w \<and> w_transactions w' = w_transactions w \<and> w_redis w' = w_redis w
     \<and> (reliable w \<longrightarrow> reliable w')"

lemma only_invoices_trans: "only_invoices w w' \<Longrightarrow> only_invoices w' w'' \<Longrightarrow> only_invoices w w''"
  by (auto simp: only_invoices_def)

lemma db_same_only_invoices:
  "db_same w w' \<Longrightarrow> w_redis w' = w_redis w \<Longrightarrow> reliable w' \<Longrightarrow> only_invoices w w'"
  by (simp add: only_invoices_def db_same_def)

text \<open>Nothing was charged, and at most an unpaid invoice of the reservation is new.\<close>

definition uncharged :: "string \<Rightarrow> 'k world \<Rightarrow> 'k world \<Rightarrow> bool" where
  "uncharged rid w w' \<longleftrightarrow> w_transactions w' = w_transactions w \<and> (w_invoices w' = w_invoices w
     \<or> (\<exists>i. w_invoices w' = w_invoices w @ [i] \<and> ir_reservation_id i = rid \<and> ir_status i = InvoiceStatusPendingPayment))"

lemma uncharged_same: "uncharged rid w w1 \<Longrightarrow> w_invoices w' = w_invoices w1 \<Longrightarrow> w_transactions w' = w_transactions w1 \<Longrightarrow>
    uncharged rid w w'"
  by (simp add: uncharged_def)

lemma CreateBookingFeeInvoice_only:
  "reliable w \<Longrightarrow> wp (CreateBookingFeeInvoice rid did key) (\<lambda>_ w'. only_invoices w w' \<and> uncharged rid w w') w"
  by (auto simp: CreateBookingFeeInvoice_def insert_invoice_row_def wp_simps Let_def only_invoices_def uncharged_def split: sum.split)

text \<open>
  After the reservation was made: whether the invoice or the payment fails, the reservation is
  given back. \<open>booked w row s\<close> is what making it left behind.
\<close>

definition just_booked :: "'k world \<Rightarrow> reservation_row \<Rightarrow> spot_row \<Rightarrow> bool" where
  "just_booked w row s \<longleftrightarrow> reliable w \<and> redis_ok (w_ext w) \<and> keys_ok w \<and> current w row s \<and> rr_status row = StatusPending
     \<and> (\<forall>t \<ge> w_clock w. x_redis_get (w_ext w) (w_redis w) t (spotLockKey (sr_id s)) \<in> {None, Some (rr_id row)})"

definition given_back :: "'k world \<Rightarrow> reservation_row \<Rightarrow> spot_row \<Rightarrow> 'k world \<Rightarrow> bool" where
  "given_back w0 row s w \<longleftrightarrow>
     (\<exists>now \<le> w_clock w. w_reservations w = update_where (\<lambda>x. rr_id x = rr_id row)
        (\<lambda>x. x\<lparr>rr_status := StatusCancelled, rr_cancelled_at := Some (pg_timestamp now)\<rparr>) (w_reservations w0))
     \<and> (\<forall>t \<ge> w_clock w. x_redis_get (w_ext w0) (w_redis w) t (spotLockKey (sr_id s)) = None)
     \<and> uncharged (rr_id row) w0 w"

lemma just_booked_only: "just_booked w row s \<Longrightarrow> only_invoices w w' \<Longrightarrow> just_booked w' row s"
  unfolding just_booked_def only_invoices_def keys_ok_def current_def
  by (elim conjE, intro conjI) (simp_all del: insert_iff)

lemma give_back_booked:
  assumes "just_booked w row s" "w_reservations w = w_reservations w0" "w_ext w = w_ext w0" "uncharged (rr_id row) w0 w"
  shows "wp (give_back p (rr_id row) (rr_driver_id row) msg)
    (\<lambda>r w'. r = Status FailedPrecondition msg \<and> given_back w0 row s w') w"
proof -
  have w: "reliable w" "redis_ok (w_ext w)" "keys_ok w" "current w row s" "rr_status row \<in> {StatusPending, StatusConfirmed}"
    using assms by (simp_all add: just_booked_def)
  show ?thesis
    by (rule wp_mono [OF give_back_new [OF w]])
      (use assms uncharged_same [OF assms(4)] in \<open>auto simp: just_booked_def given_back_def\<close>)
qed

lemma unpaid_booking:
  assumes "just_booked w row s" "refusing g"
    and "\<And>t. w_clock w \<le> t \<Longrightarrow> x_redis_get (w_ext w) (w_redis w) t (payment_key (''pay-booking-'' @ key)) = None"
  shows "wp (do {
      invoice \<leftarrow> CreateBookingFeeInvoice (rr_id row) (rr_driver_id row) ikey;
      (case invoice of
         Inl err \<Rightarrow> give_back p (rr_id row) (rr_driver_id row) (msg err)
       | Inr invoiceID \<Rightarrow> do {
           payment \<leftarrow> call (rpc_CreateTransaction g (booking_payment invoiceID (rr_driver_id row) key));
           (case payment of
              Status c m \<Rightarrow> give_back p (rr_id row) (rr_driver_id row) (msg' c m)
            | Reply payResp \<Rightarrow> State_Monad.return (Reply (reply payResp))
            | Panic \<Rightarrow> State_Monad.return Panic)
         })
    }) (\<lambda>r w'. (\<exists>m. r = Status FailedPrecondition m) \<and> given_back w row s w') w"
  unfolding wp_bind
proof (rule wp_mono [OF CreateBookingFeeInvoice_only], goal_cases)
  case 1
  show ?case using assms(1) by (simp add: just_booked_def)
next
  case (2 invoice w1)
  note w1 = just_booked_only [OF assms(1) conjunct1 [OF 2]]
  have rows1: "w_reservations w1 = w_reservations w" "w_ext w1 = w_ext w" "uncharged (rr_id row) w w1"
    using 2 by (simp_all add: only_invoices_def)
  show ?case
  proof (cases invoice)
    case (Inl err)
    then show ?thesis by (auto intro!: wp_mono [OF give_back_booked [OF w1 rows1]])
  next
    case (Inr iid)
    let ?req = "booking_payment iid (rr_driver_id row) key"
    have key: "''pay-booking-'' @ key \<noteq> ''''" by simp
    have unused: "x_redis_get (w_ext w1) (w_redis w1) t (payment_key (''pay-booking-'' @ key)) = None" if "w_clock w1 \<le> t" for t
      using assms(3) [of t] that 2 by (simp add: only_invoices_def)
    have paid: "wp (call (rpc_CreateTransaction g ?req)) (\<lambda>r w2. (\<exists>c m. r = Status c m) \<and> only_invoices w w2
        \<and> uncharged (rr_id row) w w2) w1"
      by (rule wp_mono [OF refused_payment_call [OF _ assms(2) _ _ key _ unused]])
        (use w1 2 uncharged_same [OF rows1(3)] in
          \<open>auto simp: just_booked_def booking_payment_def db_same_def [of w1] only_invoices_def\<close>)
    show ?thesis
      unfolding Inr sum.case wp_bind
    proof (rule wp_mono [OF paid], elim conjE exE, goal_cases)
      case (1 payment w2 c m)
      have "w_reservations w2 = w_reservations w" "w_ext w2 = w_ext w" using 1(1) by (simp_all add: only_invoices_def)
      then show ?case
        unfolding 1(3) reply.case by (intro wp_mono [OF give_back_booked [OF just_booked_only [OF assms(1) 1(1)] _ _ 1(2)]]) auto
    qed
  qed
qed

text \<open>The whole request: what it answers and what it leaves behind.\<close>

lemma CreateReservation_just_books:
  assumes "reliable w" "db_wf w" "chosen w vt mode sid = Some s" "creatable w key s"
  shows "wp (CreateReservation did key vt mode sid) (\<lambda>res w'. \<exists>r row spot.
     res = Inr r \<and> r_ReservationID r = rr_id row \<and> rr_driver_id row = did \<and> rr_id row = x_uuid (w_ext w) (w_uuids w)
     \<and> sr_id spot = s_SpotID s \<and> w_reservations w' = w_reservations w @ [row] \<and> just_booked w' row spot
     \<and> w_invoices w' = w_invoices w \<and> w_transactions w' = w_transactions w \<and> w_ext w' = w_ext w
     \<and> w_clock w \<le> w_clock w' \<and> (\<forall>t \<ge> w_clock w'. \<forall>k. k \<noteq> store_key key \<and> k \<noteq> spotLockKey (s_SpotID s) \<longrightarrow>
          x_redis_get (w_ext w') (w_redis w') t k = x_redis_get (w_ext w) (w_redis w) t k)) w"
proof (rule wp_mono [OF wp_conj [THEN iffD2, OF conjI [OF CreateReservation_creates [OF assms(1,3,4)] CreateReservation_evolves]]],
    elim conjE exE, goal_cases)
  case (1 res w' now)
  let ?r = "new_reservation (x_uuid (w_ext w) (w_uuids w)) did key mode s now"
  have ok: "redis_ok (w_ext w)" using assms(4) by (simp add: creatable_def)
  have keys: "keys_ok w'"
    using evolves_keys_ok [OF 1(1) db_wf_keys_ok [OF assms(2)]] .
  obtain spot where spot: "spot \<in> set (w_spots w)" "sr_id spot = s_SpotID s"
    using chosen_spot_ids [OF assms(3)] by (auto simp: spot_ids_def)
  have facts: "res = Inr ?r" "w_reservations w' = w_reservations w @ [row_of ?r]" "reliable w'" "w_ext w' = w_ext w" "w_spots w' = w_spots w"
    "\<forall>t \<ge> w_clock w'. x_redis_get (w_ext w') (w_redis w') t (spotLockKey (s_SpotID s)) \<in> {None, Some (x_uuid (w_ext w) (w_uuids w))}"
    "\<forall>t \<ge> w_clock w'. \<forall>k. k \<noteq> store_key key \<and> k \<noteq> spotLockKey (s_SpotID s) \<longrightarrow>
       x_redis_get (w_ext w') (w_redis w') t k = x_redis_get (w_ext w) (w_redis w) t k"
    using 1(2) unfolding Let_def by blast+
  have row: "rr_id (row_of ?r) = x_uuid (w_ext w) (w_uuids w)" "rr_status (row_of ?r) = StatusPending"
      "rr_driver_id (row_of ?r) = did" "r_ReservationID ?r = x_uuid (w_ext w) (w_uuids w)"
    by (simp_all add: row_of_def new_reservation_def)
  have "current w' (row_of ?r) spot"
    using facts(2,5) spot by (simp add: current_def row_of_def new_reservation_def)
  then have "just_booked w' (row_of ?r) spot"
    unfolding just_booked_def row spot(2) using facts(3,6) ok keys facts(4) by simp
  then show ?case
    using facts(1,2,4,7) spot(2) 1(1) evolves_clock [OF 1(1)] row
    by (intro exI [of _ ?r] exI [of _ "row_of ?r"] exI [of _ spot]) (simp add: evolves_def)
qed

lemma payment_key_other: "payment_key (''pay-booking-'' @ key) \<noteq> store_key key"
  "payment_key k \<noteq> spotLockKey sid"
  by (auto simp: payment_key_def store_key_def spotLockKey_def)

lemma update_where_last:
  "k \<notin> rr_id ` set rows \<Longrightarrow> rr_id row = k \<Longrightarrow> update_where (\<lambda>x. rr_id x = k) f (rows @ [row]) = rows @ [f row]"
  by (induction rows) (auto simp: update_where_def)

lemma unpaid_booking_given_back:
  assumes "reliable w" "db_wf w" "UserIDFromContext ctx = Some did" "br_IdempotencyKey req = key" "key \<noteq> ''''"
    and "chosen w (protoToVehicleType (br_VehicleType req)) (protoToAssignmentMode (br_AssignmentMode req)) (br_SpotId req) = Some s"
    and "creatable w key s" "refusing g"
    and "x_redis_get (w_ext w) (w_redis w) (w_clock w) (payment_key (''pay-booking-'' @ key)) = None"
  shows "wp (gw_CreateReservation p g ctx req) (\<lambda>r w'. (\<exists>m. r = Status FailedPrecondition m)
     \<and> (\<exists>row. w_reservations w' = w_reservations w @ [row] \<and> rr_driver_id row = did \<and> rr_status row = StatusCancelled
          \<and> uncharged (rr_id row) w w')
     \<and> (\<forall>t \<ge> w_clock w'. x_redis_get (w_ext w) (w_redis w') t (spotLockKey (s_SpotID s)) = None)) w"
proof -
  let ?w = "arrive w"
  have w: "reliable ?w" "db_wf ?w" "creatable ?w key s"
    using assms(1,2) evolves_db_wf [OF db_same_evolves [OF db_same_arrive]] creatable_later [OF assms(7)] by simp_all
  have fresh: "x_uuid (w_ext w) (w_uuids w) \<notin> rr_id ` set (w_reservations w)" and ok: "redis_ok (w_ext w)"
    using assms(7) by (simp_all add: creatable_def)
  show ?thesis
    unfolding gw_CreateReservation_def assms(3,4) option.case wp_or_forward wp_call [OF assms(1)]
    using assms(5)
  proof (simp add: rpc_CreateReservation_def wp_or_status, rule_tac wp_mono [OF CreateReservation_just_books [OF w(1,2) _ w(3)]], goal_cases)
    case 1
    show ?case using assms(6) by simp
  next
    case (2 res w1)
    then obtain r row spot where res: "res = Inr r" "r_ReservationID r = rr_id row" "rr_driver_id row = did"
        "rr_id row = x_uuid (w_ext w) (w_uuids w)" "sr_id spot = s_SpotID s" "w_reservations w1 = w_reservations w @ [row]"
        "just_booked w1 row spot" "w_ext w1 = w_ext w" "w_invoices w1 = w_invoices w" "w_transactions w1 = w_transactions w"
      and frame: "\<And>t k. w_clock w1 \<le> t \<Longrightarrow> k \<noteq> store_key key \<Longrightarrow> k \<noteq> spotLockKey (s_SpotID s) \<Longrightarrow>
        x_redis_get (w_ext w1) (w_redis w1) t k = x_redis_get (w_ext w) (w_redis w) t k"
      and clock: "w_clock ?w \<le> w_clock w1"
      by auto
    have unused: "x_redis_get (w_ext w1) (w_redis w1) t (payment_key (''pay-booking-'' @ key)) = None" if "w_clock w1 \<le> t" for t
      using frame [OF that payment_key_other] redis_None_later [OF ok assms(9), of t] that clock arrive_clock [of w] by simp
    have "w_reservations w' = w_reservations w @ [row\<lparr>rr_status := StatusCancelled, rr_cancelled_at := Some (pg_timestamp now)\<rparr>]"
      if "w_reservations w' = update_where (\<lambda>x. rr_id x = rr_id row)
        (\<lambda>x. x\<lparr>rr_status := StatusCancelled, rr_cancelled_at := Some (pg_timestamp now)\<rparr>) (w_reservations w1)" for w' :: "'a world" and now
      using that fresh res(4) by (simp add: res(6) update_where_last)
    moreover have "uncharged (rr_id row) w1 w' \<Longrightarrow> uncharged (rr_id row) w w'" for w' :: "'a world"
      using res(9,10) by (simp add: uncharged_def)
    ultimately show ?case
      unfolding res(1) sum.case wp_return received_simps reply.case CreateReservationResponse.simps res(2) res(3) [symmetric]
      by (intro wp_mono [OF unpaid_booking [OF res(7) assms(8) unused]]) (use res in \<open>fastforce simp: given_back_def\<close>)+
  qed
qed

section \<open>Checking out\<close>

lemma wp_rpc_GetReservation:
  assumes "reliable w" "keys_ok w" "current w row s"
  shows "wp (rpc_GetReservation (rr_id row)) Q w = Q (Reply (domainReservationToProto (scanReservation row s))) (arrive w)"
  using assms by (simp add: rpc_GetReservation_def GetReservation_def wp_or_status read_served wp_return)

text \<open>What a check-out leaves behind for the calls that follow.\<close>

lemma CheckOut_leaves:
  assumes "reliable w" "redis_ok (w_ext w)" "keys_ok w" "current w row s" "rr_status row = StatusActive"
    and "x_redis_get (w_ext w) (w_redis w) (w_clock w) (store_key key) = None"
  shows "wp (CheckOut p (rr_id row) (rr_driver_id row) key) (\<lambda>res w'. \<exists>now.
     let row' = row\<lparr>rr_status := StatusCompleted, rr_check_out_at := Some (pg_timestamp now)\<rparr> in
     res = Inr ((scanReservation row s)\<lparr>r_Status := StatusCompleted, r_CheckOutAt := Some now\<rparr>)
     \<and> w_clock w \<le> now \<and> now \<le> w_clock w' \<and> reliable w' \<and> keys_ok w' \<and> w_ext w' = w_ext w \<and> current w' row' s
     \<and> w_reservations w' = update_where (\<lambda>x. rr_id x = rr_id row) (\<lambda>x. x\<lparr>rr_status := StatusCompleted,
          rr_check_out_at := Some (pg_timestamp now)\<rparr>) (w_reservations w)
     \<and> w_invoices w' = w_invoices w \<and> (\<forall>t \<ge> w_clock w'. \<forall>k. k \<noteq> store_key key \<and> k \<noteq> spotLockKey (sr_id s) \<longrightarrow>
          x_redis_get (w_ext w) (w_redis w') t k = x_redis_get (w_ext w) (w_redis w) t k)) w"
proof (rule wp_mono [OF wp_conj [THEN iffD2, OF conjI [OF CheckOut_active [OF assms(1,3,4,5) redis_None_later [OF assms(2,6)]]
      CheckOut_evolves [OF assms(3)]]]], goal_cases)
  case 1
  then show ?case by simp
next
  case (2 res w')
  note server = assms(2) [unfolded redis_ok_def]
  obtain now t t' where e: "evolves w w'"
      "res = Inr ((scanReservation row s)\<lparr>r_Status := StatusCompleted, r_CheckOutAt := Some now\<rparr>)"
      "w_clock w \<le> now" "now \<le> w_clock w'" "reliable w'" "t \<le> t'" "t' \<le> w_clock w'"
      "w_reservations w' = update_where (\<lambda>x. rr_id x = rr_id row) (\<lambda>x. x\<lparr>rr_status := StatusCompleted,
          rr_check_out_at := Some (pg_timestamp now)\<rparr>) (w_reservations w)"
    and redis: "w_redis w' = x_redis_set (w_ext w) (releaseScript (w_ext w) (w_redis w) t (spotLockKey (sr_id s)) (rr_id row))
          t' (store_key key) (rr_id row) DefaultTTL"
    using 2 by (auto simp: Let_def)
  have "x_redis_get (w_ext w) (w_redis w') u k = x_redis_get (w_ext w) (w_redis w) u k"
    if "w_clock w' \<le> u" "k \<noteq> store_key key" "k \<noteq> spotLockKey (sr_id s)" for u k
  proof -
    have "t' \<le> u" "t \<le> u" using that(1) e(6,7) by simp_all
    then show ?thesis
      using redis_server.get_set [OF server ttl_pos] redis_server.get_del [OF server] that(2,3)
      by (simp add: redis releaseScript_def)
  qed
  moreover have "current w' (row\<lparr>rr_status := StatusCompleted, rr_check_out_at := Some (pg_timestamp now)\<rparr>) s"
    using assms(4) e(1,8) by (auto simp: current_def evolves_def set_update_where)
  moreover have "w_invoices w' = w_invoices w" "w_ext w' = w_ext w" using e(1) by (simp_all add: evolves_def)
  ultimately show ?case
    using e evolves_keys_ok [OF e(1) assms(3)] by (auto simp: Let_def intro!: exI [of _ now])
qed

text \<open>
  The gateway bills a check-out from the time the reservation was confirmed, and reports the
  duration from the check-in.
\<close>

lemma inv_key_other: "billing_key (''inv-'' @ key) \<noteq> store_key key" "billing_key k \<noteq> spotLockKey sid"
  by (auto simp: billing_key_def store_key_def spotLockKey_def)

lemma wp_bill:
  assumes "reliable w" "redis_ok (w_ext w)" "rid \<in> rr_id ` set (w_reservations w)"
    and "x_redis_get (w_ext w) (w_redis w) (w_clock w) (billing_key key) = None" "key \<noteq> ''''"
    and "key \<notin> ir_idempotency_key ` set (w_invoices w)" "\<And>n. x_uuid (w_ext w) n \<notin> ir_id ` set (w_invoices w)"
  shows "wp (call (rpc_GenerateInvoice \<lparr>gi_SessionId = sid, gi_ReservationId = rid, gi_DriverId = did,
       gi_CheckInAt = Some cin, gi_CheckOutAt = Some cout, gi_IdempotencyKey = key\<rparr>)) (\<lambda>r w'. \<exists>iid t n.
     let invoice = parking_invoice sid rid did key cin cout iid t in
     r = Reply \<lparr>gir_InvoiceId = i_InvoiceID invoice, gir_Invoice = domainInvoiceToProto invoice,
       gir_GeneratedAt = i_CreatedAt invoice\<rparr>
     \<and> w_clock w \<le> w_clock w' \<and> w_invoices w' = w_invoices w @ [invoice_row_of invoice n]
     \<and> w_reservations w' = w_reservations w) w"
proof -
  have arrived: "reliable (arrive w)" "redis_ok (w_ext (arrive w))" "rid \<in> rr_id ` set (w_reservations (arrive w))"
    "x_redis_get (w_ext (arrive w)) (w_redis (arrive w)) (w_clock (arrive w)) (billing_key key) = None"
    "key \<notin> ir_idempotency_key ` set (w_invoices (arrive w))"
    "x_uuid (w_ext (arrive w)) (w_uuids (arrive w)) \<notin> ir_id ` set (w_invoices (arrive w))"
    using assms redis_None_later [OF assms(2,4) arrive_clock] by simp_all
  show ?thesis
    unfolding wp_call [OF assms(1)]
    using assms(5)
  proof (simp add: rpc_GenerateInvoice_def wp_or_status AsTime_def,
      rule_tac wp_mono [OF GenerateInvoice_served [OF arrived]], elim exE, goal_cases)
    case (1 res w' t now)
    let ?iid = "x_uuid (w_ext (arrive w)) (w_uuids (arrive w))"
    have "res = Inr (parking_invoice sid rid did key cin cout ?iid t)" "w_clock (arrive w) \<le> w_clock w'"
        "w_invoices w' = w_invoices w @ [invoice_row_of (parking_invoice sid rid did key cin cout ?iid t) now]"
        "w_reservations w' = w_reservations w"
      using 1 by (simp_all add: Let_def)
    then show ?case
      using order_trans [OF arrive_clock [of w], of "w_clock w'"]
      by (simp add: wp_return Let_def) (intro exI [of _ ?iid] exI [of _ t], auto)
  qed
qed

lemma gw_CheckOut_bills:
  assumes "reliable w" "redis_ok (w_ext w)" "keys_ok w" "current w row s" "rr_status row = StatusActive"
    and "rr_check_in_at row = Some ci" "UserIDFromContext ctx = Some (rr_driver_id row)" "key \<noteq> ''''"
    and "x_redis_get (w_ext w) (w_redis w) (w_clock w) (store_key key) = None"
    and "x_redis_get (w_ext w) (w_redis w) (w_clock w) (billing_key (''inv-'' @ key)) = None"
    and "''inv-'' @ key \<notin> ir_idempotency_key ` set (w_invoices w)" "\<And>n. x_uuid (w_ext w) n \<notin> ir_id ` set (w_invoices w)"
  shows "wp (gw_CheckOut p ctx (rr_id row) key) (\<lambda>res w'. \<exists>now iid t n.
     let sid = r_SessionID (scanReservation row s);
       invoice = parking_invoice sid (rr_id row) (rr_driver_id row) (''inv-'' @ key) (rr_confirmed_at row) now iid t in
     res = Reply \<lparr>lv_SessionId = sid, lv_InvoiceId = iid, lv_CheckOutAt = now,
         lv_DurationMinutes = minutes_int (Sub now ci), lv_InvoiceSummary = summary_of (domainInvoiceToProto invoice)\<rparr>
     \<and> w_clock w \<le> now \<and> now \<le> w_clock w' \<and> w_invoices w' = w_invoices w @ [invoice_row_of invoice n]
     \<and> w_reservations w' = update_where (\<lambda>x. rr_id x = rr_id row) (\<lambda>x. x\<lparr>rr_status := StatusCompleted,
          rr_check_out_at := Some (pg_timestamp now)\<rparr>) (w_reservations w)) w"
proof -
  have arrived: "reliable (arrive w)" "redis_ok (w_ext (arrive w))" "keys_ok (arrive w)" "current (arrive w) row s"
    "x_redis_get (w_ext (arrive w)) (w_redis (arrive w)) (w_clock (arrive w)) (store_key key) = None"
    using assms(1-4) redis_None_later [OF assms(2,9) arrive_clock] by simp_all
  have ci: "r_CheckInAt (scanReservation row s) = Some ci" using assms(6) by simp
  show ?thesis
    unfolding gw_CheckOut_def assms(7) option.case wp_or_forward wp_call [OF assms(1)]
    using assms(8)
  proof (simp add: rpc_CheckOut_def wp_or_status,
      rule_tac wp_mono [OF CheckOut_leaves [OF arrived(1-4) assms(5) arrived(5)]], elim exE, goal_cases)
    case (1 res w1 now)
    let ?row = "row\<lparr>rr_status := StatusCompleted, rr_check_out_at := Some (pg_timestamp now)\<rparr>"
    have e: "res = Inr ((scanReservation row s)\<lparr>r_Status := StatusCompleted, r_CheckOutAt := Some now\<rparr>)"
        "w_clock w \<le> now" "now \<le> w_clock w1" "reliable w1" "keys_ok w1" "w_ext w1 = w_ext w" "current w1 ?row s"
        "w_reservations w1 = update_where (\<lambda>x. rr_id x = rr_id row) (\<lambda>x. x\<lparr>rr_status := StatusCompleted,
          rr_check_out_at := Some (pg_timestamp now)\<rparr>) (w_reservations w)" "w_invoices w1 = w_invoices w"
      and frame: "\<And>t k. w_clock w1 \<le> t \<Longrightarrow> k \<noteq> store_key key \<Longrightarrow> k \<noteq> spotLockKey (sr_id s) \<Longrightarrow>
        x_redis_get (w_ext w) (w_redis w1) t k = x_redis_get (w_ext w) (w_redis w) t k"
      using 1 order_trans [OF arrive_clock [of w]] by (auto simp: Let_def)
    let ?w2 = "arrive (arrive w1)"
    have clock: "w_clock w1 \<le> w_clock ?w2" by (simp add: order_trans [OF arrive_clock arrive_clock])
    have detail: "wp (call (rpc_GetReservation (rr_id row))) Q w1 =
        Q (Reply (domainReservationToProto (scanReservation ?row s))) ?w2" for Q
      using wp_rpc_GetReservation [of "arrive w1" ?row s] e(4,5,7) by (simp add: wp_call)
    have "?row \<in> set (w_reservations w1)" using e(7) by (simp add: current_def)
    then have rid: "rr_id row \<in> rr_id ` set (w_reservations ?w2)" by (force intro: rev_image_eqI)
    have "x_redis_get (w_ext w) (w_redis w) (w_clock ?w2) (billing_key (''inv-'' @ key)) = None"
      using redis_None_later [OF assms(2,10)] clock e(2,3) by simp
    then have billable: "reliable ?w2" "redis_ok (w_ext ?w2)"
        "x_redis_get (w_ext ?w2) (w_redis ?w2) (w_clock ?w2) (billing_key (''inv-'' @ key)) = None"
        "''inv-'' @ key \<notin> ir_idempotency_key ` set (w_invoices ?w2)" "\<And>n. x_uuid (w_ext ?w2) n \<notin> ir_id ` set (w_invoices ?w2)"
      using e(4,6,9) assms(2,11,12) frame [OF clock inv_key_other] by simp_all
    obtain ikey where ikey: "''inv-'' @ key = ikey" by simp
    then have ikey_some: "ikey \<noteq> ''''" by auto
    show ?case
      unfolding e(1) sum.case wp_return ikey
    proof (simp add: assms(6) deref_def wp_or_forward detail domainReservationToProto_def,
        rule wp_mono [OF wp_bill [OF billable(1,2) rid billable(3) [unfolded ikey] ikey_some billable(4) [unfolded ikey] billable(5)]],
        elim exE, goal_cases)
      case (1 r w' iid t n)
      let ?invoice = "parking_invoice (r_SessionID (scanReservation row s)) (rr_id row) (rr_driver_id row) ikey (rr_confirmed_at row) now iid t"
      have "r = Reply \<lparr>gir_InvoiceId = i_InvoiceID ?invoice, gir_Invoice = domainInvoiceToProto ?invoice,
          gir_GeneratedAt = i_CreatedAt ?invoice\<rparr>" "now \<le> w_clock w'"
          "w_invoices w' = w_invoices w @ [invoice_row_of ?invoice n]" "w_reservations w' = w_reservations w1"
        using 1 e(9) order_trans [OF order_trans [OF e(3) clock], of "w_clock w'"] by (simp_all add: Let_def)
      moreover have "ip_InvoiceId (domainInvoiceToProto ?invoice) = iid"
        by (simp add: domainInvoiceToProto_def parking_invoice_def Let_def)
      ultimately show ?case
        using e(2,8) by (simp add: Let_def wp_return) (intro exI [of _ iid] exI [of _ t], auto)
    qed
  qed
qed

end
