(* ===== verification/PaidBooking.thy ===== *)
theory PaidBooking
  imports GatewayBehaviour
begin

text \<open>
  What the HTTP handlers of the gateway do about the payment of a booking
  (\<open>services/gateway/internal/handler/extra.go\<close>): confirming a reservation whose payment is settled,
  and the simulated settlement with the payload that the payment service's webhook takes.
\<close>

section \<open>Confirming a paid booking\<close>

lemma ConfirmBookingPayment_unsettled:
  assumes "decode_confirm (hq_Body r) = Some (txID, rid)"
    and "\<And>t. t \<in> set (w_transactions w) \<Longrightarrow> tr_id t = txID \<Longrightarrow> tr_status t \<noteq> TxSettled"
  shows "wp (ConfirmBookingPayment r) (\<lambda>reply w'. (\<exists>status msg. reply = ErrorBody status msg \<and> status \<in> {400, 401}) \<and> db_same w w') w"
proof -
  have "(case first_row (filter (\<lambda>t. tr_id t = txID) (w_transactions w)) of Inl _ \<Rightarrow> True | Inr t \<Rightarrow> tr_status t \<noteq> TxSettled)"
    using assms(2) by (auto simp: first_row_def filter_eq_Cons_iff split: list.split)
  then show ?thesis
    using assms(1)
    by (auto simp: ConfirmBookingPayment_def wp_bind wp_query wp_write http_statuses UserIDFromContext_def
        split: option.split fate.split sum.splits)
qed

text \<open>The rows as the two updates of the handler leave them.\<close>

definition confirmed_at :: "time \<Rightarrow> reservation_row \<Rightarrow> reservation_row" where
  "confirmed_at now r = r\<lparr>rr_status := StatusConfirmed, rr_confirmed_at := pg_timestamp now,
     rr_expires_at := pg_timestamp (Add now (1 * Hour))\<rparr>"

definition invoice_paid_at :: "time \<Rightarrow> invoice_row \<Rightarrow> invoice_row" where
  "invoice_paid_at now r = r\<lparr>ir_status := InvoiceStatusPaid, ir_paid_at := Some (pg_timestamp now)\<rparr>"

lemma first_row_update_where:
  assumes "\<And>r. P (f r) = P r" "first_row (filter P rows) = Inr row"
  shows "first_row (filter P (update_where P f rows)) = Inr (f row)"
  using assms(2) by (induction rows) (auto simp: first_row_def update_where_def assms(1) split: if_splits)

lemma update_where_status:
  "distinct (map rr_id rows) \<Longrightarrow> row \<in> set rows \<Longrightarrow> P row \<Longrightarrow>
   update_where (\<lambda>r. rr_id r = rr_id row \<and> P r) f rows = update_where (\<lambda>r. rr_id r = rr_id row) f rows"
  by (auto simp: update_where_def distinct_map dest: inj_onD)

lemma wp_pay_booking_invoice:
  "reliable w \<Longrightarrow> wp (pay_booking_invoice now rid) Q w = Q (Inr ()) ((arrive w)\<lparr>w_invoices := update_where
     (\<lambda>i. ir_reservation_id i = rid \<and> ir_type i = InvoiceTypeBookingFee) (invoice_paid_at now) (w_invoices w)\<rparr>)"
  by (simp add: pay_booking_invoice_def wp_exec invoice_paid_at_def [abs_def])

lemma wp_confirm_pending:
  assumes "reliable w" "keys_ok w" "row \<in> set (w_reservations w)" "rr_status row = StatusPending"
  shows "wp (confirm_pending now (Add now Hour) (rr_id row)) Q w = Q (Inr ()) ((arrive w)\<lparr>w_reservations :=
     update_where (\<lambda>x. rr_id x = rr_id row) (confirmed_at now) (w_reservations w)\<rparr>)"
proof -
  have "update_where (\<lambda>x. rr_id x = rr_id row \<and> rr_status x = StatusPending) f (w_reservations w) =
      update_where (\<lambda>x. rr_id x = rr_id row) f (w_reservations w)" for f
    using assms by (intro update_where_status) (auto simp: keys_ok_def)
  then show ?thesis
    using assms(1) by (simp add: confirm_pending_def wp_exec confirmed_at_def [abs_def])
qed

lemma wp_extend_lock:
  assumes "reliable w" "first_row (filter (\<lambda>x. rr_id x = rid) (w_reservations w)) = Inr row" "rr_spot_id row \<noteq> ''''"
  shows "wp (extend_lock rid) Q w = Q () ((arrive (arrive w))\<lparr>w_redis :=
     snd (x_redis_expire (w_ext w) (w_redis w) (w_clock (arrive (arrive w))) (spotLockKey (rr_spot_id row)) Hour)\<rparr>)"
  using assms by (simp add: extend_lock_def wp_bind wp_query rdb_Expire_def wp_remote wp_return Let_def)

lemma ConfirmBookingPayment_settled:
  assumes "reliable w" "keys_ok w" "transactions_wf w" "current w row s" "rr_status row = StatusPending"
    and "t \<in> set (w_transactions w)" "tr_status t = TxSettled"
    and "decode_confirm (hq_Body r) = Some (tr_id t, rr_id row)" "tr_id t \<noteq> ''''" "rr_id row \<noteq> ''''" "sr_id s \<noteq> ''''"
    and "UserIDFromContext (hq_UserID r) = Some u"
  shows "wp (ConfirmBookingPayment r) (\<lambda>reply w'. \<exists>now t'. w_clock w \<le> now \<and> now \<le> t' \<and> t' \<le> w_clock w'
     \<and> reply = JSONBody 200 \<lparr>co_ReservationID = rr_id row, co_Status = ''confirmed'', co_ConfirmedAt = now,
         co_ExpiresAt = Add now (1 * Hour)\<rparr>
     \<and> w_reservations w' = update_where (\<lambda>x. rr_id x = rr_id row) (confirmed_at now) (w_reservations w)
     \<and> w_invoices w' = update_where (\<lambda>i. ir_reservation_id i = rr_id row \<and> ir_type i = InvoiceTypeBookingFee)
         (invoice_paid_at now) (w_invoices w)
     \<and> w_transactions w' = w_transactions w
     \<and> w_redis w' = snd (x_redis_expire (w_ext w) (w_redis w) t' (spotLockKey (sr_id s)) (1 * Hour))) w"
proof -
  have spot: "rr_spot_id row = sr_id s" and row: "row \<in> set (w_reservations w)" using assms(4) by (simp_all add: current_def)
  have tx: "first_row (filter (\<lambda>x. tr_id x = tr_id t) (w_transactions w)) = Inr t"
    using transactions_by_id.first_present [OF assms(3,6)] .
  have "first_row (filter (\<lambda>x. rr_id x = rr_id row) (w_reservations w)) = Inr row"
    using reservations.first_present [OF assms(2) row] .
  then have found: "first_row (filter (\<lambda>x. rr_id x = rr_id row)
      (update_where (\<lambda>x. rr_id x = rr_id row) (confirmed_at now) (w_reservations w))) = Inr (confirmed_at now row)" for now
    by (rule first_row_update_where [rotated]) (simp add: confirmed_at_def)
  have sid: "rr_spot_id (confirmed_at now row) = sr_id s" for now
    by (simp add: confirmed_at_def spot)
  let ?w1 = "pass (arrive w)" let ?now = "w_clock ?w1"
  let ?w2 = "(arrive ?w1)\<lparr>w_invoices := update_where (\<lambda>i. ir_reservation_id i = rr_id row \<and> ir_type i = InvoiceTypeBookingFee)
    (invoice_paid_at ?now) (w_invoices w)\<rparr>"
  let ?w3 = "(arrive ?w2)\<lparr>w_reservations := update_where (\<lambda>x. rr_id x = rr_id row) (confirmed_at ?now) (w_reservations w)\<rparr>"
  have later: "w_clock w \<le> ?now" "?now \<le> w_clock ?w2" "w_clock ?w2 \<le> w_clock ?w3" "w_clock ?w3 \<le> w_clock (arrive (arrive ?w3))"
    using order_trans [OF arrive_clock pass_clock] order_trans [OF arrive_clock arrive_clock]
      arrive_clock [of ?w2] arrive_clock [of ?w1] by simp_all
  have w2: "reliable ?w2" "keys_ok ?w2" "row \<in> set (w_reservations ?w2)" and w3: "reliable ?w3"
    "first_row (filter (\<lambda>x. rr_id x = rr_id row) (w_reservations ?w3)) = Inr (confirmed_at ?now row)"
    "rr_spot_id (confirmed_at ?now row) \<noteq> ''''"
    using assms(1,2,11) row found sid by (simp_all add: keys_ok_def)
  let ?reply = "\<lparr>co_ReservationID = rr_id row, co_Status = ''confirmed'', co_ConfirmedAt = ?now, co_ExpiresAt = Add ?now (1 * Hour)\<rparr>"
  let ?w4 = "(arrive (arrive ?w3))\<lparr>w_redis :=
      snd (x_redis_expire (w_ext w) (w_redis w) (w_clock (arrive (arrive ?w3))) (spotLockKey (sr_id s)) (1 * Hour))\<rparr>"
  have "wp (ConfirmBookingPayment r) Q w = Q (JSONBody 200 ?reply) ?w4" for Q
    using assms(1,7-12) wp_extend_lock [OF w3] wp_confirm_pending [OF w2 assms(5)] sid
    by (simp add: ConfirmBookingPayment_def wp_bind wp_query wp_write http_statuses tx wp_time_Now Let_def wp_pay_booking_invoice)
  then show ?thesis
    using later(1) order_trans [OF later(2) order_trans [OF later(3,4)]]
    by simp (intro exI [of _ ?now] conjI exI [of _ "w_clock ?w4"]; simp)
qed

section \<open>A simulated settlement\<close>

definition settled_at :: "time \<Rightarrow> transaction_row \<Rightarrow> transaction_row" where
  "settled_at now t = t\<lparr>tr_status := TxSettled, tr_paid_at := Some (pg_timestamp now)\<rparr>"

lemma SimulateSettle_served:
  assumes "reliable w" "transactions_wf w" "t \<in> set (w_transactions w)"
    and "decode_settle (hq_Body r) = Some (tr_id t)" "tr_id t \<noteq> ''''"
  shows "wp (SimulateSettle serverKey r) (\<lambda>reply w'. \<exists>now. w_clock w \<le> now \<and> now \<le> w_clock w'
     \<and> reply = JSONBody 200 \<lparr>sp_Message = ''settlement simulated'', sp_TransactionID = tr_id t,
         sp_InvoiceID = tr_invoice_id t, sp_Status = ''settled'',
         sp_WebhookPayload = settle_payload (tr_gateway_tx_id t) (gross_amount (tr_amount t))
           (x_sha512_hex (w_ext w) (tr_gateway_tx_id t @ ''200'' @ gross_amount (tr_amount t) @ serverKey))\<rparr>
     \<and> w_transactions w' = update_where (\<lambda>x. tr_id x = tr_id t) (settled_at now) (w_transactions w)
     \<and> w_reservations w' = w_reservations w \<and> w_redis w' = w_redis w \<and> w_ext w' = w_ext w \<and> reliable w') w"
proof -
  have tx: "first_row (filter (\<lambda>x. tr_id x = tr_id t) (w_transactions w)) = Inr t"
    using transactions_by_id.first_present [OF assms(2,3)] .
  have settled: "first_row (filter (\<lambda>x. tr_id x = tr_id t)
      (update_where (\<lambda>x. tr_id x = tr_id t) (settled_at now) (w_transactions w))) = Inr (settled_at now t)" for now
    by (rule first_row_update_where [OF _ tx]) (simp add: settled_at_def)
  let ?w1 = "pass (arrive w)" let ?now = "w_clock ?w1"
  let ?w2 = "(arrive ?w1)\<lparr>w_transactions := update_where (\<lambda>x. tr_id x = tr_id t) (settled_at ?now) (w_transactions w)\<rparr>"
  have settle: "wp (settle_transaction now (tr_id t)) Q w = Q (Inr ()) ((arrive w)\<lparr>w_transactions :=
      update_where (\<lambda>x. tr_id x = tr_id t) (settled_at now) (w_transactions w)\<rparr>)" if "reliable w" for now Q and w :: "'b world"
    using that by (simp add: settle_transaction_def wp_exec settled_at_def [abs_def])
  have later: "w_clock w \<le> ?now" "?now \<le> w_clock ?w2" "w_clock ?w2 \<le> w_clock (arrive ?w2)"
      "w_clock ?w2 \<le> w_clock (arrive (arrive ?w2))"
    using order_trans [OF arrive_clock pass_clock] order_trans [OF arrive_clock arrive_clock] arrive_clock [of ?w1] by simp_all
  show ?thesis
    using assms(1,4,5) later(1) order_trans [OF later(2,3)] order_trans [OF later(2,4)]
    by (simp add: SimulateSettle_def wp_bind wp_query wp_write http_statuses tx wp_time_Now Let_def sha512Sum_def wp_asks
      settle settled settle_invoice_def wp_exec wp_return)
      (auto intro!: exI [of _ ?now] simp: settled_at_def)
qed

text \<open>The payload of the reply is one that the webhook of the payment service takes for the payment gateway's.\<close>

lemma settle_payload_decodes:
  "decode_webhook (Some (JObj (settle_payload orderID grossAmount sig))) = Some \<lparr>wp_OrderID = orderID, wp_StatusCode = ''200'',
     wp_GrossAmount = grossAmount, wp_SignatureKey = sig, wp_TransactionStatus = ''settlement'', wp_FraudStatus = ''accept''\<rparr>"
  by (simp add: decode_webhook_def settle_payload_def struct_members_def equal_fold_def to_lower_def ascii_lower_def)

lemma settled_wf:
  assumes "transactions_wf w" "w_transactions w' = update_where (\<lambda>x. tr_id x = k) (settled_at now) (w_transactions w)"
  shows "transactions_wf w'"
  using assms by (auto simp: transactions_wf_def settled_at_def set_update_where) (auto simp: transaction_ok_def)

lemma settlement_accepted:
  assumes "reliable w" "redis_ok (w_ext w)" "transactions_wf w" "t \<in> set (w_transactions w)"
    and "decode_settle (hq_Body r) = Some (tr_id t)" "tr_id t \<noteq> ''''"
    and "x_redis_get (w_ext w) (w_redis w) (w_clock w) (webhook_key (tr_gateway_tx_id t) ''settlement'') = None"
  shows "wp (SimulateSettle serverKey r) (\<lambda>reply w1. \<exists>s now. reply = JSONBody 200 s \<and> sp_TransactionID s = tr_id t
     \<and> w_transactions w1 = update_where (\<lambda>x. tr_id x = tr_id t) (settled_at now) (w_transactions w)
     \<and> wp (HandleWebhook serverKey (Some (JObj (sp_WebhookPayload s))) sig) (\<lambda>res w2.
         res = Inr (True, False, tr_id t, Some TxSettled)
         \<and> (\<exists>paidAt. w_transactions w2 = update_where (\<lambda>x. tr_id x = tr_id t) (settled_at paidAt) (w_transactions w1))) w1) w"
proof (rule wp_mono [OF SimulateSettle_served [OF assms(1,3,4,5,6)]], elim exE conjE, goal_cases)
  case (1 reply w1 now)
  note new = settled_wf [OF assms(3) 1(4)]
  have t: "settled_at now t \<in> set (w_transactions w1)" "tr_gateway_tx_id (settled_at now t) = tr_gateway_tx_id t"
    "tr_id (settled_at now t) = tr_id t"
    using assms(4) 1(4) by (auto simp: settled_at_def set_update_where)
  let ?gross = "gross_amount (tr_amount t)"
  let ?sig = "x_sha512_hex (w_ext w) (tr_gateway_tx_id t @ ''200'' @ ?gross @ serverKey)"
  note payload = settle_payload_decodes [of "tr_gateway_tx_id t" ?gross ?sig]
  have seen: "x_redis_get (w_ext w) (w_redis w) (w_clock w1) (webhook_key (tr_gateway_tx_id t) ''settlement'') = None"
    using redis_None_later [OF assms(2,7)] 1(1,2) by simp
  have settled: "mapMidtransStatus ''settlement'' ''accept'' = TxSettled" by (simp add: mapMidtransStatus_def)
  have "wp (HandleWebhook serverKey (Some (JObj (settle_payload (tr_gateway_tx_id t) ?gross ?sig))) sig) (\<lambda>res w2.
      res = Inr (True, False, tr_id t, Some TxSettled)
      \<and> (\<exists>paidAt. w_transactions w2 = update_where (\<lambda>x. tr_id x = tr_id t) (settled_at paidAt) (w_transactions w1))) w1"
  proof (rule wp_mono [OF HandleWebhook_served [OF 1(8) _ new payload _ t(1)]], goal_cases)
    case (5 res w2)
    then obtain paidAt where p: "res = Inr (True, False, tr_id t, Some TxSettled)" "paidAt \<noteq> None"
        "w_transactions w2 = update_where (\<lambda>r. tr_id r = tr_id t) (\<lambda>r. r\<lparr>tr_status := TxSettled,
          tr_paid_at := map_option pg_timestamp paidAt\<rparr>) (w_transactions w1)"
      by (auto simp: settled t(3) webhook_update_def [abs_def])
    then show ?case by (auto simp: settled_at_def [abs_def])
  qed (use assms(2) 1 seen t(2) in simp_all)
  then show ?case using 1 by auto
qed

end
