(* ===== verification/BookingFlow.thy ===== *)
theory BookingFlow
  imports GatewayBehaviour
begin

text \<open>
  A booking that goes through: the gateway's \<open>CreateReservation\<close> over the three services, with a
  payment gateway that charges.
\<close>

section \<open>The parts\<close>

definition fee_invoice :: "string \<Rightarrow> string \<Rightarrow> string \<Rightarrow> string \<Rightarrow> time \<Rightarrow> invoice_row" where
  "fee_invoice iid rid did key now =
     \<lparr>ir_id = iid, ir_type = InvoiceTypeBookingFee, ir_session_id = None, ir_reservation_id = rid, ir_driver_id = did,
      ir_booking_fee = 5000, ir_parking_fee = 0, ir_overnight_fee = 0, ir_total_amount = 5000, ir_billed_hours = 0,
      ir_is_overnight = False, ir_duration_mins = 0, ir_status = InvoiceStatusPendingPayment, ir_gateway_tx_id = None,
      ir_payment_method = None, ir_idempotency_key = key, ir_created_at = pg_timestamp now, ir_paid_at = None\<rparr>"

lemma fee_invoice_made:
  assumes "reliable w" "rid \<in> rr_id ` set (w_reservations w)" "key \<notin> ir_idempotency_key ` set (w_invoices w)"
    and "x_uuid (w_ext w) (w_uuids w) \<notin> ir_id ` set (w_invoices w)"
  shows "wp (CreateBookingFeeInvoice rid did key) (\<lambda>res w'. \<exists>now. res = Inr (x_uuid (w_ext w) (w_uuids w))
     \<and> w_invoices w' = w_invoices w @ [fee_invoice (x_uuid (w_ext w) (w_uuids w)) rid did key now] \<and> only_invoices w w') w"
proof -
  have "filter (\<lambda>r. ir_idempotency_key r = key) (w_invoices w) = []"
    using assms(3) by (auto simp: filter_empty_conv)
  then show ?thesis
    using assms by (auto simp: CreateBookingFeeInvoice_def insert_invoice_row_def wp_simps Let_def first_row_def
        only_invoices_def fee_invoice_def)
qed

definition charging :: "PaymentGateway \<Rightarrow> bool" where
  "charging g = (case g of
       MidtransGateway f \<Rightarrow> (\<forall>req t. fst (f req t) \<noteq> None \<and> snd (f req t) \<in> {None, Some ''''})
     | MockGateway \<Rightarrow> True
     | MockGatewayErr e _ \<Rightarrow> e = None)"

lemma charging_CreateQRIS:
  assumes "reliable w" "charging g" "\<And>n. 8 \<le> length (x_uuid (w_ext w) n)"
  shows "wp (CreateQRIS g orderID a c) (\<lambda>res w'. (\<exists>q u e. res = Some (Inr (q, u, e))) \<and> db_same w w' \<and> reliable w'
     \<and> w_redis w' = w_redis w) w"
proof (cases g)
  case (MidtransGateway f)
  let ?req = "\<lparr>ch_PaymentType = ''gopay'', ch_OrderID = orderID, ch_GrossAmt = a, ch_Customer = c, ch_Bank = None\<rparr>"
  obtain resp e where f: "f ?req (w_clock (pass w)) = (resp, e)" by (cases "f ?req (w_clock (pass w))")
  then have "resp \<noteq> None" "e = None \<or> e = Some ''''"
    using assms(2) unfolding MidtransGateway charging_def by (auto dest!: spec [where x = ?req] spec [where x = "w_clock (pass w)"])
  with f assms(1) show ?thesis
    by (auto simp: MidtransGateway CreateQRIS_def midtrans_CreateQRIS_def charge_transaction_def wp_simps Let_def
        intro: db_same_trans [OF db_same_pass db_same_pass] split: prod.split)
next
  case MockGateway
  with assms show ?thesis
    by (simp add: CreateQRIS_def wp_simps first8_def db_same_later not_less)
next
  case (MockGatewayErr q v)
  with assms show ?thesis by (auto simp: charging_def CreateQRIS_def wp_simps)
qed

text \<open>The payment service's side: no clash of the keys, and eight characters of every identifier.\<close>

definition fresh_transactions :: "'k world \<Rightarrow> bool" where
  "fresh_transactions w \<longleftrightarrow> (\<forall>n. 8 \<le> length (x_uuid (w_ext w) n) \<and> x_uuid (w_ext w) n \<notin> tr_id ` set (w_transactions w)
     \<and> ''PP-'' @ take 8 (x_uuid (w_ext w) n) \<notin> tr_gateway_tx_id ` set (w_transactions w))"

definition transaction_for :: "string \<Rightarrow> string \<Rightarrow> string \<Rightarrow> int \<Rightarrow> Transaction \<Rightarrow> bool" where
  "transaction_for iid did key a tx \<longleftrightarrow> t_InvoiceID tx = iid \<and> t_DriverID tx = did \<and> t_IdempotencyKey tx = key \<and> t_Amount tx = a
     \<and> t_Status tx = TxPending \<and> t_PaymentMethod tx = ''QRIS''"

text \<open>What is in the store under the other keys stays there, as long as it would have.\<close>

definition only_key :: "string \<Rightarrow> 'k world \<Rightarrow> 'k world \<Rightarrow> bool" where
  "only_key key w w' \<longleftrightarrow> w_clock w \<le> w_clock w' \<and> (\<forall>t \<ge> w_clock w'. \<forall>k. k \<noteq> key \<longrightarrow>
     x_redis_get (w_ext w) (w_redis w') t k = x_redis_get (w_ext w) (w_redis w) t k)"

lemma only_key_set:
  assumes "redis_ok (w_ext w)" "0 < ttl" "w_clock w \<le> t" "t \<le> w_clock w'"
    and "w_redis w' = x_redis_set (w_ext w) (w_redis w) t key v ttl"
  shows "only_key key w w'"
  using assms redis_server.get_set [OF assms(1) [unfolded redis_ok_def] assms(2)] by (auto simp: only_key_def)

lemma transaction_made:
  assumes "reliable w" "redis_ok (w_ext w)" "charging g" "fresh_transactions w" "iid \<in> ir_id ` set (w_invoices w)"
    and "key \<notin> tr_idempotency_key ` set (w_transactions w)" "x_redis_get (w_ext w) (w_redis w) (w_clock w) (payment_key key) = None"
  shows "wp (CreateTransaction g iid did key ''QRIS'' a c) (\<lambda>res w'. \<exists>tx now. res = Some (Inr tx) \<and> transaction_for iid did key a tx
     \<and> w_transactions w' = w_transactions w @ [transaction_row_of tx now] \<and> w_invoices w' = w_invoices w
     \<and> w_reservations w' = w_reservations w \<and> only_key (payment_key key) w w') w"
proof -
  let ?id = "x_uuid (w_ext w) (w_uuids w)" and ?w1 = "pass ((arrive w)\<lparr>w_uuids := Suc (w_uuids w)\<rparr>)"
  have id: "8 \<le> length ?id" "?id \<notin> tr_id ` set (w_transactions w)"
    "''PP-'' @ take 8 ?id \<notin> tr_gateway_tx_id ` set (w_transactions w)"
    using assms(4) by (simp_all add: fresh_transactions_def)
  have w1: "reliable ?w1" "db_same w ?w1" using assms(1) by (simp_all add: db_same_later)
  have charge: "wp (CreateQRIS g orderID a c) (\<lambda>res w'. (\<exists>q u e. res = Some (Inr (q, u, e))) \<and> db_same w w' \<and> reliable w'
      \<and> w_redis w' = w_redis w) ?w1"
    for orderID
  proof (rule wp_mono [OF charging_CreateQRIS [OF w1(1) assms(3)]], goal_cases)
    case (2 res w')
    then have "db_same w w'" using db_same_trans [OF w1(2)] by blast
    moreover have "w_redis ?w1 = w_redis w" by simp
    ultimately show ?case using 2 by (simp only: simp_thms)
  qed (use assms(4) in \<open>simp add: fresh_transactions_def\<close>)
  show ?thesis
    unfolding CreateTransaction_def wp_or_return_p wp_lift_io Check_miss [OF assms(1,2,7)]
    using id(1)
  proof (simp add: first8_def wp_simps not_less Let_def charge_for_def, rule_tac wp_mono [OF charge], elim conjE exE, goal_cases)
    case (1 res w2 q u e)
    then have t: "w_transactions w2 = w_transactions w" "w_invoices w2 = w_invoices w" "w_reservations w2 = w_reservations w"
      and clock: "w_clock w \<le> w_clock w2"
      by (simp_all add: db_same_def)
    have kept: "only_key (payment_key key) w w'"
      if "w_redis w' = x_redis_set (w_ext w) (w_redis w) (w_clock w') (payment_key key) ?id DefaultTTL" "w_clock w2 \<le> w_clock w'" for w'
      by (rule only_key_set [OF assms(2) ttl_pos order_trans [OF clock that(2)] order_refl that(1)])
    have later: "w_clock w2 \<le> w_clock (arrive ((arrive w2)\<lparr>w_transactions := ts\<rparr>))" for ts
      using arrive_clock [of w2] arrive_clock [of "(arrive w2)\<lparr>w_transactions := ts\<rparr>"] by simp
    show ?case
      using 1 id assms(5,6) t later
      by (auto simp: wp_simps InsertTransaction_def Let_def transaction_row_of_def new_transaction_def Save_def rdb_Set_def transaction_for_def
          db_same_def intro!: kept)
  qed
qed

section \<open>The whole request\<close>

lemma only_key_arrive: "only_key key (arrive w) w' \<Longrightarrow> only_key key w w'"
  using order_trans [OF arrive_clock [of w], of "w_clock w'"] by (simp add: only_key_def)

text \<open>What making the reservation leaves behind, with the row and the lock in full.\<close>

lemma CreateReservation_books:
  assumes "reliable w" "db_wf w" "chosen w vt mode sid = Some s" "creatable w key s"
  defines "rid \<equiv> x_uuid (w_ext w) (w_uuids w)"
  shows "wp (CreateReservation did key vt mode sid) (\<lambda>res w'. \<exists>now. let r = new_reservation rid did key mode s now in
     res = Inr r \<and> w_clock w \<le> now \<and> now \<le> w_clock w' \<and> reliable w' \<and> w_reservations w' = w_reservations w @ [row_of r]
     \<and> w_invoices w' = w_invoices w \<and> w_transactions w' = w_transactions w \<and> w_ext w' = w_ext w
     \<and> (\<forall>t \<ge> w_clock w'. t < w_clock w + PaymentTimeout \<longrightarrow>
          x_redis_get (w_ext w) (w_redis w') t (spotLockKey (s_SpotID s)) = Some rid)
     \<and> (\<forall>t \<ge> w_clock w'. \<forall>k. k \<noteq> store_key key \<and> k \<noteq> spotLockKey (s_SpotID s) \<longrightarrow>
          x_redis_get (w_ext w) (w_redis w') t k = x_redis_get (w_ext w) (w_redis w) t k)) w"
proof (rule wp_mono [OF wp_conj [THEN iffD2, OF conjI [OF CreateReservation_creates [OF assms(1,3,4)]
      CreateReservation_just_books [OF assms(1-4)]]]], elim conjE, goal_cases)
  case (1 res w')
  have same: "w_invoices w' = w_invoices w" "w_transactions w' = w_transactions w" "w_ext w' = w_ext w" using 1(2) by blast+
  then show ?case using 1(1) unfolding Let_def rid_def same by blast
qed

lemma rpc_CreateTransaction_made:
  assumes "reliable w" "redis_ok (w_ext w)" "charging g" "fresh_transactions w" "iid \<in> ir_id ` set (w_invoices w)"
    and "''pay-booking-'' @ key \<notin> tr_idempotency_key ` set (w_transactions w)"
    and "x_redis_get (w_ext w) (w_redis w) (w_clock w) (payment_key (''pay-booking-'' @ key)) = None"
  shows "wp (call (rpc_CreateTransaction g (booking_payment iid did key))) (\<lambda>r w'. \<exists>resp tx now. r = Reply resp
     \<and> ctr_TransactionId resp = t_TransactionID tx \<and> ctr_QrString resp = t_QRString tx
     \<and> transaction_for iid did (''pay-booking-'' @ key) 5000 tx
     \<and> w_transactions w' = w_transactions w @ [transaction_row_of tx now] \<and> w_invoices w' = w_invoices w
     \<and> w_reservations w' = w_reservations w \<and> only_key (payment_key (''pay-booking-'' @ key)) w w') w"
proof -
  have qris: "protoToPaymentMethod PAYMENT_METHOD_QRIS = ''QRIS''" by (simp add: protoToPaymentMethod_def)
  have arrived: "reliable (arrive w)" "redis_ok (w_ext (arrive w))" "fresh_transactions (arrive w)"
    "iid \<in> ir_id ` set (w_invoices (arrive w))" "''pay-booking-'' @ key \<notin> tr_idempotency_key ` set (w_transactions (arrive w))"
    "x_redis_get (w_ext (arrive w)) (w_redis (arrive w)) (w_clock (arrive w)) (payment_key (''pay-booking-'' @ key)) = None"
    using assms redis_None_later [OF assms(2,7) arrive_clock] by (simp_all add: fresh_transactions_def)
  note made = transaction_made [OF arrived(1,2) assms(3) arrived(3-6)]
  show ?thesis
    unfolding wp_call [OF assms(1)] rpc_CreateTransaction_def booking_payment_def
  proof (simp add: qris wp_bind Let_def idr_def, rule wp_mono [OF made [simplified]], elim exE conjE, goal_cases)
    case (1 res w' tx now)
    then show ?case using only_key_arrive [of _ w] by (simp add: wp_return) blast
  qed
qed

lemma paid_booking:
  assumes "reliable w" "db_wf w" "UserIDFromContext ctx = Some did" "br_IdempotencyKey req = key" "key \<noteq> ''''"
    and "chosen w (protoToVehicleType (br_VehicleType req)) (protoToAssignmentMode (br_AssignmentMode req)) (br_SpotId req) = Some s"
    and "creatable w key s" "charging g" "fresh_transactions w" "\<And>n. x_uuid (w_ext w) n \<notin> ir_id ` set (w_invoices w)"
    and "''booking-'' @ key \<notin> ir_idempotency_key ` set (w_invoices w)"
    and "''pay-booking-'' @ key \<notin> tr_idempotency_key ` set (w_transactions w)"
    and "x_redis_get (w_ext w) (w_redis w) (w_clock w) (payment_key (''pay-booking-'' @ key)) = None"
  shows "wp (gw_CreateReservation p g ctx req) (\<lambda>r w'. \<exists>body rid now iid issued tx charged. r = Reply body
     \<and> w_clock w \<le> now \<and> now \<le> w_clock w'
     \<and> w_reservations w' = w_reservations w @ [row_of (new_reservation rid did key (protoToAssignmentMode (br_AssignmentMode req)) s now)]
     \<and> (\<forall>t \<ge> w_clock w'. t < w_clock w + PaymentTimeout \<longrightarrow>
          x_redis_get (w_ext w) (w_redis w') t (spotLockKey (s_SpotID s)) = Some rid)
     \<and> w_invoices w' = w_invoices w @ [fee_invoice iid rid did (''booking-'' @ key) issued]
     \<and> w_transactions w' = w_transactions w @ [transaction_row_of tx charged]
     \<and> transaction_for iid did (''pay-booking-'' @ key) 5000 tx
     \<and> brr_ReservationId body = rid \<and> brr_ExpiresAt body = Add now PaymentTimeout \<and> brr_BookingFee body = idr 5000
     \<and> brr_Direction body = t_QRString tx @ ''|'' @ t_TransactionID tx) w"
proof -
  let ?w = "arrive w" and ?mode = "protoToAssignmentMode (br_AssignmentMode req)" and ?rid = "x_uuid (w_ext w) (w_uuids w)"
  have w: "reliable ?w" "db_wf ?w" "creatable ?w key s"
    using assms(1,2) evolves_db_wf [OF db_same_evolves [OF db_same_arrive]] creatable_later [OF assms(7)] by simp_all
  have ok: "redis_ok (w_ext w)" using assms(7) by (simp add: creatable_def)
  show ?thesis
    unfolding gw_CreateReservation_def assms(3,4) option.case wp_or_forward wp_call [OF assms(1)]
    using assms(5)
  proof (simp add: rpc_CreateReservation_def wp_or_status del: append.simps, rule_tac wp_mono [OF CreateReservation_books [OF w(1,2) _ w(3)]], goal_cases)
    case 1
    show ?case using assms(6) by simp
  next
    case (2 res w1)
    then obtain now where res: "res = Inr (new_reservation ?rid did key ?mode s now)" "w_clock ?w \<le> now" "now \<le> w_clock w1" "reliable w1"
        "w_reservations w1 = w_reservations w @ [row_of (new_reservation ?rid did key ?mode s now)]"
        "w_invoices w1 = w_invoices w" "w_transactions w1 = w_transactions w" "w_ext w1 = w_ext w"
      and lock: "\<And>t. w_clock w1 \<le> t \<Longrightarrow> t < w_clock ?w + PaymentTimeout \<Longrightarrow>
        x_redis_get (w_ext w) (w_redis w1) t (spotLockKey (s_SpotID s)) = Some ?rid"
      and frame: "\<And>t k. w_clock w1 \<le> t \<Longrightarrow> k \<noteq> store_key key \<Longrightarrow> k \<noteq> spotLockKey (s_SpotID s) \<Longrightarrow>
        x_redis_get (w_ext w) (w_redis w1) t k = x_redis_get (w_ext w) (w_redis w) t k"
      by (auto simp: Let_def simp del: append.simps)
    have rid: "r_ReservationID (new_reservation ?rid did key ?mode s now) = ?rid" "?rid \<in> rr_id ` set (w_reservations w1)"
      using res(5) by (simp_all add: new_reservation_def row_of_def)
    let ?iid = "x_uuid (w_ext w1) (w_uuids w1)"
    have fee: "wp (CreateBookingFeeInvoice ?rid did (''booking-'' @ key)) (\<lambda>res w'. \<exists>issued. res = Inr ?iid
        \<and> w_invoices w' = w_invoices w1 @ [fee_invoice ?iid ?rid did (''booking-'' @ key) issued] \<and> only_invoices w1 w') w1"
      by (rule fee_invoice_made) (use res(4,6,8) rid(2) assms(10,11) in auto)
    have paid: "wp (call (rpc_CreateTransaction g (booking_payment ?iid did key))) (\<lambda>r w'. \<exists>resp tx charged. r = Reply resp
        \<and> ctr_TransactionId resp = t_TransactionID tx \<and> ctr_QrString resp = t_QRString tx
        \<and> transaction_for ?iid did (''pay-booking-'' @ key) 5000 tx
        \<and> w_transactions w' = w_transactions w2 @ [transaction_row_of tx charged] \<and> w_invoices w' = w_invoices w2
        \<and> w_reservations w' = w_reservations w2 \<and> only_key (payment_key (''pay-booking-'' @ key)) w2 w') w2"
      if w2: "only_invoices w1 w2" "w_invoices w2 = w_invoices w1 @ [fee_invoice ?iid ?rid did (''booking-'' @ key) issued]" for w2 issued
    proof (rule rpc_CreateTransaction_made)
      have "w_clock w \<le> w_clock w2" "w_clock w1 \<le> w_clock w2"
        using order_trans [OF arrive_clock order_trans [OF res(2) res(3)]] w2(1) by (simp_all add: only_invoices_def)
      then show "x_redis_get (w_ext w2) (w_redis w2) (w_clock w2) (payment_key (''pay-booking-'' @ key)) = None"
        using frame [OF _ payment_key_other] redis_None_later [OF ok assms(13)] w2(1) res(8) by (simp add: only_invoices_def)
    qed (use w2 res(4,7,8) ok assms(8,9,12) in \<open>auto simp: only_invoices_def fresh_transactions_def fee_invoice_def\<close>)
    show ?case
      unfolding res(1) sum.case wp_return received_simps reply.case CreateReservationResponse.simps rid(1) wp_bind
    proof (rule wp_mono [OF fee], elim exE conjE, goal_cases)
      case (1 inv w2 issued)
      show ?case
        unfolding 1(1) sum.case wp_bind
      proof (rule wp_mono [OF paid [OF 1(3,2)]], elim exE conjE, goal_cases)
        case p: (1 payment w3 resp tx charged)
        note w2 = 1(3) [unfolded only_invoices_def]
        have rows: "w_reservations w3 = w_reservations w @ [row_of (new_reservation ?rid did key ?mode s now)]"
          "w_transactions w3 = w_transactions w @ [transaction_row_of tx charged]"
          "w_invoices w3 = w_invoices w @ [fee_invoice ?iid ?rid did (''booking-'' @ key) issued]"
          using p(5-7) 1(2) w2 res(5-7) by (simp_all del: append.simps)
        have clock: "w_clock w1 \<le> w_clock w3" "w_clock w2 \<le> w_clock w3" "w_clock w \<le> now" "now \<le> w_clock w3"
          using w2 p(8) res(3) order_trans [OF arrive_clock res(2)] by (auto simp: only_key_def)
        have held: "x_redis_get (w_ext w) (w_redis w3) t (spotLockKey (s_SpotID s)) = Some ?rid"
          if "w_clock w3 \<le> t" "t < w_clock w + PaymentTimeout" for t
        proof -
          have "x_redis_get (w_ext w) (w_redis w3) t (spotLockKey (s_SpotID s)) =
              x_redis_get (w_ext w) (w_redis w2) t (spotLockKey (s_SpotID s))"
            using p(8) that(1) payment_key_other(2) [THEN not_sym] w2 res(8) by (simp add: only_key_def)
          then show ?thesis
            using lock [of t] order_trans [OF clock(1) that(1)] that(2) arrive_clock [of w] w2 by simp
        qed
        show ?case
          unfolding p(1) reply.case wp_return
          by (rule exI, rule exI [of _ ?rid], rule exI [of _ now], rule exI [of _ ?iid], rule exI [of _ issued],
              rule exI [of _ tx], rule exI [of _ charged], intro conjI, rule refl)
            (use rows clock(3,4) held p(2-4) in \<open>simp_all add: booking_reply_def new_reservation_def del: append.simps\<close>)
      qed
    qed
  qed
qed

end
