(* ===== verification/GatewayProps.thy ===== *)
theory GatewayProps
  imports PaidBooking BookingFlow PaymentProps
begin

text \<open>
  The properties of the gateway: who gets in, what any sequence of requests does to the tables of
  the services behind it, and the flows that span several services.
\<close>

section \<open>The door\<close>

definition sample_config :: gateway_config where
  "sample_config = \<lparr>gc_Publisher = MQPublisher, gc_Gateway = MockGateway, gc_Secret = ''secret'',
     gc_ExpiryHours = 24, gc_ServerKey = ''server-key''\<rparr>"

definition post :: "string \<Rightarrow> string option \<Rightarrow> json \<Rightarrow> http_request" where
  "post path user body = \<lparr>hq_Method = ''POST'', hq_Path = path, hq_RemoteAddr = ''10.0.0.1:4711'', hq_Header = (\<lambda>_. ''''),
     hq_Query = (\<lambda>_. ''''), hq_Body = Some body, hq_UserID = user\<rparr>"

text \<open>
  C27: a request for a path that is not public and that carries no token valid at that moment
  never reaches a handler: it is answered with 429, 401 or, a preflight, with 204, and neither the
  database nor the store changes.
\<close>

theorem nothing_without_a_token:
  assumes "\<not> is_public_path (hq_Path r)"
    and "\<And>c. \<not> accepts (gc_Secret cfg) (pass w) (trim_prefix (hq_Header r ''Authorization'') ''Bearer '') c"
  shows "wp (http_server cfg swaggerJSON mux rl r) (\<lambda>(reply, rl') w'. db_same w w' \<and> w_redis w' = w_redis w \<and>
     ((\<exists>m. reply = ErrorBody StatusTooManyRequests m) \<or> (\<exists>m. reply = TextBody StatusUnauthorized m)
      \<or> hq_Method r = ''OPTIONS'' \<and> reply = EmptyBody StatusNoContent)) w"
  by (rule http_server_guard [OF assms])

lemma sample_rejects: "\<not> accepts ''secret'' (pass sample_world) '''' c"
proof -
  have "sample_parse (keyfunc ''secret'') t '''' \<noteq> Inr (Some u, True)" for t u
    by (simp add: sample_parse_def unframe_def keyfunc_def)
  then show ?thesis by (simp add: accepts_def) (simp add: sample_ext_def)
qed

theorem nothing_without_a_token_witness:
  "wp (http_server sample_config ''{}'' (\<lambda>_. State_Monad.return (JSONBody 200 ())) (NewRateLimiter 5 Minute)
     (post ''/v1/reservations/confirm-payment'' None (JObj []))) (\<lambda>(reply, rl') w'. db_same sample_world w') sample_world"
proof -
  have "\<not> is_public_path ''/v1/reservations/confirm-payment''" by code_simp
  then show ?thesis
    by (intro wp_mono [OF nothing_without_a_token]) (auto simp: post_def sample_config_def sample_rejects trim_prefix_def)
qed

section \<open>Any sequence of requests\<close>

text \<open>
  Whatever requests reach the gateway, in whatever order and whatever the network does to the
  calls behind them, the reservations perform steps of the abstract machine, and the invariants of
  the reservations, invoices, transactions and drivers are kept: also by the handlers that write to
  the tables of the other services directly.
\<close>

theorem requests_keep_the_system:
  assumes "db_wf w" "invoices_wf w" "transactions_wf w" "drivers_wf w"
  shows "let w' = serve_all cfg reqs w in table_steps (spot_ids w) (table_of w) (table_of w') \<and> db_wf w'
    \<and> invoices_wf w' \<and> transactions_wf w' \<and> drivers_wf w'"
  using serve_all_system_step [OF db_wf_keys_ok [OF assms(1)], of cfg reqs] assms system_step_db_wf
  by (auto simp: system_step_def Let_def)

lemma sample_tables: "invoices_wf sample_world" "transactions_wf sample_world" "drivers_wf sample_world"
  by (simp_all add: invoices_wf_def transactions_wf_def drivers_wf_def sample_world_def)

theorem requests_keep_the_system_witness:
  "db_wf (serve_all sample_config [BookRequest (Some ''d1'') \<lparr>br_VehicleType = 1, br_AssignmentMode = 1, br_SpotId = '''',
       br_IdempotencyKey = ''k1''\<rparr>, HistoryHttp (post '''' (Some ''d1'') (JObj [])),
     CheckOutRequest (Some ''d1'') ''id-0-sample'' ''k2''] sample_world)"
  using requests_keep_the_system [OF sample_wf sample_tables] unfolding Let_def by blast

section \<open>Flows that span services\<close>

text \<open>
  C29: a booking whose payment the payment gateway refuses is undone: the driver gets an error, the
  reservation that was made for them is cancelled (there is no status of a failed one), and the lock of
  the spot is free again. No transaction is stored; the invoice of the booking fee, if it was made, is
  left behind unpaid.
\<close>

theorem unpaid_booking_is_undone:
  assumes "reliable w" "db_wf w" "UserIDFromContext ctx = Some did" "br_IdempotencyKey req = key" "key \<noteq> ''''"
    and "chosen w (protoToVehicleType (br_VehicleType req)) (protoToAssignmentMode (br_AssignmentMode req)) (br_SpotId req) = Some s"
    and "creatable w key s" "refusing g"
    and "x_redis_get (w_ext w) (w_redis w) (w_clock w) (payment_key (''pay-booking-'' @ key)) = None"
  shows "wp (gw_CreateReservation p g ctx req) (\<lambda>r w'. (\<exists>m. r = Status FailedPrecondition m)
     \<and> (\<exists>row. w_reservations w' = w_reservations w @ [row] \<and> rr_driver_id row = did \<and> rr_status row = StatusCancelled
          \<and> w_transactions w' = w_transactions w \<and> (w_invoices w' = w_invoices w \<or> (\<exists>i. w_invoices w' = w_invoices w @ [i]
               \<and> ir_reservation_id i = rr_id row \<and> ir_status i = InvoiceStatusPendingPayment)))
     \<and> (\<forall>t \<ge> w_clock w'. x_redis_get (w_ext w) (w_redis w') t (spotLockKey (s_SpotID s)) = None)) w"
  unfolding uncharged_def [symmetric] by (rule unpaid_booking_given_back [OF assms])

definition sample_booking :: BookingRequest where
  "sample_booking = \<lparr>br_VehicleType = 1, br_AssignmentMode = 1, br_SpotId = '''', br_IdempotencyKey = ''k1''\<rparr>"

theorem unpaid_booking_is_undone_witness:
  "wp (gw_CreateReservation MQPublisher (MockGatewayErr (Some (ErrNew ''down'')) None) (Some ''d1'') sample_booking)
     (\<lambda>r w'. map rr_status (w_reservations w') = [StatusCancelled]) sample_world"
proof -
  have b: "chosen sample_world (protoToVehicleType (br_VehicleType sample_booking))
      (protoToAssignmentMode (br_AssignmentMode sample_booking)) (br_SpotId sample_booking) = Some sample_spot" by code_simp
  have "UserIDFromContext (Some ''d1'') = Some ''d1''" by (simp add: UserIDFromContext_def)
  then show ?thesis
    by (intro wp_mono [OF unpaid_booking_is_undone [OF sample_reliable(1) sample_wf _ _ _ b sample_creatable _ sample_unused]])
      (auto simp: sample_booking_def refusing_def sample_world_def)
qed

text \<open>
  C28: a booking that goes through, whatever other reservations the driver has. When the payment
  gateway charges, the driver has a new pending reservation for the chosen spot that expires five
  minutes after it was made; until five minutes after the request its spot stays locked in its name;
  the invoice of the booking fee of 5000 for that reservation is not yet paid, and there is one pending
  transaction over that amount for that invoice. The reply names the reservation with its expiry and
  the transaction with its QR code.
\<close>

theorem paid_booking_goes_through:
  assumes "reliable w" "db_wf w" "UserIDFromContext ctx = Some did" "br_IdempotencyKey req = key" "key \<noteq> ''''"
    and "chosen w (protoToVehicleType (br_VehicleType req)) (protoToAssignmentMode (br_AssignmentMode req)) (br_SpotId req) = Some s"
    and "creatable w key s" "charging g" "fresh_transactions w" "\<And>n. x_uuid (w_ext w) n \<notin> ir_id ` set (w_invoices w)"
    and "''booking-'' @ key \<notin> ir_idempotency_key ` set (w_invoices w)"
    and "''pay-booking-'' @ key \<notin> tr_idempotency_key ` set (w_transactions w)"
    and "x_redis_get (w_ext w) (w_redis w) (w_clock w) (payment_key (''pay-booking-'' @ key)) = None"
  shows "wp (gw_CreateReservation p g ctx req) (\<lambda>r w'. \<exists>body rid now iid issued tx charged. r = Reply body
     \<and> w_clock w \<le> now \<and> now \<le> w_clock w'
     \<and> w_reservations w' = w_reservations w @ [row_of (new_reservation rid did key (protoToAssignmentMode (br_AssignmentMode req)) s now)]
     \<and> (\<forall>t \<ge> w_clock w'. t < w_clock w + PaymentTimeout \<longrightarrow>
          x_redis_get (w_ext w) (w_redis w') t (spotLockKey (s_SpotID s)) = Some rid)
     \<and> w_invoices w' = w_invoices w @ [fee_invoice iid rid did (''booking-'' @ key) issued]
     \<and> w_transactions w' = w_transactions w @ [transaction_row_of tx charged]
     \<and> transaction_for iid did (''pay-booking-'' @ key) 5000 tx
     \<and> brr_ReservationId body = rid \<and> brr_ExpiresAt body = Add now PaymentTimeout \<and> brr_BookingFee body = idr 5000
     \<and> brr_Direction body = t_QRString tx @ ''|'' @ t_TransactionID tx) w"
  by (rule paid_booking) (rule assms)+

theorem paid_booking_goes_through_witness:
  "wp (gw_CreateReservation MQPublisher MockGateway (Some ''d1'') sample_booking)
     (\<lambda>_ w'. map rr_driver_id (w_reservations w') = [''d1''] \<and> map ir_total_amount (w_invoices w') = [5000]
        \<and> map tr_invoice_id (w_transactions w') = map ir_id (w_invoices w')) sample_world"
proof -
  have b: "chosen sample_world (protoToVehicleType (br_VehicleType sample_booking))
      (protoToAssignmentMode (br_AssignmentMode sample_booking)) (br_SpotId sample_booking) = Some sample_spot" by code_simp
  have "UserIDFromContext (Some ''d1'') = Some ''d1''" by (simp add: UserIDFromContext_def)
  moreover have "fresh_transactions sample_world" by (simp add: fresh_transactions_def sample_world_def sample_ext_def)
  ultimately show ?thesis
    by (intro wp_mono [OF paid_booking_goes_through [OF sample_reliable(1) sample_wf _ _ _ b sample_creatable _ _ _ _ _ sample_unused]])
      (auto simp: sample_booking_def charging_def sample_world_def fee_invoice_def transaction_for_def transaction_row_of_def row_of_def new_reservation_def)
qed

text \<open>
  C30: confirming the payment of a pending reservation. If the transaction is not settled the
  request is refused and nothing changes, whatever the network does; if it is, and the calls are
  served, the reservation becomes confirmed for one hour from the reply's time, its booking fee is
  marked as paid, and a lock on the spot that is still held lasts for another hour.
\<close>

theorem confirm_paid_booking:
  assumes "keys_ok w" "transactions_wf w" "current w row s" "t \<in> set (w_transactions w)"
    and "decode_confirm (hq_Body r) = Some (tr_id t, rr_id row)" "UserIDFromContext (hq_UserID r) = Some u"
    and "rr_status row = StatusPending" "tr_id t \<noteq> ''''" "rr_id row \<noteq> ''''" "sr_id s \<noteq> ''''" "redis_ok (w_ext w)"
  shows "(tr_status t \<noteq> TxSettled \<longrightarrow>
      wp (ConfirmBookingPayment r) (\<lambda>reply w'. (\<exists>status msg. reply = ErrorBody status msg) \<and> db_same w w') w)
    \<and> (tr_status t = TxSettled \<and> reliable w \<longrightarrow>
      wp (ConfirmBookingPayment r) (\<lambda>reply w'. \<exists>now t'. w_clock w \<le> now \<and> now \<le> t' \<and> t' \<le> w_clock w'
        \<and> reply = JSONBody 200 \<lparr>co_ReservationID = rr_id row, co_Status = ''confirmed'', co_ConfirmedAt = now,
            co_ExpiresAt = Add now (1 * Hour)\<rparr>
        \<and> w_reservations w' = update_where (\<lambda>x. rr_id x = rr_id row) (confirmed_at now) (w_reservations w)
        \<and> w_invoices w' = update_where (\<lambda>i. ir_reservation_id i = rr_id row \<and> ir_type i = InvoiceTypeBookingFee)
            (invoice_paid_at now) (w_invoices w)
        \<and> (\<forall>v k. x_redis_get (w_ext w) (w_redis w) t' (spotLockKey (sr_id s)) = Some v \<longrightarrow> w_clock w' \<le> k \<longrightarrow> k < t' + Hour \<longrightarrow>
            x_redis_get (w_ext w) (w_redis w') k (spotLockKey (sr_id s)) = Some v)) w)"
proof (intro conjI impI)
  assume "tr_status t \<noteq> TxSettled"
  moreover have "t' = t" if "t' \<in> set (w_transactions w)" "tr_id t' = tr_id t" for t'
    using transactions_by_id.unique [OF assms(2)] that assms(4) by (auto simp: distinct_map dest: inj_onD)
  ultimately show "wp (ConfirmBookingPayment r) (\<lambda>reply w'. (\<exists>status msg. reply = ErrorBody status msg) \<and> db_same w w') w"
    by (intro wp_mono [OF ConfirmBookingPayment_unsettled [OF assms(5)]]) auto
next
  have hour: "0 < 1 * Hour" by (simp add: Hour_def Minute_def Second_def)
  assume "tr_status t = TxSettled \<and> reliable w"
  then show "wp (ConfirmBookingPayment r) (\<lambda>reply w'. \<exists>now t'. w_clock w \<le> now \<and> now \<le> t' \<and> t' \<le> w_clock w'
        \<and> reply = JSONBody 200 \<lparr>co_ReservationID = rr_id row, co_Status = ''confirmed'', co_ConfirmedAt = now,
            co_ExpiresAt = Add now (1 * Hour)\<rparr>
        \<and> w_reservations w' = update_where (\<lambda>x. rr_id x = rr_id row) (confirmed_at now) (w_reservations w)
        \<and> w_invoices w' = update_where (\<lambda>i. ir_reservation_id i = rr_id row \<and> ir_type i = InvoiceTypeBookingFee)
            (invoice_paid_at now) (w_invoices w)
        \<and> (\<forall>v k. x_redis_get (w_ext w) (w_redis w) t' (spotLockKey (sr_id s)) = Some v \<longrightarrow> w_clock w' \<le> k \<longrightarrow> k < t' + Hour \<longrightarrow>
            x_redis_get (w_ext w) (w_redis w') k (spotLockKey (sr_id s)) = Some v)) w"
    using redis_server.expire_present [OF assms(11) [unfolded redis_ok_def] _ hour]
    by (intro wp_mono [OF ConfirmBookingPayment_settled [OF _ assms(1,2,3,7,4) _ assms(5,8-10,6)]]) fastforce+
qed

definition the_payment :: transaction_row where
  "the_payment = \<lparr>tr_id = ''tx-1'', tr_invoice_id = ''invoice-1'', tr_driver_id = ''d1'', tr_gateway_tx_id = ''PP-1'',
     tr_payment_method = ''QRIS'', tr_status = TxSettled, tr_amount = 5000, tr_payment_url = '''', tr_qr_string = ''qr'',
     tr_va_number = '''', tr_va_bank = '''', tr_idempotency_key = ''pay-1'', tr_created_at = 0, tr_paid_at = Some 0,
     tr_expired_at = Some 0\<rparr>"

definition paid_at_gateway :: "kv world" where
  "paid_at_gateway = (forward (1 * Minute) booked)\<lparr>w_transactions := [the_payment]\<rparr>"

lemma paid_at_gateway_facts: "keys_ok paid_at_gateway" "transactions_wf paid_at_gateway" "reliable paid_at_gateway"
  "current paid_at_gateway (first_row_of booked) (first_spot_of booked)"
proof -
  show "transactions_wf paid_at_gateway"
    by (simp add: transactions_wf_def paid_at_gateway_def transaction_ok_def the_payment_def has_prefix_def)
  show "keys_ok paid_at_gateway" "reliable paid_at_gateway"
    "current paid_at_gateway (first_row_of booked) (first_spot_of booked)"
    using sample_keys(1) sample_reliable(2) sample_current(1)
    by (simp_all add: paid_at_gateway_def keys_ok_def reliable_def current_def)
qed

theorem confirm_paid_booking_witness:
  "wp (ConfirmBookingPayment (post ''/v1/reservations/confirm-payment'' (Some ''d1'')
      (JObj [(''transaction_id'', JStr ''tx-1''), (''reservation_id'', JStr ''id-0-sample'')])))
    (\<lambda>reply w'. map rr_status (w_reservations w') = [StatusConfirmed]) paid_at_gateway"
proof -
  let ?r = "post ''/v1/reservations/confirm-payment'' (Some ''d1'')
      (JObj [(''transaction_id'', JStr ''tx-1''), (''reservation_id'', JStr ''id-0-sample'')])"
  have "decode_confirm (hq_Body ?r) = Some (tr_id the_payment, rr_id (first_row_of booked))"
    by (simp add: decode_confirm_def post_def struct_members_def equal_fold_def to_lower_def ascii_lower_def the_payment_def)
  moreover have "sr_id (first_spot_of booked) \<noteq> ''''" by code_simp
  moreover have "w_ext paid_at_gateway = sample_ext" "w_reservations paid_at_gateway = [first_row_of booked]"
    "w_transactions paid_at_gateway = [the_payment]"
    by (simp_all add: paid_at_gateway_def sample_single)
  ultimately show ?thesis
    using confirm_paid_booking [OF paid_at_gateway_facts(1,2,4), of the_payment ?r "''d1''", THEN conjunct2] paid_at_gateway_facts(3)
    by (auto simp: post_def UserIDFromContext_def the_payment_def update_where_def confirmed_at_def elim!: wp_mono)
qed

text \<open>
  C31: the simulated settlement of a transaction settles it, and the payload it answers with is one
  that the payment service takes for the payment gateway's own: sending it to the webhook is
  accepted as the settlement of that transaction.
\<close>

theorem simulated_settlement:
  assumes "reliable w" "redis_ok (w_ext w)" "transactions_wf w" "t \<in> set (w_transactions w)"
    and "decode_settle (hq_Body r) = Some (tr_id t)" "tr_id t \<noteq> ''''"
    and "x_redis_get (w_ext w) (w_redis w) (w_clock w) (webhook_key (tr_gateway_tx_id t) ''settlement'') = None"
  shows "wp (SimulateSettle serverKey r) (\<lambda>reply w1. \<exists>s now. reply = JSONBody 200 s \<and> sp_TransactionID s = tr_id t
     \<and> w_transactions w1 = update_where (\<lambda>x. tr_id x = tr_id t) (settled_at now) (w_transactions w)
     \<and> wp (HandleWebhook serverKey (Some (JObj (sp_WebhookPayload s))) sig) (\<lambda>res w2.
         res = Inr (True, False, tr_id t, Some TxSettled)
         \<and> (\<exists>paidAt. w_transactions w2 = update_where (\<lambda>x. tr_id x = tr_id t) (settled_at paidAt) (w_transactions w1))) w1) w"
  by (rule settlement_accepted [OF assms])

lemma the_charge_id: "tr_id the_charge \<noteq> ''''"
  by code_simp

theorem simulated_settlement_witness:
  "wp (SimulateSettle ''server-key'' (post ''/v1/payments/simulate-settle'' None (JObj [(''transaction_id'', JStr (tr_id the_charge))])))
    (\<lambda>reply w1. \<exists>s. reply = JSONBody 200 s \<and> wp (HandleWebhook ''server-key'' (Some (JObj (sp_WebhookPayload s))) '''')
       (\<lambda>res w2. res = Inr (True, False, tr_id the_charge, Some TxSettled)) w1) charged"
proof -
  let ?r = "post ''/v1/payments/simulate-settle'' None (JObj [(''transaction_id'', JStr (tr_id the_charge))])"
  have "decode_settle (hq_Body ?r) = Some (tr_id the_charge)"
    by (simp add: decode_settle_def post_def struct_members_def equal_fold_def to_lower_def ascii_lower_def)
  then show ?thesis
    using charged_facts charged_wf the_charge_id fresh_webhook
    by (intro wp_mono [OF simulated_settlement [where sig = "''''"]]) (auto simp: charged_ext elim!: wp_mono)
qed

text \<open>
  C32: checking out through the gateway completes the reservation and bills it: one invoice for
  the driver is stored, over the time from the confirmation of the reservation (not from the
  check-in) to the check-out, and the driver is shown that invoice, with the minutes since the
  check-in.
\<close>

theorem check_out_is_billed:
  assumes "reliable w" "redis_ok (w_ext w)" "keys_ok w" "current w row s" "rr_status row = StatusActive"
    and "rr_check_in_at row = Some ci" "UserIDFromContext ctx = Some (rr_driver_id row)" "key \<noteq> ''''"
    and "x_redis_get (w_ext w) (w_redis w) (w_clock w) (store_key key) = None"
    and "x_redis_get (w_ext w) (w_redis w) (w_clock w) (billing_key (''inv-'' @ key)) = None"
    and "''inv-'' @ key \<notin> ir_idempotency_key ` set (w_invoices w)" "\<And>n. x_uuid (w_ext w) n \<notin> ir_id ` set (w_invoices w)"
  shows "wp (gw_CheckOut p ctx (rr_id row) key) (\<lambda>res w'. \<exists>now bill shown.
     w_clock w \<le> now \<and> now \<le> w_clock w' \<and> res = Reply shown \<and> w_invoices w' = w_invoices w @ [bill]
     \<and> ir_reservation_id bill = rr_id row \<and> ir_driver_id bill = rr_driver_id row \<and> ir_status bill = InvoiceStatusPendingPayment
     \<and> ir_total_amount bill = 5000 * BilledHours (rr_confirmed_at row) now
         + (if IsOvernight (rr_confirmed_at row) now then 20000 else 0)
     \<and> lv_InvoiceId shown = ir_id bill \<and> mo_Amount (is_TotalAmount (lv_InvoiceSummary shown)) = ir_total_amount bill
     \<and> lv_CheckOutAt shown = now \<and> lv_DurationMinutes shown = minutes_int (Sub now ci)
     \<and> w_reservations w' = update_where (\<lambda>x. rr_id x = rr_id row) (\<lambda>x. x\<lparr>rr_status := StatusCompleted,
          rr_check_out_at := Some (pg_timestamp now)\<rparr>) (w_reservations w)) w"
proof (rule wp_mono [OF gw_CheckOut_bills [OF assms]], elim exE, goal_cases)
  case (1 res w' now iid t n)
  then show ?case
    by (intro exI [of _ now] exI [of _ "invoice_row_of (parking_invoice (r_SessionID (scanReservation row s)) (rr_id row)
        (rr_driver_id row) (''inv-'' @ key) (rr_confirmed_at row) now iid t) n"])
      (simp add: Let_def parking_invoice_def invoice_row_of_def summary_of_def domainInvoiceToProto_def idr_def
        Calculate_spec BilledHours_spec IsOvernight_days)
qed

lemma parked_bill: "w_invoices parked = []" "rr_check_in_at (first_row_of parked) \<noteq> None"
  "x_redis_get (w_ext (forward (90 * Minute) parked)) (w_redis (forward (90 * Minute) parked))
    (w_clock (forward (90 * Minute) parked)) (billing_key (''inv-'' @ ''k2'')) = None"
  "x_redis_get (w_ext (forward (90 * Minute) parked)) (w_redis (forward (90 * Minute) parked))
    (w_clock (forward (90 * Minute) parked)) (store_key ''k2'') = None"
  by code_simp+

theorem check_out_is_billed_witness:
  "wp (gw_CheckOut MQPublisher (Some ''d1'') ''id-0-sample'' ''k2'') (\<lambda>res w'. map ir_driver_id (w_invoices w') = [''d1'']
     \<and> map rr_status (w_reservations w') = [StatusCompleted]) (forward (90 * Minute) parked)"
proof -
  obtain ci where ci: "rr_check_in_at (first_row_of parked) = Some ci" using parked_bill(2) by auto
  have "UserIDFromContext (Some ''d1'') = Some (rr_driver_id (first_row_of parked))"
    by (simp add: UserIDFromContext_def)
  from check_out_is_billed [OF sample_reliable(4) _ sample_keys(3) sample_current(3) _ ci this _ parked_bill(4) parked_bill(3),
      of MQPublisher]
  show ?thesis
    using parked_bill(1) by (auto simp: sample_single update_where_def forward_def elim!: wp_mono)
qed

section \<open>Drivers\<close>

text \<open>
  C33: a driver who registers can log in: with the address and the password of the registration
  they get a token for the id they were registered under, which the server accepts until it
  expires, as it does the token of the registration.
\<close>

theorem registered_driver_logs_in:
  assumes "reliable w" "drivers_wf w" "jwt_ok (w_ext w)" "signing_ok (w_ext w)" "bcrypt_ok (w_ext w)"
    and "0 \<le> w_clock w" "0 \<le> hours" "hours * Hour < 2 ^ 63"
    and "decode_register (hq_Body r) = Some req" "registrable w req hash v"
    and "x_uuid (w_ext w) (Suc (w_uuids w)) \<notin> dr_id ` set (w_drivers w)" "rq_Email req \<notin> dr_email ` set (w_drivers w)"
    and "decode_login (hq_Body r') = Some \<lparr>lq_Email = rq_Email req, lq_Password = rq_Password req\<rparr>"
  shows "wp (Register secret hours r) (\<lambda>res w1. \<exists>a. res = JSONBody StatusCreated a
     \<and> driver_token secret (w_ext w) (w_clock w) hours (au_DriverID a) (vehicle_string v) (au_Token a)
     \<and> wp (Login secret hours r') (\<lambda>res' w2. \<exists>a'. res' = JSONBody StatusOK a' \<and> au_DriverID a' = au_DriverID a
         \<and> au_Email a' = rq_Email req \<and> db_same w1 w2
         \<and> driver_token secret (w_ext w) (w_clock w1) hours (au_DriverID a) (vehicle_string v) (au_Token a')) w1) w"
proof (rule wp_mono [OF wp_conj [THEN iffD2, OF conjI [OF Register_served [OF assms(1,3,4,6-12)]
      drivers.preservesD [OF Register_preserves assms(2)]]]], goal_cases)
  case (1 res w1)
  let ?id = "x_uuid (w_ext w) (Suc (w_uuids w))" and ?d = "new_driver req (x_uuid (w_ext w) (Suc (w_uuids w))) hash v"
  have d: "?d \<in> set (w_drivers w1)" "dr_email ?d = rq_Email req" "dr_id ?d = ?id" "dr_vehicle_type ?d = v"
    "x_bcrypt_compare (w_ext w) (dr_password_hash ?d) (rq_Password req)" "rq_Password req \<noteq> ''''"
    using 1 assms(5,10) by (auto simp: Let_def new_driver_def registrable_def bcrypt_ok_def)
  have w1: "reliable w1" "drivers_wf w1" "w_ext w1 = w_ext w" "0 \<le> w_clock w1"
    using 1 assms(6) by (auto simp: Let_def)
  from Login_served [OF w1(1,2) _ _ w1(4) assms(7,8) _ d(1) d(6), of r' secret] 1
  show ?case
    using assms(3,4,13) d w1(3) by (auto simp: Let_def elim!: wp_mono)
qed

lemma sample_signing: "signing_ok sample_ext" "bcrypt_ok sample_ext"
  by (auto simp: signing_ok_def bcrypt_ok_def sample_ext_def sample_sign_def)

definition sample_registration :: registerRequest where
  "sample_registration = \<lparr>rq_Name = ''Ani'', rq_Email = ''ani@x.id'', rq_Phone = ''0811'', rq_Password = ''pw'', rq_VehicleType = ''''\<rparr>"

theorem registered_driver_logs_in_witness:
  "wp (Register ''secret'' 24 (post ''/v1/auth/register'' None (JObj [(''name'', JStr ''Ani''), (''email'', JStr ''ani@x.id''),
      (''phone'', JStr ''0811''), (''password'', JStr ''pw'')]))) (\<lambda>res w1. \<exists>a. res = JSONBody StatusCreated a
     \<and> wp (Login ''secret'' 24 (post ''/v1/auth/login'' None (JObj [(''email'', JStr ''ani@x.id''), (''password'', JStr ''pw'')])))
         (\<lambda>res' w2. \<exists>a'. res' = JSONBody StatusOK a' \<and> au_DriverID a' = au_DriverID a) w1) sample_world"
proof -
  let ?r = "post ''/v1/auth/register'' None (JObj [(''name'', JStr ''Ani''), (''email'', JStr ''ani@x.id''),
      (''phone'', JStr ''0811''), (''password'', JStr ''pw'')])"
  let ?r' = "post ''/v1/auth/login'' None (JObj [(''email'', JStr ''ani@x.id''), (''password'', JStr ''pw'')])"
  have "decode_register (hq_Body ?r) = Some sample_registration"
    "decode_login (hq_Body ?r') = Some \<lparr>lq_Email = rq_Email sample_registration, lq_Password = rq_Password sample_registration\<rparr>"
    by (simp_all add: decode_register_def decode_login_def post_def struct_members_def equal_fold_def to_lower_def
        ascii_lower_def sample_registration_def)
  moreover have "registrable sample_world sample_registration ''bcrypt:pw'' VehicleTypeCar" by code_simp
  moreover have "0 \<le> w_clock sample_world" "(24::int) * Hour < 2 ^ 63" "w_drivers sample_world = []" by code_simp+
  ultimately have "wp (Register ''secret'' 24 ?r) (\<lambda>res w1. \<exists>a. res = JSONBody StatusCreated a
     \<and> driver_token ''secret'' (w_ext sample_world) (w_clock sample_world) 24 (au_DriverID a) (vehicle_string VehicleTypeCar) (au_Token a)
     \<and> wp (Login ''secret'' 24 ?r') (\<lambda>res' w2. \<exists>a'. res' = JSONBody StatusOK a' \<and> au_DriverID a' = au_DriverID a
         \<and> au_Email a' = rq_Email sample_registration \<and> db_same w1 w2
         \<and> driver_token ''secret'' (w_ext sample_world) (w_clock w1) 24 (au_DriverID a) (vehicle_string VehicleTypeCar)
             (au_Token a')) w1) sample_world"
    by (intro registered_driver_logs_in [OF sample_reliable(1) sample_tables(3)]) (auto simp: sample_signing)
  then show ?thesis by (elim wp_mono) (blast intro: wp_mono)
qed

end
