(* ===== verification/HttpFlows.thy ===== *)
theory HttpFlows
  imports Ownership GatewayBehaviour
begin

text \<open>
  A request on its way through the whole HTTP server: the limiter, the authentication, the mux of
  \<open>cmd/main.go\<close>, the routes of the generated code, the method, and back to a status. With them, the
  way of one cancellation from end to end.
\<close>

section \<open>From the server to the method\<close>

text \<open>The paths that reach the generated routes.\<close>

definition rpc_path :: "string \<Rightarrow> bool" where
  "rpc_path path \<longleftrightarrow> has_prefix path ''/v1/'' \<and> path \<notin> {''/v1/auth/register'', ''/v1/auth/login'',
     ''/v1/reservations/history'', ''/v1/reservations/confirm-payment'', ''/v1/reservations/pending-payment'',
     ''/v1/parking/spots'', ''/v1/payments/simulate-settle''}"

lemma v1_path:
  assumes "has_prefix path ''/v1/''"
  shows "path \<noteq> ''/healthz''" "path \<noteq> ''/swagger.json''" "\<not> has_prefix path ''/swagger/''"
proof -
  have "take 4 path = ''/v1/''" using assms by (simp add: has_prefix_def numeral_eq_Suc)
  from arg_cong [OF this, of "take 2"] have path: "take 2 path = ''/v''" by simp
  show "path \<noteq> ''/healthz''" "path \<noteq> ''/swagger.json''" using path by auto
  show "\<not> has_prefix path ''/swagger/''"
  proof
    assume "has_prefix path ''/swagger/''"
    then have "take 9 path = ''/swagger/''" by (simp add: has_prefix_def numeral_eq_Suc)
    from arg_cong [OF this, of "take 2"] path show False by simp
  qed
qed

lemma rpc_path_prefix: "rpc_path path \<Longrightarrow> has_prefix path ''/v1/''"
  by (simp only: rpc_path_def)

lemma rpc_path_other:
  assumes "rpc_path path"
  shows "path \<noteq> ''/v1/auth/register''" "path \<noteq> ''/v1/auth/login''" "path \<noteq> ''/v1/reservations/history''"
    "path \<noteq> ''/v1/reservations/confirm-payment''" "path \<noteq> ''/v1/reservations/pending-payment''"
    "path \<noteq> ''/v1/parking/spots''" "path \<noteq> ''/v1/payments/simulate-settle''"
  by (insert assms, unfold rpc_path_def insert_iff de_Morgan_disj, (elim conjE, assumption)+)

lemmas rpc_path_not = rpc_path_other v1_path [OF rpc_path_prefix]

lemma rpc_path_not_public: "rpc_path path \<Longrightarrow> \<not> is_public_path path"
  by (simp only: is_public_path_def rpc_path_not simp_thms)

lemma httpMux_rpc: "rpc_path (hq_Path r) \<Longrightarrow> httpMux c swaggerJSON mux r = encode RpcBody mux r"
  by (simp only: httpMux_def Let_def rpc_path_not rpc_path_prefix if_False if_True)

text \<open>The limiter admits the request when its clock is read first, and the token is checked after that.\<close>

definition admitted :: "gateway_config \<Rightarrow> rateLimiter \<Rightarrow> http_request \<Rightarrow> Claims \<Rightarrow> 'k world \<Rightarrow> bool" where
  "admitted cfg rl r claims w \<longleftrightarrow> fst (allow_at (w_clock (pass w)) (client_key r) rl)
     \<and> (\<exists>token. hq_Header r ''Authorization'' = ''Bearer '' @ token \<and> accepts (gc_Secret cfg) (pass w) token claims)
     \<and> hq_Method r \<noteq> ''OPTIONS'' \<and> rpc_path (hq_Path r)"

lemma http_server_rpc:
  assumes "admitted cfg rl r claims w"
  shows "wp (http_server cfg swaggerJSON mux rl r) Q w =
     wp (mux (r\<lparr>hq_UserID := Some (cl_UserID claims)\<rparr>))
       (\<lambda>reply. Q (map_http_reply RpcBody reply, snd (allow_at (w_clock (pass w)) (client_key r) rl))) (pass (pass w))"
proof -
  obtain token where token: "hq_Header r ''Authorization'' = ''Bearer '' @ token" "accepts (gc_Secret cfg) (pass w) token claims"
    and allowed: "fst (allow_at (w_clock (pass w)) (client_key r) rl)" and m: "hq_Method r \<noteq> ''OPTIONS''" "rpc_path (hq_Path r)"
    using assms by (auto simp: admitted_def)
  obtain rl' where rl': "allow_at (w_clock (pass w)) (client_key r) rl = (True, rl')"
    using allowed by (cases "allow_at (w_clock (pass w)) (client_key r) rl") simp
  have eta: "wp (State_Monad.return x) Q = Q x" for x and Q :: "'c \<Rightarrow> 'd \<Rightarrow> bool" by (rule ext) (rule wp_return)
  have "wp (http_server cfg swaggerJSON mux rl r) Q w =
      wp (HTTPMiddleware (gc_Secret cfg) (httpMux cfg swaggerJSON mux) r) (\<lambda>reply. Q (reply, rl')) (pass w)"
    by (simp add: http_server_def Middleware_def Allow_def wp_bind wp_time_Now wp_return rl' eta corsMiddleware_def m(1))
  also have "\<dots> = wp (httpMux cfg swaggerJSON mux (r\<lparr>hq_UserID := Some (cl_UserID claims)\<rparr>)) (\<lambda>reply. Q (reply, rl')) (pass (pass w))"
    by (rule HTTPMiddleware_accepted [OF token(2) rpc_path_not_public [OF m(2)] token(1)])
  also have "\<dots> = wp (mux (r\<lparr>hq_UserID := Some (cl_UserID claims)\<rparr>)) (\<lambda>reply. Q (map_http_reply RpcBody reply, rl')) (pass (pass w))"
    using m(2) by (simp add: httpMux_rpc encode_def wp_bind eta)
  finally show ?thesis by (simp add: rl')
qed

lemma rpc_mux_routed:
  "rt_Route rt gateway_routes req = Some (i, ps) \<Longrightarrow> i < 10 \<Longrightarrow>
   rpc_mux rt c req = route_handler rt (snd (RegisterGatewayServiceHandlerServer rt c ! i)) req ps"
  by (simp add: rpc_mux_def)

text \<open>The reply of a method as the reply of its route.\<close>

definition http_of :: "runtime \<Rightarrow> rpc_body reply \<Rightarrow> rpc_body http_reply" where
  "http_of rt resp = (case resp of Status code msg \<Rightarrow> HTTPError rt code msg | Reply body \<Rightarrow> forward rt body | Panic \<Rightarrow> Aborted)"

lemma wp_route_handler:
  "rt_AnnotateIncomingContext rt req = None \<Longrightarrow>
   wp (route_handler rt h req ps) Q w = wp (h req ps) (\<lambda>resp. Q (http_of rt resp)) w"
  by (simp add: route_handler_def http_of_def wp_bind) (simp add: wp_def State_Monad.return_def split: reply.split prod.split)

section \<open>A cancellation from end to end\<close>

lemma CancelReservation_refusal:
  assumes "reliable w" "keys_ok w" "current w row s"
  shows "did \<noteq> rr_driver_id row \<Longrightarrow> wp (CancelReservation p (rr_id row) did) Q w =
      Q (Inl (ErrNew ''reservation not owned by driver'')) (arrive w)"
    and "rr_status row \<notin> {StatusPending, StatusConfirmed} \<Longrightarrow> wp (CancelReservation p (rr_id row) (rr_driver_id row)) Q w =
      Q (Inl (ErrNew (''reservation cannot be cancelled in status '' @ status_string (rr_status row)))) (arrive w)"
  using assms unfolding CancelReservation_def wp_or_return read_served [OF assms refl] sum.case by (simp_all add: wp_fail)

definition cancelled_as :: "reservation_row \<Rightarrow> 'k world \<Rightarrow> rpc_body reply \<Rightarrow> 'k world \<Rightarrow> bool" where
  "cancelled_as row w resp w' \<longleftrightarrow> (\<exists>now fee reason. w_clock w \<le> now \<and> now \<le> w_clock w'
     \<and> (fee, reason) = (if now \<le> rr_confirmed_at row + 2 * Minute then (0, ''cancelled within 2 minutes of confirmation'')
         else (5000, ''cancelled after 2 minutes of confirmation''))
     \<and> resp = Reply (RpcCancelled (rr_id row, domainStatusToProto StatusCancelled, idr fee, reason))
     \<and> w_reservations w' = update_where (\<lambda>x. rr_id x = rr_id row)
         (\<lambda>x. x\<lparr>rr_status := StatusCancelled, rr_cancelled_at := Some (pg_timestamp now)\<rparr>) (w_reservations w))"

lemma cancel_method:
  assumes "reliable w" "keys_ok w" "current w row s" "did \<noteq> ''''"
    and "rt_String rt (rr_id row) = Inr (rr_id row)" "ps ''reservation_id'' = Some (rr_id row)" "hq_UserID req = Some did"
  shows "wp (local_request_CancelReservation rt c req ps) (\<lambda>resp w'.
     if did \<noteq> rr_driver_id row then resp = Status PermissionDenied ''reservation not owned by driver'' \<and> db_same w w'
     else if rr_status row \<in> {StatusPending, StatusConfirmed} then cancelled_as row w resp w'
     else (\<exists>m. resp = Status FailedPrecondition m) \<and> db_same w w') w" (is "wp _ ?Q w")
proof -
  have arrived: "reliable (arrive w)" "keys_ok (arrive w)" "current (arrive w) row s" using assms by simp_all
  have user: "UserIDFromContext (hq_UserID req) = Some did" using assms(4,7) by (simp add: UserIDFromContext_def)
  note start = local_request_CancelReservation_def or_path_def assms(5,6) option.case sum.case and_body_def
    gw_CancelReservation_def user wp_or_forward wp_call [OF assms(1)] rpc_CancelReservation_def wp_or_status
  consider (other) "did \<noteq> rr_driver_id row"
    | (closed) "did = rr_driver_id row" "rr_status row \<notin> {StatusPending, StatusConfirmed}"
    | (mine) "did = rr_driver_id row" "rr_status row \<in> {StatusPending, StatusConfirmed}"
    by blast
  then show ?thesis
  proof cases
    case other
    then show ?thesis
      unfolding start CancelReservation_refusal(1) [OF arrived other]
      by (simp add: toGRPCError_texts db_same_trans [OF db_same_arrive db_same_arrive])
  next
    case closed
    have "''reservation cannot be cancelled in status '' \<in> set status_texts" by (simp only: status_texts_def) simp
    note closed_text = toGRPCError_status [OF this]
    from closed show ?thesis
      unfolding start closed(1) CancelReservation_refusal(2) [OF arrived closed(2)] sum.case closed_text
      by (simp add: db_same_trans [OF db_same_arrive db_same_arrive])
  next
    case mine
    show ?thesis
      unfolding start mine(1)
    proof (rule wp_mono [OF CancelReservation_open [OF arrived mine(2)]], elim exE, goal_cases)
      case (1 res w' now)
      then have res: "res = Inr ((scanReservation row s)\<lparr>r_Status := StatusCancelled, r_CancelledAt := Some now\<rparr>,
          CalculateCancellationFee (rr_confirmed_at row) now False)"
        and clock: "w_clock w \<le> now" "now \<le> w_clock w'"
        and rows: "w_reservations w' = update_where (\<lambda>x. rr_id x = rr_id row)
          (\<lambda>x. x\<lparr>rr_status := StatusCancelled, rr_cancelled_at := Some (pg_timestamp now)\<rparr>) (w_reservations w)"
        using order_trans [OF arrive_clock [of w]] by (auto simp: Let_def)
      have "cancelled_as row w (Reply (RpcCancelled (rr_id row, domainStatusToProto StatusCancelled,
          idr (CalculateCancellationFee (rr_confirmed_at row) now False),
          if CalculateCancellationFee (rr_confirmed_at row) now False = 0 then ''cancelled within 2 minutes of confirmation''
          else ''cancelled after 2 minutes of confirmation''))) w'"
        unfolding cancelled_as_def
        by (rule exI [of _ now]) (use clock rows in \<open>simp add: CalculateCancellationFee_spec\<close>)
      then show ?case using mine(2) by (simp add: res wp_return)
    qed
  qed
qed

text \<open>The library's mux takes the request to the route with that number, and lets its value through.\<close>

definition routed :: "runtime \<Rightarrow> http_request \<Rightarrow> Claims \<Rightarrow> nat \<Rightarrow> (string \<rightharpoonup> string) \<Rightarrow> bool" where
  "routed rt r claims i pathParams \<longleftrightarrow> (let req = r\<lparr>hq_UserID := Some (cl_UserID claims)\<rparr> in
     rt_AnnotateIncomingContext rt req = None \<and> rt_Route rt gateway_routes req = Some (i, pathParams) \<and> i < 10)"

lemma http_server_routed:
  assumes "admitted cfg rl r claims w" "routed rt r claims i ps"
  shows "wp (http_server cfg swaggerJSON (rpc_mux rt cfg) rl r) Q w =
     wp (snd (RegisterGatewayServiceHandlerServer rt cfg ! i) (r\<lparr>hq_UserID := Some (cl_UserID claims)\<rparr>) ps)
       (\<lambda>resp. Q (map_http_reply RpcBody (http_of rt resp), snd (allow_at (w_clock (pass w)) (client_key r) rl))) (pass (pass w))"
  using assms(2) by (simp add: http_server_rpc [OF assms(1)] routed_def Let_def rpc_mux_routed wp_route_handler)

lemma cancelled_as_earlier:
  assumes "cancelled_as row w1 resp w'" "db_same w w1"
  shows "cancelled_as row w resp w'"
proof -
  have w: "w_clock w \<le> w_clock w1" "w_reservations w1 = w_reservations w" using assms(2) by (simp_all add: db_same_def)
  then have "w_clock w1 \<le> now \<Longrightarrow> w_clock w \<le> now" for now by simp
  then show ?thesis using assms(1) unfolding cancelled_as_def w(2) by blast
qed

lemma cancelled_as_reply: "cancelled_as row w resp w' \<Longrightarrow> \<exists>body. resp = Reply body"
  unfolding cancelled_as_def by blast

lemma http_cancellation_flow:
  assumes "reliable w" "keys_ok w" "current w row s" "admitted cfg rl r claims w" "cl_UserID claims \<noteq> ''''"
    and "routed rt r claims 3 ps" "ps ''reservation_id'' = Some (rr_id row)"
    and "rt_String rt (rr_id row) = Inr (rr_id row)" "\<And>body. rt_Marshal rt body = None"
  shows "wp (http_server cfg swaggerJSON (rpc_mux rt cfg) rl r) (\<lambda>(reply, _) w'.
     if cl_UserID claims \<noteq> rr_driver_id row
     then reply = JSONBody (rt_HTTPStatusFromCode rt PermissionDenied)
         (RpcBody (RpcError PermissionDenied ''reservation not owned by driver'')) \<and> db_same w w'
     else if rr_status row \<in> {StatusPending, StatusConfirmed}
     then (\<exists>body. reply = JSONBody StatusOK (RpcBody body) \<and> cancelled_as row w (Reply body) w')
     else (\<exists>m. reply = JSONBody (rt_HTTPStatusFromCode rt FailedPrecondition) (RpcBody (RpcError FailedPrecondition m)))
       \<and> db_same w w') w"
proof -
  let ?w = "pass (pass w)" and ?req = "r\<lparr>hq_UserID := Some (cl_UserID claims)\<rparr>"
  have later: "reliable ?w" "keys_ok ?w" "current ?w row s" "db_same w ?w"
    using assms(1-3) db_same_trans [OF db_same_pass db_same_pass] by (auto simp: keys_ok_def)
  have handler: "snd (RegisterGatewayServiceHandlerServer rt cfg ! 3) = local_request_CancelReservation rt cfg"
    by (simp add: RegisterGatewayServiceHandlerServer_def)
  note run = cancel_method [where ps = ps and req = ?req and c = cfg, OF later(1-3) assms(5,8,7)]
  show ?thesis
    unfolding http_server_routed [OF assms(4,6)] handler
    by (rule wp_mono [OF run])
      (auto simp: http_of_def HTTPError_def forward_def assms(9) dest!: cancelled_as_earlier [OF _ later(4)]
        dest: cancelled_as_reply intro: db_same_trans [OF later(4)] split: if_splits reply.splits)
qed

end
