(* ===== verification/Events.thy ===== *)
theory Events
  imports HttpFlows Notification
begin

text \<open>
  All that happens in the system, as one sequence of events: HTTP requests and gRPC calls of the
  gateway, calls of the other services and the tick of the expiry job, the messages the two
  subscribers take from the broker, streams of locations, and the tick of the limiter's clean-up.
  Whatever the order, and whatever the network does to each remote call, the relation of theory
  \<open>System\<close> is kept.
\<close>

section \<open>The events\<close>

datatype system_event =
    HttpRequest http_request
  | GatewayCall gateway_request
  | ReservationCall res_call
  | GenerateInvoiceCall GenerateInvoiceRequest
  | MarkInvoicePaidCall string string int "time option"
  | CreateTransactionCall CreateTransactionRequest
  | HandleWebhookCall "json option" string
  | SendNotificationCall SendNotificationRequest
  | BroadcastNotificationCall "string list" int int data
  | StreamLocationCall "(StreamLocationRequest \<times> string option) list" "string option"
  | CheckOutMessages "message option list"
  | NotificationMessages "message option list"
  | LimiterSweep

text \<open>What the mains build from the configuration; the history of the notifications may be off.\<close>

record system =
  sy_Gateway :: gateway_config
  sy_Logger :: logger
  sy_Swagger :: string
  sy_Runtime :: runtime
  sy_History :: bool

definition notification_handler :: "system \<Rightarrow> 'k NotificationHandler" where
  "notification_handler s = \<lparr>nh_push = StubPushProvider_Send, nh_email = StubEmailProvider_Send, nh_repo = sy_History s\<rparr>"

text \<open>The limiter is the gateway's own state; everything else is in the world.\<close>

definition leaving :: "'l \<Rightarrow> ('k, 'a) prog \<Rightarrow> ('k, 'l) prog" where
  "leaving rl m = do { _ \<leftarrow> m; State_Monad.return rl }"

primrec on_event :: "system \<Rightarrow> system_event \<Rightarrow> rateLimiter \<Rightarrow> ('k, rateLimiter) prog" where
  "on_event s (HttpRequest r) rl = do {
     (served, _) \<leftarrow> gateway_http (sy_Logger s) (sy_Gateway s) (sy_Swagger s) (sy_Runtime s) rl r;
     State_Monad.return (snd served)
   }"
| "on_event s (GatewayCall req) rl = State (\<lambda>w. (rl, serve (sy_Gateway s) req w))"
| "on_event s (ReservationCall c) rl = State (\<lambda>w. (rl, run_call (gc_Publisher (sy_Gateway s)) c w))"
| "on_event s (GenerateInvoiceCall req) rl = leaving rl (rpc_GenerateInvoice req)"
| "on_event s (MarkInvoicePaidCall i g m t) rl = leaving rl (rpc_MarkInvoicePaid i g m t)"
| "on_event s (CreateTransactionCall req) rl = leaving rl (rpc_CreateTransaction (gc_Gateway (sy_Gateway s)) req)"
| "on_event s (HandleWebhookCall p sig) rl = leaving rl (rpc_HandleWebhook (gc_ServerKey (sy_Gateway s)) p sig)"
| "on_event s (SendNotificationCall req) rl = leaving rl (SendNotification (notification_handler s) req)"
| "on_event s (BroadcastNotificationCall ds c t d) rl = leaving rl (BroadcastNotification (notification_handler s) ds c t d)"
| "on_event s (StreamLocationCall msgs e) rl = leaving rl (StreamLocation msgs e)"
| "on_event s (CheckOutMessages ds) rl = leaving rl (consume HandleCheckOut ds)"
| "on_event s (NotificationMessages ds) rl = leaving rl (consume (Handle (notification_handler s)) ds)"
| "on_event s LimiterSweep rl = do { now \<leftarrow> time_Now; State_Monad.return (cleanup_at now rl) }"

definition on_events :: "system \<Rightarrow> system_event list \<Rightarrow> rateLimiter \<times> 'k world \<Rightarrow> rateLimiter \<times> 'k world" where
  "on_events s evs st = fold (\<lambda>e (rl, w). run_state (on_event s e rl) w) evs st"

section \<open>The services behind the gateway\<close>

lemma paid_rows_wf:
  "invoices_wf w \<Longrightarrow> invoices_wf (w\<lparr>w_invoices := update_where (\<lambda>r. ir_id r = iid)
     (\<lambda>r. r\<lparr>ir_status := InvoiceStatusPaid, ir_gateway_tx_id := Some tx, ir_payment_method := Some m,
        ir_paid_at := Some t\<rparr>) (w_invoices w)\<rparr>)"
  by (auto simp: invoices_wf_def set_update_where) (auto simp: invoice_ok_def split: InvoiceType.splits)

lemma MarkPaid_keeps: "keeps keys_ok system_step (MarkPaid iid tx m t)"
  unfolding MarkPaid_def by (rule system.keeps_exec, rule system_step_invoices, erule paid_rows_wf)

lemma rpc_MarkInvoicePaid_keeps: "keeps keys_ok system_step (rpc_MarkInvoicePaid i g m t)"
  unfolding rpc_MarkInvoicePaid_def MarkInvoicePaid_def
  by (intro system.keeps_rules MarkPaid_keeps system.keeps_quiet quiet_intros)

lemma HandleCheckOut_keeps: "keeps keys_ok system_step (HandleCheckOut msg)"
  unfolding HandleCheckOut_def Let_def fail_def ok_def
  by (intro system.keeps_rules GenerateInvoice_keeps system.keeps_quiet [OF leaves_db_uuid_New])

text \<open>The webhook writes to the transactions only, and keeps their invariant.\<close>

definition only_transactions :: "'k world \<Rightarrow> 'k world \<Rightarrow> bool" where
  "only_transactions w w' \<longleftrightarrow> w_ext w' = w_ext w \<and> w_clock w \<le> w_clock w' \<and> w_spots w' = w_spots w
     \<and> w_drivers w' = w_drivers w \<and> w_reservations w' = w_reservations w \<and> w_invoices w' = w_invoices w"

interpretation webhook: step_relation "\<lambda>_. True" only_transactions
  by unfold_locales (auto simp: only_transactions_def db_same_def)

lemma pay_UpdateStatus_only_transactions: "keeps (\<lambda>_. True) only_transactions (pay_UpdateStatus tid st t)"
  unfolding pay_UpdateStatus_def by (rule webhook.keeps_exec) (simp add: only_transactions_def)

lemma HandleWebhook_only_transactions: "keeps (\<lambda>_. True) only_transactions (HandleWebhook serverKey payload sig)"
  unfolding HandleWebhook_def Let_def case_prod_beta fail_def ok_def
  by (intro webhook.keeps_rules pay_UpdateStatus_only_transactions webhook.keeps_quiet quiet_intros)

lemma only_transactions_system_step:
  assumes "only_transactions w w'" "transactions_wf w \<longrightarrow> transactions_wf w'"
  shows "system_step w w'"
proof -
  have "table_step (spot_ids w) (table_of w) (table_of w')"
    using assms(1) by (auto simp: only_transactions_def table_of_def intro: table_step.tick)
  then show ?thesis
    using assms by (auto simp: only_transactions_def system_step_def invoices_wf_def drivers_wf_def)
qed

lemma rpc_HandleWebhook_keeps: "keeps keys_ok system_step (rpc_HandleWebhook serverKey payload sig)"
proof -
  have "keeps keys_ok system_step (HandleWebhook serverKey payload sig)"
    unfolding keeps_def wp_fst_snd
    by (intro allI impI only_transactions_system_step webhook.keeps_run [OF HandleWebhook_only_transactions]
        transactions.preserves_run [OF HandleWebhook_preserves] TrueI)
  then show ?thesis
    unfolding rpc_HandleWebhook_def case_prod_beta by (intro system.keeps_rules)
qed

lemma SendNotification_keeps: "keeps keys_ok system_step (SendNotification (notification_handler s) req)"
proof -
  have "keeps keys_ok system_step (Insert entry)" for entry
    unfolding Insert_def
    by (rule system.keeps_remote)
      (auto simp: system_step_def table_of_def invoices_wf_def transactions_wf_def drivers_wf_def)
  then show ?thesis
    unfolding SendNotification_def send_on_def notification_handler_def StubPushProvider_Send_def StubEmailProvider_Send_def
      Let_def case_prod_beta ok_def NotificationHandler.simps
    by (intro system.keeps_rules system.keeps_quiet [OF leaves_db_uuid_New] system.keeps_quiet [OF leaves_db_time_Now])
qed

lemma broadcast_loop_keeps: "keeps keys_ok system_step (broadcast_loop (notification_handler s) c t d ds failed)"
  by (induction ds) (auto intro!: system.keeps_return system.keeps_bind SendNotification_keeps)

lemma Handle_keeps: "keeps keys_ok system_step (Handle (notification_handler s) msg)"
  unfolding Handle_def fail_def ok_def by (intro system.keeps_rules SendNotification_keeps)

lemma consume_keeps: "(\<And>msg. keeps keys_ok system_step (handler msg)) \<Longrightarrow> keeps keys_ok system_step (consume handler ds)"
  by (induction handler ds rule: consume.induct) (auto intro!: system.keeps_return system.keeps_bind)

lemma StreamLocation_keeps: "keeps keys_ok system_step (StreamLocation msgs e)"
proof (induction msgs e rule: StreamLocation.induct)
  case (2 req failure rest e)
  then show ?case
    unfolding StreamLocation.simps ack_location_def case_prod_beta
    by (cases failure)
      (auto intro!: system.keeps_rules SaveLocation_keeps system.keeps_quiet [OF leaves_db_time_Now] simp: case_prod_beta)
qed (simp add: system.keeps_return)

section \<open>Any sequence of events\<close>

lemma keeps_leaving: "keeps keys_ok system_step m \<Longrightarrow> keeps keys_ok system_step (leaving rl m)"
  unfolding leaving_def by (intro system.keeps_rules)

lemma keeps_run_call: "keeps keys_ok system_step (State (\<lambda>w. (rl, run_call p c w)))"
  by (simp add: keeps_def wp_def evolves_system_step run_call_evolves)

lemma keeps_serve: "keeps keys_ok system_step (State (\<lambda>w. (rl, serve c req w)))"
  by (simp add: keeps_def wp_def serve_system_step)

lemma keeps_gateway_http: "keeps keys_ok system_step (gateway_http lg cfg swaggerJSON rt rl r)"
  by (simp add: keeps_def gateway_http_system_step)

lemma on_event_keeps: "keeps keys_ok system_step (on_event s e rl)"
  by (cases e; simp only: on_event.simps BroadcastNotification_def case_prod_beta;
      intro keeps_leaving keeps_run_call keeps_serve keeps_gateway_http rpc_money_keep rpc_MarkInvoicePaid_keeps
        rpc_HandleWebhook_keeps SendNotification_keeps StreamLocation_keeps consume_keeps HandleCheckOut_keeps Handle_keeps
        broadcast_loop_keeps system.keeps_bind system.keeps_case_prod system.keeps_return system.keeps_quiet [OF leaves_db_time_Now])

lemma on_events_system_step: "keys_ok w \<Longrightarrow> system_step w (snd (on_events s evs (rl, w)))"
proof (induction evs arbitrary: rl w)
  case (Cons e evs)
  obtain rl1 w1 where 1: "run_state (on_event s e rl) w = (rl1, w1)" by (cases "run_state (on_event s e rl) w")
  with system.keeps_run [OF on_event_keeps Cons.prems, of s e rl] have "system_step w w1" by simp
  moreover from this Cons.prems have "keys_ok w1" by (rule system_step_keys_ok [rotated])
  ultimately show ?case
    using Cons.IH [of w1 rl1] system_step_trans by (simp add: on_events_def 1) blast
qed (simp add: on_events_def)

end
