(* ===== verification/Loops.thy ===== *)
theory Loops
  imports Events
begin

text \<open>
  The loops of the program that have no end of their own: the background job of the reservation
  service (\<open>runExpiryJob\<close>), the two location streams, and the consumer of a queue. A loop reads its
  events from a source and is a \<open>partial_function\<close>, so that not returning is \<open>None\<close>. The locale
  \<open>event_loop\<close> is what they share, and its lemmas tell when such a loop returns, and with what: with
  the result of the functions on lists of the other theories.
\<close>

section \<open>Loops over a source of events\<close>

locale event_loop =
  fixes loop :: "(nat \<Rightarrow> 'e) \<Rightarrow> nat \<Rightarrow> 's \<Rightarrow> 'r option"
    and stops :: "'e \<Rightarrow> bool" and step :: "'e \<Rightarrow> 's \<Rightarrow> 's" and finish :: "'e \<Rightarrow> 's \<Rightarrow> 'r"
  assumes unfold: "loop src i s = (if stops (src i) then Some (finish (src i) s) else loop src (Suc i) (step (src i) s))"
    and ends: "loop src i s = Some r \<Longrightarrow> \<exists>n\<ge>i. stops (src n)"
begin

lemma runs_to:
  assumes "i \<le> n" "stops (src n)" "\<And>m. i \<le> m \<Longrightarrow> m < n \<Longrightarrow> \<not> stops (src m)"
  shows "loop src i s = Some (finish (src n) (fold step (map src [i..<n]) s))"
  using assms
proof (induction "n - i" arbitrary: i s)
  case 0
  then show ?case by (simp add: unfold)
next
  case (Suc k)
  then have "i < n" by simp
  with Suc.prems(3) [of i] have "loop src i s = loop src (Suc i) (step (src i) s)" by (simp add: unfold [of src i])
  also have "\<dots> = Some (finish (src n) (fold step (map src [Suc i..<n]) (step (src i) s)))"
    using Suc.hyps(2) Suc.prems by (intro Suc.hyps(1)) auto
  finally show ?case using \<open>i < n\<close> by (simp add: upt_conv_Cons)
qed

theorem returns_iff: "(\<exists>r. loop src i s = Some r) \<longleftrightarrow> (\<exists>n\<ge>i. stops (src n))"
proof
  assume "\<exists>n\<ge>i. stops (src n)"
  then obtain n where "i \<le> n" "stops (src n)" by blast
  define k where "k = (LEAST k. i \<le> k \<and> stops (src k))"
  have "i \<le> k \<and> stops (src k)" unfolding k_def by (rule LeastI [of _ n]) (use \<open>i \<le> n\<close> \<open>stops (src n)\<close> in simp)
  moreover have "\<not> stops (src m)" if "i \<le> m" "m < k" for m
    using not_less_Least [of m "\<lambda>k. i \<le> k \<and> stops (src k)"] that unfolding k_def by blast
  ultimately show "\<exists>r. loop src i s = Some r" using runs_to [of i k] by blast
qed (auto dest: ends)

text \<open>The number of events before the first that stops the loop.\<close>

lemma loop_value:
  "loop src 0 s = (if \<exists>n. stops (src n)
     then let n = LEAST n. stops (src n) in Some (finish (src n) (fold step (map src [0..<n]) s)) else None)"
proof (cases "\<exists>n. stops (src n)")
  case True
  then have "stops (src (LEAST n. stops (src n)))" by (rule LeastI_ex)
  with True show ?thesis using runs_to [of 0 "LEAST n. stops (src n)"] not_less_Least by (simp add: Let_def) blast
next
  case False
  then show ?thesis using returns_iff [of src 0 s] by auto
qed

end

section \<open>The expiry job\<close>

datatype job_event = Tick | Done

partial_function (option) runExpiryJob :: "EventPublisher \<Rightarrow> (nat \<Rightarrow> job_event) \<Rightarrow> nat \<Rightarrow> 'k world \<Rightarrow> 'k world option" where
  "runExpiryJob p source i w = (case source i of
       Done \<Rightarrow> Some w
     | Tick \<Rightarrow> runExpiryJob p source (Suc i) (snd (run_state (ExpireReservations p) w)))"

interpretation expiry: event_loop "runExpiryJob p" "\<lambda>e. e = Done" "\<lambda>_ w. run_call p ExpireTick w" "\<lambda>_ w. w" for p
proof
  show "runExpiryJob p src i w = (if src i = Done then Some w else runExpiryJob p src (Suc i) (run_call p ExpireTick w))" for src i w
    by (subst runExpiryJob.simps) (simp split: job_event.split)
  show "\<exists>n\<ge>i. src n = Done" if "runExpiryJob p src i w = Some w'" for src i w w'
    by (rule runExpiryJob.raw_induct [where P = "\<lambda>p src i w r. \<exists>n\<ge>i. src n = Done", OF _ that])
      (clarsimp split: job_event.splits; metis Suc_leD order_refl)
qed

lemma fold_ticks: "fold (\<lambda>_. run_call p ExpireTick) xs w = run_calls p (replicate (length xs) ExpireTick) w"
  by (induction xs arbitrary: w) (simp_all add: run_calls_def)

lemma expiry_job_value:
  "runExpiryJob p src 0 w = (if \<exists>n. src n = Done
     then Some (run_calls p (replicate (LEAST n. src n = Done) ExpireTick) w) else None)"
  by (simp add: expiry.loop_value fold_ticks Let_def)

text \<open>\<open>main\<close> passes the background context, which is never done.\<close>

lemma expiry_job_of_main: "runExpiryJob p (\<lambda>_. Tick) 0 w = None"
  by (simp add: expiry_job_value)

section \<open>The stream of the presence service\<close>

text \<open>What \<open>Recv\<close> returns; a message comes with the error of the following \<open>Send\<close>, if that fails.\<close>

datatype ('m, 'f, 'e) recv = Message 'm "'f option" | RecvEOF | RecvError 'e

definition recv_stops :: "('f \<Rightarrow> bool) \<Rightarrow> ('m, 'f, 'e) recv \<Rightarrow> bool" where
  "recv_stops fatal ev = (case ev of Message _ failure \<Rightarrow> (case failure of None \<Rightarrow> False | Some f \<Rightarrow> fatal f) | _ \<Rightarrow> True)"

lemma recv_stops_simps [simp]:
  "recv_stops fatal RecvEOF" "recv_stops fatal (RecvError e)" "\<not> recv_stops fatal (Message m None)"
  "recv_stops fatal (Message m (Some f)) = fatal f"
  by (simp_all add: recv_stops_def)

partial_function (option) StreamLocation_loop ::
  "(nat \<Rightarrow> (StreamLocationRequest, string, string) recv) \<Rightarrow> nat \<Rightarrow> StreamLocationResponse list \<times> 'k world \<Rightarrow>
   ((StreamLocationResponse list \<times> unit reply) \<times> 'k world) option" where
  "StreamLocation_loop source i s = (case source i of
       RecvEOF \<Rightarrow> Some ((fst s, Reply ()), snd s)
     | RecvError m \<Rightarrow> Some ((fst s, Status Internal (''recv error: '' @ m)), snd s)
     | Message req failure \<Rightarrow>
         let (resp, w) = run_state (ack_location req) (snd s) in
         (case failure of
            Some m \<Rightarrow> Some ((fst s, Status Internal (''send error: '' @ m)), w)
          | None \<Rightarrow> StreamLocation_loop source (Suc i) (fst s @ [resp], w)))"

definition stream_step :: "('m, 'f, 'e) recv \<Rightarrow> ('m \<Rightarrow> ('k, 'a) prog) \<Rightarrow> 'a list \<times> 'k world \<Rightarrow> 'a list \<times> 'k world" where
  "stream_step ev respond s = (case ev of
       Message m _ \<Rightarrow> (case run_state (respond m) (snd s) of (resp, w) \<Rightarrow> (fst s @ [resp], w))
     | _ \<Rightarrow> s)"

definition StreamLocation_finish ::
  "(StreamLocationRequest, string, string) recv \<Rightarrow> StreamLocationResponse list \<times> 'k world \<Rightarrow>
   (StreamLocationResponse list \<times> unit reply) \<times> 'k world" where
  "StreamLocation_finish ev s = (case ev of
       RecvEOF \<Rightarrow> ((fst s, Reply ()), snd s)
     | RecvError m \<Rightarrow> ((fst s, Status Internal (''recv error: '' @ m)), snd s)
     | Message req failure \<Rightarrow> ((fst s, case failure of None \<Rightarrow> Reply () | Some m \<Rightarrow> Status Internal (''send error: '' @ m)),
         snd (run_state (ack_location req) (snd s))))"

interpretation location_stream: event_loop StreamLocation_loop "recv_stops (\<lambda>_. True)"
  "\<lambda>ev. stream_step ev ack_location" StreamLocation_finish
proof
  show "StreamLocation_loop src i s = (if recv_stops (\<lambda>_. True) (src i) then Some (StreamLocation_finish (src i) s)
      else StreamLocation_loop src (Suc i) (stream_step (src i) ack_location s))" for src i and s :: "_ \<times> 'a world"
    by (subst StreamLocation_loop.simps)
      (simp add: recv_stops_def StreamLocation_finish_def stream_step_def split: recv.split option.split prod.split)
  show "\<exists>n\<ge>i. recv_stops (\<lambda>_. True) (src n)" if "StreamLocation_loop src i s = Some r" for src i r and s :: "_ \<times> 'a world"
    by (rule StreamLocation_loop.raw_induct [where P = "\<lambda>src i s r. \<exists>n\<ge>i. recv_stops (\<lambda>_. True) (src n)", OF _ that])
      (clarsimp split: recv.splits option.splits prod.splits; metis recv_stops_simps Suc_leD order_refl)
qed

text \<open>What a stream has delivered up to an event, as the arguments of the functions on lists.\<close>

definition delivered :: "(nat \<Rightarrow> ('m, 'f, 'e) recv) \<Rightarrow> nat \<Rightarrow> ('m \<times> 'f option) list" where
  "delivered source n = concat (map (\<lambda>i. case source i of Message m failure \<Rightarrow> [(m, failure)] | _ \<Rightarrow> []) [0..<n])"

definition recv_error :: "('m, 'f, 'e) recv \<Rightarrow> 'e option" where
  "recv_error ev = (case ev of RecvError e \<Rightarrow> Some e | _ \<Rightarrow> None)"

lemma delivered_Suc: "delivered source (Suc n) =
    delivered source n @ (case source n of Message m failure \<Rightarrow> [(m, failure)] | _ \<Rightarrow> [])"
  by (simp add: delivered_def)

lemma stream_step_Message:
  "stream_step (Message m failure) respond (acks, w) = (case run_state (respond m) w of (resp, w') \<Rightarrow> (acks @ [resp], w'))"
  by (simp add: stream_step_def)

text \<open>The function on lists \<open>run\<close> answers a message without failure and goes on; so does the loop.\<close>

lemma stream_fold:
  fixes src :: "nat \<Rightarrow> ('m, 'f, 'e) recv" and run :: "('m \<times> 'f option) list \<Rightarrow> ('k, 'a list \<times> 'b) prog"
  assumes "\<And>m. m < n \<Longrightarrow> \<not> recv_stops (\<lambda>_. True) (src m)"
    and run: "\<And>m rest. run ((m, None) # rest) = do {
       resp \<leftarrow> respond m; (sent, end) \<leftarrow> run rest; State_Monad.return (resp # sent, end) }"
  shows "run_state (run (delivered src n @ rest)) w =
     (case fold (\<lambda>ev. stream_step ev respond) (map src [0..<n]) ([], w) of (acks, w1) \<Rightarrow>
      case run_state (run rest) w1 of ((sent, end), w2) \<Rightarrow> ((acks @ sent, end), w2))"
  using assms(1)
proof (induction n arbitrary: rest)
  case 0
  show ?case by (simp add: delivered_def split: prod.split)
next
  case (Suc n)
  obtain m where m: "src n = Message m None"
    using Suc.prems [of n] by (cases "src n") (auto simp: recv_stops_def split: option.splits)
  obtain acks w1 where fold: "fold (\<lambda>ev. stream_step ev respond) (map src [0..<n]) ([], w) = (acks, w1)"
    by (cases "fold (\<lambda>ev. stream_step ev respond) (map src [0..<n]) ([], w)")
  obtain resp w2 where resp: "run_state (respond m) w1 = (resp, w2)" by (cases "run_state (respond m) w1")
  have "run_state (run (delivered src (Suc n) @ rest)) w =
      (case run_state (run ((m, None) # rest)) w1 of ((sent, end), w2) \<Rightarrow> ((acks @ sent, end), w2))"
    using Suc.IH [of "(m, None) # rest"] Suc.prems by (simp add: delivered_Suc m fold)
  moreover have "fold (\<lambda>ev. stream_step ev respond) (map src [0..<Suc n]) ([], w) = (acks @ [resp], w2)"
    by (simp add: fold m stream_step_Message resp)
  ultimately show ?case
    by (simp add: run resp del: upt_Suc split: prod.split)
qed

lemma StreamLocation_None: "StreamLocation ((m, None) # rest) e = do {
    resp \<leftarrow> ack_location m; (sent, end) \<leftarrow> StreamLocation rest e; State_Monad.return (resp # sent, end) }"
  by simp

lemmas StreamLocation_fold = stream_fold [where run = "\<lambda>msgs. StreamLocation msgs e" and respond = ack_location for e,
    OF _ StreamLocation_None]

lemma StreamLocation_value:
  assumes "\<And>m. m < n \<Longrightarrow> \<not> recv_stops (\<lambda>_. True) (src m)" "recv_stops (\<lambda>_. True) (src n)"
  shows "StreamLocation_loop src 0 ([], w) =
     Some (run_state (StreamLocation (delivered src (Suc n)) (recv_error (src n))) w)"
proof -
  have "StreamLocation_loop src 0 ([], w) =
      Some (StreamLocation_finish (src n) (fold (\<lambda>ev. stream_step ev ack_location) (map src [0..<n]) ([], w)))"
    by (rule location_stream.runs_to) (use assms in auto)
  also have "StreamLocation_finish (src n) (fold (\<lambda>ev. stream_step ev ack_location) (map src [0..<n]) ([], w)) =
      run_state (StreamLocation (delivered src (Suc n)) (recv_error (src n))) w"
  proof -
    obtain acks w1 where "fold (\<lambda>ev. stream_step ev ack_location) (map src [0..<n]) ([], w) = (acks, w1)"
      by (cases "fold (\<lambda>ev. stream_step ev ack_location) (map src [0..<n]) ([], w)")
    note fold = this
    show ?thesis
      using assms(2) StreamLocation_fold [where n = n and src = src and e = "recv_error (src n)" and w = w
        and rest = "case src n of Message m failure \<Rightarrow> [(m, failure)] | _ \<Rightarrow> []", OF assms(1)] fold
      unfolding delivered_Suc
      by (cases "src n") (auto simp: StreamLocation_finish_def recv_stops_def recv_error_def split: option.splits prod.split)
  qed
  finally show ?thesis .
qed

section \<open>The stream of the gateway\<close>

definition relay_one :: "string \<Rightarrow> StreamMyLocationRequest \<Rightarrow> ('k, StreamMyLocationResponse) prog" where
  "relay_one driverID req = do {
     presResp \<leftarrow> ack_location \<lparr>sl_DriverId = driverID, sl_SessionId = sm_SessionId req,
       sl_ReservationId = sm_ReservationId req, sl_Coordinate = sm_Coordinate req, sl_RecordedAt = sm_RecordedAt req\<rparr>;
     State_Monad.return \<lparr>sa_EventType = ''ack'', sa_InGeofence = slr_InGeofence presResp, sa_DistanceToSpot = 0\<rparr>
   }"

partial_function (option) StreamMyLocation_loop ::
  "string \<Rightarrow> (nat \<Rightarrow> (StreamMyLocationRequest, stream_failure, code \<times> string) recv) \<Rightarrow> nat \<Rightarrow>
   StreamMyLocationResponse list \<times> 'k world \<Rightarrow> ((StreamMyLocationResponse list \<times> unit reply) \<times> 'k world) option" where
  "StreamMyLocation_loop driverID source i s = (case source i of
       RecvEOF \<Rightarrow> Some ((fst s, Reply ()), snd s)
     | RecvError e \<Rightarrow> Some ((fst s, Status (fst e) (snd e)), snd s)
     | Message req failure \<Rightarrow> (case before_store failure of
         Some e \<Rightarrow> Some ((fst s, Status (fst e) (snd e)), snd s)
       | None \<Rightarrow>
           let (ack, w) = run_state (relay_one driverID req) (snd s) in
           (case after_store failure of
              Some e \<Rightarrow> Some ((fst s, Status (fst e) (snd e)), w)
            | None \<Rightarrow> StreamMyLocation_loop driverID source (Suc i) (fst s @ [ack], w))))"

definition StreamMyLocation_finish ::
  "string \<Rightarrow> (StreamMyLocationRequest, stream_failure, code \<times> string) recv \<Rightarrow> StreamMyLocationResponse list \<times> 'k world \<Rightarrow>
   (StreamMyLocationResponse list \<times> unit reply) \<times> 'k world" where
  "StreamMyLocation_finish driverID ev s = (case ev of
       RecvEOF \<Rightarrow> ((fst s, Reply ()), snd s)
     | RecvError e \<Rightarrow> ((fst s, Status (fst e) (snd e)), snd s)
     | Message req failure \<Rightarrow> (case before_store failure of
         Some e \<Rightarrow> ((fst s, Status (fst e) (snd e)), snd s)
       | None \<Rightarrow> ((fst s, case after_store failure of None \<Rightarrow> Reply () | Some e \<Rightarrow> Status (fst e) (snd e)),
           snd (run_state (relay_one driverID req) (snd s)))))"

lemma store_failures [simp]: "before_store None = None" "after_store None = None"
  "before_store (Some f) = None \<Longrightarrow> \<exists>e. after_store (Some f) = Some e"
  by (auto simp: before_store_def after_store_def split: stream_failure.splits)

interpretation relay: event_loop "StreamMyLocation_loop driverID" "recv_stops (\<lambda>_. True)"
  "\<lambda>ev. stream_step ev (relay_one driverID)" "StreamMyLocation_finish driverID" for driverID
proof
  show "StreamMyLocation_loop driverID src i s = (if recv_stops (\<lambda>_. True) (src i) then Some (StreamMyLocation_finish driverID (src i) s)
      else StreamMyLocation_loop driverID src (Suc i) (stream_step (src i) (relay_one driverID) s))" for src i and s :: "_ \<times> 'a world"
    by (subst StreamMyLocation_loop.simps)
      (auto simp: recv_stops_def StreamMyLocation_finish_def stream_step_def dest: store_failures(3)
        split: recv.split option.split prod.split)
  show "\<exists>n\<ge>i. recv_stops (\<lambda>_. True) (src n)" if "StreamMyLocation_loop driverID src i s = Some r" for src i r and s :: "_ \<times> 'a world"
    by (rule StreamMyLocation_loop.raw_induct [where P = "\<lambda>d src i s r. \<exists>n\<ge>i. recv_stops (\<lambda>_. True) (src n)", OF _ that])
      (clarsimp split: recv.splits option.splits prod.splits; metis recv_stops_simps Suc_leD order_refl store_failures option.exhaust)
qed

lemma relay_locations_None: "relay_locations driverID ((m, None) # rest) e = do {
    resp \<leftarrow> relay_one driverID m; (sent, end) \<leftarrow> relay_locations driverID rest e; State_Monad.return (resp # sent, end) }"
  by (simp add: relay_one_def State_Monad.bind_assoc)

lemmas relay_locations_fold = stream_fold [where run = "\<lambda>msgs. relay_locations driverID msgs e" and respond = "relay_one driverID"
    for driverID e, OF _ relay_locations_None]

lemma StreamMyLocation_value:
  assumes "\<And>m. m < n \<Longrightarrow> \<not> recv_stops (\<lambda>_. True) (src m)" "recv_stops (\<lambda>_. True) (src n)"
  shows "StreamMyLocation_loop driverID src 0 ([], w) =
     Some (run_state (relay_locations driverID (delivered src (Suc n)) (recv_error (src n))) w)"
proof -
  have "StreamMyLocation_loop driverID src 0 ([], w) =
      Some (StreamMyLocation_finish driverID (src n) (fold (\<lambda>ev. stream_step ev (relay_one driverID)) (map src [0..<n]) ([], w)))"
    by (rule relay.runs_to) (use assms in auto)
  also have "StreamMyLocation_finish driverID (src n) (fold (\<lambda>ev. stream_step ev (relay_one driverID)) (map src [0..<n]) ([], w)) =
      run_state (relay_locations driverID (delivered src (Suc n)) (recv_error (src n))) w"
  proof -
    obtain acks w1 where fold: "fold (\<lambda>ev. stream_step ev (relay_one driverID)) (map src [0..<n]) ([], w) = (acks, w1)"
      by (cases "fold (\<lambda>ev. stream_step ev (relay_one driverID)) (map src [0..<n]) ([], w)")
    show ?thesis
      using assms(2) relay_locations_fold [where n = n and src = src and driverID = driverID and e = "recv_error (src n)" and w = w
        and rest = "case src n of Message m failure \<Rightarrow> [(m, failure)] | _ \<Rightarrow> []", OF assms(1)] fold
      unfolding delivered_Suc
      by (cases "src n") (auto simp: StreamMyLocation_finish_def recv_stops_def recv_error_def relay_one_def
          before_store_def after_store_def split: option.splits prod.split stream_failure.splits)
  qed
  finally show ?thesis .
qed

end
