(* ===== verification/Startup.thy ===== *)
theory Startup
  imports Loops Configuration
begin

text \<open>
  The six mains, \<open>services/*/cmd/main.go\<close>: from the configuration to a service that listens, or to
  an exit. What the surroundings answer is the parameter \<open>platform\<close>: the configuration library, the
  connection pool, the broker, the gRPC connections and the listening sockets; \<open>Some\<close> is the text of
  an error. A main that gets as far as its sockets is the service it has built. Tracing, whose
  failure is a warning, and what follows, up to the end of the process, are in theory \<open>Lifecycle\<close>.
\<close>

section \<open>The surroundings\<close>

record broker =
  am_Dial :: "string \<Rightarrow> string option"
  am_Channel :: "string option"
  am_ExchangeDeclare :: "string \<Rightarrow> string option"
  am_QueueDeclare :: "string \<Rightarrow> string option"
  am_QueueBind :: "string \<Rightarrow> string \<Rightarrow> string option"
  am_Consume :: "string \<Rightarrow> string option"

record platform =
  pl_viper :: viper
  pl_pgxpool :: "string \<Rightarrow> string option"
  pl_broker :: broker
  pl_dial :: "string \<Rightarrow> string option"
  pl_listen :: "string \<Rightarrow> string option"

text \<open>An exit has the message that is printed or logged, and the error.\<close>

datatype 's startup = Exits string goerr | Serves string 's

definition or_exit :: "string \<Rightarrow> goerr option \<Rightarrow> 's startup \<Rightarrow> 's startup" where
  "or_exit msg res rest = (case res of Some err \<Rightarrow> Exits msg err | None \<Rightarrow> rest)"

definition or_err :: "string option \<Rightarrow> (string \<Rightarrow> goerr) \<Rightarrow> goerr option \<Rightarrow> goerr option" where
  "or_err res wrap rest = (case res of Some m \<Rightarrow> Some (wrap m) | None \<Rightarrow> rest)"

section \<open>Connecting to the broker\<close>

definition ExchangeParkirPintar :: string where
  "ExchangeParkirPintar = ''parkirpintar''"

definition mq_NewPublisher :: "broker \<Rightarrow> string \<Rightarrow> goerr option" where
  "mq_NewPublisher b url =
     or_err (am_Dial b url) (\<lambda>m. ErrWrap ''dial amqp: '' (ErrNew m))
    (or_err (am_Channel b) (\<lambda>m. ErrWrap ''open channel: '' (ErrNew m))
    (or_err (am_ExchangeDeclare b ExchangeParkirPintar) (\<lambda>m. ErrWrap ''declare exchange: '' (ErrNew m)) None))"

definition mq_NewConsumer :: "broker \<Rightarrow> string \<Rightarrow> goerr option" where
  "mq_NewConsumer b url =
     or_err (am_Dial b url) (\<lambda>m. ErrWrap ''dial amqp: '' (ErrNew m))
    (or_err (am_Channel b) (\<lambda>m. ErrWrap ''open channel: '' (ErrNew m))
    (or_err (am_ExchangeDeclare b ExchangeParkirPintar) (\<lambda>m. ErrWrap ''declare exchange: '' (ErrNew m)) None))"

fun bind_keys :: "broker \<Rightarrow> string \<Rightarrow> string list \<Rightarrow> goerr option" where
  "bind_keys b queue [] = None"
| "bind_keys b queue (key # keys) =
     or_err (am_QueueBind b queue key) (\<lambda>m. ErrWrap (''bind queue '' @ queue @ '' to '' @ key @ '': '') (ErrNew m))
       (bind_keys b queue keys)"

text \<open>A queue is declared under the name it is asked for. \<open>None\<close> is the consumer that now runs.\<close>

definition mq_Subscribe :: "broker \<Rightarrow> string \<times> string list \<Rightarrow> goerr option" where
  "mq_Subscribe b binding = (case binding of (queueName, routingKeys) \<Rightarrow>
     or_err (am_QueueDeclare b queueName) (\<lambda>m. ErrWrap (''declare queue '' @ queueName @ '': '') (ErrNew m))
       (case bind_keys b queueName routingKeys of
          Some err \<Rightarrow> Some err
        | None \<Rightarrow> or_err (am_Consume b queueName) (\<lambda>m. ErrWrap (''consume '' @ queueName @ '': '') (ErrNew m)) None))"

text \<open>A subscriber that cannot connect or register is only warned about.\<close>

definition subscribed :: "broker \<Rightarrow> string \<Rightarrow> string \<times> string list \<Rightarrow> bool" where
  "subscribed b url binding = (case mq_NewConsumer b url of Some _ \<Rightarrow> False | None \<Rightarrow> mq_Subscribe b binding = None)"

section \<open>What the mains share\<close>

definition database_config :: "Config \<Rightarrow> PoolConfig" where
  "database_config cfg = (let d = cf_Database cfg in
     \<lparr>pc_Host = dc_Host d, pc_Port = dc_Port d, pc_Name = dc_Name d, pc_User = dc_User d, pc_Password = dc_Password d,
      pc_SSLMode = dc_SSLMode d, pc_MaxOpenConns = dc_MaxOpenConns d, pc_MaxIdleConns = dc_MaxIdleConns d\<rparr>)"

definition with_config :: "platform \<Rightarrow> (Config \<Rightarrow> 's startup) \<Rightarrow> 's startup" where
  "with_config pl rest = (case Load (pl_viper pl) of Inl err \<Rightarrow> Exits ''failed to load config'' err | Inr cfg \<Rightarrow> rest cfg)"

definition with_database :: "platform \<Rightarrow> Config \<Rightarrow> 's startup \<Rightarrow> 's startup" where
  "with_database pl cfg rest = or_exit ''failed to connect to database'' (pool_New (pl_pgxpool pl) (database_config cfg)) rest"

definition listening :: "platform \<Rightarrow> string \<Rightarrow> string \<Rightarrow> 's \<Rightarrow> 's startup" where
  "listening pl msg addr service = or_exit msg (map_option ErrNew (pl_listen pl addr)) (Serves addr service)"

definition port_addr :: "int \<Rightarrow> string" where
  "port_addr port = '':'' @ show_int port"

text \<open>\<open>New\<close> of \<open>pkg/redis\<close>: the options of the client; it does not connect.\<close>

definition redis_New :: "RedisClientConfig \<Rightarrow> goerr + string \<times> string \<times> int \<times> int" where
  "redis_New cfg = (case redis_validate cfg of
       Some err \<Rightarrow> Inl err
     | None \<Rightarrow> Inr (redis_addr cfg, rc_Password cfg, rc_DB cfg, rc_MaxRetries cfg))"

section \<open>The services\<close>

record reservation_service =
  rsv_Publisher :: EventPublisher
  rsv_Redis :: "string \<times> string \<times> int \<times> bool"

definition reservation_main :: "platform \<Rightarrow> reservation_service startup" where
  "reservation_main pl = with_config pl (\<lambda>cfg. with_database pl cfg
     (or_exit ''failed to connect to redis''
        (case redis_New \<lparr>rc_Host = rd_Addr (cf_Redis cfg), rc_Port = 6379, rc_Password = '''', rc_DB = 0, rc_MaxRetries = 0\<rparr> of
           Inl err \<Rightarrow> Some err | Inr _ \<Rightarrow> None)
     (let pub = (case mq_NewPublisher (pl_broker pl) (cf_RabbitMQ cfg) of None \<Rightarrow> MQPublisher | Some _ \<Rightarrow> stubPublisher) in
      listening pl ''failed to listen'' (port_addr (sv_ReservationGRPCPort (cf_Services cfg)))
        \<lparr>rsv_Publisher = pub, rsv_Redis = RedisOptions (cf_Redis cfg)\<rparr>)))"

record billing_service =
  bls_Subscribed :: bool
  bls_Redis :: "string \<times> string \<times> int \<times> bool"

definition billing_main :: "platform \<Rightarrow> billing_service startup" where
  "billing_main pl = with_config pl (\<lambda>cfg. with_database pl cfg
     (let sub = subscribed (pl_broker pl) (cf_RabbitMQ cfg) billing_bindings in
      listening pl ''failed to listen'' (port_addr (sv_BillingGRPCPort (cf_Services cfg)))
        \<lparr>bls_Subscribed = sub, bls_Redis = RedisOptions (cf_Redis cfg)\<rparr>))"

record payment_service =
  pys_Gateway :: PaymentGateway
  pys_ServerKey :: string
  pys_Redis :: "string \<times> string \<times> int \<times> bool"

text \<open>The client of Midtrans for a key and an environment is the library's.\<close>

definition payment_main :: "(string \<Rightarrow> bool \<Rightarrow> charge) \<Rightarrow> platform \<Rightarrow> payment_service startup" where
  "payment_main midtrans pl = with_config pl (\<lambda>cfg. with_database pl cfg
     (let key = mt_ServerKey (cf_Midtrans cfg);
          gw = (if ft_PaymentProvider (cf_Feature cfg) = ''mock'' then MockGateway
                else MidtransGateway (midtrans key (mt_Env (cf_Midtrans cfg) = ''production''))) in
      listening pl ''failed to listen'' (port_addr (sv_PaymentGRPCPort (cf_Services cfg)))
        \<lparr>pys_Gateway = gw, pys_ServerKey = key, pys_Redis = RedisOptions (cf_Redis cfg)\<rparr>))"

record notification_service =
  nts_History :: bool
  nts_Subscribed :: bool

text \<open>This service goes on without a database; its log of notifications is then off.\<close>

definition notification_main :: "platform \<Rightarrow> notification_service startup" where
  "notification_main pl = with_config pl (\<lambda>cfg.
     let history = pool_New (pl_pgxpool pl) (database_config cfg) = None;
         sub = subscribed (pl_broker pl) (cf_RabbitMQ cfg) notification_bindings in
     listening pl ''failed to listen'' (port_addr (sv_NotificationGRPCPort (cf_Services cfg)))
       \<lparr>nts_History = history, nts_Subscribed = sub\<rparr>)"

definition presence_main :: "platform \<Rightarrow> unit startup" where
  "presence_main pl = with_config pl (\<lambda>cfg. with_database pl cfg
     (listening pl ''failed to listen'' (port_addr (sv_PresenceGRPCPort (cf_Services cfg))) ()))"

record gateway_service =
  gws_Breakers :: "BreakerConfig list"
  gws_Secret :: string
  gws_ExpiryHours :: int
  gws_ServerKey :: string
  gws_Redis :: "string \<times> string \<times> int \<times> bool"
  gws_Limiter :: rateLimiter
  gws_HTTPAddr :: string

definition service_addr :: "string \<Rightarrow> int \<Rightarrow> string" where
  "service_addr host port = host @ '':'' @ show_int port"

definition gateway_targets :: "ServicesConfig \<Rightarrow> string list" where
  "gateway_targets s = [service_addr (sv_ReservationHost s) (sv_ReservationGRPCPort s),
     service_addr (sv_BillingHost s) (sv_BillingGRPCPort s), service_addr (sv_PaymentHost s) (sv_PaymentGRPCPort s),
     service_addr (sv_PresenceHost s) (sv_PresenceGRPCPort s)]"

fun dial_all :: "platform \<Rightarrow> string list \<Rightarrow> (BreakerConfig list \<Rightarrow> 's startup) \<Rightarrow> 's startup" where
  "dial_all pl [] rest = rest []"
| "dial_all pl (addr # addrs) rest =
     or_exit ''failed to connect'' (map_option ErrNew (pl_dial pl addr))
       (dial_all pl addrs (\<lambda>bs. rest (DefaultConfig addr # bs)))"

definition gateway_main :: "platform \<Rightarrow> gateway_service startup" where
  "gateway_main pl = with_config pl (\<lambda>cfg. with_database pl cfg
     (dial_all pl (gateway_targets (cf_Services cfg)) (\<lambda>breakers.
      listening pl ''failed to listen gRPC'' ''0.0.0.0:50050''
        \<lparr>gws_Breakers = breakers, gws_Secret = jw_Secret (cf_JWT cfg), gws_ExpiryHours = jw_ExpiryHours (cf_JWT cfg),
         gws_ServerKey = mt_ServerKey (cf_Midtrans cfg), gws_Redis = RedisOptions (cf_Redis cfg),
         gws_Limiter = NewRateLimiter 100 (1 * Minute), gws_HTTPAddr = '':8080''\<rparr>)))"

text \<open>The services of one deployment as the configuration the model's gateway works with.\<close>

definition deployed :: "gateway_service \<Rightarrow> reservation_service \<Rightarrow> payment_service \<Rightarrow> gateway_config" where
  "deployed g r p = \<lparr>gc_Publisher = rsv_Publisher r, gc_Gateway = pys_Gateway p, gc_Secret = gws_Secret g,
     gc_ExpiryHours = gws_ExpiryHours g, gc_ServerKey = gws_ServerKey g\<rparr>"

section \<open>The server of the end-to-end tests\<close>

text \<open>
  \<open>StartTestHTTPServer\<close> of \<open>services/gateway/gateway.go\<close>: fewer routes, and neither the limiter nor
  the CORS headers. The event publisher of \<open>services/reservation/reservation.go\<close> does nothing.
\<close>

definition test_httpMux ::
  "gateway_config \<Rightarrow> ('k, 'b) http_handler \<Rightarrow> ('k, 'b server_body) http_handler" where
  "test_httpMux c mux r = (let path = hq_Path r in
     if path = ''/v1/auth/register'' then encode AuthBody (Register (gc_Secret c) (gc_ExpiryHours c)) r
     else if path = ''/v1/auth/login'' then encode AuthBody (Login (gc_Secret c) (gc_ExpiryHours c)) r
     else if path = ''/v1/reservations/confirm-payment'' then encode ConfirmationBody ConfirmBookingPayment r
     else if path = ''/v1/parking/spots'' then encode SpotsBody ListAvailableSpots_http r
     else if path = ''/v1/payments/simulate-settle'' then encode SettlementBody (SimulateSettle (gc_ServerKey c)) r
     else if path = ''/healthz'' then State_Monad.return (TextBody StatusOK ''ok'')
     else if has_prefix path ''/v1/'' then encode RpcBody mux r
     else State_Monad.return (TextBody StatusNotFound not_found_page))"

definition test_http_server :: "gateway_config \<Rightarrow> runtime \<Rightarrow> ('k, rpc_body server_body) http_handler" where
  "test_http_server c rt r = HTTPMiddleware (gc_Secret c) (test_httpMux c (rpc_mux rt c)) r"

text \<open>On the routes it has, the test server answers as the gateway does.\<close>

lemma test_httpMux_agrees:
  assumes "hq_Path r \<notin> {''/v1/reservations/history'', ''/v1/reservations/pending-payment'', ''/swagger.json''}"
    and "\<not> has_prefix (hq_Path r) ''/swagger/''"
  shows "test_httpMux c mux r = httpMux c swaggerJSON mux r"
  using assms unfolding test_httpMux_def httpMux_def Let_def insert_iff by presburger

section \<open>When a service starts\<close>

lemma or_exit_serves: "or_exit msg res rest = Serves a s \<longleftrightarrow> res = None \<and> rest = Serves a s"
  by (auto simp: or_exit_def split: option.split)

lemma with_config_serves:
  "with_config pl f = Serves a s \<longleftrightarrow> (\<exists>cfg. Load (pl_viper pl) = Inr cfg \<and> f cfg = Serves a s)"
  by (auto simp: with_config_def split: sum.split)

lemma listening_serves: "listening pl msg addr service = Serves a s \<longleftrightarrow> pl_listen pl addr = None \<and> a = addr \<and> s = service"
  by (auto simp: listening_def or_exit_serves)

lemma dial_all_serves:
  "dial_all pl addrs rest = Serves a s \<longleftrightarrow> (\<forall>t \<in> set addrs. pl_dial pl t = None) \<and> rest (map DefaultConfig addrs) = Serves a s"
  by (induction addrs arbitrary: rest) (auto simp: or_exit_serves)

lemmas serves = or_exit_serves with_config_serves listening_serves dial_all_serves with_database_def Let_def

lemma gateway_main_serves:
  "gateway_main pl = Serves a g \<longleftrightarrow> (\<exists>cfg. Load (pl_viper pl) = Inr cfg
     \<and> pool_New (pl_pgxpool pl) (database_config cfg) = None
     \<and> (\<forall>t \<in> set (gateway_targets (cf_Services cfg)). pl_dial pl t = None) \<and> pl_listen pl ''0.0.0.0:50050'' = None
     \<and> a = ''0.0.0.0:50050''
     \<and> g = \<lparr>gws_Breakers = map DefaultConfig (gateway_targets (cf_Services cfg)), gws_Secret = jw_Secret (cf_JWT cfg),
         gws_ExpiryHours = jw_ExpiryHours (cf_JWT cfg), gws_ServerKey = mt_ServerKey (cf_Midtrans cfg),
         gws_Redis = RedisOptions (cf_Redis cfg), gws_Limiter = NewRateLimiter 100 (1 * Minute), gws_HTTPAddr = '':8080''\<rparr>)"
  unfolding gateway_main_def serves by blast

lemma payment_main_serves:
  "payment_main midtrans pl = Serves a p \<longleftrightarrow> (\<exists>cfg. Load (pl_viper pl) = Inr cfg
     \<and> pool_New (pl_pgxpool pl) (database_config cfg) = None \<and> pl_listen pl (port_addr (sv_PaymentGRPCPort (cf_Services cfg))) = None
     \<and> a = port_addr (sv_PaymentGRPCPort (cf_Services cfg))
     \<and> p = \<lparr>pys_Gateway = (if ft_PaymentProvider (cf_Feature cfg) = ''mock'' then MockGateway
              else MidtransGateway (midtrans (mt_ServerKey (cf_Midtrans cfg)) (mt_Env (cf_Midtrans cfg) = ''production''))),
          pys_ServerKey = mt_ServerKey (cf_Midtrans cfg), pys_Redis = RedisOptions (cf_Redis cfg)\<rparr>)"
  unfolding payment_main_def serves by blast

lemma nothing_missing:
  assumes "Load v = Inr cfg"
  shows "jw_Secret (cf_JWT cfg) \<noteq> ''''" "dc_Password (cf_Database cfg) \<noteq> ''''"
    "ft_PaymentProvider (cf_Feature cfg) = ''midtrans'' \<Longrightarrow> mt_ServerKey (cf_Midtrans cfg) \<noteq> ''''"
proof -
  have "missing_keys cfg = []" using assms by (simp add: Load_spec)
  then have "\<forall>(key, needed, v) \<in> set (required_keys cfg). needed \<longrightarrow> v \<noteq> ''''"
    unfolding missing_keys_def by (auto simp: filter_empty_conv)
  then show "jw_Secret (cf_JWT cfg) \<noteq> ''''" "dc_Password (cf_Database cfg) \<noteq> ''''"
    "ft_PaymentProvider (cf_Feature cfg) = ''midtrans'' \<Longrightarrow> mt_ServerKey (cf_Midtrans cfg) \<noteq> ''''"
    unfolding required_keys_def Let_def by simp_all
qed

end
