(* ===== verification/Lifecycle.thy ===== *)
theory Lifecycle
  imports Startup "HOL-Library.Multiset"
begin

text \<open>
  The six mains from their first line to their last: what each opens, logs and starts, and what it
  closes, in order. \<open>Startup\<close> says which service results; here the deferred calls of Go are a stack
  that runs when \<open>main\<close> returns and does not run when the process exits, which is what \<open>log.Fatal\<close>
  and \<open>os.Exit\<close> do. Beside the platform the surroundings give what stops the service, whether the
  requests a server waits for come to an end, and the answers of the tracing library.
\<close>

section \<open>Resources and actions\<close>

datatype resource = TraceExporter | TracerProvider | DatabasePool | RedisClient string | AmqpConnection | AmqpChannel
  | ClientConn string | Listener string | HttpServer string

text \<open>\<open>Closes\<close> is a call in the body of \<open>main\<close>, \<open>Deferred\<close> one that \<open>main\<close> deferred and that runs now.\<close>

datatype action = Opens resource | Closes resource | Deferred resource | Logs log_level string | Prints string | Starts string

datatype ending = Returned | Exited string goerr | Running

datatype stop = Interrupted | ServerError nat string

record telemetry =
  tm_Exporter :: "string option"
  tm_Resource :: "string \<Rightarrow> string option"

record surroundings =
  en_Platform :: platform
  en_Telemetry :: telemetry
  en_Stop :: stop
  en_Drains :: "resource \<Rightarrow> bool"

text \<open>What is left of a main, given what was done and what is deferred.\<close>

type_synonym life = "action list \<Rightarrow> resource list \<Rightarrow> action list \<times> ending"

definition acts :: "action \<Rightarrow> life \<Rightarrow> life" where
  "acts a rest tr ds = rest (tr @ [a]) ds"

definition deferring :: "resource list \<Rightarrow> life \<Rightarrow> life" where
  "deferring rs rest tr ds = rest tr (rs @ ds)"

definition main_returns :: life where
  "main_returns tr ds = (tr @ map Deferred ds, Returned)"

definition running :: life where
  "running tr ds = (tr, Running)"

definition fatal :: "string \<Rightarrow> goerr \<Rightarrow> life" where
  "fatal msg err tr ds = (tr @ [Logs FatalLevel msg], Exited msg err)"

definition or_fatal :: "string \<Rightarrow> goerr option \<Rightarrow> life \<Rightarrow> life" where
  "or_fatal msg res rest = (case res of Some err \<Rightarrow> fatal msg err | None \<Rightarrow> rest)"

section \<open>Tracing\<close>

record tracer_provider =
  tv_Service :: string
  tv_Sampler :: string
  tv_Propagators :: "string list"

text \<open>
  Beside its result, what \<open>Init\<close> has made: the exporter, which nothing shuts down when the resource
  cannot be described. The shutdown function of the provider shuts down its exporter too.
\<close>

definition tracer_Init :: "telemetry \<Rightarrow> string \<Rightarrow> resource list \<times> (goerr + tracer_provider)" where
  "tracer_Init tm serviceName = (case tm_Exporter tm of
       Some m \<Rightarrow> ([], Inl (ErrNew m))
     | None \<Rightarrow> (case tm_Resource tm serviceName of
         Some m \<Rightarrow> ([TraceExporter], Inl (ErrNew m))
       | None \<Rightarrow> ([TraceExporter, TracerProvider], Inr \<lparr>tv_Service = serviceName, tv_Sampler = ''AlwaysOn'',
           tv_Propagators = [''tracecontext'', ''baggage'']\<rparr>)))"

text \<open>A service goes on without tracing.\<close>

definition with_tracer :: "surroundings \<Rightarrow> string \<Rightarrow> string \<Rightarrow> life \<Rightarrow> life" where
  "with_tracer en service warning rest = (case tracer_Init (en_Telemetry en) service of (made, res) \<Rightarrow>
     foldr (\<lambda>r. acts (Opens r)) made (case res of
       Inl err \<Rightarrow> acts (Logs WarnLevel warning) rest
     | Inr tp \<Rightarrow> deferring (rev made) rest))"

section \<open>Opening and closing\<close>

definition life_config :: "surroundings \<Rightarrow> (Config \<Rightarrow> life) \<Rightarrow> life" where
  "life_config en rest = (case Load (pl_viper (en_Platform en)) of
       Inl err \<Rightarrow> (\<lambda>tr ds. (tr @ [Prints ''failed to load config''], Exited ''failed to load config'' err))
     | Inr cfg \<Rightarrow> rest cfg)"

definition db_error :: "surroundings \<Rightarrow> Config \<Rightarrow> goerr option" where
  "db_error en cfg = pool_New (pl_pgxpool (en_Platform en)) (database_config cfg)"

definition holding :: "resource \<Rightarrow> life \<Rightarrow> life" where
  "holding r rest = acts (Opens r) (deferring [r] rest)"

definition life_database :: "surroundings \<Rightarrow> Config \<Rightarrow> life \<Rightarrow> life" where
  "life_database en cfg rest = or_fatal ''failed to connect to database'' (db_error en cfg) (holding DatabasePool rest)"

text \<open>
  \<open>NewPublisher\<close> and \<open>NewConsumer\<close> give back what they have opened when a later step fails;
  the closing of either ends the channel, then the connection.
\<close>

definition life_NewPublisher :: "broker \<Rightarrow> string \<Rightarrow> (goerr \<Rightarrow> life) \<Rightarrow> life \<Rightarrow> life" where
  "life_NewPublisher b url failed rest = (case am_Dial b url of
       Some m \<Rightarrow> failed (ErrWrap ''dial amqp: '' (ErrNew m))
     | None \<Rightarrow> acts (Opens AmqpConnection) (case am_Channel b of
         Some m \<Rightarrow> acts (Closes AmqpConnection) (failed (ErrWrap ''open channel: '' (ErrNew m)))
       | None \<Rightarrow> acts (Opens AmqpChannel) (case am_ExchangeDeclare b ExchangeParkirPintar of
           Some m \<Rightarrow> acts (Closes AmqpChannel) (acts (Closes AmqpConnection) (failed (ErrWrap ''declare exchange: '' (ErrNew m))))
         | None \<Rightarrow> rest)))"

definition life_NewConsumer :: "broker \<Rightarrow> string \<Rightarrow> (goerr \<Rightarrow> life) \<Rightarrow> life \<Rightarrow> life" where
  "life_NewConsumer b url failed rest = (case am_Dial b url of
       Some m \<Rightarrow> failed (ErrWrap ''dial amqp: '' (ErrNew m))
     | None \<Rightarrow> acts (Opens AmqpConnection) (case am_Channel b of
         Some m \<Rightarrow> acts (Closes AmqpConnection) (failed (ErrWrap ''open channel: '' (ErrNew m)))
       | None \<Rightarrow> acts (Opens AmqpChannel) (case am_ExchangeDeclare b ExchangeParkirPintar of
           Some m \<Rightarrow> acts (Closes AmqpChannel) (acts (Closes AmqpConnection) (failed (ErrWrap ''declare exchange: '' (ErrNew m))))
         | None \<Rightarrow> rest)))"

definition Publisher_Close :: "resource list" where
  "Publisher_Close = [AmqpChannel, AmqpConnection]"

definition Consumer_Close :: "resource list" where
  "Consumer_Close = [AmqpChannel, AmqpConnection]"

text \<open>The subscribers of the billing and the notification service.\<close>

definition life_subscriber :: "surroundings \<Rightarrow> Config \<Rightarrow> string \<Rightarrow> string \<times> string list \<Rightarrow> life \<Rightarrow> life" where
  "life_subscriber en cfg name bindings rest = (let b = pl_broker (en_Platform en) in
     life_NewConsumer b (cf_RabbitMQ cfg)
       (\<lambda>err. acts (Logs WarnLevel (''failed to connect to RabbitMQ, '' @ name @ '' subscriber disabled'')) rest)
       (deferring Consumer_Close (case mq_Subscribe b bindings of
          Some err \<Rightarrow> acts (Logs WarnLevel (''failed to register '' @ name @ '' subscriber'')) rest
        | None \<Rightarrow> acts (Logs InfoLevel (name @ '' MQ subscriber registered'')) rest)))"

text \<open>
  The servers stop one after the other, each when its requests have ended. A server that fails
  first ends the process.
\<close>

fun stop_servers :: "surroundings \<Rightarrow> resource list \<Rightarrow> life" where
  "stop_servers en [] = main_returns"
| "stop_servers en (s # ss) = (if en_Drains en s then acts (Closes s) (stop_servers en ss) else running)"

definition serving :: "surroundings \<Rightarrow> (resource \<times> string) list \<Rightarrow> life" where
  "serving en servers = (case en_Stop en of
       Interrupted \<Rightarrow> acts (Logs InfoLevel ''shutting down'') (stop_servers en (map fst servers))
     | ServerError i m \<Rightarrow> if i < length servers then fatal (snd (servers ! i)) (ErrNew m) else running)"

definition life_listen :: "surroundings \<Rightarrow> string \<Rightarrow> string \<Rightarrow> life \<Rightarrow> life" where
  "life_listen en msg addr rest =
     or_fatal msg (map_option ErrNew (pl_listen (en_Platform en) addr)) (acts (Opens (Listener addr)) rest)"

text \<open>The end that the five services behind the gateway share.\<close>

definition grpc_service :: "surroundings \<Rightarrow> string \<Rightarrow> int \<Rightarrow> life" where
  "grpc_service en name port = (let addr = port_addr port in
     life_listen en ''failed to listen'' addr (acts (Logs InfoLevel (name @ '' service starting'')) (acts (Starts ''grpc server'')
       (serving en [(Listener addr, ''grpc server error'')]))))"

section \<open>The mains\<close>

definition life_reservation :: "surroundings \<Rightarrow> life" where
  "life_reservation en = life_config en (\<lambda>cfg. with_tracer en ''reservation'' ''failed to init tracer'' (life_database en cfg
     (or_fatal ''failed to connect to redis''
        (case redis_New \<lparr>rc_Host = rd_Addr (cf_Redis cfg), rc_Port = 6379, rc_Password = '''', rc_DB = 0, rc_MaxRetries = 0\<rparr> of
           Inl err \<Rightarrow> Some err | Inr _ \<Rightarrow> None)
     (acts (Opens (RedisClient ''discarded'')) (holding (RedisClient ''rdb'')
     (let rest = acts (Starts ''expiry job'') (grpc_service en ''reservation'' (sv_ReservationGRPCPort (cf_Services cfg))) in
      life_NewPublisher (pl_broker (en_Platform en)) (cf_RabbitMQ cfg)
        (\<lambda>err. acts (Logs WarnLevel ''failed to connect to RabbitMQ, using stub publisher'')
           (acts (Logs InfoLevel ''using stub publisher'') rest))
        (deferring Publisher_Close (acts (Logs InfoLevel ''using MQ publisher'') rest))))))))"

definition life_billing :: "surroundings \<Rightarrow> life" where
  "life_billing en = life_config en (\<lambda>cfg. with_tracer en ''billing'' ''failed to init tracer'' (life_database en cfg
     (holding (RedisClient ''rdb'') (life_subscriber en cfg ''billing'' billing_bindings
       (grpc_service en ''billing'' (sv_BillingGRPCPort (cf_Services cfg)))))))"

definition life_payment :: "surroundings \<Rightarrow> life" where
  "life_payment en = life_config en (\<lambda>cfg. with_tracer en ''payment'' ''failed to init tracer'' (life_database en cfg
     (holding (RedisClient ''rdb'')
       (acts (Logs InfoLevel (if ft_PaymentProvider (cf_Feature cfg) = ''mock'' then ''using mock payment gateway''
            else ''using midtrans payment gateway''))
       (grpc_service en ''payment'' (sv_PaymentGRPCPort (cf_Services cfg)))))))"

definition life_notification :: "surroundings \<Rightarrow> life" where
  "life_notification en = life_config en (\<lambda>cfg. with_tracer en ''notification'' ''failed to init tracer''
     (let rest = life_subscriber en cfg ''notification'' notification_bindings
        (grpc_service en ''notification'' (sv_NotificationGRPCPort (cf_Services cfg))) in
      case db_error en cfg of
        Some err \<Rightarrow> acts (Logs WarnLevel ''failed to connect to database, notification history disabled'') rest
      | None \<Rightarrow> holding DatabasePool rest))"

definition life_presence :: "surroundings \<Rightarrow> life" where
  "life_presence en = life_config en (\<lambda>cfg. with_tracer en ''presence'' ''failed to init tracer'' (life_database en cfg
     (grpc_service en ''presence'' (sv_PresenceGRPCPort (cf_Services cfg)))))"

fun life_dial :: "surroundings \<Rightarrow> string list \<Rightarrow> life \<Rightarrow> life" where
  "life_dial en [] rest = rest"
| "life_dial en (addr # addrs) rest =
     or_fatal ''failed to connect'' (map_option ErrNew (pl_dial (en_Platform en) addr))
       (holding (ClientConn addr) (life_dial en addrs rest))"

definition life_gateway :: "surroundings \<Rightarrow> life" where
  "life_gateway en = life_config en (\<lambda>cfg. with_tracer en ''gateway'' ''failed to init tracer, continuing without tracing''
     (life_database en cfg (life_dial en (gateway_targets (cf_Services cfg)) (acts (Opens (RedisClient ''extraH''))
     (life_listen en ''failed to listen gRPC'' ''0.0.0.0:50050''
     (acts (Starts ''limiter cleanup'') (acts (Logs InfoLevel ''gateway starting'')
     (acts (Starts ''grpc server'') (acts (Starts ''http server'') (acts (Opens (HttpServer '':8080''))
     (serving en [(Listener ''0.0.0.0:50050'', ''gRPC server error''), (HttpServer '':8080'', ''HTTP server error'')])))))))))))"

datatype service = ReservationService | BillingService | PaymentService | NotificationService | PresenceService | GatewayService

definition service_life :: "service \<Rightarrow> surroundings \<Rightarrow> action list \<times> ending" where
  "service_life s en = (case s of ReservationService \<Rightarrow> life_reservation en | BillingService \<Rightarrow> life_billing en
     | PaymentService \<Rightarrow> life_payment en | NotificationService \<Rightarrow> life_notification en
     | PresenceService \<Rightarrow> life_presence en | GatewayService \<Rightarrow> life_gateway en) [] []"

text \<open>The start of the service, as \<open>Startup\<close> has it, without what is served.\<close>

definition service_start :: "(string \<Rightarrow> bool \<Rightarrow> charge) \<Rightarrow> service \<Rightarrow> platform \<Rightarrow> unit startup" where
  "service_start midtrans s pl = (case s of
       ReservationService \<Rightarrow> map_startup (\<lambda>_. ()) (reservation_main pl)
     | BillingService \<Rightarrow> map_startup (\<lambda>_. ()) (billing_main pl)
     | PaymentService \<Rightarrow> map_startup (\<lambda>_. ()) (payment_main midtrans pl)
     | NotificationService \<Rightarrow> map_startup (\<lambda>_. ()) (notification_main pl)
     | PresenceService \<Rightarrow> presence_main pl
     | GatewayService \<Rightarrow> map_startup (\<lambda>_. ()) (gateway_main pl))"

section \<open>What is opened is closed\<close>

text \<open>The resources that are open after some actions, the last one first.\<close>

fun step_open :: "action \<Rightarrow> resource list \<Rightarrow> resource list" where
  "step_open (Opens r) os = r # os"
| "step_open (Closes r) os = remove1 r os"
| "step_open (Deferred r) os = remove1 r os"
| "step_open _ os = os"

definition still_open :: "action list \<Rightarrow> resource list" where
  "still_open tr = fold step_open tr []"

lemma still_open_append [simp]: "still_open (tr @ as) = fold step_open as (still_open tr)"
  by (simp add: still_open_def)

lemma still_open_Nil [simp]: "still_open [] = []"
  by (simp add: still_open_def)

lemma step_open_closes [simp]: "fold step_open (map Closes rs) os = fold remove1 rs os"
  "fold step_open (map Deferred rs) os = fold remove1 rs os"
  by (induction rs arbitrary: os) simp_all

definition is_server :: "resource \<Rightarrow> bool" where
  "is_server r = (case r of Listener _ \<Rightarrow> True | HttpServer _ \<Rightarrow> True | _ \<Rightarrow> False)"

text \<open>
  What nothing in a service closes: a client of Redis in two of the mains, and the exporter of a
  tracer that could not be set up.
\<close>

definition service_name :: "service \<Rightarrow> string" where
  "service_name s = (case s of ReservationService \<Rightarrow> ''reservation'' | BillingService \<Rightarrow> ''billing'' | PaymentService \<Rightarrow> ''payment''
     | NotificationService \<Rightarrow> ''notification'' | PresenceService \<Rightarrow> ''presence'' | GatewayService \<Rightarrow> ''gateway'')"

definition forgotten :: "service \<Rightarrow> resource list" where
  "forgotten s = (case s of ReservationService \<Rightarrow> [RedisClient ''discarded''] | GatewayService \<Rightarrow> [RedisClient ''extraH''] | _ \<Rightarrow> [])"

definition exporter_left :: "service \<Rightarrow> surroundings \<Rightarrow> resource list" where
  "exporter_left s en = (if tm_Exporter (en_Telemetry en) = None \<and> tm_Resource (en_Telemetry en) (service_name s) \<noteq> None
     then [TraceExporter] else [])"

definition abandoned :: "service \<Rightarrow> surroundings \<Rightarrow> resource list" where
  "abandoned s en = forgotten s @ exporter_left s en"

definition left_open :: "resource set" where
  "left_open = {RedisClient ''discarded'', RedisClient ''extraH'', TraceExporter}"

lemma abandoned_subset: "set (abandoned s en) \<subseteq> left_open"
  by (auto simp: abandoned_def forgotten_def exporter_left_def left_open_def split: service.splits)

lemma abandoned_not_server: "r \<in> set (abandoned s en) \<Longrightarrow> \<not> is_server r"
  using abandoned_subset [of s en] by (auto simp: left_open_def is_server_def)

text \<open>The servers that are open, the first one first, and what else is to be closed, the last one first.\<close>

definition open_servers :: "action list \<Rightarrow> resource list" where
  "open_servers tr = rev (filter is_server (still_open tr))"

definition held :: "service \<Rightarrow> surroundings \<Rightarrow> action list \<Rightarrow> resource list" where
  "held s en tr = filter (\<lambda>r. \<not> is_server r \<and> r \<notin> set (abandoned s en)) (still_open tr)"

text \<open>
  Nothing that was deferred has run, and nothing was closed but a connection to the broker, and
  that only when the broker fails it: then \<open>NewPublisher\<close> or \<open>NewConsumer\<close> has given it back, and no
  closing of it was deferred.
\<close>

definition broker_fails :: "broker \<Rightarrow> bool" where
  "broker_fails b \<longleftrightarrow> am_Channel b \<noteq> None \<or> am_ExchangeDeclare b ExchangeParkirPintar \<noteq> None"

definition undisturbed :: "surroundings \<Rightarrow> action list \<Rightarrow> bool" where
  "undisturbed en tr \<longleftrightarrow> (\<forall>r. Deferred r \<notin> set tr)
     \<and> (\<forall>r. Closes r \<in> set tr \<longrightarrow> r \<in> {AmqpChannel, AmqpConnection} \<and> broker_fails (pl_broker (en_Platform en)))"

lemma undisturbed_Nil [simp]: "undisturbed en []"
  by (simp add: undisturbed_def)

lemma undisturbed_snoc [simp]: "undisturbed en (tr @ [a]) \<longleftrightarrow> undisturbed en tr \<and> (case a of
     Deferred r \<Rightarrow> False | Closes r \<Rightarrow> r \<in> {AmqpChannel, AmqpConnection} \<and> broker_fails (pl_broker (en_Platform en)) | _ \<Rightarrow> True)"
  by (auto simp: undisturbed_def split: action.split)

text \<open>A main that returns has stopped its servers in their order and closed the rest in reverse order.\<close>

definition shut_down :: "service \<Rightarrow> surroundings \<Rightarrow> action list \<Rightarrow> bool" where
  "shut_down s en tr \<longleftrightarrow> (\<exists>before. undisturbed en before
     \<and> tr = before @ Logs InfoLevel ''shutting down'' # map Closes (open_servers before) @ map Deferred (held s en before))"

definition ends_well :: "service \<Rightarrow> surroundings \<Rightarrow> action list \<times> ending \<Rightarrow> bool" where
  "ends_well s en res = (case res of (tr, Returned) \<Rightarrow> shut_down s en tr \<and> still_open tr = abandoned s en
     | (tr, Exited _ _) \<Rightarrow> undisturbed en tr | (tr, Running) \<Rightarrow> \<forall>r. Deferred r \<notin> set tr)"

text \<open>
  A rest of a main that is entered with \<open>fs\<close> abandoned and with \<open>rs\<close> open and not deferred yet ends well.
\<close>

definition tidy :: "service \<Rightarrow> surroundings \<Rightarrow> resource list \<Rightarrow> resource list \<Rightarrow> life \<Rightarrow> bool" where
  "tidy s en fs rs rest \<longleftrightarrow> (\<forall>tr ds. undisturbed en tr
     \<longrightarrow> filter (\<lambda>r. r \<notin> set (abandoned s en)) (still_open tr) = rs @ ds
     \<longrightarrow> filter (\<lambda>r. r \<in> set (abandoned s en)) (still_open tr) = fs
     \<longrightarrow> (\<forall>d \<in> set ds. \<not> is_server d) \<longrightarrow> ends_well s en (rest tr ds))"

lemma tidyI:
  assumes "\<And>tr ds. undisturbed en tr \<Longrightarrow> filter (\<lambda>r. r \<notin> set (abandoned s en)) (still_open tr) = rs @ ds
     \<Longrightarrow> filter (\<lambda>r. r \<in> set (abandoned s en)) (still_open tr) = fs \<Longrightarrow> \<forall>d \<in> set ds. \<not> is_server d
     \<Longrightarrow> ends_well s en (rest tr ds)"
  shows "tidy s en fs rs rest"
  using assms by (simp add: tidy_def)

lemma tidyD:
  assumes "tidy s en fs rs rest" "undisturbed en tr" "filter (\<lambda>r. r \<notin> set (abandoned s en)) (still_open tr) = rs @ ds"
    and "filter (\<lambda>r. r \<in> set (abandoned s en)) (still_open tr) = fs" "\<forall>d \<in> set ds. \<not> is_server d"
  shows "ends_well s en (rest tr ds)"
  using assms unfolding tidy_def by blast

lemma mset_removes: "mset (fold remove1 xs ys) = mset ys - mset xs"
  by (induction xs arbitrary: ys) simp_all

lemma filter_removes: "filter P (fold remove1 xs ys) = fold remove1 xs (filter P ys)"
  by (induction xs arbitrary: ys) (simp_all add: filter_remove1)

lemma removes_absent: "set xs \<inter> set ys = {} \<Longrightarrow> fold remove1 xs ys = ys"
  by (induction xs) (simp_all add: remove1_idem)

lemma closing_the_rest:
  assumes "filter (\<lambda>r. r \<notin> A) os = xs" "filter (\<lambda>r. r \<in> A) os = fs" "mset ys = mset xs"
  shows "fold remove1 ys os = fs"
proof -
  have ys: "set ys \<inter> A = {}" using assms(1) mset_eq_setD [OF assms(3)] by auto
  have "filter (\<lambda>r. r \<notin> A) (fold remove1 ys os) = []"
    using mset_removes [of ys xs] assms(1,3) by (simp add: filter_removes)
  then have "fold remove1 ys os = filter (\<lambda>r. r \<in> A) (fold remove1 ys os)"
    by (simp add: filter_empty_conv filter_id_conv)
  also have "\<dots> = fold remove1 ys fs" by (simp add: filter_removes assms(2))
  also have "\<dots> = fs" by (rule removes_absent) (use ys assms(2) in auto)
  finally show ?thesis .
qed

lemma tidy_logs: "tidy s en fs rs rest \<Longrightarrow> tidy s en fs rs (acts (Logs l m) rest)"
  "tidy s en fs rs rest \<Longrightarrow> tidy s en fs rs (acts (Starts m) rest)"
  by (simp_all add: tidy_def acts_def)

lemma tidy_opens: "tidy s en fs (r # rs) rest \<Longrightarrow> r \<notin> set (abandoned s en) \<Longrightarrow> tidy s en fs rs (acts (Opens r) rest)"
  "tidy s en (r # fs) rs rest \<Longrightarrow> r \<in> set (abandoned s en) \<Longrightarrow> tidy s en fs rs (acts (Opens r) rest)"
  by (simp_all add: tidy_def acts_def)

lemma tidy_closes:
  assumes "tidy s en fs rs rest" "r \<in> {AmqpChannel, AmqpConnection}" "broker_fails (pl_broker (en_Platform en))"
  shows "tidy s en fs (r # rs) (acts (Closes r) rest)"
proof -
  have "r \<notin> set (abandoned s en)" using abandoned_subset [of s en] assms(2) by (auto simp: left_open_def)
  then have "r \<notin> set (filter (\<lambda>r. r \<in> set (abandoned s en)) xs)" for xs by simp
  then show ?thesis
    unfolding acts_def
    by (intro tidyI tidyD [OF assms(1)]) (use assms(2,3) in \<open>auto simp: filter_remove1 intro!: remove1_idem\<close>)
qed

lemma tidy_deferring: "tidy s en fs [] rest \<Longrightarrow> \<forall>r \<in> set rs. \<not> is_server r \<Longrightarrow> tidy s en fs rs (deferring rs rest)"
  unfolding deferring_def by (rule tidyI, erule tidyD) auto

lemma tidy_holding:
  "tidy s en fs [] rest \<Longrightarrow> r \<notin> set (abandoned s en) \<Longrightarrow> \<not> is_server r \<Longrightarrow> tidy s en fs [] (holding r rest)"
  unfolding holding_def by (intro tidy_opens(1) tidy_deferring) simp_all

lemma tidy_fatal: "tidy s en fs rs (fatal msg err)"
  by (simp add: tidy_def fatal_def ends_well_def)

lemma tidy_or_fatal: "tidy s en fs rs rest \<Longrightarrow> tidy s en fs rs (or_fatal msg res rest)"
  by (simp add: or_fatal_def tidy_fatal split: option.split)

lemma tidy_config: "(\<And>cfg. tidy s en fs [] (rest cfg)) \<Longrightarrow> tidy s en fs [] (life_config en rest)"
  by (simp add: life_config_def tidy_def ends_well_def split: sum.split)

text \<open>The resources of the mains that are not abandoned, none of them a server.\<close>

lemma not_abandoned [simp]: "DatabasePool \<notin> set (abandoned s en)" "AmqpConnection \<notin> set (abandoned s en)"
  "AmqpChannel \<notin> set (abandoned s en)" "ClientConn a \<notin> set (abandoned s en)" "Listener a \<notin> set (abandoned s en)"
  "HttpServer a \<notin> set (abandoned s en)" "TracerProvider \<notin> set (abandoned s en)" "RedisClient ''rdb'' \<notin> set (abandoned s en)"
  using abandoned_subset [of s en] by (auto simp: left_open_def)

lemma no_server [simp]: "\<not> is_server DatabasePool" "\<not> is_server AmqpConnection" "\<not> is_server AmqpChannel" "\<not> is_server (ClientConn a)"
  "\<not> is_server TracerProvider" "\<not> is_server TraceExporter" "\<not> is_server (RedisClient c)"
  by (simp_all add: is_server_def)

lemma only_exporter_left [simp]: "r \<noteq> TraceExporter \<Longrightarrow> r \<notin> set (exporter_left s en)"
  by (simp add: exporter_left_def)

lemma exporter_abandoned: "TraceExporter \<in> set (abandoned s en) \<longleftrightarrow>
    tm_Exporter (en_Telemetry en) = None \<and> tm_Resource (en_Telemetry en) (service_name s) \<noteq> None"
  by (auto simp: abandoned_def forgotten_def exporter_left_def split: service.splits)

lemma tidy_tracer:
  assumes "tidy s en (exporter_left s en) [] rest" "service_name s = name"
  shows "tidy s en [] [] (with_tracer en name warning rest)"
proof -
  let ?tm = "en_Telemetry en"
  consider "tm_Exporter ?tm \<noteq> None" | "tm_Exporter ?tm = None" "tm_Resource ?tm name \<noteq> None"
    | "tm_Exporter ?tm = None" "tm_Resource ?tm name = None" by blast
  then show ?thesis
  proof cases
    case 3
    then have "tidy s en [] [TracerProvider, TraceExporter] (deferring [TracerProvider, TraceExporter] rest)"
      using assms by (intro tidy_deferring) (simp_all add: exporter_left_def)
    then have "tidy s en [] [] (acts (Opens TraceExporter) (acts (Opens TracerProvider) (deferring [TracerProvider, TraceExporter] rest)))"
      using 3 assms(2) by (intro tidy_opens(1)) (simp_all add: exporter_abandoned)
    with 3 show ?thesis by (simp add: with_tracer_def tracer_Init_def)
  qed (use assms in \<open>auto simp: with_tracer_def tracer_Init_def exporter_left_def exporter_abandoned intro!: tidy_logs tidy_opens(2)\<close>)
qed

lemma tidy_database: "tidy s en fs [] rest \<Longrightarrow> tidy s en fs [] (life_database en cfg rest)"
  unfolding life_database_def by (intro tidy_or_fatal tidy_holding) simp_all

lemma tidy_broker:
  assumes "\<And>e. tidy s en fs [] (failed e)" "tidy s en fs [AmqpChannel, AmqpConnection] rest"
  shows "tidy s en fs [] (life_NewPublisher (pl_broker (en_Platform en)) url failed rest)"
    "tidy s en fs [] (life_NewConsumer (pl_broker (en_Platform en)) url failed rest)"
  unfolding life_NewPublisher_def life_NewConsumer_def
  by (auto intro!: assms tidy_opens(1) tidy_closes simp: broker_fails_def split: option.split)

lemma tidy_subscriber: "tidy s en fs [] rest \<Longrightarrow> tidy s en fs [] (life_subscriber en cfg name bindings rest)"
  unfolding life_subscriber_def Let_def
  by (rule tidy_broker)
    (auto intro!: tidy_logs tidy_deferring [of _ _ _ _ Consumer_Close, unfolded Consumer_Close_def] simp: Consumer_Close_def
      split: option.split)

text \<open>The servers, whose resources are the open ones that were not deferred.\<close>

lemma stop_servers_ends:
  "stop_servers en ss tr ds = (if \<forall>s \<in> set ss. en_Drains en s then (tr @ map Closes ss @ map Deferred ds, Returned)
     else (tr @ map Closes (takeWhile (en_Drains en) ss), Running))"
  by (induction ss arbitrary: tr) (simp_all add: main_returns_def acts_def running_def)

lemma tidy_serving:
  assumes "map fst servers = rev rs" "\<forall>r \<in> set rs. is_server r"
  shows "tidy s en (abandoned s en) rs (serving en servers)"
proof (rule tidyI)
  fix tr ds
  assume tr: "undisturbed en tr" "filter (\<lambda>r. r \<notin> set (abandoned s en)) (still_open tr) = rs @ ds"
    "filter (\<lambda>r. r \<in> set (abandoned s en)) (still_open tr) = abandoned s en" "\<forall>d \<in> set ds. \<not> is_server d"
  have "filter is_server (still_open tr) = filter is_server (filter (\<lambda>r. r \<notin> set (abandoned s en)) (still_open tr))"
    using abandoned_not_server [of _ s en] by (auto simp: intro!: filter_cong)
  then have servers: "open_servers tr = rev rs"
    unfolding tr(2) using assms(2) tr(4) by (simp add: open_servers_def filter_id_conv [THEN iffD2] filter_empty_conv [THEN iffD2])
  have "held s en tr = filter (\<lambda>r. \<not> is_server r) (filter (\<lambda>r. r \<notin> set (abandoned s en)) (still_open tr))"
    by (simp add: held_def conj_commute)
  then have rest: "held s en tr = ds"
    unfolding tr(2) using assms(2) tr(4) by (simp add: filter_id_conv [THEN iffD2] filter_empty_conv [THEN iffD2])
  let ?stopped = "tr @ Logs InfoLevel ''shutting down'' # map Closes (rev rs) @ map Deferred ds"
  have "fold remove1 (rev rs @ ds) (still_open tr) = abandoned s en"
    by (rule closing_the_rest [OF tr(2,3)]) simp
  then have "still_open ?stopped = abandoned s en" by simp
  moreover have "shut_down s en ?stopped"
    unfolding shut_down_def by (rule exI [of _ tr]) (simp add: tr(1) servers rest)
  moreover have "Deferred r \<notin> set tr" for r using tr(1) by (simp add: undisturbed_def)
  ultimately show "ends_well s en (serving en servers tr ds)"
    using tr(1) by (auto simp: serving_def assms(1) ends_well_def fatal_def running_def acts_def stop_servers_ends split: stop.split)
qed

lemma tidy_listen: "tidy s en fs [Listener addr] rest \<Longrightarrow> tidy s en fs [] (life_listen en msg addr rest)"
  unfolding life_listen_def by (intro tidy_or_fatal tidy_opens(1)) simp_all

lemma tidy_grpc_service: "fs = abandoned s en \<Longrightarrow> tidy s en fs [] (grpc_service en name port)"
  unfolding grpc_service_def Let_def
  by (simp only:) (intro tidy_listen tidy_logs tidy_serving, simp_all add: is_server_def)

lemma tidy_dial: "tidy s en fs [] rest \<Longrightarrow> tidy s en fs [] (life_dial en addrs rest)"
  by (induction addrs) (auto intro!: tidy_or_fatal tidy_holding)

lemmas tidy_rules = tidy_config tidy_tracer tidy_database tidy_or_fatal tidy_logs tidy_holding tidy_subscriber
  tidy_grpc_service tidy_dial tidy_listen

lemma tidy_mains:
  "tidy ReservationService en [] [] (life_reservation en)" "tidy BillingService en [] [] (life_billing en)"
  "tidy PaymentService en [] [] (life_payment en)" "tidy NotificationService en [] [] (life_notification en)"
  "tidy PresenceService en [] [] (life_presence en)" "tidy GatewayService en [] [] (life_gateway en)"
proof -
  show "tidy ReservationService en [] [] (life_reservation en)"
    unfolding life_reservation_def Let_def
    by (intro tidy_config tidy_tracer tidy_database tidy_or_fatal tidy_opens(2) tidy_holding tidy_broker tidy_logs
        tidy_grpc_service tidy_deferring [of _ _ _ _ Publisher_Close, unfolded Publisher_Close_def])
      (auto intro!: tidy_logs tidy_grpc_service tidy_deferring simp: Publisher_Close_def abandoned_def forgotten_def service_name_def)
  show "tidy BillingService en [] [] (life_billing en)"
    unfolding life_billing_def by (intro tidy_rules) (simp_all add: abandoned_def forgotten_def service_name_def)
  show "tidy PaymentService en [] [] (life_payment en)"
    unfolding life_payment_def by (intro tidy_rules) (simp_all add: abandoned_def forgotten_def service_name_def)
  show "tidy NotificationService en [] [] (life_notification en)"
    unfolding life_notification_def Let_def
    by (intro tidy_rules) (auto intro!: tidy_rules simp: abandoned_def forgotten_def service_name_def split: option.split)
  show "tidy PresenceService en [] [] (life_presence en)"
    unfolding life_presence_def by (intro tidy_rules) (simp_all add: abandoned_def forgotten_def service_name_def)
  show "tidy GatewayService en [] [] (life_gateway en)"
    unfolding life_gateway_def
    by (intro tidy_config tidy_tracer tidy_database tidy_dial, rule tidy_opens(2), intro tidy_listen tidy_logs tidy_opens(1),
        rule tidy_serving [where s = GatewayService, unfolded abandoned_def forgotten_def, simplified])
      (simp_all add: is_server_def abandoned_def forgotten_def service_name_def)
qed

lemma service_life_ends_well: "ends_well s en (service_life s en)"
  by (cases s) (simp_all add: service_life_def tidyD [OF tidy_mains(1)] tidyD [OF tidy_mains(2)] tidyD [OF tidy_mains(3)]
      tidyD [OF tidy_mains(4)] tidyD [OF tidy_mains(5)] tidyD [OF tidy_mains(6)])

section \<open>How a main ends\<close>

text \<open>What becomes of a service that has started, and the servers it has then.\<close>

definition serve_end :: "surroundings \<Rightarrow> (resource \<times> string) list \<Rightarrow> ending" where
  "serve_end en servers = (case en_Stop en of
       Interrupted \<Rightarrow> if \<forall>s \<in> set servers. en_Drains en (fst s) then Returned else Running
     | ServerError i m \<Rightarrow> if i < length servers then Exited (snd (servers ! i)) (ErrNew m) else Running)"

definition servers_of :: "service \<Rightarrow> string \<Rightarrow> (resource \<times> string) list" where
  "servers_of s addr = (if s = GatewayService
     then [(Listener addr, ''gRPC server error''), (HttpServer '':8080'', ''HTTP server error'')]
     else [(Listener addr, ''grpc server error'')])"

lemma ending_of_steps [simp]:
  "snd (acts a rest tr ds) = snd (rest (tr @ [a]) ds)" "snd (deferring rs rest tr ds) = snd (rest tr (rs @ ds))"
  "snd (running tr ds) = Running" "snd (fatal msg err tr ds) = Exited msg err" "snd (main_returns tr ds) = Returned"
  by (simp_all add: acts_def deferring_def running_def fatal_def main_returns_def)

lemma ending_of_serving [simp]: "snd (serving en servers tr ds) = serve_end en servers"
proof -
  have "snd (stop_servers en ss tr ds) = (if \<forall>s \<in> set ss. en_Drains en s then Returned else Running)" for ss tr ds
    by (induction ss arbitrary: tr) simp_all
  then show ?thesis by (simp add: serving_def serve_end_def split: stop.split)
qed

text \<open>An ending that does not depend on what was done before.\<close>

definition ends :: "life \<Rightarrow> ending \<Rightarrow> bool" where
  "ends rest e \<longleftrightarrow> (\<forall>tr ds. snd (rest tr ds) = e)"

definition startup_end :: "surroundings \<Rightarrow> service \<Rightarrow> unit startup \<Rightarrow> ending" where
  "startup_end en s st = (case st of Exits msg err \<Rightarrow> Exited msg err | Serves addr _ \<Rightarrow> serve_end en (servers_of s addr))"

lemma ends_steps: "ends rest e \<Longrightarrow> ends (acts a rest) e" "ends rest e \<Longrightarrow> ends (deferring rs rest) e"
  "ends rest e \<Longrightarrow> ends (holding r rest) e" "ends rest e \<Longrightarrow> ends (with_tracer en service warning rest) e"
  by (simp_all add: ends_def holding_def with_tracer_def tracer_Init_def split: option.split)

lemma ends_or_fatal:
  "ends rest (startup_end en s st) \<Longrightarrow> ends (or_fatal msg res rest) (startup_end en s (or_exit msg res st))"
  by (simp add: ends_def or_fatal_def or_exit_def startup_end_def split: option.split)

lemma ends_publisher: "(\<And>err. ends (failed err) e) \<Longrightarrow> ends rest e \<Longrightarrow> ends (life_NewPublisher b url failed rest) e"
  by (simp add: ends_def life_NewPublisher_def split: option.split)

lemma ends_subscriber: "ends rest e \<Longrightarrow> ends (life_subscriber en cfg name bindings rest) e"
  by (simp add: ends_def life_subscriber_def life_NewConsumer_def Let_def split: option.split)

lemma ends_grpc_service:
  assumes "s \<noteq> GatewayService"
  shows "ends (grpc_service en name port) (startup_end en s (listening (en_Platform en) ''failed to listen'' (port_addr port) ()))"
  using assms unfolding grpc_service_def life_listen_def listening_def Let_def
  by (intro ends_or_fatal) (simp add: ends_def startup_end_def servers_of_def)

lemma startup_parts [simp]:
  "map_startup f (with_config pl rest) = with_config pl (\<lambda>cfg. map_startup f (rest cfg))"
  "map_startup f (with_database pl cfg st) = with_database pl cfg (map_startup f st)"
  "map_startup f (or_exit msg res st) = or_exit msg res (map_startup f st)"
  "map_startup f (listening pl msg addr svc) = listening pl msg addr (f svc)"
  "map_startup f (dial_all pl addrs g) = dial_all pl addrs (\<lambda>bs. map_startup f (g bs))"
proof -
  show "map_startup f (dial_all pl addrs g) = dial_all pl addrs (\<lambda>bs. map_startup f (g bs))"
    by (induction addrs arbitrary: g) (simp_all add: or_exit_def split: option.split)
qed (simp_all add: with_config_def with_database_def or_exit_def listening_def split: sum.split option.split)

lemma ends_config:
  "(\<And>cfg. ends (rest cfg) (startup_end en s (st cfg))) \<Longrightarrow>
   ends (life_config en rest) (startup_end en s (with_config (en_Platform en) st))"
  by (simp add: ends_def life_config_def with_config_def startup_end_def split: sum.split)

lemma ends_database: "ends rest (startup_end en s st) \<Longrightarrow>
   ends (life_database en cfg rest) (startup_end en s (with_database (en_Platform en) cfg st))"
  unfolding life_database_def with_database_def db_error_def by (intro ends_or_fatal ends_steps)

lemma ends_dial: "(\<And>bs. ends rest (startup_end en s (st bs))) \<Longrightarrow>
   ends (life_dial en addrs rest) (startup_end en s (dial_all (en_Platform en) addrs st))"
  by (induction addrs arbitrary: st) (auto intro!: ends_or_fatal ends_steps)

lemmas ends_rules = ends_config ends_database ends_or_fatal ends_subscriber ends_grpc_service ends_dial ends_steps

lemma service_life_ending:
  "snd (service_life s en) = startup_end en s (service_start midtrans s (en_Platform en))"
proof -
  have "ends (life_reservation en) (startup_end en ReservationService (service_start midtrans ReservationService (en_Platform en)))"
    unfolding life_reservation_def service_start_def reservation_main_def Let_def
    by (simp, intro ends_config ends_steps ends_database ends_or_fatal ends_publisher ends_grpc_service) simp_all
  moreover have "ends (life_billing en) (startup_end en BillingService (service_start midtrans BillingService (en_Platform en)))"
    unfolding life_billing_def service_start_def billing_main_def Let_def by (simp, intro ends_rules) simp
  moreover have "ends (life_payment en) (startup_end en PaymentService (service_start midtrans PaymentService (en_Platform en)))"
    unfolding life_payment_def service_start_def payment_main_def Let_def by (simp, intro ends_rules) simp
  moreover have "ends (life_notification en)
      (startup_end en NotificationService (service_start midtrans NotificationService (en_Platform en)))"
    unfolding life_notification_def service_start_def notification_main_def Let_def
    by (simp, intro ends_config ends_steps) (auto intro!: ends_rules split: option.split)
  moreover have "ends (life_presence en) (startup_end en PresenceService (service_start midtrans PresenceService (en_Platform en)))"
    unfolding life_presence_def service_start_def presence_main_def by (simp, intro ends_rules) simp
  moreover have "ends (life_gateway en) (startup_end en GatewayService (service_start midtrans GatewayService (en_Platform en)))"
    unfolding life_gateway_def service_start_def gateway_main_def life_listen_def listening_def
    by (simp, intro ends_config ends_steps ends_database ends_dial ends_or_fatal)
      (simp add: ends_def startup_end_def servers_of_def)
  ultimately show ?thesis by (cases s) (simp_all add: service_life_def ends_def)
qed

section \<open>The server of the end-to-end tests\<close>

text \<open>
  \<open>StartTestHTTPServer\<close> dials the targets that are given and panics when a dialing or the listening
  fails, which is \<open>None\<close>; otherwise there are the actions and what the returned function closes.
\<close>

definition test_dial :: "(string \<Rightarrow> string option) \<Rightarrow> string \<Rightarrow> resource option option" where
  "test_dial grpc_NewClient target = (if target = '''' then Some None
     else case grpc_NewClient target of Some m \<Rightarrow> None | None \<Rightarrow> Some (Some (ClientConn target)))"

definition StartTestHTTPServer ::
  "(string \<Rightarrow> string option) \<Rightarrow> (string \<Rightarrow> string option) \<Rightarrow> string list \<Rightarrow> (action list \<times> resource list) option" where
  "StartTestHTTPServer grpc_NewClient net_Listen targets = (case those (map (test_dial grpc_NewClient) targets) of
       None \<Rightarrow> None
     | Some conns \<Rightarrow> (case net_Listen ''127.0.0.1:0'' of
         Some m \<Rightarrow> None
       | None \<Rightarrow> (let dialed = map the (filter (\<lambda>c. c \<noteq> None) conns); srv = HttpServer ''127.0.0.1:0'' in
           Some (map Opens dialed @ [Opens srv], srv # dialed))))"

lemma test_dials:
  assumes "those (map (test_dial f) targets) = Some conns"
  shows "map the (filter (\<lambda>c. c \<noteq> None) conns) = map ClientConn (filter (\<lambda>t. t \<noteq> '''') targets)"
    "\<forall>t \<in> set targets. t \<noteq> '''' \<longrightarrow> f t = None"
  using assms by (induction targets arbitrary: conns)
    (auto simp: test_dial_def split: if_splits option.splits)

text \<open>The function that is returned closes the server, then every connection that was dialed.\<close>

lemma test_server_cleans_up:
  assumes "StartTestHTTPServer f l targets = Some (tr, cleanup)"
  shows "{r. Opens r \<in> set tr} = set cleanup \<and> cleanup = HttpServer ''127.0.0.1:0'' # map ClientConn (filter (\<lambda>t. t \<noteq> '''') targets)"
proof -
  let ?dialed = "map ClientConn (filter (\<lambda>t. t \<noteq> '''') targets)"
  obtain conns where conns: "those (map (test_dial f) targets) = Some conns"
    using assms by (auto simp: StartTestHTTPServer_def split: option.splits)
  then have "tr = map Opens ?dialed @ [Opens (HttpServer ''127.0.0.1:0'')]" "cleanup = HttpServer ''127.0.0.1:0'' # ?dialed"
    using assms by (simp_all add: StartTestHTTPServer_def Let_def test_dials(1) [OF conns] del: not_None_eq split: option.splits)
  then show ?thesis by auto
qed

end
