(* ===== verification/ClientRoutes.thy ===== *)
theory ClientRoutes
  imports Routes
begin

text \<open>
  The other half of \<open>gen/gateway/v1/gateway.pb.gw.go\<close>: the routes that forward a request over a
  client connection, which \<open>RegisterGatewayServiceHandlerFromEndpoint\<close> dials. The context of the
  request does not cross the connection: the library's \<open>AnnotateContext\<close>, here \<open>annotate\<close>, turns the
  headers into outgoing metadata, and the interceptor of the gRPC server reads the token from them.
  Each handler also reads the body to its end, which the server half leaves to the HTTP server.
\<close>

section \<open>The client\<close>

type_synonym metadata = "string \<Rightarrow> string list"

record 'k gateway_client =
  gv_GetParkingAvailability :: "metadata \<Rightarrow> GetParkingAvailabilityRequest \<Rightarrow> ('k, int \<times> int \<times> int \<times> bool) rpc"
  gv_CreateReservation :: "metadata \<Rightarrow> BookingRequest \<Rightarrow> ('k, BookingResponse) rpc"
  gv_GetMyReservation :: "metadata \<Rightarrow> ('k, MyReservation option) rpc"
  gv_CancelReservation :: "metadata \<Rightarrow> string \<Rightarrow> ('k, string \<times> int \<times> Money \<times> string) rpc"
  gv_CheckIn :: "metadata \<Rightarrow> CheckInMessage \<Rightarrow> ('k, CheckInResponse) rpc"
  gv_CheckOut :: "metadata \<Rightarrow> CheckOutMessage \<Rightarrow> ('k, LeavingResponse) rpc"
  gv_GetInvoice :: "metadata \<Rightarrow> string \<Rightarrow> ('k, InvoiceSummary) rpc"
  gv_PreviewBilling :: "metadata \<Rightarrow> PreviewBillingMessage \<Rightarrow> ('k, InvoiceSummary \<times> string) rpc"
  gv_CreatePayment :: "metadata \<Rightarrow> CreatePaymentMessage \<Rightarrow> ('k, PaymentResponse) rpc"
  gv_GetPaymentStatus :: "metadata \<Rightarrow> string \<Rightarrow> ('k, string \<times> string \<times> Money \<times> time option) rpc"

text \<open>\<open>io.Copy(io.Discard, req.Body)\<close>: what is read from the body afterwards is nothing.\<close>

definition drained :: "http_request \<Rightarrow> http_request" where
  "drained req = req\<lparr>hq_Body := None\<rparr>"

section \<open>Decoding a request and calling\<close>

type_synonym 'k client_request = "metadata \<Rightarrow> http_request \<Rightarrow> (string \<rightharpoonup> string) \<Rightarrow> ('k, rpc_body) rpc"

definition request_GetParkingAvailability :: "runtime \<Rightarrow> 'k gateway_client \<Rightarrow> 'k client_request" where
  "request_GetParkingAvailability rt client ctx req pathParams = (let req = drained req in
     or_query rt req (rt_QueryAvailability rt req) (\<lambda>protoReq.
       and_body (gv_GetParkingAvailability client ctx protoReq) RpcAvailability))"

definition request_CreateReservation :: "runtime \<Rightarrow> 'k gateway_client \<Rightarrow> 'k client_request" where
  "request_CreateReservation rt client ctx req pathParams =
     or_decode (rt_DecodeBooking rt req)
       \<lparr>br_VehicleType = 0, br_AssignmentMode = 0, br_SpotId = '''', br_IdempotencyKey = ''''\<rparr> (\<lambda>protoReq.
       and_body (gv_CreateReservation client ctx protoReq) RpcBooking)"

definition request_GetMyReservation :: "'k gateway_client \<Rightarrow> 'k client_request" where
  "request_GetMyReservation client ctx req pathParams = and_body (gv_GetMyReservation client ctx) RpcMyReservation"

definition request_CancelReservation :: "runtime \<Rightarrow> 'k gateway_client \<Rightarrow> 'k client_request" where
  "request_CancelReservation rt client ctx req pathParams =
     or_path rt pathParams ''reservation_id'' (\<lambda>reservationId.
       and_body (gv_CancelReservation client ctx reservationId) RpcCancelled)"

definition request_CheckIn :: "runtime \<Rightarrow> 'k gateway_client \<Rightarrow> 'k client_request" where
  "request_CheckIn rt client ctx req pathParams =
     or_decode (rt_DecodeCheckIn rt req)
       \<lparr>cm_ReservationId = '''', cm_Coordinate = None, cm_ActualSpotId = ''''\<rparr> (\<lambda>protoReq.
     or_path rt pathParams ''reservation_id'' (\<lambda>reservationId.
       and_body (gv_CheckIn client ctx (protoReq\<lparr>cm_ReservationId := reservationId\<rparr>)) RpcCheckIn))"

definition request_CheckOut :: "runtime \<Rightarrow> 'k gateway_client \<Rightarrow> 'k client_request" where
  "request_CheckOut rt client ctx req pathParams =
     or_decode (rt_DecodeCheckOut rt req) \<lparr>om_ReservationId = '''', om_IdempotencyKey = ''''\<rparr> (\<lambda>protoReq.
     or_path rt pathParams ''reservation_id'' (\<lambda>reservationId.
       and_body (gv_CheckOut client ctx (protoReq\<lparr>om_ReservationId := reservationId\<rparr>)) RpcCheckOut))"

definition request_GetInvoice :: "runtime \<Rightarrow> 'k gateway_client \<Rightarrow> 'k client_request" where
  "request_GetInvoice rt client ctx req pathParams =
     or_path rt pathParams ''invoice_id'' (\<lambda>invoiceId. and_body (gv_GetInvoice client ctx invoiceId) RpcInvoice)"

definition request_PreviewBilling :: "runtime \<Rightarrow> 'k gateway_client \<Rightarrow> 'k client_request" where
  "request_PreviewBilling rt client ctx req pathParams = (let req = drained req in
     or_query rt req (rt_QueryPreview rt req) (\<lambda>protoReq.
       and_body (gv_PreviewBilling client ctx protoReq) RpcPreview))"

definition request_CreatePayment :: "runtime \<Rightarrow> 'k gateway_client \<Rightarrow> 'k client_request" where
  "request_CreatePayment rt client ctx req pathParams =
     or_decode (rt_DecodePayment rt req) \<lparr>yp_InvoiceId = '''', yp_PaymentMethod = 0, yp_IdempotencyKey = ''''\<rparr> (\<lambda>protoReq.
       and_body (gv_CreatePayment client ctx protoReq) RpcPayment)"

definition request_GetPaymentStatus :: "runtime \<Rightarrow> 'k gateway_client \<Rightarrow> 'k client_request" where
  "request_GetPaymentStatus rt client ctx req pathParams =
     or_path rt pathParams ''transaction_id'' (\<lambda>transactionId.
       and_body (gv_GetPaymentStatus client ctx transactionId) RpcPaymentStatus)"

section \<open>The table of routes\<close>

type_synonym annotation = "http_request \<Rightarrow> (code \<times> string) + metadata"

definition client_route_handler ::
  "annotation \<Rightarrow> runtime \<Rightarrow> 'k client_request \<Rightarrow> http_request \<Rightarrow> (string \<rightharpoonup> string) \<Rightarrow> ('k, rpc_body http_reply) prog" where
  "client_route_handler annotate rt request req pathParams = (case annotate req of
       Inl (code, msg) \<Rightarrow> State_Monad.return (HTTPError rt code msg)
     | Inr annotatedContext \<Rightarrow> do {
         resp \<leftarrow> request annotatedContext req pathParams;
         State_Monad.return (case resp of
            Status code msg \<Rightarrow> HTTPError rt code msg
          | Reply body \<Rightarrow> forward rt body
          | Panic \<Rightarrow> Aborted)
       })"

definition RegisterGatewayServiceHandlerClient ::
  "runtime \<Rightarrow> 'k gateway_client \<Rightarrow> ((string \<times> route_pattern) \<times> 'k client_request) list" where
  "RegisterGatewayServiceHandlerClient rt client =
     [((''GET'', pattern_GetParkingAvailability), request_GetParkingAvailability rt client),
      ((''POST'', pattern_CreateReservation), request_CreateReservation rt client),
      ((''GET'', pattern_GetMyReservation), request_GetMyReservation client),
      ((''DELETE'', pattern_CancelReservation), request_CancelReservation rt client),
      ((''POST'', pattern_CheckIn), request_CheckIn rt client),
      ((''POST'', pattern_CheckOut), request_CheckOut rt client),
      ((''GET'', pattern_GetInvoice), request_GetInvoice rt client),
      ((''GET'', pattern_PreviewBilling), request_PreviewBilling rt client),
      ((''POST'', pattern_CreatePayment), request_CreatePayment rt client),
      ((''GET'', pattern_GetPaymentStatus), request_GetPaymentStatus rt client)]"

lemma client_routes [simp]: "map fst (RegisterGatewayServiceHandlerClient rt client) = gateway_routes"
  by (simp add: RegisterGatewayServiceHandlerClient_def gateway_routes_def)

text \<open>
  The connection is dialed by the library; what is behind it is the client \<open>new_client\<close> makes of it.
  It is closed at once when the registration fails, otherwise when the context is done.
\<close>

datatype closing = NotDialed | ClosedNow | ClosedWithContext

definition RegisterGatewayServiceHandler ::
  "runtime \<Rightarrow> ('c \<Rightarrow> 'k gateway_client) \<Rightarrow> 'c \<Rightarrow> goerr + ((string \<times> route_pattern) \<times> 'k client_request) list" where
  "RegisterGatewayServiceHandler rt new_client conn = Inr (RegisterGatewayServiceHandlerClient rt (new_client conn))"

definition RegisterGatewayServiceHandlerFromEndpoint ::
  "runtime \<Rightarrow> (string \<Rightarrow> goerr + 'c) \<Rightarrow> ('c \<Rightarrow> 'k gateway_client) \<Rightarrow> string \<Rightarrow>
   (goerr + ((string \<times> route_pattern) \<times> 'k client_request) list) \<times> closing" where
  "RegisterGatewayServiceHandlerFromEndpoint rt grpc_NewClient new_client endpoint = (case grpc_NewClient endpoint of
       Inl err \<Rightarrow> (Inl err, NotDialed)
     | Inr conn \<Rightarrow> (let res = RegisterGatewayServiceHandler rt new_client conn in
         (res, case res of Inl err \<Rightarrow> ClosedNow | Inr _ \<Rightarrow> ClosedWithContext)))"

section \<open>The connection to the gateway's own server\<close>

text \<open>
  \<open>NewGatewayServiceClient\<close> and \<open>_GatewayService_X_Handler\<close> of \<open>gateway_grpc.pb.go\<close>, with the
  interceptor that \<open>main\<close> gives to the server.
\<close>

definition invoke :: "string \<Rightarrow> string \<Rightarrow> metadata \<Rightarrow> (string option \<Rightarrow> ('k, 'a) rpc) \<Rightarrow> ('k, 'a) rpc" where
  "invoke secret meth md handler =
     call (UnaryInterceptor secret (''/gateway.v1.GatewayService/'' @ meth) (Some md) None handler)"

definition NewGatewayServiceClient :: "gateway_config \<Rightarrow> 'k gateway_client" where
  "NewGatewayServiceClient c =
     \<lparr>gv_GetParkingAvailability = (\<lambda>md m. invoke (gc_Secret c) ''GetParkingAvailability'' md (\<lambda>ctx.
        gw_GetParkingAvailability (pa_VehicleType m))),
      gv_CreateReservation = (\<lambda>md m. invoke (gc_Secret c) ''CreateReservation'' md (\<lambda>ctx.
        gw_CreateReservation (gc_Publisher c) (gc_Gateway c) ctx m)),
      gv_GetMyReservation = (\<lambda>md. invoke (gc_Secret c) ''GetMyReservation'' md gw_GetMyReservation),
      gv_CancelReservation = (\<lambda>md rid. invoke (gc_Secret c) ''CancelReservation'' md (\<lambda>ctx.
        gw_CancelReservation (gc_Publisher c) ctx rid)),
      gv_CheckIn = (\<lambda>md m. invoke (gc_Secret c) ''CheckIn'' md (\<lambda>ctx.
        gw_CheckIn (gc_Publisher c) ctx (cm_ReservationId m) (cm_ActualSpotId m))),
      gv_CheckOut = (\<lambda>md m. invoke (gc_Secret c) ''CheckOut'' md (\<lambda>ctx.
        gw_CheckOut (gc_Publisher c) ctx (om_ReservationId m) (om_IdempotencyKey m))),
      gv_GetInvoice = (\<lambda>md iid. invoke (gc_Secret c) ''GetInvoice'' md (\<lambda>ctx. gw_GetInvoice iid)),
      gv_PreviewBilling = (\<lambda>md m. invoke (gc_Secret c) ''PreviewBilling'' md (\<lambda>ctx. gw_PreviewBilling (pb_SessionId m))),
      gv_CreatePayment = (\<lambda>md m. invoke (gc_Secret c) ''CreatePayment'' md (\<lambda>ctx.
        gw_CreatePayment (gc_Gateway c) ctx (yp_InvoiceId m) (yp_PaymentMethod m) (yp_IdempotencyKey m))),
      gv_GetPaymentStatus = (\<lambda>md tid. invoke (gc_Secret c) ''GetPaymentStatus'' md (\<lambda>ctx. gw_GetPaymentStatus tid))\<rparr>"

section \<open>Both halves answer alike\<close>

text \<open>
  A form is read from the address and, for \<open>POST\<close>, \<open>PUT\<close> and \<open>PATCH\<close> only, from the body.
\<close>

definition forms_skip_body :: "runtime \<Rightarrow> bool" where
  "forms_skip_body rt \<longleftrightarrow> (\<forall>req. hq_Method req = ''GET'' \<longrightarrow> rt_ParseForm rt (drained req) = rt_ParseForm rt req
     \<and> rt_QueryAvailability rt (drained req) = rt_QueryAvailability rt req
     \<and> rt_QueryPreview rt (drained req) = rt_QueryPreview rt req)"

text \<open>What a panic of the server looks like at the other end of the connection.\<close>

definition seen_by_client :: "'a reply \<Rightarrow> 'a reply" where
  "seen_by_client r = (case r of Panic \<Rightarrow> Status Unavailable ''error reading from server: EOF'' | _ \<Rightarrow> r)"

text \<open>
  The server half at \<open>w1\<close>, for the world after the interceptor, against the client half at \<open>w\<close>.
\<close>

definition mirrors :: "'k world \<Rightarrow> 'k world \<Rightarrow> ('k, 'a) rpc \<Rightarrow> ('k, 'a) rpc \<Rightarrow> bool" where
  "mirrors w w1 m m' \<longleftrightarrow> fst (run_state m w) = seen_by_client (fst (run_state m' w1))
     \<and> (snd (run_state m w) = snd (run_state m' w1) \<or> snd (run_state m w) = w \<and> snd (run_state m' w1) = w1)"

lemma mirrors_invalid: "mirrors w w1 (invalid_argument msg) (invalid_argument msg)"
  by (simp add: mirrors_def invalid_argument_def seen_by_client_def)

lemma mirrors_or_decode: "(\<And>m. mirrors w w1 (f m) (g m)) \<Longrightarrow> mirrors w w1 (or_decode d zero f) (or_decode d zero g)"
  by (cases d) (simp_all add: or_decode_def mirrors_invalid)

lemma mirrors_or_path: "(\<And>s. mirrors w w1 (f s) (g s)) \<Longrightarrow> mirrors w w1 (or_path rt ps n f) (or_path rt ps n g)"
  by (simp add: or_path_def mirrors_invalid split: option.split sum.split)

lemma mirrors_or_query:
  "rt_ParseForm rt req = rt_ParseForm rt req' \<Longrightarrow> q = q' \<Longrightarrow> (\<And>m. mirrors w w1 (f m) (g m)) \<Longrightarrow>
   mirrors w w1 (or_query rt req q f) (or_query rt req' q' g)"
  by (simp add: or_query_def mirrors_invalid split: option.split sum.split)

lemma mirrors_and_body: "mirrors w w1 m m' \<Longrightarrow> mirrors w w1 (and_body m f) (and_body m' f)"
  by (auto simp: mirrors_def and_body_def or_forward_def seen_by_client_def case_prod_beta split: reply.splits)

text \<open>A call whose token is accepted.\<close>

definition token_accepted :: "string \<Rightarrow> metadata \<Rightarrow> 'k world \<Rightarrow> string \<Rightarrow> bool" where
  "token_accepted secret md w uid \<longleftrightarrow> fate_of w = Served \<and> md ''authorization'' \<noteq> []
     \<and> (\<exists>vt. accepts secret (arrive w) (trim_prefix (hd (md ''authorization'')) ''Bearer '') \<lparr>cl_UserID = uid, cl_VehicleType = vt\<rparr>)"

lemma mirrors_invoke:
  assumes "token_accepted secret md w uid" "\<not> isPublicMethod (''/gateway.v1.GatewayService/'' @ meth)"
  shows "mirrors w (pass (arrive w)) (invoke secret meth md handler) (handler (Some uid))"
proof -
  obtain v vs vt where v: "md ''authorization'' = v # vs"
      "accepts secret (arrive w) (trim_prefix v ''Bearer '') \<lparr>cl_UserID = uid, cl_VehicleType = vt\<rparr>"
    using assms(1) by (cases "md ''authorization''") (auto simp: token_accepted_def)
  have "run_state (ParseToken secret (trim_prefix v ''Bearer '')) (arrive w) =
      (Inr \<lparr>cl_UserID = uid, cl_VehicleType = vt\<rparr>, pass (arrive w))"
    using ParseToken_accepts [of secret "trim_prefix v ''Bearer ''" "arrive w"] v(2)
    by (cases "run_state (ParseToken secret (trim_prefix v ''Bearer '')) (arrive w)") (auto simp: wp_fst_snd)
  then have "run_state (UnaryInterceptor secret (''/gateway.v1.GatewayService/'' @ meth) (Some md) None handler) (arrive w) =
      run_state (handler (Some uid)) (pass (arrive w))"
    using assms(2) v(1) by (simp add: UnaryInterceptor_def or_status_def)
  then show ?thesis
    using assms(1) by (auto simp: mirrors_def invoke_def call_def token_accepted_def seen_by_client_def case_prod_beta split: reply.split)
qed

lemma not_public: "\<not> isPublicMethod (''/gateway.v1.GatewayService/'' @ meth)"
  by (simp add: isPublicMethod_def)

lemma mirrors_call:
  assumes "token_accepted secret md w uid" "m' = handler (Some uid)"
  shows "mirrors w (pass (arrive w)) (and_body (invoke secret meth md handler) f) (and_body m' f)"
  unfolding assms(2) by (rule mirrors_and_body [OF mirrors_invoke [OF assms(1) not_public]])

lemmas request_defs = request_GetParkingAvailability_def local_request_GetParkingAvailability_def request_CreateReservation_def local_request_CreateReservation_def request_GetMyReservation_def local_request_GetMyReservation_def request_CancelReservation_def local_request_CancelReservation_def request_CheckIn_def local_request_CheckIn_def request_CheckOut_def local_request_CheckOut_def request_GetInvoice_def local_request_GetInvoice_def request_PreviewBilling_def local_request_PreviewBilling_def request_CreatePayment_def local_request_CreatePayment_def request_GetPaymentStatus_def local_request_GetPaymentStatus_def

lemma handler_route: "i < 10 \<Longrightarrow> fst (RegisterGatewayServiceHandlerServer rt c ! i) = gateway_routes ! i"
  by (metis handlers_length handlers_routes nth_map)

lemma never_aborted: "forward rt b \<noteq> Aborted" "HTTPError rt cd m \<noteq> Aborted"
  by (simp_all add: forward_def HTTPError_def split: option.split)

lemma routes_mirror:
  assumes "token_accepted (gc_Secret c) md w uid" "hq_UserID req = Some uid" "forms_skip_body rt" "i < 10"
    and "hq_Method req = fst (gateway_routes ! i)"
  shows "mirrors w (pass (arrive w)) (snd (RegisterGatewayServiceHandlerClient rt (NewGatewayServiceClient c) ! i) md req ps)
     (snd (RegisterGatewayServiceHandlerServer rt c ! i) req ps)"
proof -
  have "list_all2 (\<lambda>(r, h) (r', h'). hq_Method req = fst r' \<longrightarrow> mirrors w (pass (arrive w)) (h md req ps) (h' req ps))
      (RegisterGatewayServiceHandlerClient rt (NewGatewayServiceClient c)) (RegisterGatewayServiceHandlerServer rt c)"
    using assms(2,3) by (simp add: RegisterGatewayServiceHandlerClient_def RegisterGatewayServiceHandlerServer_def
      request_defs NewGatewayServiceClient_def forms_skip_body_def Let_def mirrors_or_decode mirrors_or_path mirrors_or_query
      mirrors_call [OF assms(1)])
  from list_all2_nthD2 [OF this, of i] show ?thesis
    using assms(4,5) by (simp add: case_prod_beta handler_route)
qed

end
