(* ===== verification/SystemProps.thy ===== *)
theory SystemProps
  imports Lifecycle GatewayProps ClientRoutes
begin

text \<open>
  The properties of the whole system: any sequence of events, whose rows a request touches, a
  request on its way through the HTTP server, the loops that only end from outside, and what a
  service needs to start.
\<close>

section \<open>A concrete deployment\<close>

text \<open>A mux that knows the route of a cancellation and decodes nothing else.\<close>

definition sample_runtime :: runtime where
  "sample_runtime = \<lparr>
     rt_Route = (\<lambda>routes r. if hq_Method r = ''DELETE'' \<and> has_prefix (hq_Path r) ''/v1/reservations/'' \<and> length routes = 10
        then Some (3, [''reservation_id'' \<mapsto> drop 17 (hq_Path r)]) else None),
     rt_NoRoute = (\<lambda>r. JSONBody StatusNotFound (RpcError NotFound ''Not Found'')),
     rt_AnnotateIncomingContext = (\<lambda>_. None), rt_ParseForm = (\<lambda>_. None),
     rt_QueryAvailability = (\<lambda>_. Inl ''no query''), rt_QueryPreview = (\<lambda>_. Inl ''no query''),
     rt_DecodeBooking = (\<lambda>_. AtEOF), rt_DecodeCheckIn = (\<lambda>_. AtEOF), rt_DecodeCheckOut = (\<lambda>_. AtEOF),
     rt_DecodePayment = (\<lambda>_. AtEOF), rt_String = Inr, rt_Marshal = (\<lambda>_. None),
     rt_HTTPStatusFromCode = (\<lambda>c. case c of PermissionDenied \<Rightarrow> 403 | FailedPrecondition \<Rightarrow> 400 | NotFound \<Rightarrow> 404
        | Unauthenticated \<Rightarrow> 401 | InvalidArgument \<Rightarrow> 400 | Unavailable \<Rightarrow> 503 | _ \<Rightarrow> 500)\<rparr>"

definition sample_logger :: logger where
  "sample_logger = logger_New (\<lambda>s. if s = ''info'' then Some InfoLevel else None) ''gateway'' ''info''"

definition sample_system :: system where
  "sample_system = \<lparr>sy_Gateway = sample_config, sy_Logger = sample_logger, sy_Swagger = ''{}'',
     sy_Runtime = sample_runtime, sy_History = True\<rparr>"

text \<open>A token that is valid until the year 2286.\<close>

definition token_of :: "string \<Rightarrow> string" where
  "token_of driverID = frame_field driverID @ frame_field ''car'' @ frame_field ''secret'' @ show_nat 9999999999"

definition with_token :: "string \<Rightarrow> string \<Rightarrow> string \<Rightarrow> http_request" where
  "with_token driverID meth path = \<lparr>hq_Method = meth, hq_Path = path, hq_RemoteAddr = ''10.0.0.1:4711'',
     hq_Header = (\<lambda>h. if h = ''Authorization'' then ''Bearer '' @ token_of driverID else ''''),
     hq_Query = (\<lambda>_. ''''), hq_Body = None, hq_UserID = None\<rparr>"

lemma token_of_accepted:
  assumes "w_ext w = sample_ext"
  shows "accepts ''secret'' w (token_of driverID) c \<longleftrightarrow>
    c = \<lparr>cl_UserID = driverID, cl_VehicleType = ''car''\<rparr> \<and> w_clock (pass w) < 9999999999 * Second"
proof -
  have "x_jwt_parse (w_ext w) (keyfunc ''secret'') (w_clock (pass w)) (token_of driverID) =
      (if 9999999999 * Second \<le> w_clock (pass w) then Inl ''token is expired'' else Inr (Some (driverID, ''car''), True))"
    by (simp add: assms sample_ext_def sample_parse_def token_of_def keyfunc_def)
  then show ?thesis by (cases c) (auto simp: accepts_def)
qed

lemma with_token_simps [simp]:
  "hq_Header (with_token d m p) ''Authorization'' = ''Bearer '' @ token_of d"
  "hq_Method (with_token d m p) = m" "hq_Path (with_token d m p) = p" "hq_UserID (with_token d m p) = None"
  by (simp_all only: with_token_def http_request.simps simp_thms if_True)

lemma with_token_bearer: "trim_prefix (hq_Header (with_token d m p) ''Authorization'') ''Bearer '' = token_of d"
  by (simp only: with_token_simps trim_prefix_append)

section \<open>Whatever happens\<close>

text \<open>
  C34: whatever happens in the system, in whatever order and whatever the network does to the calls
  between the services, the reservations perform steps of the abstract machine, and the invariants
  of the reservations, invoices, transactions and drivers are kept. The events are HTTP requests and
  gRPC calls, the expiry job, the messages of the broker, the streams and the webhook.
\<close>

theorem events_keep_the_system:
  assumes "db_wf w" "invoices_wf w" "transactions_wf w" "drivers_wf w"
  shows "let w' = snd (on_events s evs (rl, w)) in table_steps (spot_ids w) (table_of w) (table_of w') \<and> db_wf w'
    \<and> invoices_wf w' \<and> transactions_wf w' \<and> drivers_wf w'"
  using on_events_system_step [OF db_wf_keys_ok [OF assms(1)], of s evs rl] assms system_step_db_wf
  by (auto simp: system_step_def Let_def)

theorem events_keep_the_system_witness:
  "db_wf (snd (on_events sample_system [GatewayCall (BookRequest (Some ''d1'') sample_booking),
     HttpRequest (with_token ''d1'' ''DELETE'' ''/v1/reservations/id-0-sample''), ReservationCall ExpireTick,
     HandleWebhookCall (Some (JObj [])) ''sig'', LimiterSweep] (NewRateLimiter 100 Minute, sample_world)))"
  using events_keep_the_system [OF sample_wf sample_tables] unfolding Let_def by blast

text \<open>
  C35: a driver's request touches nobody else's rows. Whatever the method, the path and the body of
  an HTTP request whose token can only be the driver's, the reservations, invoices and transactions of
  the other drivers are the same afterwards, whatever the network does. Two paths are not among these,
  since their handlers take the identifier of a row from the body and do not ask whose it is.
\<close>

theorem drivers_keep_to_their_rows:
  assumes "keys_ok w" "hq_UserID r = None"
    and "hq_Path r \<notin> {''/v1/reservations/confirm-payment'', ''/v1/payments/simulate-settle''}"
    and "\<And>w1 c. w_ext w1 = w_ext w \<Longrightarrow>
       accepts (gc_Secret cfg) w1 (trim_prefix (hq_Header r ''Authorization'') ''Bearer '') c \<Longrightarrow> cl_UserID c = D"
  shows "wp (gateway_http lg cfg swaggerJSON rt rl r) (\<lambda>_ w'. others_kept D w w') w"
  using gateway_http_acts_for [OF assms] by (rule wp_mono) (simp_all add: acts_for_def)

theorem drivers_keep_to_their_rows_witness:
  "wp (gateway_http sample_logger sample_config ''{}'' sample_runtime (NewRateLimiter 100 Minute)
      (with_token ''d2'' ''DELETE'' ''/v1/reservations/id-0-sample''))
    (\<lambda>_ w'. filter (\<lambda>x. rr_driver_id x \<noteq> ''d2'') (w_reservations w') = [first_row_of paid]) paid"
proof (rule wp_mono [OF drivers_keep_to_their_rows [where D = "''d2''"]])
  show "keys_ok paid" using paid_wf by (rule db_wf_keys_ok)
  show "cl_UserID c = ''d2''" if "w_ext w1 = w_ext paid" "accepts (gc_Secret sample_config) w1 (trim_prefix
      (hq_Header (with_token ''d2'' ''DELETE'' ''/v1/reservations/id-0-sample'') ''Authorization'') ''Bearer '') c"
    for c and w1 :: "kv world"
    using that unfolding with_token_bearer by (simp add: token_of_accepted sample_config_def)
qed (simp_all add: others_kept_def sample_single)

text \<open>
  C36: a cancellation from end to end: an HTTP request that the limiter admits, with a token, to the
  route of the generated mux. The owner's open reservation is cancelled with the fee of the moment
  in which the service reads its clock; another driver is refused, and so is a reservation that is
  no longer open, and then nothing changes.
\<close>

theorem http_cancellation:
  assumes "reliable w" "keys_ok w" "current w row s" "admitted cfg rl r claims w" "cl_UserID claims \<noteq> ''''"
    and "routed rt r claims 3 ps" "ps ''reservation_id'' = Some (rr_id row)"
    and "rt_String rt (rr_id row) = Inr (rr_id row)" "\<And>body. rt_Marshal rt body = None"
  shows "wp (http_server cfg swaggerJSON (rpc_mux rt cfg) rl r) (\<lambda>(reply, _) w'.
     if cl_UserID claims \<noteq> rr_driver_id row
     then reply = JSONBody (rt_HTTPStatusFromCode rt PermissionDenied)
         (RpcBody (RpcError PermissionDenied ''reservation not owned by driver'')) \<and> db_same w w'
     else if rr_status row \<in> {StatusPending, StatusConfirmed}
     then (\<exists>body. reply = JSONBody StatusOK (RpcBody body) \<and> cancelled_as row w (Reply body) w')
     else (\<exists>m. reply = JSONBody (rt_HTTPStatusFromCode rt FailedPrecondition) (RpcBody (RpcError FailedPrecondition m)))
       \<and> db_same w w') w"
  by (rule http_cancellation_flow [OF assms])

theorem http_cancellation_witness:
  "wp (http_server sample_config ''{}'' (rpc_mux sample_runtime sample_config) (NewRateLimiter 100 Minute)
      (with_token ''d1'' ''DELETE'' ''/v1/reservations/id-0-sample''))
    (\<lambda>_ w'. map rr_status (w_reservations w') = [StatusCancelled]) (Samples.forward (1 * Minute) paid)"
proof -
  let ?w = "Samples.forward (1 * Minute) paid" and ?r = "with_token ''d1'' ''DELETE'' ''/v1/reservations/id-0-sample''"
    and ?c = "\<lparr>cl_UserID = ''d1'', cl_VehicleType = ''car''\<rparr>"
  have rid: "rr_id (first_row_of paid) = ''id-0-sample''" by simp
  have "w_clock (pass (pass ?w)) < 9999999999 * Second" by code_simp
  then have token: "accepts (gc_Secret sample_config) (pass ?w) (token_of ''d1'') ?c"
    using token_of_accepted [of "pass ?w"] by (simp add: sample_config_def)
  have path: "rpc_path ''/v1/reservations/id-0-sample''" by code_simp
  have admitted: "admitted sample_config (NewRateLimiter 100 Minute) ?r ?c ?w"
    unfolding admitted_def with_token_simps
    using token path by (auto simp: allow_at_def NewRateLimiter_def reqs_of_def)
  have parts: "has_prefix ''/v1/reservations/id-0-sample'' ''/v1/reservations/''" "length gateway_routes = 10"
    "drop 17 ''/v1/reservations/id-0-sample'' = ''id-0-sample''" by code_simp+
  have routed: "routed sample_runtime ?r ?c 3 [''reservation_id'' \<mapsto> rr_id (first_row_of paid)]"
    using parts unfolding rid by (simp add: routed_def sample_runtime_def)
  show ?thesis
    by (rule wp_mono [OF http_cancellation [OF sample_reliable(3) sample_keys(2) sample_current(2) admitted _ routed]])
      (auto simp: sample_runtime_def cancelled_as_def update_where_def sample_single split: prod.splits)
qed

text \<open>
  C37: the routes over a client connection answer as the routes in the process do. For a request
  whose token the gateway's gRPC server accepts, the reply is the one the method gives for the same
  driver, and the effect is the same, or, when the request could not be decoded, there is none on
  either side; a panic of the server, which aborts a request in the process, is the status
  \<open>Unavailable\<close> over the connection.
\<close>

theorem client_routes_answer_alike:
  assumes "forms_skip_body rt" "rt_AnnotateIncomingContext rt req = None" "annotate req = Inr md"
    and "token_accepted (gc_Secret c) md w uid" "hq_UserID req = Some uid"
    and "i < 10" "hq_Method req = fst (gateway_routes ! i)"
    and "run_state (client_route_handler annotate rt
      (snd (RegisterGatewayServiceHandlerClient rt (NewGatewayServiceClient c) ! i)) req ps) w = (reply, w')"
    and "run_state (route_handler rt (snd (RegisterGatewayServiceHandlerServer rt c ! i)) req ps) (pass (arrive w)) = (reply', w1)"
  shows "reply = (if reply' = Aborted then HTTPError rt Unavailable ''error reading from server: EOF'' else reply')
     \<and> (w' = w1 \<or> w' = w \<and> w1 = pass (arrive w))"
  using routes_mirror [OF assms(4,5,1,6,7), of ps] assms(2,3,8,9)
  by (auto simp: mirrors_def client_route_handler_def route_handler_def seen_by_client_def never_aborted case_prod_beta
      split: reply.splits)

text \<open>A cancellation over the connection.\<close>

definition bearer :: annotation where
  "bearer r = Inr (\<lambda>k. if k = ''authorization'' then [hq_Header r ''Authorization''] else [])"

definition sample_cancel :: http_request where
  "sample_cancel = (with_token ''d1'' ''DELETE'' ''/v1/reservations/id-0-sample'')\<lparr>hq_UserID := Some ''d1''\<rparr>"

theorem client_routes_answer_alike_witness:
  "let client = run_state (client_route_handler bearer sample_runtime (snd (RegisterGatewayServiceHandlerClient sample_runtime
        (NewGatewayServiceClient sample_config) ! 3)) sample_cancel [''reservation_id'' \<mapsto> ''id-0-sample'']) (Samples.forward (1 * Minute) paid);
     server = run_state (route_handler sample_runtime (snd (RegisterGatewayServiceHandlerServer sample_runtime sample_config ! 3))
        sample_cancel [''reservation_id'' \<mapsto> ''id-0-sample'']) (pass (arrive (Samples.forward (1 * Minute) paid)))
   in fst client = (if fst server = Aborted then HTTPError sample_runtime Unavailable ''error reading from server: EOF'' else fst server)"
proof -
  let ?w = "Samples.forward (1 * Minute) paid"
  have "w_clock (pass (arrive ?w)) < 9999999999 * Second" "fate_of ?w = Served" by code_simp+
  moreover from this have "accepts ''secret'' (arrive ?w) (trim_prefix (''Bearer '' @ token_of ''d1'') ''Bearer '')
      \<lparr>cl_UserID = ''d1'', cl_VehicleType = ''car''\<rparr>"
    unfolding trim_prefix_append using token_of_accepted [of "arrive ?w" "''d1''"] by simp
  ultimately have "token_accepted (gc_Secret sample_config)
      (\<lambda>k. if k = ''authorization'' then [''Bearer '' @ token_of ''d1''] else []) ?w ''d1''"
    unfolding token_accepted_def by (auto simp: sample_config_def)
  then show ?thesis
    unfolding Let_def
    by (intro client_routes_answer_alike [THEN conjunct1, OF _ _ _ _ _ _ _ surjective_pairing surjective_pairing])
      (simp_all add: forms_skip_body_def sample_runtime_def bearer_def sample_cancel_def gateway_routes_def cong: if_cong)
qed

section \<open>The loops without an end of their own\<close>

text \<open>
  C38: when the expiry job and the two location streams return, and with what. The job ends exactly
  when its context is done, having run once for each tick before; a stream ends at the first event
  that is no message or whose answer cannot be sent, and its value is that of the function on the
  list of what was received. A source without such an event keeps the loop running: the value is
  \<open>None\<close>, which is the case of the context that \<open>main\<close> passes to the job.
\<close>

theorem endless_loops:
  "runExpiryJob p ticks 0 w = (if \<exists>n. ticks n = Done
      then Some (run_calls p (replicate (LEAST n. ticks n = Done) ExpireTick) w) else None)
   \<and> StreamLocation_loop locs 0 ([], w) = (if \<exists>n. recv_stops (\<lambda>_. True) (locs n)
      then let n = LEAST n. recv_stops (\<lambda>_. True) (locs n)
        in Some (run_state (StreamLocation (delivered locs (Suc n)) (recv_error (locs n))) w) else None)
   \<and> StreamMyLocation_loop driverID msgs 0 ([], w) = (if \<exists>n. recv_stops (\<lambda>_. True) (msgs n)
      then let n = LEAST n. recv_stops (\<lambda>_. True) (msgs n)
        in Some (run_state (relay_locations driverID (delivered msgs (Suc n)) (recv_error (msgs n))) w) else None)"
  using location_stream.returns_iff [of locs 0 "([], w)"] relay.returns_iff [of driverID msgs 0 "([], w)"]
  by (auto simp: expiry_job_value Let_def intro!: StreamLocation_value StreamMyLocation_value dest: not_less_Least intro: LeastI)

section \<open>What a service needs to start\<close>

text \<open>
  Loading the configuration succeeds exactly when the file \<open>.env\<close> is absent or can be read and
  no required key is missing; the error names all the missing keys, in the order of the checks:
  the database password and the token secret always, the keys of the payment gateway and of the push
  notifications when they are the chosen provider.
\<close>

theorem load_reports_what_is_missing:
  "Load v = (case vp_ReadInConfig v of
       ReadError m \<Rightarrow> Inl (ErrWrap ''error reading config file: '' (ErrNew m))
     | _ \<Rightarrow> if missing_keys (bindAll v) = [] then Inr (bindAll v)
       else Inl (ErrWrap ''invalid config: ''
         (ErrNew (''missing required config: '' @ str_join '', '' (missing_keys (bindAll v))))))"
  by (simp add: Load_def validate_spec Let_def split: read_result.split)

text \<open>
  C39: a gateway and a payment service that have started from the same configuration share the
  server key; the secret of the tokens is not empty, and the server key is empty only when the
  provider is not exactly \<open>midtrans\<close>; the four connections are guarded by breakers of the default
  settings, and the limiter admits a hundred requests of a client in a minute.
\<close>

theorem started_services:
  assumes "gateway_main pl = Serves a g" "payment_main midtrans pl = Serves b p"
  shows "gws_Secret g \<noteq> '''' \<and> gws_ServerKey g = pys_ServerKey p
    \<and> (pys_ServerKey p = '''' \<longrightarrow> ft_PaymentProvider (cf_Feature (bindAll (pl_viper pl))) \<noteq> ''midtrans'')
    \<and> gws_Breakers g = map DefaultConfig (gateway_targets (cf_Services (bindAll (pl_viper pl)))) \<and> length (gws_Breakers g) = 4
    \<and> gws_Limiter g = NewRateLimiter 100 (1 * Minute)"
proof -
  obtain cfg where cfg: "Load (pl_viper pl) = Inr cfg" "cfg = bindAll (pl_viper pl)" "gws_Secret g = jw_Secret (cf_JWT cfg)"
    "gws_ServerKey g = mt_ServerKey (cf_Midtrans cfg)" "gws_Breakers g = map DefaultConfig (gateway_targets (cf_Services cfg))"
    "gws_Limiter g = NewRateLimiter 100 (1 * Minute)"
    using assms(1) unfolding gateway_main_serves by (auto simp: Load_spec)
  have "pys_ServerKey p = mt_ServerKey (cf_Midtrans cfg)"
    using assms(2) cfg(1) unfolding payment_main_serves by auto
  then show ?thesis
    using cfg nothing_missing [OF cfg(1)] by (auto simp: gateway_targets_def)
qed

text \<open>Everything is at hand, no file is read, and the settings are the given ones or the defaults.\<close>

definition sample_value :: "(string \<times> conf_value) list \<Rightarrow> (string \<times> conf_value) list \<Rightarrow> string \<Rightarrow> conf_value option" where
  "sample_value settings defaults k = map_of (settings @ defaults) k"

definition sample_viper :: "(string \<times> conf_value) list \<Rightarrow> viper" where
  "sample_viper settings = \<lparr>vp_ReadInConfig = ConfigFileNotFound,
     vp_GetString = (\<lambda>d k. case sample_value settings d k of Some (CStr s) \<Rightarrow> s | _ \<Rightarrow> ''''),
     vp_GetInt = (\<lambda>d k. case sample_value settings d k of Some (CInt n) \<Rightarrow> n | _ \<Rightarrow> 0),
     vp_GetBool = (\<lambda>_ _. False),
     vp_GetFloat64 = (\<lambda>d k. case sample_value settings d k of Some (CFloat x) \<Rightarrow> x | _ \<Rightarrow> 0)\<rparr>"

definition sample_platform :: "(string \<times> conf_value) list \<Rightarrow> platform" where
  "sample_platform settings = \<lparr>pl_viper = sample_viper settings, pl_pgxpool = (\<lambda>_. None),
     pl_broker = \<lparr>am_Dial = (\<lambda>_. None), am_Channel = None, am_ExchangeDeclare = (\<lambda>_. None), am_QueueDeclare = (\<lambda>_. None),
       am_QueueBind = (\<lambda>_ _. None), am_Consume = (\<lambda>_. None)\<rparr>,
     pl_dial = (\<lambda>_. None), pl_listen = (\<lambda>_. None)\<rparr>"

text \<open>
  The provider is written \<open>Midtrans\<close>: the keys of Midtrans are then not required, and the payment
  service still charges through it, with an empty server key.
\<close>

definition misspelt :: platform where
  "misspelt = sample_platform [(''DB_PASSWORD'', CStr ''pw''), (''JWT_SECRET'', CStr ''secret''), (''PAYMENT_PROVIDER'', CStr ''Midtrans'')]"


lemma misspelt_values:
  "str ''DB_PASSWORD'' = ''pw''" "str ''JWT_SECRET'' = ''secret''" "str ''PAYMENT_PROVIDER'' = ''Midtrans''"
  "str ''MIDTRANS_SERVER_KEY'' = ''''" "str ''NOTIFICATION_PROVIDER'' = ''stub''" "str ''DB_HOST'' = ''localhost''"
  "str ''DB_NAME'' = ''parkirpintar''" "str ''DB_USER'' = ''postgres''"
  if "str = vp_GetString (pl_viper misspelt) setDefaults"
  unfolding that by code_simp+

lemma misspelt_loads: "Load (pl_viper misspelt) = Inr (bindAll (pl_viper misspelt))"
proof -
  have "vp_ReadInConfig (pl_viper misspelt) = ConfigFileNotFound" by (simp add: misspelt_def sample_platform_def sample_viper_def)
  moreover have "missing_keys (bindAll (pl_viper misspelt)) = []"
    unfolding missing_keys_def required_keys_def bindAll_def Let_def Config.simps DatabaseConfig.simps JWTConfig.simps
      FeatureConfig.simps MidtransConfig.simps FCMConfig.simps misspelt_values [OF refl] by simp
  ultimately show ?thesis by (simp add: Load_def validate_spec)
qed

lemma misspelt_services:
  "\<exists>a g. gateway_main misspelt = Serves a g"
  "\<exists>b p. payment_main midtrans misspelt = Serves b p \<and> pys_ServerKey p = '''' \<and> pys_Gateway p = MidtransGateway (midtrans '''' False)"
proof -
  let ?cfg = "bindAll (pl_viper misspelt)"
  have "pl_pgxpool misspelt = (\<lambda>_. None)" and env: "pl_dial misspelt = (\<lambda>_. None)" "pl_listen misspelt = (\<lambda>_. None)"
    by (simp_all add: misspelt_def sample_platform_def)
  then have pool: "pool_New (pl_pgxpool misspelt) (database_config ?cfg) = None"
    unfolding database_config_def bindAll_def Let_def Config.simps DatabaseConfig.simps misspelt_values [OF refl] pool_New_def
      pool_validate_def PoolConfig.simps by simp
  have provider: "ft_PaymentProvider (cf_Feature ?cfg) = ''Midtrans''" "mt_ServerKey (cf_Midtrans ?cfg) = ''''"
    unfolding bindAll_def Let_def Config.simps FeatureConfig.simps MidtransConfig.simps misspelt_values [OF refl] by (rule refl)+
  have "mt_Env (cf_Midtrans ?cfg) = ''sandbox''" by code_simp
  then have sandbox: "mt_Env (cf_Midtrans ?cfg) \<noteq> ''production''" by simp
  show "\<exists>a g. gateway_main misspelt = Serves a g"
    unfolding gateway_main_serves using misspelt_loads pool env by auto
  show "\<exists>b p. payment_main midtrans misspelt = Serves b p \<and> pys_ServerKey p = '''' \<and> pys_Gateway p = MidtransGateway (midtrans '''' False)"
    unfolding payment_main_serves using misspelt_loads pool env provider sandbox by auto
qed

theorem started_services_witness:
  "\<exists>a g b p. gateway_main misspelt = Serves a g \<and> payment_main (\<lambda>_ _ _ _. (None, None)) misspelt = Serves b p
     \<and> pys_Gateway p = MidtransGateway (\<lambda>_ _. (None, None)) \<and> gws_ServerKey g = '''' \<and> gws_Secret g \<noteq> ''''"
proof -
  obtain a g where g: "gateway_main misspelt = Serves a g" using misspelt_services(1) by blast
  obtain b p where p: "payment_main (\<lambda>_ _ _ _. (None, None)) misspelt = Serves b p" "pys_ServerKey p = ''''"
    "pys_Gateway p = MidtransGateway (\<lambda>_ _. (None, None))"
    using misspelt_services(2) [of "\<lambda>_ _ _ _. (None, None)"] by blast
  show ?thesis using started_services [OF g p(1)] g p by auto
qed

text \<open>
  A breaker of the default settings opens exactly when at least five calls were counted and at
  least half of them failed. The ratio is computed on \<open>float64\<close>, and the rounding never decides.
\<close>

theorem breaker_opens:
  assumes "0 \<le> failures" "0 \<le> requests" "failures < 2 ^ 32" "requests < 2 ^ 32"
  shows "ReadyToTrip (DefaultConfig name) requests failures \<longleftrightarrow> 5 \<le> requests \<and> requests \<le> 2 * failures"
  by (rule ReadyToTrip_default [OF assms])

theorem breaker_opens_witness:
  "ReadyToTrip (DefaultConfig ''billing'') 7 4 \<and> \<not> ReadyToTrip (DefaultConfig ''billing'') 7 3
   \<and> \<not> ReadyToTrip (DefaultConfig ''billing'') 4 4"
  by (simp add: breaker_opens)

text \<open>
  C40: how the six processes end. A main that could not start exits with the error of \<open>Startup\<close>; one
  that has started returns when it is interrupted and the requests of its servers have come to an end,
  exits when a server fails, and otherwise runs on. When it returns, it has first stopped its servers,
  in the order they were started, then closed everything else it held, the last opened first; what
  stays open is a client of Redis in the reservation service and in the gateway, and the exporter of
  a tracer that could not be set up. When the process exits, no deferred call has run: nothing was
  closed, unless the broker failed a connection, which was given back at once.
\<close>

theorem processes_end:
  "case service_life s en of (tr, e) \<Rightarrow>
     e = (case service_start midtrans s (en_Platform en) of
         Exits msg err \<Rightarrow> Exited msg err
       | Serves addr _ \<Rightarrow> serve_end en (servers_of s addr))
     \<and> (case e of
         Returned \<Rightarrow> still_open tr = abandoned s en \<and> (\<exists>before. undisturbed en before
           \<and> tr = before @ Logs InfoLevel ''shutting down'' # map Closes (open_servers before) @ map Deferred (held s en before))
       | Exited _ _ \<Rightarrow> (\<forall>r. Deferred r \<notin> set tr) \<and> {r. Closes r \<in> set tr} \<subseteq>
           (if broker_fails (pl_broker (en_Platform en)) then {AmqpChannel, AmqpConnection} else {})
       | Running \<Rightarrow> \<forall>r. Deferred r \<notin> set tr)"
proof -
  obtain tr e where run: "service_life s en = (tr, e)" by (cases "service_life s en")
  have "e = startup_end en s (service_start midtrans s (en_Platform en))"
    using service_life_ending [of s en midtrans] by (simp add: run)
  moreover have "ends_well s en (tr, e)" using service_life_ends_well [of s en] by (simp add: run)
  ultimately show ?thesis
    unfolding run prod.case by (auto simp: startup_end_def ends_well_def shut_down_def undisturbed_def split: ending.split)
qed

section \<open>The log of the requests\<close>

text \<open>
  The wrapper that logs a request changes neither the reply nor the state the handler leaves,
  but for the clock. It writes one line unless the handler panics: the level is that of the reply's
  status, the request id is the client's own or a new one, and no field holds a token or a body.
\<close>

theorem request_log:
  assumes "\<And>ctx w1. db_same w w1 \<Longrightarrow> w_redis w1 = w_redis w \<Longrightarrow> w_clock w1 = w_clock (pass w) \<Longrightarrow> wp (next ctx r) Q w1"
  shows "wp (HTTPRequestLogger lg next Background r) (\<lambda>((reply, s), requestID, line) w'.
     (hq_Header r ''X-Request-ID'' \<noteq> '''' \<longrightarrow> requestID = hq_Header r ''X-Request-ID'')
     \<and> (case line of None \<Rightarrow> reply = Aborted \<and> Q (reply, s) w'
       | Some l \<Rightarrow> line_for lg r reply requestID l \<and> (\<exists>w2. Q (reply, s) w2 \<and> w' = pass w2))) w"
  by (rule HTTPRequestLogger_logs) (rule assms)

theorem request_log_witness:
  "wp (HTTPRequestLogger sample_logger (\<lambda>_ _. State_Monad.return (TextBody 401 ''no token'', ())) Background
      (with_token ''d1'' ''GET'' ''/v1/parking/spots''))
    (\<lambda>(_, _, line) _. \<forall>l. line = Some l \<longrightarrow> lg_Level l = WarnLevel) sample_world"
  by (rule wp_mono [OF request_log [where Q = "\<lambda>reply _. reply = (TextBody 401 ''no token'', ())"]])
    (auto simp: wp_return line_for_def level_of_status_def)

end
