(* ===== verification/Spec2Isabelle.thy ===== *)
theory Spec2Isabelle
  imports Interleaving Concurrency Seed ReservationProps ReservationLifeProps MoneyProps PaymentProps EdgeProps GatewayProps SystemProps
begin

text \<open>
  ParkirPintar, a smart-parking backend in Go, as a development in Isabelle/HOL.

  \<^bold>\<open>The program.\<close> Six services share a PostgreSQL database, a Redis server and a RabbitMQ broker.
  The gateway (\<open>services/gateway\<close>) speaks HTTP and gRPC to the drivers, checks their tokens, and
  calls the reservation, billing, payment and presence services; some of its HTTP handlers write to
  the tables directly. The reservation service (\<open>services/reservation\<close>) books spots under a Redis
  lock and publishes events; the billing service prices a stay and keeps the invoices; the payment
  service charges through a payment gateway and is told of the outcome by a signed webhook; the
  notification service turns events into messages to the driver; the presence service stores the
  locations a driver streams.

  \<^bold>\<open>The model.\<close> A program of the model is a state transformer (\<open>State_Monad\<close>) on a \<open>world\<close>: the
  clock, the tables, Redis, the published messages, the supply of identifiers, and the fates of the
  coming remote calls. Every statement, Redis command and RPC is one \<open>remote\<close> call and may be
  served, refused before it takes effect, or served with its reply lost; time passes by an
  arbitrary amount before each call and each reading of the clock. A theorem without the hypothesis
  \<open>reliable w\<close> therefore holds whatever the network does. Code outside the repository is in the
  record \<open>externals\<close> and used through hypotheses that state its documented behaviour: \<open>redis_ok\<close>
  (the Redis commands, as the locale \<open>redis_server\<close>), \<open>jwt_ok\<close> and \<open>signing_ok\<close> (tokens),
  \<open>bcrypt_ok\<close>, \<open>violation_texts\<close>. Theory \<open>Samples\<close> gives concrete functions that satisfy them. An
  error is the left value of a sum, a Go error with its wrapping texts (\<open>goerr\<close>); a panic is
  \<open>None\<close> or the reply \<open>Panic\<close>. Weakest preconditions (\<open>wp\<close>) carry the statements.

  \<^bold>\<open>The theories.\<close>
  \<^item> \<open>Prelude\<close>: Go's integers with their wrap-around, strings, errors. \<open>GoTime\<close>: instants,
    saturating durations, \<open>float64\<close> minutes with binary64 rounding, civil dates. \<open>Json\<close>: decoding
    into structs. \<open>Domain\<close>: the structs and enumerations of the \<open>internal/domain\<close> packages and the rows of
    \<open>migrations/\<close>. \<open>Sql\<close>: updates and queries of tables with a unique key (locale \<open>keyed_table\<close>).
    \<open>World\<close>: the world, remote calls, \<open>wp\<close>, and the locale \<open>db_invariant\<close>.
  \<^item> \<open>Pricing\<close>: \<open>pkg/pricing\<close>. \<open>RedisStore\<close>: \<open>pkg/redis\<close>, \<open>pkg/lock\<close>, \<open>pkg/idempotency\<close>.
    \<open>Mq\<close>: \<open>pkg/mq\<close> and the reservation service's publisher. \<open>Auth\<close>: \<open>pkg/auth\<close>.
  \<^item> \<open>ReservationRepo\<close>, \<open>ReservationUsecase\<close>, \<open>ReservationHandler\<close>: the three layers of the
    reservation service, one definition for each method. \<open>ReservationLifecycle\<close> is its abstract
    specification: \<open>row_step\<close>, the moves of one reservation, and \<open>table_step\<close>, the steps of the
    table. \<open>ReservationRefinement\<close> proves that every operation performs steps of that machine on any
    network; \<open>ReservationBehaviour\<close> proves what each operation does on each branch. \<open>Interleaving\<close> cuts
    \<open>CreateReservation\<close> at its remote calls and mixes the steps of several requests (locale
    \<open>critical_section\<close>); \<open>Concurrency\<close> does so with all operations and the expiry job, and shows what
    no mixture can break (locale \<open>guarantee\<close>).
  \<^item> \<open>Proto\<close>: replies of an RPC and enumerations of \<open>proto/\<close>. \<open>Billing\<close>, \<open>Payment\<close>,
    \<open>Notification\<close>, \<open>Presence\<close>: repository, use cases, subscribers and handler of each service, with
    the invariant of its table and the behaviour of its operations. \<open>Deliveries\<close>: what a consumer makes of
    its queue, for any handler and for the notification service.
  \<^item> \<open>Http\<close>, \<open>RateLimit\<close>, \<open>GatewayAuth\<close>, \<open>GatewayExtra\<close>, \<open>Gateway\<close>, \<open>Server\<close>: HTTP requests and
    replies, \<open>ratelimit.go\<close>, \<open>auth.go\<close>, \<open>extra.go\<close>, \<open>handler.go\<close> of the gateway's handlers, and the routes
    and middlewares of \<open>cmd/main.go\<close>. \<open>System\<close> has the requests of the gateway as a datatype and shows
    that each keeps the relation \<open>system_step\<close> (locale \<open>step_relation\<close>); \<open>GatewayBehaviour\<close>,
    \<open>BookingFlow\<close> and \<open>PaidBooking\<close> prove the flows that span several services.
  \<^item> \<open>Routes\<close>: the generated \<open>gen/gateway/v1/gateway.pb.gw.go\<close> over the library's runtime, and with it
    the whole HTTP handler. \<open>ClientRoutes\<close>: its client half, with the client of
    \<open>gateway_grpc.pb.go\<close> it forwards to. \<open>Logger\<close>: \<open>pkg/logger\<close>. \<open>Ownership\<close> shows whose rows a request may touch
    (the locales \<open>quiet_post\<close> and \<open>step_relation\<close> once more, on another relation); \<open>HttpFlows\<close> follows a
    cancellation from the HTTP server to the table and back.
  \<^item> \<open>Configuration\<close>: \<open>pkg/config\<close>, \<open>pkg/database\<close>, \<open>pkg/circuitbreaker\<close>. \<open>Startup\<close>: the mains of the
    six services up to their sockets, the connections to the broker, and the server of the end-to-end
    tests. \<open>Lifecycle\<close>: the mains once more, from their first line to the end of the process, as what
    they open, log, start, defer and close, with \<open>pkg/tracer\<close>. \<open>Seed\<close>: \<open>scripts/seed\<close>, which fills the
    car park. \<open>Events\<close> puts everything that can happen into one datatype. \<open>Loops\<close>: the loops without an
    end of their own, as partial functions under the locale \<open>event_loop\<close>.
  \<^item> \<open>Samples\<close>: a concrete world and the runs of one reservation's life on it. The theories whose
    names end in \<open>Props\<close> hold the properties, numbered C1 to C40, with their instances on that
    world: reservations (C1 to C15), prices and invoices (C16 to C20), payments (C21 to C23), events
    and limiter (C24 to C26), the gateway (C27 to C33), the system as a whole, its start and its end
    (C34 to C40); C4 is in \<open>Interleaving\<close> and C5 in \<open>Concurrency\<close>. Thirteen further theorems there,
    without a number, are parts of these for one service, or about the error codes, the
    configuration, the breaker and the log, and \<open>Seed.seeded_car_park\<close> is about the script.

  \<^bold>\<open>What is shown.\<close> The reservation table refines the abstract machine under any
  sequence of requests to its service (C1, C2), and the invariants of all tables are kept by anything
  that can happen in the system, direct writers, webhooks, jobs and broker messages included (C34).
  Two drivers cannot book one spot within the lock's time (C3), also when their requests interleave
  (C4), and no interleaving of any requests loses a reservation or gives it to another driver (C5);
  every operation is characterised on success and on refusal (C6 to C15). The price that is computed
  through floating-point numbers and civil dates equals an integer specification (C16 to C18).
  Requests under a known idempotency key repeat the stored answer and change nothing (C7, C23,
  \<open>MoneyProps.repeated_invoice\<close>). A webhook changes a payment only when it is signed
  (C21, C22); beside the webhooks, the handler of the simulated settlement writes to the payments, and
  what it answers with is accepted as a signed webhook (C31). An event becomes one push notification
  of its driver (C24), and a consumer acknowledges exactly what its handler took (C25). The limiter is
  a sliding window (C26). Nothing but a public path is reachable without a valid token (C27), a
  registered driver gets one (C33), and with it changes no row of another driver, but on the two paths
  that do not look at the owner (C35; what a driver may read is not restricted there). A booking
  through the gateway ends with a reservation, its lock, an unpaid invoice and a pending payment (C28)
  or, when the charge is refused, with a cancelled reservation, a free lock, no payment and at most
  the unpaid invoice (C29). A request goes through the whole HTTP server and comes back as the right
  status (C36), and the generated routes over a connection answer as those in the process (C37). The
  endless loops return exactly when their source stops them (C38). A service starts only with what it
  needs (C39), and on a signal stops its servers in the order of their start and closes the rest, the
  last opened first (C40). Where the code does not do what it means to, the theorem says what it does:
  the lock is not extended on confirmation (\<open>Samples.booked_twice_rows\<close>), it is given
  back when only the reply of the insertion was lost
  (\<open>Interleaving.lost_reply_books_twice\<close>), a cancellation overwrites a check-in that came
  between its reading and its writing (\<open>Concurrency.cancelled_inside\<close>), a driver may hold
  any number of reservations (C6, C28), availability ignores reservations (C14), a check-out under a
  booking's key panics (C15), the subscriber bills one hour whatever the stay was (C20), no event is
  sent as an email (C24) and a refused one is lost (C25), a misspelt payment provider starts without a
  server key (C39), a server that fails takes the process down without its deferred calls (C40).

  \<^bold>\<open>Bounds.\<close> Durations are 64-bit and saturate, hours and counts are 32-bit and wrap; the
  \<open>float64\<close> minutes are proved exact below 2^17 minutes (theory \<open>GoTime\<close>), and above them the cap of
  720 hours applies. The ratio of the breaker is rounded, which is shown not to matter for 32-bit
  counts. No definition uses fuel: the loops are structural, or end by a measure (the digits of a
  number, the scan of \<open>containsStr\<close>), or are partial functions whose value is \<open>None\<close> exactly when they
  do not return (theory \<open>Loops\<close>).

  \<^bold>\<open>Not modelled.\<close> The health and reflection services, which are the gRPC library's, and methods
  that only hand on to a library (\<open>Ping\<close>, \<open>Pool\<close>, \<open>tracer.Get\<close>). The constructors for the test suites in
  \<open>services/reservation\<close> and \<open>services/billing\<close>, which build what \<open>Startup\<close> builds. The state machine of
  the breaker is the library's: a call it rejects is a refused one. Of the generated code, the
  messages are records; matching a path with a compiled pattern, decoding and encoding JSON is the
  library's runtime, an argument, and so is the transport between a client and a server of gRPC.
  \<open>HaversineDistance\<close>, which nothing calls. Of the database: the syntax check of UUID values, the
  lengths of texts outside the table \<open>drivers\<close>, and a result that breaks off in the middle of its
  rows; of \<open>http.ServeMux\<close>: the redirection of paths that are not in canonical form. Outside the theories
  \<open>Interleaving\<close> and \<open>Concurrency\<close>, two requests of one world are served one after the other; what
  happens between the calls of one is the passing of time only. A call of the operations in those two
  theories is one step: what happens inside a statement of the database or a command of Redis is
  not divided further.
\<close>

end
